(* ===== verification/Shimmy_Prelude.thy ===== *)
theory Shimmy_Prelude
  imports Main
begin

text \<open>
  Vocabulary every component shares: the outcome of a Go call that may panic, transition
  systems with their reachable states, and the two proof interfaces over them (invariants
  and simulations) that the concurrent components interpret.
\<close>

section \<open>Outcomes of Go calls\<close>

text \<open>
  A Go call returns a value or panics.  Errors are ordinary return values: a call with the
  result list \<^verbatim>\<open>(T, error)\<close> returns a sum, \<open>Inl\<close> the error and \<open>Inr\<close> the value.
\<close>

datatype 'a go = Ret 'a | Panic string

primrec go_bind :: "'a go \<Rightarrow> ('a \<Rightarrow> 'b go) \<Rightarrow> 'b go" where
  "go_bind (Ret a) f = f a"
| "go_bind (Panic p) f = Panic p"

primrec returns :: "'a go \<Rightarrow> bool" where
  "returns (Ret a) = True"
| "returns (Panic p) = False"

lemma go_bind_Ret_iff:
  "go_bind m f = Ret b \<longleftrightarrow> (\<exists>a. m = Ret a \<and> f a = Ret b)"
  by (cases m) auto

lemma go_bind_assoc: "go_bind (go_bind m f) g = go_bind m (\<lambda>a. go_bind (f a) g)"
  by (cases m) auto

lemma returns_iff: "returns m \<longleftrightarrow> (\<exists>a. m = Ret a)"
  by (cases m) auto

section \<open>Transition systems\<close>

text \<open>The states a system reaches from its initial states by its steps.\<close>

inductive reachable :: "('s \<Rightarrow> bool) \<Rightarrow> ('s \<Rightarrow> 's \<Rightarrow> bool) \<Rightarrow> 's \<Rightarrow> bool"
  for start :: "'s \<Rightarrow> bool" and step :: "'s \<Rightarrow> 's \<Rightarrow> bool" where
  reachable_start: "start s \<Longrightarrow> reachable start step s"
| reachable_step: "reachable start step s \<Longrightarrow> step s t \<Longrightarrow> reachable start step t"

text \<open>
  The interface of an invariant proof: a component gives its start states, its steps and a
  predicate the start states satisfy and every step keeps.
\<close>

locale invariant_system =
  fixes start :: "'s \<Rightarrow> bool"
    and step :: "'s \<Rightarrow> 's \<Rightarrow> bool"
    and inv :: "'s \<Rightarrow> bool"
  assumes start_inv: "start s \<Longrightarrow> inv s"
    and step_inv: "inv s \<Longrightarrow> step s t \<Longrightarrow> inv t"
begin

lemma reachable_inv: "reachable start step s \<Longrightarrow> inv s"
  by (induction rule: reachable.induct) (auto intro: start_inv step_inv)

lemma closure_inv: "step\<^sup>*\<^sup>* s t \<Longrightarrow> inv s \<Longrightarrow> inv t"
  by (induction rule: rtranclp_induct) (auto intro: step_inv)

end

text \<open>
  The interface of a refinement proof: every concrete step is matched by zero or more
  abstract steps between the abstractions, so every reachable concrete state abstracts to
  a reachable abstract one.
\<close>

locale simulation =
  fixes cstart :: "'c \<Rightarrow> bool"
    and cstep :: "'c \<Rightarrow> 'c \<Rightarrow> bool"
    and astart :: "'a \<Rightarrow> bool"
    and astep :: "'a \<Rightarrow> 'a \<Rightarrow> bool"
    and abs :: "'c \<Rightarrow> 'a"
    and cinv :: "'c \<Rightarrow> bool"
  assumes sim_start: "cstart s \<Longrightarrow> astart (abs s)"
    and sim_step: "cinv s \<Longrightarrow> cstep s t \<Longrightarrow> astep\<^sup>*\<^sup>* (abs s) (abs t)"
    and sim_cinv: "reachable cstart cstep s \<Longrightarrow> cinv s"
begin

lemma reachable_rtranclp:
  assumes "reachable astart astep s" and "astep\<^sup>*\<^sup>* s t"
  shows "reachable astart astep t"
  using assms(2,1) by (induction rule: rtranclp_induct) (auto intro: reachable_step)

lemma reachable_abs: "reachable cstart cstep s \<Longrightarrow> reachable astart astep (abs s)"
proof (induction rule: reachable.induct)
  case (reachable_start s)
  then show ?case by (blast intro: reachable.reachable_start sim_start)
next
  case (reachable_step s t)
  then have "astep\<^sup>*\<^sup>* (abs s) (abs t)" by (blast intro: sim_step sim_cinv)
  with reachable_step.IH show ?case by (rule reachable_rtranclp)
qed

end

section \<open>List facts the components share\<close>

lemma take_drop_split: "n \<le> length xs \<Longrightarrow> xs = take n xs @ drop n xs"
  by simp

lemma length_takeWhile_less: "x \<in> set xs \<Longrightarrow> \<not> P x \<Longrightarrow> length (takeWhile P xs) < length xs"
  by (induction xs) auto

lemma takeWhile_append_stop: "\<forall>x \<in> set xs. P x \<Longrightarrow> \<not> P y \<Longrightarrow> takeWhile P (xs @ y # ys) = xs"
  by (induction xs) auto

lemma dropWhile_append_stop: "\<forall>x \<in> set xs. P x \<Longrightarrow> \<not> P y \<Longrightarrow> dropWhile P (xs @ y # ys) = y # ys"
  by (induction xs) auto

lemma list_update_self: "xs[i := xs ! i] = xs"
  by simp

end
