(* ===== verification/Go_Json.thy ===== *)
theory Go_Json
  imports Go_Strings Complex_Main "HOL-Library.Finite_Map" "HOL-Library.List_Lexorder" "HOL-Library.Char_ord"
begin

text \<open>
  JSON documents, the dynamically typed Go values the program builds and inspects
  (\<^verbatim>\<open>any\<close>, \<^verbatim>\<open>map[string]any\<close>), and the two directions of \<^verbatim>\<open>encoding/json\<close> between them.

  A document keeps the order and the duplicates of its object members, as the bytes do; a Go
  map is a finite map, and a variable of map type may also be nil.  A byte body is seen
  through \<^verbatim>\<open>encoding/json\<close>: it is either a document or bytes the decoder refuses, with the
  text of the decoder's error.  A number literal is the \<^verbatim>\<open>float64\<close> it denotes, a rational
  (JSON has no infinities, and the decoder refuses a literal out of range).
\<close>

section \<open>Documents and Go values\<close>

datatype json =
    JNull
  | JBool bool
  | JNum rat
  | JStr string
  | JArr "json list"
  | JObj "(string \<times> json) list"

datatype body = Raw string string | Doc json

text \<open>What the decoder makes of a nil or empty byte slice.\<close>

definition empty_body :: body where
  "empty_body = Raw [] ''unexpected end of JSON input''"

text \<open>\<open>CaseWarning\<close> of \<^verbatim>\<open>runtime/handler.go\<close>.\<close>

record case_warning =
  cw_Message :: string
  cw_Case :: int

text \<open>
  The dynamic types that occur in the program's \<^verbatim>\<open>any\<close> values: those a decoded document has
  (\<open>GNil\<close>, \<open>GBool\<close>, \<open>GFloat\<close>, \<open>GStr\<close>, \<open>GArr\<close>, \<open>GMap (Some _)\<close>) and those the program stores
  itself: \<^verbatim>\<open>int\<close>, \<^verbatim>\<open>[]string\<close>, \<^verbatim>\<open>[]CaseWarning\<close>, \<^verbatim>\<open>*CaseWarning\<close> and a nil map.
\<close>

datatype gval =
    GNil
  | GBool bool
  | GInt int
  | GFloat rat
  | GStr string
  | GStrs "string list"
  | GArr "gval list"
  | GMap "(string, gval) fmap option"
  | GWarning case_warning
  | GWarnings "case_warning list"

type_synonym gomap = "(string, gval) fmap option"

section \<open>Maps and type assertions\<close>

text \<open>\<open>m[k]\<close> as a value (nil where the key is absent or the map is nil) and as a presence test.\<close>

definition mget :: "gomap \<Rightarrow> string \<Rightarrow> gval" where
  "mget m k = (case m of None \<Rightarrow> GNil
               | Some f \<Rightarrow> (case fmlookup f k of None \<Rightarrow> GNil | Some v \<Rightarrow> v))"

definition mhas :: "gomap \<Rightarrow> string \<Rightarrow> bool" where
  "mhas m k = (case m of None \<Rightarrow> False | Some f \<Rightarrow> fmlookup f k \<noteq> None)"

text \<open>\<open>m[k] = v\<close>, which panics on a nil map.\<close>

definition mset :: "gomap \<Rightarrow> string \<Rightarrow> gval \<Rightarrow> gomap go" where
  "mset m k v = (case m of None \<Rightarrow> Panic ''assignment to entry in nil map''
                 | Some f \<Rightarrow> Ret (Some (fmupd k v f)))"

text \<open>A composite literal \<^verbatim>\<open>map[string]any{...}\<close>.\<close>

definition mlit :: "(string \<times> gval) list \<Rightarrow> gomap" where
  "mlit kvs = Some (fmap_of_list (rev kvs))"

text \<open>The two-value type assertions \<^verbatim>\<open>v.(T)\<close>.\<close>

fun as_map :: "gval \<Rightarrow> gomap option" where
  "as_map (GMap m) = Some m"
| "as_map _ = None"

fun as_slice :: "gval \<Rightarrow> gval list option" where
  "as_slice (GArr xs) = Some xs"
| "as_slice _ = None"

fun as_string :: "gval \<Rightarrow> string option" where
  "as_string (GStr s) = Some s"
| "as_string _ = None"

fun as_bool :: "gval \<Rightarrow> bool option" where
  "as_bool (GBool b) = Some b"
| "as_bool _ = None"

fun as_float :: "gval \<Rightarrow> rat option" where
  "as_float (GFloat r) = Some r"
| "as_float _ = None"

text \<open>\<open>v == false\<close> and \<open>v == true\<close> on an interface value.\<close>

definition eq_bool :: "gval \<Rightarrow> bool \<Rightarrow> bool" where
  "eq_bool v b = (v = GBool b)"

text \<open>
  The conversion \<^verbatim>\<open>int(f)\<close> truncates towards zero.  Outside the range of \<^verbatim>\<open>int64\<close> its result
  depends on the platform; the model keeps the integer there.
\<close>

definition int_of_float :: "rat \<Rightarrow> int" where
  "int_of_float r = (if 0 \<le> r then \<lfloor>r\<rfloor> else \<lceil>r\<rceil>)"

section \<open>Encoding\<close>

text \<open>\<open>json.Marshal\<close> writes the members of a map in the byte order of their keys.\<close>

definition sorted_members :: "(string, 'v) fmap \<Rightarrow> (string \<times> 'v) list" where
  "sorted_members m = sorted_list_of_fmap m"

definition warning_json :: "case_warning \<Rightarrow> json" where
  "warning_json w = JObj [(''message'', JStr (cw_Message w)), (''case'', JNum (of_int (cw_Case w)))]"

primrec to_json :: "gval \<Rightarrow> json" where
  "to_json GNil = JNull"
| "to_json (GBool b) = JBool b"
| "to_json (GInt i) = JNum (of_int i)"
| "to_json (GFloat r) = JNum r"
| "to_json (GStr s) = JStr s"
| "to_json (GStrs ss) = JArr (map JStr ss)"
| "to_json (GArr xs) = JArr (map to_json xs)"
| "to_json (GMap m) =
     (case map_option (fmmap to_json) m of None \<Rightarrow> JNull | Some o' \<Rightarrow> JObj (sorted_members o'))"
| "to_json (GWarning w) = warning_json w"
| "to_json (GWarnings ws) = JArr (map warning_json ws)"

text \<open>
  \<open>Marshal\<close> fails for channels, functions, complex and non-finite numbers only, and no value of
  type \<^typ>\<open>gval\<close> is one; the result type keeps the error the callers test for.
\<close>

definition Marshal :: "gval \<Rightarrow> string + body" where
  "Marshal v = Inr (Doc (to_json v))"

section \<open>Decoding\<close>

text \<open>Into an interface value: in an object with duplicate keys the last member wins.\<close>

primrec of_json :: "json \<Rightarrow> gval" where
  "of_json JNull = GNil"
| "of_json (JBool b) = GBool b"
| "of_json (JNum r) = GFloat r"
| "of_json (JStr s) = GStr s"
| "of_json (JArr xs) = GArr (map of_json xs)"
| "of_json (JObj kvs) = GMap (Some (fmap_of_list (rev (map (map_prod id of_json) kvs))))"

fun json_kind :: "json \<Rightarrow> string" where
  "json_kind JNull = ''null''"
| "json_kind (JBool _) = ''bool''"
| "json_kind (JNum _) = ''number''"
| "json_kind (JStr _) = ''string''"
| "json_kind (JArr _) = ''array''"
| "json_kind (JObj _) = ''object''"

definition unmarshal_type_error :: "string \<Rightarrow> string \<Rightarrow> string" where
  "unmarshal_type_error kind ty = ''json: cannot unmarshal '' @ kind @ '' into Go value of type '' @ ty"

text \<open>
  Into a variable of type \<^verbatim>\<open>map[string]any\<close> that is nil: an object fills it, \<^verbatim>\<open>null\<close> leaves it
  nil without an error, anything else is a type error.
\<close>

fun UnmarshalMap :: "body \<Rightarrow> string + gomap" where
  "UnmarshalMap (Raw s e) = Inl e"
| "UnmarshalMap (Doc j) =
     (case j of JNull \<Rightarrow> Inr None
      | JObj kvs \<Rightarrow> Inr (Some (fmap_of_list (rev (map (map_prod id of_json) kvs))))
      | _ \<Rightarrow> Inl (unmarshal_type_error (json_kind j) ''map[string]interface {}''))"

section \<open>Round trips\<close>

text \<open>
  The value a value becomes when it is encoded and decoded again.  It is a homomorphism on the
  maps and lists, and the identity on values that came from a document.
\<close>

definition warning_val :: "case_warning \<Rightarrow> gval" where
  "warning_val w = of_json (warning_json w)"

primrec json_norm :: "gval \<Rightarrow> gval" where
  "json_norm GNil = GNil"
| "json_norm (GBool b) = GBool b"
| "json_norm (GInt i) = GFloat (of_int i)"
| "json_norm (GFloat r) = GFloat r"
| "json_norm (GStr s) = GStr s"
| "json_norm (GStrs ss) = GArr (map GStr ss)"
| "json_norm (GArr xs) = GArr (map json_norm xs)"
| "json_norm (GMap m) =
     (case map_option (fmmap json_norm) m of None \<Rightarrow> GNil | Some f \<Rightarrow> GMap (Some f))"
| "json_norm (GWarning w) = warning_val w"
| "json_norm (GWarnings ws) = GArr (map warning_val ws)"

text \<open>Values as the decoder produces them.\<close>

primrec decoded :: "gval \<Rightarrow> bool" where
  "decoded GNil = True"
| "decoded (GBool b) = True"
| "decoded (GInt i) = False"
| "decoded (GFloat r) = True"
| "decoded (GStr s) = True"
| "decoded (GStrs ss) = False"
| "decoded (GArr xs) = list_all id (map decoded xs)"
| "decoded (GMap m) =
     (case map_option (fmmap decoded) m of None \<Rightarrow> False | Some f \<Rightarrow> fmpred (\<lambda>_ b. b) f)"
| "decoded (GWarning w) = False"
| "decoded (GWarnings ws) = False"

lemma distinct_sorted_members: "distinct (map fst (sorted_members m))"
  by (simp add: sorted_members_def sorted_list_of_fmap_def comp_def sorted_list_of_fset.rep_eq)

lemma map_of_sorted_members [simp]: "map_of (sorted_members m) = fmlookup m"
  by (simp add: sorted_members_def)

lemma map_of_rev_distinct: "distinct (map fst kvs) \<Longrightarrow> map_of (rev kvs) = map_of kvs"
  by (subst map_of_inject_set) (simp_all add: rev_map [symmetric])

lemma fmap_of_rev_sorted_members:
  "fmap_of_list (rev (map (map_prod id f) (sorted_members m))) = fmmap f m"
proof (rule fmap_ext)
  fix k
  have d: "distinct (map fst (map (map_prod id f) (sorted_members m)))"
    using distinct_sorted_members [of m] by (simp add: comp_def)
  have "map_of (map (map_prod id f) (sorted_members m)) k = map_option f (fmlookup m k)"
    using map_of_map [of f "sorted_members m"] by (simp add: map_prod_def)
  then show "fmlookup (fmap_of_list (rev (map (map_prod id f) (sorted_members m)))) k
      = fmlookup (fmmap f m) k"
    by (simp add: fmlookup_of_list map_of_rev_distinct [OF d])
qed

text \<open>Encoding and decoding again normalises a value.\<close>

theorem of_json_to_json: "of_json (to_json v) = json_norm v"
proof (induction v)
  case (GMap m)
  show ?case
  proof (cases m)
    case (Some f)
    have "fmmap (\<lambda>v. of_json (to_json v)) f = fmmap json_norm f"
      using GMap Some by (intro fmap.map_cong) auto
    with Some show ?thesis
      by (simp add: fmap_of_rev_sorted_members fmap.map_comp comp_def)
  qed simp
qed (auto simp: warning_val_def)

lemma json_norm_decoded: "decoded v \<Longrightarrow> json_norm v = v"
proof (induction v)
  case (GMap m)
  then obtain f where m: "m = Some f" and f: "fmpred (\<lambda>_ b. b) (fmmap decoded f)"
    by (cases m) auto
  have "fmmap json_norm f = fmmap id f"
  proof (rule fmap.map_cong [OF refl])
    fix v assume v: "v \<in> fmran' f"
    then have "decoded v" using f by (auto simp: fmpred_iff fmlookup_ran'_iff)
    with v m GMap.IH show "json_norm v = id v" by auto
  qed
  with m show ?case by (simp add: fmap.map_id)
qed (auto simp: list_all_iff intro: map_idI)

lemma decoded_of_json: "decoded (of_json j)"
proof (induction j)
  case (JObj kvs)
  then show ?case
    by (auto simp: fmpred_iff fmlookup_of_list dest!: map_of_SomeD)
qed (auto simp: list_all_iff)

lemma json_norm_idem: "json_norm (json_norm v) = json_norm v"
  by (metis of_json_to_json decoded_of_json json_norm_decoded)

end
