(* ===== verification/Go_Errors.thy ===== *)
theory Go_Errors
  imports Go_Json
begin

text \<open>
  Error values.  An error is compared by identity (\<^verbatim>\<open>wellKnownErrors[err]\<close>), inspected by type
  (\<^verbatim>\<open>*validationError\<close>), wrapped with \<^verbatim>\<open>%w\<close>, searched with \<^verbatim>\<open>errors.Is\<close> and printed.
\<close>

text \<open>\<open>validationType\<close> of \<^verbatim>\<open>runtime/handler_validate.go\<close>, and one error of a schema check.\<close>

datatype validation_type = validationTypeRequest | validationTypeResponse

fun validationType_String :: "validation_type \<Rightarrow> string" where
  "validationType_String validationTypeRequest = ''request''"
| "validationType_String validationTypeResponse = ''response''"

record field_error =
  fe_Field :: string
  fe_Description :: string

text \<open>
  The package-level sentinels of \<^verbatim>\<open>runtime/handler.go\<close>, \<^verbatim>\<open>supervisor/models.go\<close> and
  \<^verbatim>\<open>worker/models.go\<close>, the context errors, a validation error, a fresh error with a text, and
  \<^verbatim>\<open>fmt.Errorf("text: %w", err)\<close> with the wrapped error (\<open>None\<close> where it is nil).
\<close>

datatype go_error =
    errInvalidMethod
  | errSchemaNotFound
  | errCommandNotFound
  | errInvalidCommand
  | errValidationFailed
  | ErrUnsupportedIOInterface
  | ErrUnsupportedIOTransport
  | ErrWorkerAlreadyStarted
  | CtxCanceled
  | CtxDeadlineExceeded
  | ValidationError validation_type "field_error list"
  | ErrorString string
  | Wrapped string "go_error option"

text \<open>The text of an error; \<^verbatim>\<open>%w\<close> of a nil error prints \<^verbatim>\<open>%!w(<nil>)\<close>.\<close>

primrec err_text :: "go_error \<Rightarrow> string" where
  "err_text errInvalidMethod = ''invalid method''"
| "err_text errSchemaNotFound = ''schema not found''"
| "err_text errCommandNotFound = ''command not found''"
| "err_text errInvalidCommand = ''invalid command''"
| "err_text errValidationFailed = ''validation failed''"
| "err_text ErrUnsupportedIOInterface = ''unsupported io interface''"
| "err_text ErrUnsupportedIOTransport = ''unsupported io transport''"
| "err_text ErrWorkerAlreadyStarted = ''worker already started''"
| "err_text CtxCanceled = ''context canceled''"
| "err_text CtxDeadlineExceeded = ''context deadline exceeded''"
| "err_text (ValidationError t fs) = validationType_String t @ '' validation error''"
| "err_text (ErrorString s) = s"
| "err_text (Wrapped s e) =
     s @ '': '' @ (case map_option err_text e of None \<Rightarrow> ''%!w(<nil>)'' | Some t \<Rightarrow> t)"

text \<open>\<open>errors.Is\<close>: the target occurs in the chain of wrapped errors.\<close>

primrec errors_is :: "go_error \<Rightarrow> go_error \<Rightarrow> bool" where
  "errors_is errInvalidMethod t = (t = errInvalidMethod)"
| "errors_is errSchemaNotFound t = (t = errSchemaNotFound)"
| "errors_is errCommandNotFound t = (t = errCommandNotFound)"
| "errors_is errInvalidCommand t = (t = errInvalidCommand)"
| "errors_is errValidationFailed t = (t = errValidationFailed)"
| "errors_is ErrUnsupportedIOInterface t = (t = ErrUnsupportedIOInterface)"
| "errors_is ErrUnsupportedIOTransport t = (t = ErrUnsupportedIOTransport)"
| "errors_is ErrWorkerAlreadyStarted t = (t = ErrWorkerAlreadyStarted)"
| "errors_is CtxCanceled t = (t = CtxCanceled)"
| "errors_is CtxDeadlineExceeded t = (t = CtxDeadlineExceeded)"
| "errors_is (ValidationError v fs) t = (t = ValidationError v fs)"
| "errors_is (ErrorString s) t = (t = ErrorString s)"
| "errors_is (Wrapped s e) t =
     (t = Wrapped s e \<or> (case map_option (\<lambda>e'. errors_is e' t) e of None \<Rightarrow> False | Some b \<Rightarrow> b))"

lemma errors_is_refl: "errors_is e e"
  by (cases e) auto

lemma errors_is_wrap: "errors_is e t \<Longrightarrow> errors_is (Wrapped s (Some e)) t"
  by simp

end
