(* ===== verification/Schema.thy ===== *)
theory Schema
  imports Go_Errors
begin

text \<open>
  The package \<^verbatim>\<open>runtime/schema\<close>: the five embedded JSON schema documents, the meaning JSON
  Schema gives the keywords they use, and the Go struct that holds the compiled schemas.  The
  compiler and the validator are the third-party package \<^verbatim>\<open>gojsonschema\<close>: parameters here.
\<close>

section \<open>Schema documents\<close>

datatype json_type = TNull | TBoolean | TNumber | TString | TArray | TObject

fun type_of_json :: "json \<Rightarrow> json_type" where
  "type_of_json JNull = TNull"
| "type_of_json (JBool _) = TBoolean"
| "type_of_json (JNum _) = TNumber"
| "type_of_json (JStr _) = TString"
| "type_of_json (JArr _) = TArray"
| "type_of_json (JObj _) = TObject"

text \<open>
  One constructor per keyword.  A schema with several keywords is their conjunction;
  \<open>OnlyMembers\<close> is \<^verbatim>\<open>"additionalProperties": false\<close> with the names of the sibling
  \<^verbatim>\<open>properties\<close>.
\<close>

datatype jschema =
    TypeIn "json_type list"
  | ConstIs json
  | Properties "(string \<times> jschema) list"
  | OnlyMembers "string list"
  | Required "string list"
  | NotSchema jschema
  | AllOf "jschema list"
  | IfThenElse jschema jschema jschema

definition obj_lookup :: "(string \<times> json) list \<Rightarrow> string \<Rightarrow> json option" where
  "obj_lookup kvs k = map_of (rev kvs) k"

text \<open>
  The meaning of the keywords in the JSON Schema specification: \<^verbatim>\<open>properties\<close>,
  \<^verbatim>\<open>additionalProperties\<close> and \<^verbatim>\<open>required\<close> constrain objects only.
\<close>

fun accepts :: "jschema \<Rightarrow> json \<Rightarrow> bool"
and accepts_all :: "jschema list \<Rightarrow> json \<Rightarrow> bool"
and accepts_members :: "(string \<times> jschema) list \<Rightarrow> (string \<times> json) list \<Rightarrow> bool" where
  "accepts (TypeIn ts) j = (type_of_json j \<in> set ts)"
| "accepts (ConstIs c) j = (j = c)"
| "accepts (Properties ps) j = (case j of JObj kvs \<Rightarrow> accepts_members ps kvs | _ \<Rightarrow> True)"
| "accepts (OnlyMembers ks) j = (case j of JObj kvs \<Rightarrow> list_all (\<lambda>kv. fst kv \<in> set ks) kvs | _ \<Rightarrow> True)"
| "accepts (Required ks) j =
     (case j of JObj kvs \<Rightarrow> list_all (\<lambda>k. k \<in> set (map fst kvs)) ks | _ \<Rightarrow> True)"
| "accepts (NotSchema s) j = (\<not> accepts s j)"
| "accepts (AllOf ss) j = accepts_all ss j"
| "accepts (IfThenElse c t e) j = (if accepts c j then accepts t j else accepts e j)"
| "accepts_all [] j = True"
| "accepts_all (s # ss) j = (accepts s j \<and> accepts_all ss j)"
| "accepts_members [] kvs = True"
| "accepts_members ((k, s) # ps) kvs =
     ((case obj_lookup kvs k of None \<Rightarrow> True | Some v \<Rightarrow> accepts s v) \<and> accepts_members ps kvs)"

text \<open>\<^verbatim>\<open>request-eval.json\<close>\<close>

definition evalRequest :: jschema where
  "evalRequest = AllOf
     [Properties
        [(''response'', NotSchema (TypeIn [TNull])),
         (''answer'', NotSchema (TypeIn [TNull])),
         (''params'', TypeIn [TObject])],
      OnlyMembers [''response'', ''answer'', ''params''],
      Required [''response'', ''answer'']]"

text \<open>\<^verbatim>\<open>request-preview.json\<close>\<close>

definition previewRequest :: jschema where
  "previewRequest = AllOf
     [Properties
        [(''response'', NotSchema (TypeIn [TNull])),
         (''params'', TypeIn [TObject])],
      OnlyMembers [''response'', ''params''],
      Required [''response'']]"

text \<open>The \<^verbatim>\<open>error\<close> member and the \<^verbatim>\<open>allOf\<close> clause, the same in the three response documents.\<close>

definition errorMember :: jschema where
  "errorMember = AllOf
     [TypeIn [TObject],
      Properties [(''message'', TypeIn [TString]), (''error_thrown'', TypeIn [TObject, TString])],
      Required [''message'']]"

definition resultOrError :: jschema where
  "resultOrError = AllOf
     [IfThenElse (Required [''result'']) (Required [''command'']) (Required [''error''])]"

text \<open>\<^verbatim>\<open>response-eval.json\<close>\<close>

definition evalResponse :: jschema where
  "evalResponse = AllOf
     [Properties
        [(''command'', ConstIs (JStr ''eval'')),
         (''result'', AllOf
            [TypeIn [TObject],
             Properties
               [(''is_correct'', TypeIn [TBoolean]),
                (''feedback'', TypeIn [TObject, TArray, TString])],
             Required [''is_correct'']]),
         (''error'', errorMember)],
      OnlyMembers [''command'', ''result'', ''error''],
      resultOrError]"

text \<open>\<^verbatim>\<open>response-preview.json\<close>\<close>

definition previewResponse :: jschema where
  "previewResponse = AllOf
     [Properties
        [(''command'', ConstIs (JStr ''preview'')),
         (''result'', AllOf
            [TypeIn [TObject],
             Properties [(''preview'', NotSchema (TypeIn [TNull]))],
             Required [''preview'']]),
         (''error'', errorMember)],
      OnlyMembers [''command'', ''result'', ''error''],
      resultOrError]"

text \<open>\<^verbatim>\<open>response-health.json\<close>\<close>

definition healthResponse :: jschema where
  "healthResponse = AllOf
     [Properties
        [(''command'', ConstIs (JStr ''healthcheck'')),
         (''result'', AllOf
            [TypeIn [TObject],
             Properties
               [(''tests_passed'', TypeIn [TBoolean]),
                (''successes'', TypeIn [TArray]),
                (''failures'', TypeIn [TArray]),
                (''errors'', TypeIn [TArray])],
             OnlyMembers [''tests_passed'', ''successes'', ''failures'', ''errors''],
             Required [''tests_passed'', ''successes'', ''failures'', ''errors'']]),
         (''error'', errorMember)],
      OnlyMembers [''command'', ''result'', ''error''],
      resultOrError]"

section \<open>The Go struct\<close>

datatype schema_type = SchemaTypeEval | SchemaTypePreview | SchemaTypeHealth

text \<open>
  \<open>Schema\<close>: a map from the schema type to a pointer to a compiled schema of type \<open>'s\<close>; the
  inner option is the pointer.
\<close>

record 's Schema =
  schemas :: "schema_type \<Rightarrow> 's option option"

text \<open>The constructor function, named \<^verbatim>\<open>new\<close> in the source.\<close>

definition schema_new :: "'s option \<Rightarrow> 's option \<Rightarrow> 's option \<Rightarrow> 's Schema" where
  "schema_new eval preview health =
     \<lparr> schemas = [SchemaTypeEval \<mapsto> eval, SchemaTypePreview \<mapsto> preview, SchemaTypeHealth \<mapsto> health] \<rparr>"

definition Schema_Get :: "'s Schema \<Rightarrow> schema_type \<Rightarrow> go_error + 's option" where
  "Schema_Get s t = (case schemas s t of
       None \<Rightarrow> Inl (ErrorString ''schema not found'')
     | Some p \<Rightarrow> Inr p)"

text \<open>
  The validator \<open>gjs\<close> takes a compiled schema and the Go map and returns an error or the list of
  the violations found.  A nil schema pointer is dereferenced by it.
\<close>

type_synonym 's validator = "'s \<Rightarrow> gomap \<Rightarrow> go_error + field_error list"

definition Schema_Validate ::
  "'s validator \<Rightarrow> 's Schema \<Rightarrow> schema_type \<Rightarrow> gomap \<Rightarrow> (go_error + field_error list) go" where
  "Schema_Validate gjs s t data = (case Schema_Get s t of
       Inl e \<Rightarrow> Ret (Inl e)
     | Inr None \<Rightarrow> Panic ''nil pointer dereference''
     | Inr (Some c) \<Rightarrow> Ret (gjs c data))"

text \<open>The compiler is the parameter \<open>compile\<close> (\<^verbatim>\<open>gojsonschema.NewSchema\<close>).\<close>

definition NewRequestSchema :: "(jschema \<Rightarrow> go_error + 's) \<Rightarrow> go_error + 's Schema" where
  "NewRequestSchema compile = (case compile evalRequest of Inl e \<Rightarrow> Inl e | Inr evalSchema \<Rightarrow>
     (case compile previewRequest of Inl e \<Rightarrow> Inl e | Inr previewSchema \<Rightarrow>
        Inr (schema_new (Some evalSchema) (Some previewSchema) None)))"

definition NewResponseSchema :: "(jschema \<Rightarrow> go_error + 's) \<Rightarrow> go_error + 's Schema" where
  "NewResponseSchema compile = (case compile evalResponse of Inl e \<Rightarrow> Inl e | Inr evalSchema \<Rightarrow>
     (case compile previewResponse of Inl e \<Rightarrow> Inl e | Inr previewSchema \<Rightarrow>
       (case compile healthResponse of Inl e \<Rightarrow> Inl e | Inr healthSchema \<Rightarrow>
         Inr (schema_new (Some evalSchema) (Some previewSchema) (Some healthSchema)))))"

section \<open>The documented behaviour of the validator\<close>

text \<open>
  What the program relies on: a schema that compiles is one of the documents, the Go value is
  validated as the document it encodes to, and a validation without an error reports no
  violation exactly when the document satisfies the schema.
\<close>

definition validator_conforms :: "(jschema \<Rightarrow> go_error + 's) \<Rightarrow> 's validator \<Rightarrow> bool" where
  "validator_conforms compile gjs \<longleftrightarrow>
     (\<forall>doc c m errs. compile doc = Inr c \<longrightarrow> gjs c m = Inr errs \<longrightarrow>
        (errs = [] \<longleftrightarrow> accepts doc (to_json (GMap m))))"

text \<open>A validator that meets it: the compiled schema is the document itself.\<close>

definition plain_compile :: "jschema \<Rightarrow> go_error + jschema" where
  "plain_compile doc = Inr doc"

definition plain_validator :: "jschema validator" where
  "plain_validator doc m =
     Inr (if accepts doc (to_json (GMap m)) then []
          else [\<lparr> fe_Field = ''(root)'', fe_Description = ''schema violated'' \<rparr>])"

lemma plain_conforms: "validator_conforms plain_compile plain_validator"
  by (simp add: validator_conforms_def plain_compile_def plain_validator_def)

lemma accepts_all_iff: "accepts_all ss j \<longleftrightarrow> (\<forall>s \<in> set ss. accepts s j)"
  by (induction ss) auto

lemma obj_lookup_sorted_members:
  "obj_lookup (sorted_members m) k = fmlookup m k"
  by (simp add: obj_lookup_def map_of_rev_distinct distinct_sorted_members)

lemma fst_sorted_members: "set (map fst (sorted_members m)) = fmdom' m"
  by (metis dom_fmlookup dom_map_of_conv_image_fst list.set_map map_of_sorted_members)

end
