(* ===== verification/Runtime_Models.thy ===== *)
theory Runtime_Models
  imports Schema
begin

text \<open>
  The data the runtime handler passes around and its smaller operations:
  \<^verbatim>\<open>runtime/models.go\<close> (commands and messages), \<^verbatim>\<open>runtime/handler_models.go\<close> (requests and
  responses), \<^verbatim>\<open>runtime/handler_validate.go\<close> (validation) and
  \<^verbatim>\<open>runtime/handler_response.go\<close> (status codes and response bodies).
\<close>

section \<open>HTTP headers, requests and responses\<close>

text \<open>\<open>http.Header\<close>: keys as stored, each with its list of values.\<close>

type_synonym header = "(string, string list) fmap"

definition Header_Get :: "header \<Rightarrow> string \<Rightarrow> string" where
  "Header_Get h k = (case fmlookup h (CanonicalHeaderKey k) of Some (v # _) \<Rightarrow> v | _ \<Rightarrow> [])"

definition Header_Set :: "header \<Rightarrow> string \<Rightarrow> string \<Rightarrow> header" where
  "Header_Set h k v = fmupd (CanonicalHeaderKey k) [v] h"

definition Header_Add :: "header \<Rightarrow> string \<Rightarrow> string \<Rightarrow> header" where
  "Header_Add h k v =
     (let ck = CanonicalHeaderKey k
      in fmupd ck ((case fmlookup h ck of None \<Rightarrow> [] | Some vs \<Rightarrow> vs) @ [v]) h)"

record Request =
  req_Path :: string
  req_Method :: string
  req_Body :: body
  req_Header :: header

record Response =
  res_StatusCode :: nat
  res_Body :: body
  res_Header :: header

definition StatusOK :: nat where "StatusOK = 200"
definition StatusBadRequest :: nat where "StatusBadRequest = 400"
definition StatusUnauthorized :: nat where "StatusUnauthorized = 401"
definition StatusNotFound :: nat where "StatusNotFound = 404"
definition StatusMethodNotAllowed :: nat where "StatusMethodNotAllowed = 405"
definition StatusUnprocessableEntity :: nat where "StatusUnprocessableEntity = 422"
definition StatusInternalServerError :: nat where "StatusInternalServerError = 500"

lemmas http_status_defs = StatusOK_def StatusBadRequest_def StatusUnauthorized_def
  StatusNotFound_def StatusMethodNotAllowed_def StatusUnprocessableEntity_def
  StatusInternalServerError_def

section \<open>Commands and messages\<close>

type_synonym Command = string

definition CommandPreview :: Command where "CommandPreview = ''preview''"
definition CommandEvaluate :: Command where "CommandEvaluate = ''eval''"
definition CommandHealth :: Command where "CommandHealth = ''healthcheck''"

lemmas command_defs = CommandPreview_def CommandEvaluate_def CommandHealth_def

definition ParseCommand :: "string \<Rightarrow> Command option" where
  "ParseCommand path =
     (let p = ToLower path
      in if p = ''eval'' then Some CommandEvaluate
         else if p = ''preview'' then Some CommandPreview
         else if p = ''healthcheck'' then Some CommandHealth
         else None)"

record EvaluationRequest =
  er_Command :: Command
  er_Data :: gomap

definition NewRequestMessage :: "Command \<Rightarrow> gomap \<Rightarrow> EvaluationRequest" where
  "NewRequestMessage command data = \<lparr> er_Command = command, er_Data = data \<rparr>"

section \<open>The runtime and the handler\<close>

text \<open>
  \<open>Runtime.Handle\<close> acts on a world of type \<open>'w\<close> (the dispatcher, the workers and the evaluation
  function behind them): it returns a response map or an error, or panics.
\<close>

type_synonym 'w runtime = "EvaluationRequest \<Rightarrow> 'w \<Rightarrow> (go_error + gomap) go \<times> 'w"

text \<open>
  \<open>RuntimeHandler\<close>: the runtime, the request and response schemas, and the third-party
  validator the schemas call.
\<close>

record ('s, 'w) RuntimeHandler =
  rh_runtime :: "'w runtime"
  rh_schemas :: "validation_type \<Rightarrow> 's Schema option"
  rh_validator :: "'s validator"

definition NewRuntimeHandler ::
  "(jschema \<Rightarrow> go_error + 's) \<Rightarrow> 's validator \<Rightarrow> 'w runtime \<Rightarrow> go_error + ('s, 'w) RuntimeHandler" where
  "NewRuntimeHandler compile gjs rt =
     (case NewRequestSchema compile of Inl e \<Rightarrow> Inl e | Inr requestSchema \<Rightarrow>
       (case NewResponseSchema compile of Inl e \<Rightarrow> Inl e | Inr responseSchema \<Rightarrow>
         Inr \<lparr> rh_runtime = rt,
               rh_schemas = [validationTypeRequest \<mapsto> requestSchema,
                             validationTypeResponse \<mapsto> responseSchema],
               rh_validator = gjs \<rparr>))"

section \<open>Validation\<close>

definition getSchemaType :: "Command \<Rightarrow> go_error + schema_type" where
  "getSchemaType command =
     (if command = CommandEvaluate then Inr SchemaTypeEval
      else if command = CommandPreview then Inr SchemaTypePreview
      else if command = CommandHealth then Inr SchemaTypeHealth
      else Inl errInvalidCommand)"

text \<open>\<open>None\<close> is the nil error.\<close>

definition validate ::
  "('s, 'w) RuntimeHandler \<Rightarrow> validation_type \<Rightarrow> Command \<Rightarrow> gomap \<Rightarrow> go_error option go" where
  "validate r t command data =
     (if t = validationTypeRequest \<and> command = CommandHealth then Ret None
      else case rh_schemas r t of
        None \<Rightarrow> Ret (Some errSchemaNotFound)
      | Some schema \<Rightarrow>
          (case getSchemaType command of
             Inl _ \<Rightarrow> Ret (Some errSchemaNotFound)
           | Inr schemaType \<Rightarrow>
               go_bind (Schema_Validate (rh_validator r) schema schemaType data) (\<lambda>res.
                 Ret (case res of
                        Inl _ \<Rightarrow> Some errValidationFailed
                      | Inr errs \<Rightarrow> if errs = [] then None else Some (ValidationError t errs)))))"

section \<open>Responses\<close>

definition wellKnownErrors :: "(go_error \<times> nat) list" where
  "wellKnownErrors =
     [(errInvalidMethod, StatusMethodNotAllowed),
      (errSchemaNotFound, StatusInternalServerError),
      (errCommandNotFound, StatusNotFound),
      (errInvalidCommand, StatusBadRequest),
      (errValidationFailed, StatusBadRequest)]"

definition getErrorStatusCode :: "go_error \<Rightarrow> nat" where
  "getErrorStatusCode err = (case map_of wellKnownErrors err of
       Some status \<Rightarrow> status
     | None \<Rightarrow> (case err of
           ValidationError t _ \<Rightarrow>
             if t = validationTypeRequest then StatusUnprocessableEntity
             else StatusInternalServerError
         | _ \<Rightarrow> StatusInternalServerError))"

definition newResponse :: "nat \<Rightarrow> body \<Rightarrow> Response" where
  "newResponse status b =
     \<lparr> res_StatusCode = status, res_Body = b,
       res_Header = Header_Add fmempty ''Content-Type'' ''application/json'' \<rparr>"

definition append_field :: "(string, string list) fmap \<Rightarrow> field_error \<Rightarrow> (string, string list) fmap" where
  "append_field fs e =
     fmupd (fe_Field e)
       ((case fmlookup fs (fe_Field e) of None \<Rightarrow> [] | Some ds \<Rightarrow> ds) @ [fe_Description e]) fs"

definition error_fields :: "go_error \<Rightarrow> (string, string list) fmap" where
  "error_fields err = (case err of
       ValidationError _ errs \<Rightarrow> foldl append_field fmempty errs
     | _ \<Rightarrow> fmempty)"

text \<open>
  \<open>responseError\<close> is encoded with its members in the order of the struct; \<^verbatim>\<open>omitempty\<close> drops the
  member \<^verbatim>\<open>error_thrown\<close>, which is never set, and an empty \<^verbatim>\<open>fields\<close>.
\<close>

definition responseError_json :: "go_error \<Rightarrow> json" where
  "responseError_json err =
     (let fs = error_fields err
      in JObj ((''message'', JStr (err_text err)) #
               (if fmdom fs = {||} then []
                else [(''fields'',
                       JObj (map (\<lambda>(k, ds). (k, JArr (map JStr ds))) (sorted_members fs)))])))"

definition newErrorResponse :: "go_error \<Rightarrow> Response" where
  "newErrorResponse err =
     newResponse (getErrorStatusCode err) (Doc (JObj [(''error'', responseError_json err)]))"

section \<open>Facts\<close>

lemma ParseCommand_cases:
  "ParseCommand p = Some c \<Longrightarrow> c = CommandEvaluate \<or> c = CommandPreview \<or> c = CommandHealth"
  by (auto simp: ParseCommand_def Let_def split: if_splits)

lemma ParseCommand_known:
  "ParseCommand p = Some c \<Longrightarrow> \<exists>t. getSchemaType c = Inr t"
  by (auto dest!: ParseCommand_cases simp: getSchemaType_def)

lemma command_distinct [simp]:
  "CommandEvaluate \<noteq> CommandPreview" "CommandPreview \<noteq> CommandEvaluate"
  "CommandEvaluate \<noteq> CommandHealth" "CommandHealth \<noteq> CommandEvaluate"
  "CommandPreview \<noteq> CommandHealth" "CommandHealth \<noteq> CommandPreview"
  by (simp_all add: command_defs)

lemma getErrorStatusCode_simps [simp]:
  "getErrorStatusCode errInvalidMethod = 405"
  "getErrorStatusCode errSchemaNotFound = 500"
  "getErrorStatusCode errCommandNotFound = 404"
  "getErrorStatusCode errInvalidCommand = 400"
  "getErrorStatusCode errValidationFailed = 400"
  "getErrorStatusCode (ValidationError validationTypeRequest errs) = 422"
  "getErrorStatusCode (ValidationError validationTypeResponse errs) = 500"
  "getErrorStatusCode (ErrorString s) = 500"
  "getErrorStatusCode (Wrapped s e) = 500"
  by (simp_all add: getErrorStatusCode_def wellKnownErrors_def http_status_defs)

lemma getErrorStatusCode_range: "getErrorStatusCode err \<in> {400, 404, 405, 422, 500}"
  by (cases err) (auto simp: getErrorStatusCode_def wellKnownErrors_def http_status_defs)

lemma newResponse_simps [simp]:
  "res_StatusCode (newResponse s b) = s" "res_Body (newResponse s b) = b"
  by (simp_all add: newResponse_def)

text \<open>The handler the constructor builds: which compiled schema each validation uses.\<close>

definition schema_doc :: "validation_type \<Rightarrow> schema_type \<Rightarrow> jschema option" where
  "schema_doc t st = (case t of
       validationTypeRequest \<Rightarrow>
         (case st of SchemaTypeEval \<Rightarrow> Some evalRequest | SchemaTypePreview \<Rightarrow> Some previewRequest
          | SchemaTypeHealth \<Rightarrow> None)
     | validationTypeResponse \<Rightarrow>
         (case st of SchemaTypeEval \<Rightarrow> Some evalResponse | SchemaTypePreview \<Rightarrow> Some previewResponse
          | SchemaTypeHealth \<Rightarrow> Some healthResponse))"

lemma NewRuntimeHandler_fields:
  assumes "NewRuntimeHandler compile gjs rt = Inr h"
  shows "rh_runtime h = rt" and "rh_validator h = gjs"
    and "\<exists>s. rh_schemas h t = Some s \<and>
           schemas s st = Some (case schema_doc t st of None \<Rightarrow> None
                                | Some doc \<Rightarrow> Some (projr (compile doc)))"
    and "schema_doc t st = Some doc \<Longrightarrow> \<exists>c. compile doc = Inr c"
  using assms
  by (cases t; cases st;
      auto simp: NewRuntimeHandler_def NewRequestSchema_def NewResponseSchema_def schema_new_def
        schema_doc_def split: sum.splits)+

text \<open>
  On a handler built by the constructor with a conforming validator, validation reports no
  error exactly when the document satisfies the schema of the command, up to a failure of the
  validator itself; and it never panics.
\<close>

lemma validate_handler:
  assumes h: "NewRuntimeHandler compile gjs rt = Inr h"
    and st: "getSchemaType command = Inr st" and doc: "schema_doc t st = Some doc"
  shows "validate h t command data =
           (case gjs (projr (compile doc)) data of
              Inl _ \<Rightarrow> Ret (Some errValidationFailed)
            | Inr errs \<Rightarrow> Ret (if errs = [] then None else Some (ValidationError t errs)))"
proof -
  obtain s where s: "rh_schemas h t = Some s" and l: "schemas s st = Some (Some (projr (compile doc)))"
    using NewRuntimeHandler_fields(3) [OF h, of t st] doc by auto
  have "\<not> (t = validationTypeRequest \<and> command = CommandHealth)"
    using st doc by (auto simp: getSchemaType_def schema_doc_def)
  with s l st show ?thesis
    by (auto simp: validate_def Schema_Validate_def Schema_Get_def NewRuntimeHandler_fields(2) [OF h]
        split: sum.splits)
qed

lemma validate_ok_accepts:
  assumes h: "NewRuntimeHandler compile gjs rt = Inr h" and conf: "validator_conforms compile gjs"
    and st: "getSchemaType command = Inr st" and doc: "schema_doc t st = Some doc"
    and ok: "validate h t command data = Ret None"
  shows "accepts doc (to_json (GMap data))"
proof -
  obtain c where c: "compile doc = Inr c"
    using NewRuntimeHandler_fields(4) [OF h doc] by blast
  have "gjs c data = Inr []"
    using ok c by (auto simp: validate_handler [OF h st doc] split: sum.splits if_splits)
  with conf c show ?thesis by (auto simp: validator_conforms_def)
qed

lemma validate_returns:
  assumes h: "NewRuntimeHandler compile gjs rt = Inr h"
    and st: "getSchemaType command = Inr st"
  shows "returns (validate h t command data)"
proof (cases "t = validationTypeRequest \<and> command = CommandHealth")
  case True
  then show ?thesis by (simp add: validate_def)
next
  case False
  then have "schema_doc t st \<noteq> None"
    using st by (auto simp: getSchemaType_def schema_doc_def split: validation_type.splits if_splits)
  then obtain doc where "schema_doc t st = Some doc" by blast
  then show ?thesis by (simp add: validate_handler [OF h st] split: sum.splits)
qed

end
