(* ===== verification/Runtime_Handler.thy ===== *)
theory Runtime_Handler
  imports Runtime_Models
begin

text \<open>
  \<^verbatim>\<open>runtime/handler.go\<close>: from an HTTP request to the response of the evaluation function, with
  the feedback cases the shim evaluates itself when an answer is not correct.

  Go maps and slices are references.  The one sharing the program can observe is between
  \<^verbatim>\<open>params["cases"]\<close> and the case maps: a case whose evaluation panics is marked in place, and
  later cases send \<^verbatim>\<open>params\<close>, that mark included, to the evaluation function.  The model passes
  the current list of cases along and writes it back into the parameters before each call.
\<close>

section \<open>One round trip to the evaluation function\<close>

definition SendCommand ::
  "Request \<Rightarrow> Command \<Rightarrow> ('s, 'w) RuntimeHandler \<Rightarrow> 'w \<Rightarrow> (go_error + body) go \<times> 'w" where
  "SendCommand req command h w =
     (case UnmarshalMap (req_Body req) of
        Inl e \<Rightarrow> (Ret (Inl (ErrorString e)), w)
      | Inr reqData \<Rightarrow>
         (case validate h validationTypeRequest command reqData of
            Panic p \<Rightarrow> (Panic p, w)
          | Ret (Some err) \<Rightarrow> (Ret (Inl err), w)
          | Ret None \<Rightarrow>
             (case rh_runtime h (NewRequestMessage command reqData) w of
                (Panic p, w') \<Rightarrow> (Panic p, w')
              | (Ret (Inl err), w') \<Rightarrow> (Ret (Inl err), w')
              | (Ret (Inr responseMsg), w') \<Rightarrow>
                 (case validate h validationTypeResponse command responseMsg of
                    Panic p \<Rightarrow> (Panic p, w')
                  | Ret (Some err) \<Rightarrow> (Ret (Inl err), w')
                  | Ret None \<Rightarrow>
                     (case Marshal (GMap responseMsg) of
                        Inl e \<Rightarrow> (Ret (Inl (ErrorString e)), w')
                      | Inr resData \<Rightarrow> (Ret (Inr resData), w'))))))"

text \<open>The variable \<^verbatim>\<open>respBody\<close> after decoding: nil when the decoder fails.\<close>

definition decoded_map :: "body \<Rightarrow> gomap" where
  "decoded_map b = (case UnmarshalMap b of Inl _ \<Rightarrow> None | Inr m \<Rightarrow> m)"

section \<open>Evaluating one case\<close>

record CaseResult =
  cr_IsCorrect :: bool
  cr_Feedback :: string
  cr_Warning :: "case_warning option"

definition zero_result :: CaseResult where
  "zero_result = \<lparr> cr_IsCorrect = False, cr_Feedback = [], cr_Warning = None \<rparr>"

definition case_warning_of :: "nat \<Rightarrow> string \<Rightarrow> case_warning" where
  "case_warning_of index msg = \<lparr> cw_Message = msg, cw_Case = int index \<rparr>"

definition warning_result :: "nat \<Rightarrow> string \<Rightarrow> CaseResult" where
  "warning_result index msg = zero_result\<lparr> cr_Warning := Some (case_warning_of index msg) \<rparr>"

text \<open>The two loops that copy \<open>params\<close> and then the parameters of the case into a new map.\<close>

definition combine_params :: "gomap \<Rightarrow> gval \<Rightarrow> gomap" where
  "combine_params params caseParams =
     (let base = (case params of None \<Rightarrow> fmempty | Some f \<Rightarrow> f)
      in case as_map caseParams of
           Some (Some f) \<Rightarrow> Some (fmadd base f)
         | _ \<Rightarrow> Some base)"

text \<open>The part of \<open>EvaluateCase\<close> after the deferred \<^verbatim>\<open>recover\<close> is installed.\<close>

definition try_case ::
  "gomap \<Rightarrow> gomap \<Rightarrow> nat \<Rightarrow> Request \<Rightarrow> Command \<Rightarrow> ('s, 'w) RuntimeHandler \<Rightarrow> 'w \<Rightarrow> CaseResult go \<times> 'w" where
  "try_case combinedParams caseData index req command h w =
     (case UnmarshalMap (req_Body req) of
        Inl e \<Rightarrow> (Ret (warning_result index e), w)
      | Inr reqBody \<Rightarrow>
         (case go_bind (mset reqBody ''answer'' (mget caseData ''answer''))
                 (\<lambda>b. mset b ''params'' (GMap combinedParams)) of
            Panic p \<Rightarrow> (Panic p, w)
          | Ret reqBody' \<Rightarrow>
             (case Marshal (GMap reqBody') of
                Inl e \<Rightarrow> (Ret (warning_result index e), w)
              | Inr b \<Rightarrow>
                 (case SendCommand (req\<lparr> req_Body := b \<rparr>) command h w of
                    (Panic p, w') \<Rightarrow> (Panic p, w')
                  | (Ret (Inl err), w') \<Rightarrow> (Ret (warning_result index (err_text err)), w')
                  | (Ret (Inr resData), w') \<Rightarrow>
                     (case as_map (mget (decoded_map resData) ''result'') of
                        None \<Rightarrow> (Ret (warning_result index ''failed to unmarshal response data''), w')
                      | Some result \<Rightarrow>
                         (Ret \<lparr> cr_IsCorrect =
                                  (case as_bool (mget result ''is_correct'') of None \<Rightarrow> False | Some b \<Rightarrow> b),
                                cr_Feedback =
                                  (case as_string (mget result ''feedback'') of None \<Rightarrow> [] | Some s \<Rightarrow> s),
                                cr_Warning = None \<rparr>, w'))))))"

text \<open>
  The result is paired with the case map after the call: the deferred function stores a warning
  in it when the evaluation panics, and the call then returns the zero \<open>CaseResult\<close>, since the
  function's result is not named.
\<close>

definition EvaluateCase ::
  "gomap \<Rightarrow> gomap \<Rightarrow> nat \<Rightarrow> Request \<Rightarrow> Command \<Rightarrow> ('s, 'w) RuntimeHandler \<Rightarrow> 'w
     \<Rightarrow> (CaseResult \<times> gomap) go \<times> 'w" where
  "EvaluateCase params caseData index req command h w =
     (if \<not> mhas caseData ''answer'' then
        (Ret (warning_result index ''Missing answer field'', caseData), w)
      else if \<not> mhas caseData ''feedback'' then
        (Ret (warning_result index ''Missing feedback field'', caseData), w)
      else (case try_case (combine_params params (mget caseData ''params'')) caseData index req command h w of
          (Ret r, w') \<Rightarrow> (Ret (r, caseData), w')
        | (Panic p, w') \<Rightarrow>
            (go_bind (mset caseData ''warning''
                (GWarning (case_warning_of index
                   ''An exception was raised while executing the evaluation function.'')))
               (\<lambda>cd. Ret (zero_result, cd)), w')))"

section \<open>The loop over the cases\<close>

text \<open>What \<open>params\<close> looks like while the list of cases it shares is \<open>cases\<close>.\<close>

definition with_cases :: "gomap \<Rightarrow> gval list \<Rightarrow> gomap" where
  "with_cases params cs = map_option (fmupd ''cases'' (GArr cs)) params"

text \<open>\<^verbatim>\<open>if result.Warning != nil { warnings = append(warnings, *result.Warning) }\<close>\<close>

definition append_warning :: "case_warning list \<Rightarrow> CaseResult \<Rightarrow> case_warning list" where
  "append_warning ws result = (case cr_Warning result of None \<Rightarrow> ws | Some x \<Rightarrow> ws @ [x])"

text \<open>
  The loop of \<open>FindFirstMatchingCase\<close> over the cases still to come, from position \<open>index\<close>; it
  ends at the first case that is correct.
\<close>

fun find_loop ::
  "Request \<Rightarrow> Command \<Rightarrow> ('s, 'w) RuntimeHandler \<Rightarrow> gomap \<Rightarrow> gval list \<Rightarrow> gval list \<Rightarrow> nat
     \<Rightarrow> nat list \<Rightarrow> string list \<Rightarrow> case_warning list \<Rightarrow> 'w
     \<Rightarrow> (nat list \<times> string list \<times> case_warning list \<times> gval list) go \<times> 'w" where
  "find_loop req command h params [] cs index matches feedback warnings w =
     (Ret (matches, feedback, warnings, cs), w)"
| "find_loop req command h params (c # rest) cs index matches feedback warnings w =
     (case as_map c of
        None \<Rightarrow> (Panic ''interface conversion: interface {} is not map[string]interface {}'', w)
      | Some caseData \<Rightarrow>
         (case EvaluateCase (with_cases params cs) caseData index req command h w of
            (Panic p, w') \<Rightarrow> (Panic p, w')
          | (Ret (result, caseData'), w') \<Rightarrow>
             (let warnings' = append_warning warnings result;
                  cs' = cs[index := GMap caseData']
              in if cr_IsCorrect result
                 then (Ret (matches @ [index], feedback @ [cr_Feedback result], warnings', cs'), w')
                 else find_loop req command h params rest cs' (Suc index) matches feedback warnings' w')))"

definition FindFirstMatchingCase ::
  "gomap \<Rightarrow> gval list \<Rightarrow> Request \<Rightarrow> Command \<Rightarrow> ('s, 'w) RuntimeHandler \<Rightarrow> 'w
     \<Rightarrow> (nat list \<times> string list \<times> case_warning list \<times> gval list) go \<times> 'w" where
  "FindFirstMatchingCase params cs req command h w =
     find_loop req command h params cs cs 0 [] [] [] w"

section \<open>The feedback of the matching case\<close>

definition override_feedback :: "gomap \<Rightarrow> string list \<Rightarrow> gomap go" where
  "override_feedback m feedback =
     (case as_map (mget m ''params'') of
        None \<Rightarrow> Ret m
      | Some matchParams \<Rightarrow>
         (if eq_bool (mget matchParams ''override_eval_feedback'') True
          then (case as_string (mget m ''feedback'') of
                  None \<Rightarrow> Panic ''interface conversion: interface {} is not string''
                | Some matchFeedback \<Rightarrow>
                   (case feedback of
                      [] \<Rightarrow> Panic ''index out of range''
                    | evalFeedback # _ \<Rightarrow>
                        mset m ''feedback'' (GStr (matchFeedback @ ''<br />'' @ evalFeedback))))
          else Ret m))"

definition many_matches_warning :: "nat list \<Rightarrow> case_warning" where
  "many_matches_warning matches =
     \<lparr> cw_Message = ''Cases '' @ Join (map show_nat matches) '', '' @
         '' were matched. Only the first one's feedback was returned'',
       cw_Case = 0 \<rparr>"

text \<open>The first component of the result is nil when no case matched.\<close>

definition GetCaseFeedback ::
  "gomap \<Rightarrow> gval list \<Rightarrow> Request \<Rightarrow> Command \<Rightarrow> ('s, 'w) RuntimeHandler \<Rightarrow> 'w
     \<Rightarrow> (gomap \<times> case_warning list) go \<times> 'w" where
  "GetCaseFeedback params cs req command h w =
     (case FindFirstMatchingCase params cs req command h w of
        (Panic p, w') \<Rightarrow> (Panic p, w')
      | (Ret (matches, feedback, warnings, cs'), w') \<Rightarrow>
         (case matches of
            [] \<Rightarrow> (Ret (None, warnings), w')
          | matchID # _ \<Rightarrow>
             (case as_map (cs' ! matchID) of
                None \<Rightarrow> (Panic ''interface conversion: interface {} is not map[string]interface {}'', w')
              | Some m \<Rightarrow>
                 (go_bind (mset m ''id'' (GInt (int matchID))) (\<lambda>m1.
                  go_bind (override_feedback m1 feedback) (\<lambda>m2.
                    Ret (m2, if 1 < length matches then warnings @ [many_matches_warning matches]
                             else warnings))), w'))))"

section \<open>Processing an evaluation\<close>

text \<open>The writes to \<open>result\<close> once a case has matched.\<close>

definition apply_mark :: "gval \<Rightarrow> gomap \<Rightarrow> gomap go" where
  "apply_mark mark result =
     (case as_float mark of
        None \<Rightarrow> Ret result
      | Some r \<Rightarrow> mset result ''is_correct'' (GBool (int_of_float r = 1)))"

definition apply_match :: "gomap \<Rightarrow> gomap \<Rightarrow> gomap go" where
  "apply_match m result =
     go_bind (mset result ''feedback'' (mget m ''feedback'')) (\<lambda>r1.
     go_bind (mset r1 ''matched_case'' (mget m ''id'')) (\<lambda>r2.
       apply_mark (mget m ''mark'') r2))"

definition apply_warnings :: "case_warning list \<Rightarrow> gomap \<Rightarrow> gomap go" where
  "apply_warnings warnings result =
     (if warnings = [] then Ret result else mset result ''warnings'' (GWarnings warnings))"

text \<open>The result is \<open>result\<close> after the call.\<close>

definition ProcessEval ::
  "gomap \<Rightarrow> gomap \<Rightarrow> Request \<Rightarrow> Command \<Rightarrow> ('s, 'w) RuntimeHandler \<Rightarrow> 'w \<Rightarrow> gomap go \<times> 'w" where
  "ProcessEval reqBody result req command h w =
     (let params = (case as_map (mget reqBody ''params'') of None \<Rightarrow> None | Some m \<Rightarrow> m)
      in if eq_bool (mget result ''is_correct'') False then
           (case as_slice (mget params ''cases'') of
              None \<Rightarrow> (Ret result, w)
            | Some cs \<Rightarrow>
               (if cs = [] then (Ret result, w)
                else (case GetCaseFeedback params cs req command h w of
                    (Panic p, w') \<Rightarrow> (Panic p, w')
                  | (Ret (m, warnings), w') \<Rightarrow>
                      (go_bind (apply_warnings warnings result) (\<lambda>r.
                         if m = None then Ret r else apply_match m r), w'))))
         else (Ret result, w))"

definition getCommand :: "Request \<Rightarrow> string option" where
  "getCommand req =
     (let commandStr = Header_Get (req_Header req) ''command''
      in if commandStr \<noteq> [] then Some commandStr else Some ''eval'')"

text \<open>
  The tail of \<open>handle\<close>, after the evaluation function has answered with \<open>resData\<close>.  Where the
  response has no \<^verbatim>\<open>result\<close> object the code returns the variable \<^verbatim>\<open>err\<close> of the preceding
  \<^verbatim>\<open>Unmarshal\<close>, that is nil data and a nil error when the decoding succeeded.
\<close>

definition finish_handle ::
  "Request \<Rightarrow> Command \<Rightarrow> ('s, 'w) RuntimeHandler \<Rightarrow> body \<Rightarrow> 'w \<Rightarrow> (go_error + body) go \<times> 'w" where
  "finish_handle req command h resData w =
     (case UnmarshalMap (req_Body req) of
        Inl e \<Rightarrow> (Ret (Inl (ErrorString e)), w)
      | Inr reqBody \<Rightarrow>
         (case as_map (mget (decoded_map resData) ''result'') of
            None \<Rightarrow> (Ret (case UnmarshalMap resData of
                             Inl e \<Rightarrow> Inl (ErrorString e) | Inr _ \<Rightarrow> Inr empty_body), w)
          | Some result \<Rightarrow>
             (case (if command = ''eval'' then ProcessEval reqBody result req command h w
                    else (Ret result, w)) of
                (Panic p, w') \<Rightarrow> (Panic p, w')
              | (Ret result', w') \<Rightarrow>
                 (go_bind (mset (decoded_map resData) ''result'' (GMap result')) (\<lambda>respBody.
                    Ret (case Marshal (GMap respBody) of
                           Inl e \<Rightarrow> Inl (ErrorString e) | Inr b \<Rightarrow> Inr b)), w'))))"

definition handle :: "('s, 'w) RuntimeHandler \<Rightarrow> Request \<Rightarrow> 'w \<Rightarrow> (go_error + body) go \<times> 'w" where
  "handle h req w =
     (if req_Method req \<noteq> ''POST'' then (Ret (Inl errInvalidMethod), w)
      else (case getCommand req of
          None \<Rightarrow> (Ret (Inl errCommandNotFound), w)
        | Some commandStr \<Rightarrow>
           (case ParseCommand commandStr of
              None \<Rightarrow> (Ret (Inl errInvalidCommand), w)
            | Some command \<Rightarrow>
               (case SendCommand req command h w of
                  (Panic p, w') \<Rightarrow> (Panic p, w')
                | (Ret (Inl err), w') \<Rightarrow> (Ret (Inl err), w')
                | (Ret (Inr resData), w') \<Rightarrow> finish_handle req command h resData w'))))"

definition Handle :: "('s, 'w) RuntimeHandler \<Rightarrow> Request \<Rightarrow> 'w \<Rightarrow> Response go \<times> 'w" where
  "Handle h req w =
     (case handle h req w of
        (Panic p, w') \<Rightarrow> (Panic p, w')
      | (Ret (Inl err), w') \<Rightarrow> (Ret (newErrorResponse err), w')
      | (Ret (Inr data), w') \<Rightarrow> (Ret (newResponse StatusOK data), w'))"

end
