(* ===== verification/Handler_Facts.thy ===== *)
theory Handler_Facts
  imports Runtime_Handler
begin

text \<open>
  The lemmas about the runtime handler: what a round trip to the evaluation function leaves
  behind, the loop over the feedback cases, and the rewriting of the result.
\<close>

section \<open>Maps\<close>

named_theorems gomap_simps \<open>reading Go maps after writes, copies and a round trip\<close>

lemma mget_Some [gomap_simps]:
  "mget (Some f) k = (case fmlookup f k of None \<Rightarrow> GNil | Some v \<Rightarrow> v)"
  by (simp add: mget_def)

lemma mget_None [gomap_simps]: "mget None k = GNil"
  by (simp add: mget_def)

lemma mget_fmupd: "mget (Some (fmupd k v f)) k' = (if k = k' then v else mget (Some f) k')"
  by (simp add: mget_def)

lemma mset_Some [gomap_simps]: "mset (Some f) k v = Ret (Some (fmupd k v f))"
  by (simp add: mset_def)

lemma mset_Ret_iff: "mset m k v = Ret m' \<longleftrightarrow> (\<exists>f. m = Some f \<and> m' = Some (fmupd k v f))"
  by (cases m) (auto simp: mset_def)

lemma mhas_Some [gomap_simps]: "mhas (Some f) k \<longleftrightarrow> fmlookup f k \<noteq> None"
  by (simp add: mhas_def)

lemma mhas_imp_Some: "mhas m k \<Longrightarrow> \<exists>f. m = Some f"
  by (cases m) (auto simp: mhas_def)

lemma UnmarshalMap_encoded:
  "UnmarshalMap (Doc (to_json (GMap m))) = Inr (map_option (fmmap json_norm) m)"
proof (cases m)
  case (Some f)
  have "fmmap of_json (fmmap to_json f) = fmmap json_norm f"
    by (simp add: fmap.map_comp comp_def of_json_to_json)
  with Some show ?thesis by (simp add: fmap_of_rev_sorted_members)
qed simp

declare UnmarshalMap.simps(2) [simp del]

lemma decoded_map_encoded:
  "decoded_map (Doc (to_json (GMap m))) = map_option (fmmap json_norm) m"
  unfolding decoded_map_def UnmarshalMap_encoded by simp

lemma mget_norm [gomap_simps]: "mget (map_option (fmmap json_norm) m) k = json_norm (mget m k)"
  by (cases m) (auto simp: mget_def split: option.splits)

lemma as_map_norm_Some:
  "as_map (json_norm v) = Some r \<Longrightarrow> \<exists>f. r = Some f"
  by (cases v) (auto simp: warning_val_def warning_json_def split: option.splits)

lemma as_map_Some_iff: "as_map v = Some m \<longleftrightarrow> v = GMap m"
  by (cases v) auto

lemma as_slice_Some_iff: "as_slice v = Some xs \<longleftrightarrow> v = GArr xs"
  by (cases v) auto

lemma as_string_Some_iff: "as_string v = Some s \<longleftrightarrow> v = GStr s"
  by (cases v) auto

lemma as_float_Some_iff: "as_float v = Some r \<longleftrightarrow> v = GFloat r"
  by (cases v) auto

lemma as_bool_Some_iff: "as_bool v = Some b \<longleftrightarrow> v = GBool b"
  by (cases v) auto

lemmas as_type_iffs = as_map_Some_iff as_slice_Some_iff as_string_Some_iff as_float_Some_iff
  as_bool_Some_iff

section \<open>A round trip to the evaluation function\<close>

lemma SendCommand_ok:
  assumes "SendCommand req command h w = (Ret (Inr b), w')"
  shows "\<exists>reqData m. UnmarshalMap (req_Body req) = Inr reqData \<and>
      validate h validationTypeRequest command reqData = Ret None \<and>
      rh_runtime h (NewRequestMessage command reqData) w = (Ret (Inr m), w') \<and>
      validate h validationTypeResponse command m = Ret None \<and>
      b = Doc (to_json (GMap m))"
  using assms
  by (auto simp: SendCommand_def Marshal_def split: sum.splits go.splits option.splits prod.splits)

text \<open>
  A round trip makes at most one call of the runtime, whatever its outcome: either the world is
  untouched or it is the world the one call left.
\<close>

lemma SendCommand_world:
  "snd (SendCommand req command h w) = w \<or>
   (\<exists>msg. snd (SendCommand req command h w) = snd (rh_runtime h msg w))"
proof (cases "UnmarshalMap (req_Body req)")
  case (Inr reqData)
  let ?c = "rh_runtime h (NewRequestMessage command reqData) w"
  have "snd (SendCommand req command h w) = w \<or> snd (SendCommand req command h w) = snd ?c"
    using Inr by (cases ?c) (auto simp: SendCommand_def split: sum.splits go.splits option.splits)
  then show ?thesis by blast
qed (simp add: SendCommand_def)

lemma try_case_world:
  "snd (try_case cp cd i req command h w) = w \<or>
   (\<exists>req'. snd (try_case cp cd i req command h w) = snd (SendCommand req' command h w))"
  by (auto simp: try_case_def Marshal_def split: sum.splits go.splits option.splits prod.splits)
     (metis snd_conv)+

lemma EvaluateCase_world:
  "snd (EvaluateCase params cd i req command h w) = w \<or>
   (\<exists>msg. snd (EvaluateCase params cd i req command h w) = snd (rh_runtime h msg w))"
proof -
  have "snd (EvaluateCase params cd i req command h w) = w \<or>
        (\<exists>cp. snd (EvaluateCase params cd i req command h w) = snd (try_case cp cd i req command h w))"
    by (auto simp: EvaluateCase_def split: go.splits prod.splits) (metis snd_conv)+
  then show ?thesis by (metis try_case_world SendCommand_world)
qed

text \<open>The evaluation of a case never panics: what panics in it is recovered.\<close>

lemma EvaluateCase_returns: "returns (fst (EvaluateCase params cd i req command h w))"
  by (auto simp: EvaluateCase_def gomap_simps dest!: mhas_imp_Some split: go.splits prod.splits)

lemma EvaluateCase_warning_index:
  assumes "EvaluateCase params cd i req command h w = (Ret (r, cd'), w')" and "cr_Warning r = Some x"
  shows "cw_Case x = int i"
  using assms
  by (auto simp: EvaluateCase_def try_case_def Marshal_def warning_result_def zero_result_def
      case_warning_of_def go_bind_Ret_iff
      split: if_splits sum.splits go.splits option.splits prod.splits)

text \<open>A correct case keeps its map, and it has an answer and a feedback.\<close>

lemma EvaluateCase_correct:
  assumes "EvaluateCase params cd i req command h w = (Ret (r, cd'), w')" and "cr_IsCorrect r"
  shows "cd' = cd \<and> mhas cd ''answer'' \<and> mhas cd ''feedback'' \<and> cr_Warning r = None"
  using assms
  by (auto simp: EvaluateCase_def try_case_def Marshal_def warning_result_def zero_result_def
      go_bind_Ret_iff split: if_splits sum.splits go.splits option.splits prod.splits)

text \<open>After the evaluation the case map differs from before at most in the member \<^verbatim>\<open>warning\<close>.\<close>

lemma EvaluateCase_map:
  assumes "EvaluateCase params cd i req command h w = (Ret (r, cd'), w')" and "k \<noteq> ''warning''"
  shows "mget cd' k = mget cd k \<and> mhas cd' k = mhas cd k"
  using assms
  by (auto simp: EvaluateCase_def go_bind_Ret_iff mset_Ret_iff gomap_simps
      split: if_splits go.splits prod.splits)

section \<open>The loop over the cases\<close>

text \<open>
  A bound on how far a run of the runtime can move a measure of the world carries over to the
  loop: at most one call for each case visited.
\<close>

lemma EvaluateCase_measure:
  fixes cnt :: "'w \<Rightarrow> nat"
  assumes step: "\<And>msg w. cnt (snd (rh_runtime h msg w)) \<le> Suc (cnt w)"
  shows "cnt (snd (EvaluateCase params cd i req command h w)) \<le> Suc (cnt w)"
  using EvaluateCase_world [of params cd i req command h w] step by (metis le_SucI order_refl)

lemma find_loop_measure:
  fixes cnt :: "'w \<Rightarrow> nat"
  assumes step: "\<And>msg w. cnt (snd (rh_runtime h msg w)) \<le> Suc (cnt w)"
  shows "cnt (snd (find_loop req command h params rest cs i ms fb ws w)) \<le> cnt w + length rest"
proof (induction rest arbitrary: cs i ms fb ws w)
  case (Cons c rest)
  show ?case
  proof (cases "as_map c")
    case (Some cd)
    obtain o' w' where e: "EvaluateCase (with_cases params cs) cd i req command h w = (o', w')"
      by (cases "EvaluateCase (with_cases params cs) cd i req command h w")
    have "cnt w' \<le> Suc (cnt w)"
      using EvaluateCase_measure [OF step, of "with_cases params cs" cd i req command w] e by simp
    moreover have "cnt (snd (find_loop req command h params rest a b m f g w')) \<le> cnt w' + length rest"
      for a b m f g by (rule Cons.IH)
    ultimately show ?thesis
      using Some e by (cases o') (fastforce simp: Let_def split: prod.splits intro: order_trans)+
  qed simp
qed simp

text \<open>One turn of a loop that returns.\<close>

lemma find_loop_Cons:
  assumes "find_loop req command h params (c # rest) cs i ms fb ws w = (Ret (ms', fb', ws', cs'), w')"
  shows "\<exists>cd r cd' w1. c = GMap cd \<and>
     EvaluateCase (with_cases params cs) cd i req command h w = (Ret (r, cd'), w1) \<and>
     (cr_IsCorrect r \<longrightarrow> ms' = ms @ [i] \<and> fb' = fb @ [cr_Feedback r] \<and>
        ws' = append_warning ws r \<and> cs' = cs[i := GMap cd'] \<and> w' = w1) \<and>
     (\<not> cr_IsCorrect r \<longrightarrow>
        find_loop req command h params rest (cs[i := GMap cd']) (Suc i) ms fb (append_warning ws r) w1
          = (Ret (ms', fb', ws', cs'), w'))"
  using assms
  by (auto simp: Let_def as_map_Some_iff split: option.splits prod.splits go.splits if_splits)

text \<open>The loop adds at most one match, and the match is one of the cases it was given.\<close>

lemma find_loop_matches:
  assumes "find_loop req command h params rest cs i ms fb ws w = (Ret (ms', fb', ws', cs'), w')"
  shows "(ms' = ms \<and> fb' = fb) \<or>
         (\<exists>j s. ms' = ms @ [j] \<and> fb' = fb @ [s] \<and> i \<le> j \<and> j < i + length rest)"
  using assms
proof (induction rest arbitrary: cs i ws w)
  case (Cons c rest)
  obtain cd r cd' w1 where c: "c = GMap cd"
    and e: "EvaluateCase (with_cases params cs) cd i req command h w = (Ret (r, cd'), w1)"
    and hit: "cr_IsCorrect r \<longrightarrow> ms' = ms @ [i] \<and> fb' = fb @ [cr_Feedback r] \<and>
        ws' = append_warning ws r \<and> cs' = cs[i := GMap cd'] \<and> w' = w1"
    and miss: "\<not> cr_IsCorrect r \<longrightarrow>
        find_loop req command h params rest (cs[i := GMap cd']) (Suc i) ms fb (append_warning ws r) w1
          = (Ret (ms', fb', ws', cs'), w')"
    using find_loop_Cons [OF Cons.prems(1)] by blast
  show ?case
  proof (cases "cr_IsCorrect r")
    case True
    with hit show ?thesis by auto
  next
    case False
    from Cons.IH [OF miss [rule_format, OF False]] show ?thesis by fastforce
  qed
qed simp

text \<open>Every warning carries the number of a case the loop visited.\<close>

lemma find_loop_warnings:
  assumes "find_loop req command h params rest cs i ms fb ws w = (Ret (ms', fb', ws', cs'), w')"
    and "x \<in> set ws'"
  shows "x \<in> set ws \<or> (int i \<le> cw_Case x \<and> cw_Case x < int (i + length rest))"
  using assms
proof (induction rest arbitrary: cs i ws w)
  case (Cons c rest)
  obtain cd r cd' w1 where c: "c = GMap cd"
    and e: "EvaluateCase (with_cases params cs) cd i req command h w = (Ret (r, cd'), w1)"
    and hit: "cr_IsCorrect r \<longrightarrow> ms' = ms @ [i] \<and> fb' = fb @ [cr_Feedback r] \<and>
        ws' = append_warning ws r \<and> cs' = cs[i := GMap cd'] \<and> w' = w1"
    and miss: "\<not> cr_IsCorrect r \<longrightarrow>
        find_loop req command h params rest (cs[i := GMap cd']) (Suc i) ms fb (append_warning ws r) w1
          = (Ret (ms', fb', ws', cs'), w')"
    using find_loop_Cons [OF Cons.prems(1)] by blast
  have ws: "y \<in> set (append_warning ws r) \<Longrightarrow> y \<in> set ws \<or> cw_Case y = int i" for y
    using EvaluateCase_warning_index [OF e] by (auto simp: append_warning_def split: option.splits)
  show ?case
  proof (cases "cr_IsCorrect r")
    case True
    with Cons.prems(2) hit ws show ?thesis by fastforce
  next
    case False
    from Cons.IH [OF miss [rule_format, OF False] Cons.prems(2)] ws show ?thesis by fastforce
  qed
qed simp

text \<open>
  The list of cases keeps its length, its elements stay objects, and an element changes at most
  in the member \<^verbatim>\<open>warning\<close>.
\<close>

definition case_map :: "gval list \<Rightarrow> nat \<Rightarrow> gomap" where
  "case_map cs i = (case as_map (cs ! i) of None \<Rightarrow> None | Some m \<Rightarrow> m)"

definition is_object :: "gval \<Rightarrow> bool" where
  "is_object v = (as_map v \<noteq> None)"

lemma is_object_iff: "is_object v \<longleftrightarrow> (\<exists>m. v = GMap m)"
  by (cases v) (auto simp: is_object_def)

lemma find_loop_cases:
  assumes "find_loop req command h params rest cs i ms fb ws w = (Ret (ms', fb', ws', cs'), w')"
    and "rest = drop i cs" and "list_all is_object cs" and "k \<noteq> ''warning''"
  shows "length cs' = length cs \<and> list_all is_object cs' \<and>
         (\<forall>j < length cs. mget (case_map cs' j) k = mget (case_map cs j) k \<and>
                            mhas (case_map cs' j) k = mhas (case_map cs j) k)"
  using assms
proof (induction rest arbitrary: cs i ws w)
  case (Cons c rest)
  obtain cd r cd' w1 where c: "c = GMap cd"
    and e: "EvaluateCase (with_cases params cs) cd i req command h w = (Ret (r, cd'), w1)"
    and hit: "cr_IsCorrect r \<longrightarrow> ms' = ms @ [i] \<and> fb' = fb @ [cr_Feedback r] \<and>
        ws' = append_warning ws r \<and> cs' = cs[i := GMap cd'] \<and> w' = w1"
    and miss: "\<not> cr_IsCorrect r \<longrightarrow>
        find_loop req command h params rest (cs[i := GMap cd']) (Suc i) ms fb (append_warning ws r) w1
          = (Ret (ms', fb', ws', cs'), w')"
    using find_loop_Cons [OF Cons.prems(1)] by blast
  have i: "i < length cs" using Cons.prems(2) by (metis drop_all list.distinct(1) not_le)
  then have ci: "cs ! i = c" and rest: "rest = drop (Suc i) cs"
    using Cons.prems(2) by (metis Cons_nth_drop_Suc list.inject)+
  let ?cs = "cs[i := GMap cd']"
  have same: "length ?cs = length cs" "list_all is_object ?cs"
      "\<forall>j < length cs. mget (case_map ?cs j) k = mget (case_map cs j) k \<and>
                        mhas (case_map ?cs j) k = mhas (case_map cs j) k"
    using Cons.prems(3) EvaluateCase_map [OF e Cons.prems(4)] ci c i
    by (auto simp: case_map_def list_all_length nth_list_update is_object_def)
  show ?case
  proof (cases "cr_IsCorrect r")
    case True
    with hit same show ?thesis by auto
  next
    case False
    from Cons.IH [OF miss [rule_format, OF False] _ same(2) Cons.prems(4)] rest same show ?thesis
      by (auto simp: drop_update_cancel)
  qed
qed simp

text \<open>The matching case has an answer and a feedback.\<close>

lemma find_loop_hit:
  assumes "find_loop req command h params rest cs i ms fb ws w = (Ret (ms', fb', ws', cs'), w')"
    and "rest = drop i cs" and "ms' \<noteq> ms"
  shows "\<exists>j < length cs. ms' = ms @ [j] \<and> mhas (case_map cs' j) ''answer'' \<and> mhas (case_map cs' j) ''feedback''"
  using assms
proof (induction rest arbitrary: cs i ws w)
  case (Cons c rest)
  obtain cd r cd' w1 where c: "c = GMap cd"
    and e: "EvaluateCase (with_cases params cs) cd i req command h w = (Ret (r, cd'), w1)"
    and hit: "cr_IsCorrect r \<longrightarrow> ms' = ms @ [i] \<and> fb' = fb @ [cr_Feedback r] \<and>
        ws' = append_warning ws r \<and> cs' = cs[i := GMap cd'] \<and> w' = w1"
    and miss: "\<not> cr_IsCorrect r \<longrightarrow>
        find_loop req command h params rest (cs[i := GMap cd']) (Suc i) ms fb (append_warning ws r) w1
          = (Ret (ms', fb', ws', cs'), w')"
    using find_loop_Cons [OF Cons.prems(1)] by blast
  have i: "i < length cs" using Cons.prems(2) by (metis drop_all list.distinct(1) not_le)
  have rest: "rest = drop (Suc i) (cs[i := GMap cd'])"
    using Cons.prems(2) i by (metis Cons_nth_drop_Suc drop_update_cancel lessI list.inject)
  show ?case
  proof (cases "cr_IsCorrect r")
    case True
    with hit EvaluateCase_correct [OF e True] i show ?thesis by (auto simp: case_map_def)
  next
    case False
    from Cons.IH [OF miss [rule_format, OF False] rest Cons.prems(3)] show ?thesis by simp
  qed
qed simp

section \<open>The loop against its specification\<close>

text \<open>
  When nothing panics, the loop visits the cases in order, each in the world the previous
  evaluations left.  \<open>case_world\<close> is the world before case \<open>i\<close>, \<open>case_verdict\<close> the verdict on case
  \<open>i\<close>; the specification of the loop is the least case whose verdict is correct.
\<close>

definition eval_case ::
  "Request \<Rightarrow> Command \<Rightarrow> ('s, 'w) RuntimeHandler \<Rightarrow> gomap \<Rightarrow> gval list \<Rightarrow> nat \<Rightarrow> 'w
     \<Rightarrow> (CaseResult \<times> gomap) go \<times> 'w" where
  "eval_case req command h params cs i w =
     EvaluateCase (with_cases params cs) (case_map cs i) i req command h w"

primrec case_world ::
  "Request \<Rightarrow> Command \<Rightarrow> ('s, 'w) RuntimeHandler \<Rightarrow> gomap \<Rightarrow> gval list \<Rightarrow> 'w \<Rightarrow> nat \<Rightarrow> 'w" where
  "case_world req command h params cs w 0 = w"
| "case_world req command h params cs w (Suc i) =
     snd (eval_case req command h params cs i (case_world req command h params cs w i))"

definition case_verdict ::
  "Request \<Rightarrow> Command \<Rightarrow> ('s, 'w) RuntimeHandler \<Rightarrow> gomap \<Rightarrow> gval list \<Rightarrow> 'w \<Rightarrow> nat \<Rightarrow> CaseResult" where
  "case_verdict req command h params cs w i =
     (case fst (eval_case req command h params cs i (case_world req command h params cs w i)) of
        Ret (r, _) \<Rightarrow> r | Panic _ \<Rightarrow> zero_result)"

definition first_correct :: "(nat \<Rightarrow> CaseResult) \<Rightarrow> nat list \<Rightarrow> nat option" where
  "first_correct V is = find (\<lambda>i. cr_IsCorrect (V i)) is"

definition verdict_warnings :: "(nat \<Rightarrow> CaseResult) \<Rightarrow> nat list \<Rightarrow> case_warning list" where
  "verdict_warnings V is = List.map_filter (\<lambda>i. cr_Warning (V i)) is"

text \<open>The hypothesis under which nothing panics: neither the runtime nor a validation does.\<close>

definition no_panic :: "('s, 'w) RuntimeHandler \<Rightarrow> Command \<Rightarrow> bool" where
  "no_panic h command \<longleftrightarrow>
     (\<forall>msg w. returns (fst (rh_runtime h msg w))) \<and> (\<forall>t data. returns (validate h t command data))"

lemma no_panic_handler:
  assumes "NewRuntimeHandler compile gjs rt = Inr h" and "ParseCommand p = Some command"
    and "\<And>msg w. returns (fst (rt msg w))"
  shows "no_panic h command"
  using assms ParseCommand_known [OF assms(2)] NewRuntimeHandler_fields(1) [OF assms(1)]
    validate_returns [OF assms(1)]
  by (auto simp: no_panic_def)

lemma SendCommand_returns:
  assumes "no_panic h command"
  shows "returns (fst (SendCommand req command h w))"
proof (cases "UnmarshalMap (req_Body req)")
  case (Inr d)
  obtain v1 where v1: "validate h validationTypeRequest command d = Ret v1"
    using assms by (meson no_panic_def returns_iff)
  obtain o1 w1 where c: "rh_runtime h (NewRequestMessage command d) w = (Ret o1, w1)"
    using assms by (metis no_panic_def prod.collapse returns_iff)
  have "validate h validationTypeResponse command m \<noteq> Panic p" for m p
    using assms by (metis no_panic_def returns.simps(2))
  then show ?thesis
    using Inr v1 c
    by (cases o1) (auto simp: SendCommand_def Marshal_def returns_iff split: option.splits go.splits)
qed (simp add: SendCommand_def)

lemma try_case_returns:
  assumes "no_panic h command" and "UnmarshalMap (req_Body req) = Inr (Some rb)"
  shows "returns (fst (try_case cp cd i req command h w))"
proof -
  let ?b = "Doc (to_json (GMap (Some (fmupd ''params'' (GMap cp) (fmupd ''answer'' (mget cd ''answer'') rb)))))"
  obtain o1 w1 where "SendCommand (req\<lparr> req_Body := ?b \<rparr>) command h w = (Ret o1, w1)"
    using SendCommand_returns [OF assms(1)] by (metis prod.collapse returns_iff)
  with assms(2) show ?thesis
    by (auto simp: try_case_def gomap_simps Marshal_def simp del: to_json.simps split: sum.splits option.splits)
qed

lemma EvaluateCase_no_panic:
  assumes "no_panic h command" and "UnmarshalMap (req_Body req) = Inr (Some rb)"
  shows "\<exists>r w'. EvaluateCase params cd i req command h w = (Ret (r, cd), w')"
proof -
  obtain r w' where "try_case (combine_params params (mget cd ''params'')) cd i req command h w = (Ret r, w')"
    using try_case_returns [OF assms] by (metis prod.collapse returns_iff)
  then show ?thesis by (simp add: EvaluateCase_def)
qed

lemma append_verdict_warning:
  assumes "i < k"
  shows "append_warning ws (V i) @ verdict_warnings V [Suc i..<k] = ws @ verdict_warnings V [i..<k]"
  using assms by (auto simp: append_warning_def verdict_warnings_def upt_conv_Cons List.map_filter_simps
      split: option.splits)

lemma first_correct_step:
  assumes "i < n"
  shows "first_correct V [i..<n] = (if cr_IsCorrect (V i) then Some i else first_correct V [Suc i..<n])"
  using assms by (simp add: first_correct_def upt_conv_Cons)

text \<open>One case of the loop, in terms of the verdicts and worlds along the cases.\<close>

lemma find_loop_case:
  fixes h :: "('s, 'w) RuntimeHandler" and w :: 'w and params :: gomap
  assumes np: "no_panic h command" and body: "UnmarshalMap (req_Body req) = Inr (Some rb)"
    and objs: "list_all is_object cs" and i: "i < length cs"
  defines "W \<equiv> case_world req command h params cs w"
    and "V \<equiv> case_verdict req command h params cs w"
  shows "find_loop req command h params (cs ! i # rest) cs i ms fb ws (W i) =
    (if cr_IsCorrect (V i)
     then (Ret (ms @ [i], fb @ [cr_Feedback (V i)], append_warning ws (V i), cs), W (Suc i))
     else find_loop req command h params rest cs (Suc i) ms fb (append_warning ws (V i)) (W (Suc i)))"
proof -
  have c: "cs ! i = GMap (case_map cs i)"
    using objs i by (auto simp: list_all_length is_object_iff case_map_def)
  obtain r w1 where e: "eval_case req command h params cs i (W i) = (Ret (r, case_map cs i), w1)"
    using EvaluateCase_no_panic [OF np body] unfolding eval_case_def by blast
  have V: "V i = r" and W: "W (Suc i) = w1"
    using e by (simp_all add: V_def W_def case_verdict_def)
  have same: "cs[i := GMap (case_map cs i)] = cs"
    using c by (metis list_update_id)
  show ?thesis using e c V W same by (simp add: eval_case_def Let_def)
qed

lemma find_loop_spec:
  fixes h :: "('s, 'w) RuntimeHandler" and w :: 'w and params :: gomap
  assumes np: "no_panic h command" and body: "UnmarshalMap (req_Body req) = Inr (Some rb)"
    and objs: "list_all is_object cs" and "rest = drop i cs"
  defines "W \<equiv> case_world req command h params cs w"
    and "V \<equiv> case_verdict req command h params cs w"
  shows "find_loop req command h params rest cs i ms fb ws (W i) =
    (case first_correct V [i..<length cs] of
       None \<Rightarrow> (Ret (ms, fb, ws @ verdict_warnings V [i..<length cs], cs), W (max i (length cs)))
     | Some j \<Rightarrow> (Ret (ms @ [j], fb @ [cr_Feedback (V j)],
                     ws @ verdict_warnings V [i..<Suc j], cs), W (Suc j)))"
  using assms(4)
proof (induction rest arbitrary: i ws)
  case Nil
  then show ?case by (simp add: first_correct_def verdict_warnings_def List.map_filter_simps max_def)
next
  case (Cons c rest)
  have i: "i < length cs" using Cons.prems by (metis drop_all list.distinct(1) not_le)
  then have ci: "cs ! i = c" and rest: "rest = drop (Suc i) cs"
    using Cons.prems by (metis Cons_nth_drop_Suc list.inject)+
  have aw: "append_warning ws (V i) @ verdict_warnings V [Suc i..<k] = ws @ verdict_warnings V [i..<k]"
    if "i < k" for k
    using append_verdict_warning [OF that, of ws V] .
  have aw1: "append_warning ws (V i) = ws @ verdict_warnings V [i..<Suc i]"
    using aw [of "Suc i"] by (simp add: verdict_warnings_def List.map_filter_simps)
  note fc = first_correct_step [OF i, of V]
  note step = find_loop_case [OF np body objs i, where rest = rest and w = w and params = params,
      folded W_def V_def, unfolded ci]
  show ?case
  proof (cases "cr_IsCorrect (V i)")
    case True
    with step fc aw1 show ?thesis by simp
  next
    case False
    have j: "i < Suc j" if "first_correct V [Suc i..<length cs] = Some j" for j
      using that by (auto simp: first_correct_def find_Some_iff)
    show ?thesis
    proof (cases "first_correct V [Suc i..<length cs]")
      case None
      with False step fc i aw [of "length cs"] Cons.IH [OF rest] show ?thesis
        by (simp add: max_def)
    next
      case (Some k)
      with j have "append_warning ws (V i) @ verdict_warnings V [Suc i..<Suc k]
          = ws @ verdict_warnings V [i..<Suc k]" by (intro aw)
      with False step fc Some Cons.IH [OF rest] show ?thesis by (simp del: upt_Suc find_loop.simps)
    qed
  qed
qed

text \<open>The specification of \<open>FindFirstMatchingCase\<close>.\<close>

lemma FindFirstMatchingCase_spec:
  fixes h :: "('s, 'w) RuntimeHandler" and w :: 'w and params :: gomap
  assumes "no_panic h command" and "UnmarshalMap (req_Body req) = Inr (Some rb)"
    and "list_all is_object cs"
  defines "W \<equiv> case_world req command h params cs w"
    and "V \<equiv> case_verdict req command h params cs w"
  shows "FindFirstMatchingCase params cs req command h w =
    (case first_correct V [0..<length cs] of
       None \<Rightarrow> (Ret ([], [], verdict_warnings V [0..<length cs], cs), W (length cs))
     | Some j \<Rightarrow> (Ret ([j], [cr_Feedback (V j)], verdict_warnings V [0..<Suc j], cs), W (Suc j)))"
  using find_loop_spec [OF assms(1-3), where i = 0 and rest = cs and params = params and w = w
      and ms = "[]" and fb = "[]" and ws = "[]"]
  by (simp add: FindFirstMatchingCase_def W_def V_def split: option.splits)

lemma first_correct_Some:
  "first_correct V [0..<n] = Some j \<longleftrightarrow>
     j < n \<and> cr_IsCorrect (V j) \<and> (\<forall>i < j. \<not> cr_IsCorrect (V i))"
  by (auto simp: first_correct_def find_Some_iff)

lemma first_correct_None:
  "first_correct V [0..<n] = None \<longleftrightarrow> (\<forall>i < n. \<not> cr_IsCorrect (V i))"
  by (auto simp: first_correct_def find_None_iff)

section \<open>Feedback, mark and warnings\<close>

text \<open>The cases a request carries, as \<open>ProcessEval\<close> finds them.\<close>

definition request_params :: "Request \<Rightarrow> gomap" where
  "request_params req = (case UnmarshalMap (req_Body req) of
       Inl _ \<Rightarrow> None
     | Inr m \<Rightarrow> (case as_map (mget m ''params'') of None \<Rightarrow> None | Some p \<Rightarrow> p))"

definition request_cases :: "Request \<Rightarrow> gval list" where
  "request_cases req =
     (case as_slice (mget (request_params req) ''cases'') of None \<Rightarrow> [] | Some cs \<Rightarrow> cs)"

lemma request_cases_body:
  "request_cases req \<noteq> [] \<Longrightarrow> \<exists>rb. UnmarshalMap (req_Body req) = Inr (Some rb)"
  by (auto simp: request_cases_def request_params_def mget_def split: sum.splits option.splits)

text \<open>The feedback a matching case gives: \<open>None\<close> where the code panics on it.\<close>

definition overrides_feedback :: "gomap \<Rightarrow> bool" where
  "overrides_feedback c =
     (case as_map (mget c ''params'') of None \<Rightarrow> False
      | Some p \<Rightarrow> mget p ''override_eval_feedback'' = GBool True)"

definition case_feedback :: "gomap \<Rightarrow> string \<Rightarrow> gval option" where
  "case_feedback c evalFeedback =
     (if overrides_feedback c
      then map_option (\<lambda>s. GStr (s @ ''<br />'' @ evalFeedback)) (as_string (mget c ''feedback''))
      else Some (mget c ''feedback''))"

lemma case_feedback_cong:
  "mget c ''params'' = mget c' ''params'' \<Longrightarrow> mget c ''feedback'' = mget c' ''feedback''
     \<Longrightarrow> case_feedback c ev = case_feedback c' ev"
  by (simp add: case_feedback_def overrides_feedback_def)

definition marked :: "gval \<Rightarrow> gval \<Rightarrow> gval" where
  "marked mark old = (case as_float mark of None \<Rightarrow> old | Some r \<Rightarrow> GBool (int_of_float r = 1))"

lemma override_feedback_spec:
  "override_feedback (Some c) [ev] =
     (case case_feedback (Some c) ev of
        None \<Rightarrow> Panic ''interface conversion: interface {} is not string''
      | Some fb \<Rightarrow> Ret (Some (if overrides_feedback (Some c) then fmupd ''feedback'' fb c else c)))"
  by (auto simp: override_feedback_def case_feedback_def overrides_feedback_def eq_bool_def
      gomap_simps split: option.splits)

lemma apply_match_spec:
  "\<exists>r'. apply_match m (Some r) = Ret (Some r') \<and>
     mget (Some r') ''feedback'' = mget m ''feedback'' \<and>
     mget (Some r') ''matched_case'' = mget m ''id'' \<and>
     mget (Some r') ''is_correct'' = marked (mget m ''mark'') (mget (Some r) ''is_correct'') \<and>
     (\<forall>k. k \<notin> {''feedback'', ''matched_case'', ''is_correct''} \<longrightarrow> mget (Some r') k = mget (Some r) k) \<and>
     fmdom' r \<subseteq> fmdom' r'"
  by (auto simp: apply_match_def apply_mark_def gomap_simps marked_def split: option.splits)

lemma apply_warnings_spec:
  "\<exists>r'. apply_warnings ws (Some r) = Ret (Some r') \<and>
     mget (Some r') ''warnings'' = (if ws = [] then mget (Some r) ''warnings'' else GWarnings ws) \<and>
     (\<forall>k. k \<noteq> ''warnings'' \<longrightarrow> mget (Some r') k = mget (Some r) k) \<and> fmdom' r \<subseteq> fmdom' r'"
  by (auto simp: apply_warnings_def gomap_simps)

section \<open>\<open>ProcessEval\<close>\<close>

text \<open>A result that is not an incorrect one, or a request without cases, is left alone.\<close>

lemma ProcessEval_idle:
  assumes "UnmarshalMap (req_Body req) = Inr reqBody"
    and "mget result ''is_correct'' \<noteq> GBool False \<or> request_cases req = []"
  shows "ProcessEval reqBody result req command h w = (Ret result, w)"
  using assms
  by (auto simp: ProcessEval_def eq_bool_def request_cases_def request_params_def Let_def
      split: option.splits)

lemma ProcessEval_active:
  assumes "UnmarshalMap (req_Body req) = Inr reqBody"
    and "mget result ''is_correct'' = GBool False" and "request_cases req \<noteq> []"
  shows "ProcessEval reqBody result req command h w =
    (case GetCaseFeedback (request_params req) (request_cases req) req command h w of
       (Panic p, w') \<Rightarrow> (Panic p, w')
     | (Ret (m, warnings), w') \<Rightarrow>
         (go_bind (apply_warnings warnings result) (\<lambda>r. if m = None then Ret r else apply_match m r), w'))"
  using assms
  by (auto simp: ProcessEval_def eq_bool_def request_cases_def request_params_def Let_def
      split: option.splits)

text \<open>The outcome with a match and without one.\<close>

lemma ProcessEval_no_match:
  fixes h :: "('s, 'w) RuntimeHandler" and w :: 'w
  assumes np: "no_panic h command" and body: "UnmarshalMap (req_Body req) = Inr (Some rb)"
    and objs: "list_all is_object (request_cases req)"
    and wrong: "mget result ''is_correct'' = GBool False" and some: "request_cases req \<noteq> []"
  defines "W \<equiv> case_world req command h (request_params req) (request_cases req) w"
    and "V \<equiv> case_verdict req command h (request_params req) (request_cases req) w"
  assumes none: "first_correct V [0..<length (request_cases req)] = None"
  shows "ProcessEval (Some rb) result req command h w =
    (apply_warnings (verdict_warnings V [0..<length (request_cases req)]) result,
     W (length (request_cases req)))"
  using FindFirstMatchingCase_spec [OF np body objs, of "request_params req" w] none
  by (cases "apply_warnings (verdict_warnings V [0..<length (request_cases req)]) result")
     (simp_all add: ProcessEval_active [OF body wrong some] GetCaseFeedback_def W_def V_def)

lemma ProcessEval_match:
  fixes h :: "('s, 'w) RuntimeHandler" and w :: 'w
  assumes np: "no_panic h command" and body: "UnmarshalMap (req_Body req) = Inr (Some rb)"
    and objs: "list_all is_object (request_cases req)"
    and wrong: "mget (Some r) ''is_correct'' = GBool False" and some: "request_cases req \<noteq> []"
  defines "W \<equiv> case_world req command h (request_params req) (request_cases req) w"
    and "V \<equiv> case_verdict req command h (request_params req) (request_cases req) w"
  assumes first: "first_correct V [0..<length (request_cases req)] = Some j"
    and fb: "case_feedback (case_map (request_cases req) j) (cr_Feedback (V j)) = Some fb"
  shows "\<exists>r'. ProcessEval (Some rb) (Some r) req command h w = (Ret (Some r'), W (Suc j)) \<and>
     mget (Some r') ''feedback'' = fb \<and>
     mget (Some r') ''matched_case'' = GInt (int j) \<and>
     mget (Some r') ''is_correct'' = marked (mget (case_map (request_cases req) j) ''mark'') (GBool False) \<and>
     mget (Some r') ''warnings'' =
       (let ws = verdict_warnings V [0..<Suc j] in if ws = [] then mget (Some r) ''warnings'' else GWarnings ws) \<and>
     (\<forall>k. k \<notin> {''feedback'', ''matched_case'', ''is_correct'', ''warnings''} \<longrightarrow>
          mget (Some r') k = mget (Some r) k) \<and> fmdom' r \<subseteq> fmdom' r'"
proof -
  let ?cs = "request_cases req" and ?ws = "verdict_warnings V [0..<Suc j]"
  have j: "j < length ?cs" and ok: "cr_IsCorrect (V j)"
    using first by (auto simp: first_correct_Some)
  obtain rj w1 where e: "eval_case req command h (request_params req) ?cs j (W j) = (Ret (rj, case_map ?cs j), w1)"
    using EvaluateCase_no_panic [OF np body] unfolding eval_case_def by blast
  then have "mhas (case_map ?cs j) ''answer''"
    using ok EvaluateCase_correct by (fastforce simp: V_def W_def case_verdict_def eval_case_def)
  then obtain c where c: "case_map ?cs j = Some c" by (blast dest: mhas_imp_Some)
  have obj: "as_map (?cs ! j) = Some (Some c)"
    using objs j c by (auto simp: list_all_length is_object_def case_map_def split: option.splits)
  let ?c = "fmupd ''id'' (GInt (int j)) c"
  have cf: "case_feedback (Some ?c) (cr_Feedback (V j)) = Some fb"
    using fb c case_feedback_cong [of "Some ?c" "Some c"] by (simp add: mget_fmupd)
  let ?m = "if overrides_feedback (Some ?c) then fmupd ''feedback'' fb ?c else ?c"
  have m: "mget (Some ?m) ''feedback'' = fb" "mget (Some ?m) ''id'' = GInt (int j)"
      "mget (Some ?m) ''mark'' = mget (Some c) ''mark''"
    using cf by (auto simp: gomap_simps case_feedback_def split: if_splits)
  have g: "GetCaseFeedback (request_params req) ?cs req command h w = (Ret (Some ?m, ?ws), W (Suc j))"
    using FindFirstMatchingCase_spec [OF np body objs, of "request_params req" w] first obj cf
    by (simp add: GetCaseFeedback_def W_def V_def gomap_simps override_feedback_spec del: upt_Suc)
  obtain r1 where r1: "apply_warnings ?ws (Some r) = Ret (Some r1)"
      "mget (Some r1) ''warnings'' = (if ?ws = [] then mget (Some r) ''warnings'' else GWarnings ?ws)"
      "\<forall>k. k \<noteq> ''warnings'' \<longrightarrow> mget (Some r1) k = mget (Some r) k" "fmdom' r \<subseteq> fmdom' r1"
    using apply_warnings_spec by blast
  obtain r2 where r2: "apply_match (Some ?m) (Some r1) = Ret (Some r2)"
      "mget (Some r2) ''feedback'' = fb" "mget (Some r2) ''matched_case'' = GInt (int j)"
      "mget (Some r2) ''is_correct'' = marked (mget (Some c) ''mark'') (mget (Some r1) ''is_correct'')"
      "\<forall>k. k \<notin> {''feedback'', ''matched_case'', ''is_correct''} \<longrightarrow> mget (Some r2) k = mget (Some r1) k"
      "fmdom' r1 \<subseteq> fmdom' r2"
    using apply_match_spec [of "Some ?m" r1] unfolding m by blast
  have "ProcessEval (Some rb) (Some r) req command h w = (Ret (Some r2), W (Suc j))"
    using r1(1) r2(1) g by (simp add: ProcessEval_active [OF body wrong some])
  then show ?thesis
    using r1 r2 wrong c by (auto simp: Let_def)
qed

end
