(* ===== verification/Handler_Properties.thy ===== *)
theory Handler_Properties
  imports Handler_Facts
begin

text \<open>
  The properties of the runtime handler, stated for \<open>Handle\<close>, with their witnesses on one concrete
  handler: the schemas of the repository, a validator that decides them, and an evaluation
  function that accepts an answer equal to the response and counts its calls.
\<close>

section \<open>Composing the handler\<close>

lemma Handle_after_send:
  assumes "req_Method req = ''POST''" and "getCommand req = Some p" and "ParseCommand p = Some command"
    and "SendCommand req command h w = (Ret (Inr resData), w1)"
  shows "Handle h req w =
    (case finish_handle req command h resData w1 of
       (Panic p, w') \<Rightarrow> (Panic p, w')
     | (Ret (Inl err), w') \<Rightarrow> (Ret (newErrorResponse err), w')
     | (Ret (Inr d), w') \<Rightarrow> (Ret (newResponse StatusOK d), w'))"
  using assms by (simp add: Handle_def handle_def)

lemma eval_command: "(CommandEvaluate = ''eval'') = True"
  by (simp add: CommandEvaluate_def)

text \<open>
  What a successful answer of the handler is made of: the response \<open>m\<close> of the evaluation
  function, valid against its schema, and the \<^verbatim>\<open>result\<close> object after \<open>ProcessEval\<close>.
\<close>

lemma finish_handle_cases:
  assumes "UnmarshalMap (req_Body req) = Inr rb"
  shows "finish_handle req command h (Doc (to_json (GMap m))) w =
    (case as_map (json_norm (mget m ''result'')) of
       None \<Rightarrow> (Ret (Inr empty_body), w)
     | Some result \<Rightarrow>
        (case (if command = ''eval'' then ProcessEval rb result req command h w else (Ret result, w)) of
           (Panic p, w') \<Rightarrow> (Panic p, w')
         | (Ret result', w') \<Rightarrow>
             (go_bind (mset (map_option (fmmap json_norm) m) ''result'' (GMap result'))
                (\<lambda>rb. Ret (Inr (Doc (to_json (GMap rb))))), w')))"
  using assms
  by (simp only: finish_handle_def decoded_map_encoded UnmarshalMap_encoded mget_norm Marshal_def
      sum.case)

lemma mget_GMap_Some: "mget m k = GMap r \<Longrightarrow> \<exists>f. m = Some f \<and> fmlookup f k = Some (GMap r)"
  by (auto simp: mget_def split: option.splits)

section \<open>Schemas on encoded maps\<close>

lemma encoded_members: "to_json (GMap (Some f)) = JObj (sorted_members (fmmap to_json f))"
  by simp

lemma accepts_Properties_encoded:
  "accepts (Properties ps) (to_json (GMap (Some f))) \<longleftrightarrow>
     (\<forall>(k, s) \<in> set ps. \<forall>v. fmlookup f k = Some v \<longrightarrow> accepts s (to_json v))"
proof -
  have "accepts_members ps (sorted_members (fmmap to_json f)) \<longleftrightarrow>
     (\<forall>(k, s) \<in> set ps. \<forall>v. fmlookup f k = Some v \<longrightarrow> accepts s (to_json v))"
    by (induction ps) (auto simp: obj_lookup_sorted_members split: option.splits)
  then show ?thesis unfolding encoded_members by simp
qed

lemma accepts_OnlyMembers_encoded:
  "accepts (OnlyMembers ks) (to_json (GMap (Some f))) \<longleftrightarrow> fmdom' f \<subseteq> set ks"
  unfolding encoded_members
  using fst_sorted_members [of "fmmap to_json f"] by (force simp: list_all_iff)

lemma accepts_Required_encoded:
  "accepts (Required ks) (to_json (GMap (Some f))) \<longleftrightarrow> set ks \<subseteq> fmdom' f"
  unfolding encoded_members
  using fst_sorted_members [of "fmmap to_json f"] by (auto simp: list_all_iff)

lemma accepts_TypeIn_encoded:
  "accepts (TypeIn ts) (to_json (GMap (Some f))) \<longleftrightarrow> TObject \<in> set ts"
  by simp

lemmas accepts_flat = accepts.simps(1,2,6,7,8) accepts_all.simps

declare accepts.simps [simp del]

lemma type_of_json_encoded: "type_of_json (to_json (GMap (Some f))) = TObject"
  by simp

lemmas accepts_encoded = type_of_json_encoded accepts_flat accepts_Properties_encoded accepts_OnlyMembers_encoded
  accepts_Required_encoded accepts_TypeIn_encoded

text \<open>The parts of \<^verbatim>\<open>response-eval.json\<close> on an encoded response.\<close>

definition result_schema :: jschema where
  "result_schema = AllOf
     [TypeIn [TObject],
      Properties [(''is_correct'', TypeIn [TBoolean]), (''feedback'', TypeIn [TObject, TArray, TString])],
      Required [''is_correct'']]"

lemma accepts_result_encoded:
  "accepts result_schema (to_json (GMap (Some r))) \<longleftrightarrow>
     (\<exists>b. fmlookup r ''is_correct'' = Some b \<and> type_of_json (to_json b) = TBoolean) \<and>
     (\<forall>v. fmlookup r ''feedback'' = Some v \<longrightarrow> type_of_json (to_json v) \<in> {TObject, TArray, TString})"
  by (auto simp: result_schema_def accepts_encoded fmlookup_dom'_iff simp del: to_json.simps)

lemma accepts_evalResponse_encoded:
  "accepts evalResponse (to_json (GMap (Some f))) \<longleftrightarrow>
     (\<forall>v. fmlookup f ''command'' = Some v \<longrightarrow> to_json v = JStr ''eval'') \<and>
     (\<forall>v. fmlookup f ''result'' = Some v \<longrightarrow> accepts result_schema (to_json v)) \<and>
     (\<forall>v. fmlookup f ''error'' = Some v \<longrightarrow> accepts errorMember (to_json v)) \<and>
     fmdom' f \<subseteq> {''command'', ''result'', ''error''} \<and>
     (if ''result'' \<in> fmdom' f then ''command'' \<in> fmdom' f else ''error'' \<in> fmdom' f)"
  by (simp add: evalResponse_def resultOrError_def result_schema_def [symmetric] accepts_encoded
      del: to_json.simps)

lemma to_json_bool: "type_of_json (to_json v) = TBoolean \<longleftrightarrow> (\<exists>b. v = GBool b)"
  by (cases v) (auto simp: warning_json_def split: option.splits)

lemma type_to_json_norm: "type_of_json (to_json (json_norm v)) = type_of_json (to_json v)"
  by (cases v) (auto simp: warning_val_def warning_json_def split: option.splits)

section \<open>The rewritten result\<close>

text \<open>A case the shim can use: an object, whose feedback is one a response may carry.\<close>

definition feedback_type :: "gval \<Rightarrow> bool" where
  "feedback_type v = (type_of_json (to_json v) \<in> {TObject, TArray, TString})"

definition usable_case :: "gval \<Rightarrow> bool" where
  "usable_case v = (case as_map v of None \<Rightarrow> False
     | Some c \<Rightarrow> mhas c ''feedback'' \<longrightarrow> feedback_type (mget c ''feedback''))"

lemma override_feedback_Some:
  assumes "override_feedback m fb = Ret m'" and "m = Some f"
  shows "\<exists>f'. m' = Some f' \<and> (mget m' ''feedback'' = mget m ''feedback'' \<or> (\<exists>s. mget m' ''feedback'' = GStr s))"
  using assms
  by (auto simp: override_feedback_def gomap_simps split: option.splits if_splits list.splits)

lemma GetCaseFeedback_feedback:
  assumes g: "GetCaseFeedback params cs req command h w = (Ret (m, ws), w')"
    and us: "list_all usable_case cs" and m: "m \<noteq> None"
  shows "feedback_type (mget m ''feedback'')"
proof -
  from g m obtain j ms fb ws' cs' c m1 where
      f: "FindFirstMatchingCase params cs req command h w = (Ret (j # ms, fb, ws', cs'), w')"
      and c: "as_map (cs' ! j) = Some c" and m1: "mset c ''id'' (GInt (int j)) = Ret m1"
      and o1: "override_feedback m1 fb = Ret m"
    by (auto simp: GetCaseFeedback_def go_bind_Ret_iff split: prod.splits go.splits list.splits option.splits)
  have objs: "list_all is_object cs"
    using us by (auto simp: usable_case_def is_object_def list_all_iff split: option.splits)
  note f' = f [unfolded FindFirstMatchingCase_def]
  from find_loop_hit [OF f'] have j: "j < length cs" and hit: "mhas (case_map cs' j) ''feedback''" by auto
  have keep: "mget (case_map cs' j) ''feedback'' = mget (case_map cs j) ''feedback''"
      "mhas (case_map cs j) ''feedback''"
    and obj: "is_object (cs ! j)"
    using find_loop_cases [OF f' _ objs, of "''feedback''"] objs j hit by (auto simp: list_all_length)
  have cj: "case_map cs' j = c" using c by (simp add: case_map_def)
  obtain fc where fc: "c = Some fc" and m1': "m1 = Some (fmupd ''id'' (GInt (int j)) fc)"
    using m1 by (auto simp: mset_Ret_iff)
  have "usable_case (cs ! j)" using us j by (simp add: list_all_length)
  then have "feedback_type (mget c ''feedback'')"
    using keep cj obj by (auto simp: usable_case_def case_map_def split: option.splits)
  moreover have "mget m1 ''feedback'' = mget c ''feedback''" using fc m1' by (simp add: mget_fmupd)
  ultimately show ?thesis
    using override_feedback_Some [OF o1 m1'] by (auto simp: feedback_type_def)
qed

lemma apply_warnings_Ret:
  "apply_warnings ws (Some r) = Ret x \<Longrightarrow>
     \<exists>r1. x = Some r1 \<and> fmdom' r \<subseteq> fmdom' r1 \<and>
       (\<forall>k. k \<noteq> ''warnings'' \<longrightarrow> mget (Some r1) k = mget (Some r) k \<and> mhas (Some r1) k = mhas (Some r) k)"
  by (auto simp: apply_warnings_def gomap_simps split: if_splits)

text \<open>
  What \<open>ProcessEval\<close> does to a result: it stays a non-nil map with at least its members,
  \<^verbatim>\<open>is_correct\<close> is unchanged or a boolean, \<^verbatim>\<open>feedback\<close> unchanged or one a response may carry.
\<close>

lemma ProcessEval_result:
  assumes body: "UnmarshalMap (req_Body req) = Inr rb"
    and us: "list_all usable_case (request_cases req)"
    and p: "ProcessEval rb (Some r) req command h w = (Ret r', w')"
  shows "\<exists>f'. r' = Some f' \<and> fmdom' r \<subseteq> fmdom' f' \<and>
     (mget r' ''is_correct'' = mget (Some r) ''is_correct'' \<or> (\<exists>b. mget r' ''is_correct'' = GBool b)) \<and>
     ((mget r' ''feedback'' = mget (Some r) ''feedback'' \<and> mhas r' ''feedback'' = mhas (Some r) ''feedback'') \<or>
      feedback_type (mget r' ''feedback''))"
proof (cases "mget (Some r) ''is_correct'' \<noteq> GBool False \<or> request_cases req = []")
  case True
  with p ProcessEval_idle [OF body True, of command h w] show ?thesis by auto
next
  case False
  then have wrong: "mget (Some r) ''is_correct'' = GBool False" and some: "request_cases req \<noteq> []"
    by auto
  from p obtain m ws x where
      g: "GetCaseFeedback (request_params req) (request_cases req) req command h w = (Ret (m, ws), w')"
      and x: "apply_warnings ws (Some r) = Ret x"
      and r': "(if m = None then Ret x else apply_match m x) = Ret r'"
    unfolding ProcessEval_active [OF body wrong some]
    by (auto simp: go_bind_Ret_iff split: prod.splits go.splits)
  obtain r1 where r1: "x = Some r1" "fmdom' r \<subseteq> fmdom' r1"
      "\<forall>k. k \<noteq> ''warnings'' \<longrightarrow> mget (Some r1) k = mget (Some r) k \<and> mhas (Some r1) k = mhas (Some r) k"
    using apply_warnings_Ret [OF x] by auto
  show ?thesis
  proof (cases "m = None")
    case True
    with r' r1 show ?thesis by auto
  next
    case False
    have t: "feedback_type (mget m ''feedback'')"
      by (rule GetCaseFeedback_feedback [OF g us False])
    from apply_match_spec [of m r1] r' r1 False t show ?thesis
      by (auto simp: marked_def split: option.splits)
  qed
qed

section \<open>A concrete handler for the witnesses\<close>

text \<open>
  The evaluation function accepts an answer equal to the response; its world counts the calls.
  It answers \<^verbatim>\<open>preview\<close> and \<^verbatim>\<open>healthcheck\<close> too, fails on the answer \<^verbatim>\<open>"fail"\<close>, and reports an
  error object for the answer \<^verbatim>\<open>"error"\<close>.
\<close>

definition sample_eval :: "gomap \<Rightarrow> gomap" where
  "sample_eval data =
     (if mget data ''answer'' = GStr ''error''
      then mlit [(''error'', GMap (mlit [(''message'', GStr ''Something went wrong'')]))]
      else mlit [(''command'', GStr ''eval''),
                 (''result'', GMap (mlit
                    [(''is_correct'', GBool (mget data ''answer'' = mget data ''response'')),
                     (''feedback'', GStr ''seen'')]))])"

definition sample_runtime :: "nat runtime" where
  "sample_runtime msg n =
     (Ret (if mget (er_Data msg) ''answer'' = GStr ''fail'' then Inl (ErrorString ''evaluation failed'')
           else if er_Command msg = ''eval'' then Inr (sample_eval (er_Data msg))
           else if er_Command msg = ''preview''
           then Inr (mlit [(''command'', GStr ''preview''),
                           (''result'', GMap (mlit [(''preview'', GMap (mlit []))]))])
           else Inr (mlit [(''command'', GStr ''healthcheck''),
                           (''result'', GMap (mlit [(''tests_passed'', GBool True),
                              (''successes'', GArr []), (''failures'', GArr []), (''errors'', GArr [])]))])),
      Suc n)"

definition sample_handler :: "(jschema, nat) RuntimeHandler" where
  "sample_handler =
     \<lparr> rh_runtime = sample_runtime,
       rh_schemas = [validationTypeRequest \<mapsto>
                       schema_new (Some evalRequest) (Some previewRequest) None,
                     validationTypeResponse \<mapsto>
                       schema_new (Some evalResponse) (Some previewResponse) (Some healthResponse)],
       rh_validator = plain_validator \<rparr>"

lemma sample_handler_new:
  "NewRuntimeHandler plain_compile plain_validator sample_runtime = Inr sample_handler"
  by (simp add: NewRuntimeHandler_def NewRequestSchema_def NewResponseSchema_def plain_compile_def
      sample_handler_def)

lemma sample_runtime_returns: "returns (fst (sample_runtime msg n))"
  by (simp add: sample_runtime_def)

definition sample_request :: "string \<Rightarrow> json \<Rightarrow> Request" where
  "sample_request answer cs =
     \<lparr> req_Path = ''/'', req_Method = ''POST'',
       req_Body = Doc (JObj [(''response'', JStr ''yes''), (''answer'', JStr answer),
                             (''params'', JObj [(''cases'', cs)])]),
       req_Header = fmempty \<rparr>"

definition sample_cases :: json where
  "sample_cases = JArr
     [JObj [(''feedback'', JStr ''no answer'')],
      JObj [(''answer'', JStr ''x''), (''feedback'', JStr ''A'')],
      JObj [(''answer'', JStr ''yes''), (''feedback'', JStr ''B''), (''mark'', JNum 1)],
      JObj [(''answer'', JStr ''yes''), (''feedback'', JStr ''C'')]]"

section \<open>Properties\<close>

text \<open>
  C1: an evaluation that comes back incorrect is matched against the cases of the request.
  When nothing panics, the case used is the first one, in order, that the evaluation function
  accepts: the result then carries its feedback, its number, the mark it sets (any mark other
  than 1 makes the answer incorrect) and the warnings of the cases visited; every other member
  of the result is unchanged.  No case after the matching one is evaluated: the world is the
  one the evaluations up to it leave.
\<close>

theorem handle_first_matching_case:
  fixes h :: "('s, 'w) RuntimeHandler" and w :: 'w
  assumes "NewRuntimeHandler compile gjs rt = Inr h" and "\<And>msg w. returns (fst (rt msg w))"
    and "req_Method req = ''POST''" and "getCommand req = Some p" and "ParseCommand p = Some CommandEvaluate"
    and "SendCommand req CommandEvaluate h w = (Ret (Inr (Doc (to_json (GMap (Some f))))), w1)"
    and "fmlookup f ''result'' = Some (GMap (Some r))" and "mget (Some r) ''is_correct'' = GBool False"
    and "request_cases req \<noteq> []" and "list_all is_object (request_cases req)"
    and "first_correct (case_verdict req CommandEvaluate h (request_params req) (request_cases req) w1)
           [0..<length (request_cases req)] = Some j"
    and "case_feedback (case_map (request_cases req) j)
           (cr_Feedback (case_verdict req CommandEvaluate h (request_params req) (request_cases req) w1 j))
         = Some fb"
  shows "\<exists>r'. Handle h req w =
      (Ret (newResponse 200 (Doc (to_json (GMap (Some (fmupd ''result'' (GMap (Some r')) (fmmap json_norm f))))))),
       case_world req CommandEvaluate h (request_params req) (request_cases req) w1 (Suc j)) \<and>
     mget (Some r') ''feedback'' = fb \<and>
     mget (Some r') ''matched_case'' = GInt (int j) \<and>
     mget (Some r') ''is_correct'' = marked (mget (case_map (request_cases req) j) ''mark'') (GBool False) \<and>
     mget (Some r') ''warnings'' =
       (let ws = verdict_warnings
                   (case_verdict req CommandEvaluate h (request_params req) (request_cases req) w1) [0..<Suc j]
        in if ws = [] then json_norm (mget (Some r) ''warnings'') else GWarnings ws) \<and>
     (\<forall>k. k \<notin> {''feedback'', ''matched_case'', ''is_correct'', ''warnings''} \<longrightarrow>
          mget (Some r') k = json_norm (mget (Some r) k))"
proof -
  let ?r = "fmmap json_norm r"
  obtain rb where body: "UnmarshalMap (req_Body req) = Inr (Some rb)"
    using request_cases_body [OF assms(9)] by blast
  have np: "no_panic h CommandEvaluate" by (rule no_panic_handler [OF assms(1,5,2)])
  have norm: "mget (Some ?r) k = json_norm (mget (Some r) k)" for k
    using mget_norm [of "Some r" k] by simp
  have wrong: "mget (Some ?r) ''is_correct'' = GBool False" using norm assms(8) by simp
  from ProcessEval_match [OF np body assms(10) wrong assms(9,11,12)] obtain r' where
      p: "ProcessEval (Some rb) (Some ?r) req CommandEvaluate h w1 = (Ret (Some r'),
           case_world req CommandEvaluate h (request_params req) (request_cases req) w1 (Suc j))"
      and r': "mget (Some r') ''feedback'' = fb" "mget (Some r') ''matched_case'' = GInt (int j)"
        "mget (Some r') ''is_correct'' = marked (mget (case_map (request_cases req) j) ''mark'') (GBool False)"
        "mget (Some r') ''warnings'' =
          (let ws = verdict_warnings
                   (case_verdict req CommandEvaluate h (request_params req) (request_cases req) w1) [0..<Suc j]
           in if ws = [] then mget (Some ?r) ''warnings'' else GWarnings ws)"
        "\<forall>k. k \<notin> {''feedback'', ''matched_case'', ''is_correct'', ''warnings''} \<longrightarrow>
          mget (Some r') k = mget (Some ?r) k"
    by blast
  have res: "json_norm (mget (Some f) ''result'') = GMap (Some ?r)"
    using assms(7) by (simp add: gomap_simps)
  have "Handle h req w = (Ret (newResponse 200
      (Doc (to_json (GMap (Some (fmupd ''result'' (GMap (Some r')) (fmmap json_norm f))))))),
      case_world req CommandEvaluate h (request_params req) (request_cases req) w1 (Suc j))"
    unfolding Handle_after_send [OF assms(3-6)] finish_handle_cases [OF body] res
    by (simp only: as_map.simps option.case p eval_command if_True prod.case go.case option.map
        mset_Some go_bind.simps sum.case StatusOK_def)
  with r' [unfolded norm] show ?thesis by (intro exI [of _ r'] conjI)
qed

theorem handle_first_matching_case_witness:
  "\<exists>b r'. Handle sample_handler (sample_request ''no'' sample_cases) 0 = (Ret (newResponse 200 b), 3) \<and>
     mget (Some r') ''feedback'' = GStr ''B'' \<and> mget (Some r') ''matched_case'' = GInt 2 \<and>
     mget (Some r') ''is_correct'' = GBool True"
proof -
  let ?req = "sample_request ''no'' sample_cases"
  let ?r = "fmap_of_list [(''feedback'', GStr ''seen''), (''is_correct'', GBool False)]"
  let ?f = "fmap_of_list [(''result'', GMap (Some ?r)), (''command'', GStr ''eval'')]"
  let ?V = "case_verdict ?req CommandEvaluate sample_handler (request_params ?req) (request_cases ?req) 1"
  have s: "SendCommand ?req CommandEvaluate sample_handler 0 = (Ret (Inr (Doc (to_json (GMap (Some ?f))))), 1)"
    and m: "req_Method ?req = ''POST''" "getCommand ?req = Some ''eval''"
      "ParseCommand ''eval'' = Some CommandEvaluate"
    and f: "fmlookup ?f ''result'' = Some (GMap (Some ?r))"
    and r: "mget (Some ?r) ''is_correct'' = GBool False"
    and objs: "list_all is_object (request_cases ?req)" "length (request_cases ?req) = 4"
    and j: "first_correct ?V [0..<length (request_cases ?req)] = Some 2"
    and fb: "case_feedback (case_map (request_cases ?req) 2) (cr_Feedback (?V 2)) = Some (GStr ''B'')"
    and w: "case_world ?req CommandEvaluate sample_handler (request_params ?req) (request_cases ?req) 1 (Suc 2) = 3"
    and mk: "marked (mget (case_map (request_cases ?req) 2) ''mark'') (GBool False) = GBool True"
    by code_simp+
  have "request_cases ?req \<noteq> []" using objs(2) by auto
  from handle_first_matching_case [OF sample_handler_new sample_runtime_returns m s f r this objs(1) j fb]
  show ?thesis unfolding w mk by (metis of_nat_numeral)
qed

end
