(* ===== verification/Handler_Contract.thy ===== *)
theory Handler_Contract
  imports Handler_Properties
begin

text \<open>
  What a caller of the runtime handler can rely on: how often the evaluation function is called,
  which requests never reach it, which answers pass through unchanged, and that a successful
  answer to an evaluation keeps to the response schema of the repository.
\<close>

section \<open>Calls of the evaluation function\<close>

lemma finish_handle_measure:
  fixes cnt :: "'w \<Rightarrow> nat"
  assumes step: "\<And>msg w. cnt (snd (rh_runtime h msg w)) \<le> Suc (cnt w)"
  shows "cnt (snd (finish_handle req command h b w)) \<le> cnt w + length (request_cases req)"
proof (cases "UnmarshalMap (req_Body req)")
  case (Inr rb)
  have pe: "cnt (snd (ProcessEval rb r req command h w)) \<le> cnt w + length (request_cases req)" for r
  proof (cases "mget r ''is_correct'' \<noteq> GBool False \<or> request_cases req = []")
    case True
    then show ?thesis by (simp add: ProcessEval_idle [OF Inr])
  next
    case False
    obtain o' w' where f: "FindFirstMatchingCase (request_params req) (request_cases req) req command h w = (o', w')"
      by fastforce
    have "cnt w' \<le> cnt w + length (request_cases req)"
      using find_loop_measure [OF step] f unfolding FindFirstMatchingCase_def by (metis snd_conv)
    moreover have "snd (GetCaseFeedback (request_params req) (request_cases req) req command h w) = w'"
      using f by (auto simp: GetCaseFeedback_def split: go.splits list.splits option.splits)
    ultimately show ?thesis
      using False by (auto simp: ProcessEval_active [OF Inr] split: prod.splits go.splits)
  qed
  then show ?thesis
    using Inr by (fastforce simp: finish_handle_def split: option.splits prod.splits go.splits dest: arg_cong [where f = snd])
qed (simp add: finish_handle_def)

text \<open>
  C22: a request makes at most one call of the runtime for itself and one for each feedback case
  it carries, on every path, panics and errors included: any measure of the world that a call
  raises by at most one is raised by at most that many.
\<close>

theorem handle_calls_bounded:
  fixes cnt :: "'w \<Rightarrow> nat"
  assumes "NewRuntimeHandler compile gjs rt = Inr h" and "\<And>msg w. cnt (snd (rt msg w)) \<le> Suc (cnt w)"
  shows "cnt (snd (Handle h req w)) \<le> cnt w + Suc (length (request_cases req))"
proof -
  have step: "cnt (snd (rh_runtime h msg w)) \<le> Suc (cnt w)" for msg w
    using assms NewRuntimeHandler_fields(1) [OF assms(1)] by simp
  have send: "cnt (snd (SendCommand req c h w)) \<le> Suc (cnt w)" for c
    using SendCommand_world [of req c h w] step by (metis le_SucI order_refl)
  have fin: "cnt (snd (finish_handle req c h b w1)) \<le> cnt w + Suc (length (request_cases req))"
    if "SendCommand req c h w = (Ret (Inr b), w1)" for c b w1
    using finish_handle_measure [OF step, of req c b w1] send [of c] that by simp
  have "cnt (snd (handle h req w)) \<le> cnt w + Suc (length (request_cases req))"
  proof (cases "req_Method req = ''POST'' \<and> getCommand req \<noteq> None \<and> ParseCommand (the (getCommand req)) \<noteq> None")
    case True
    then obtain p c where "req_Method req = ''POST''" "getCommand req = Some p" "ParseCommand p = Some c" by auto
    then show ?thesis
      using send [of c] fin [of c] by (auto simp: handle_def split: prod.splits go.splits sum.splits)
  qed (auto simp: handle_def split: option.splits)
  then show ?thesis by (auto simp: Handle_def split: prod.splits go.splits sum.splits)
qed

theorem handle_calls_bounded_witness:
  "snd (Handle sample_handler (sample_request ''no'' sample_cases) 0) \<le> 5"
proof -
  have l: "length (request_cases (sample_request ''no'' sample_cases)) = 4" by code_simp
  have "id (snd (Handle sample_handler (sample_request ''no'' sample_cases) 0)) \<le>
      id 0 + Suc (length (request_cases (sample_request ''no'' sample_cases)))"
    by (rule handle_calls_bounded [OF sample_handler_new]) (simp add: sample_runtime_def)
  then show ?thesis unfolding l by simp
qed

section \<open>Conformance to the response schema\<close>

lemma accepts_errorMember_encoded:
  "accepts errorMember (to_json (GMap (Some r))) \<longleftrightarrow>
     (\<exists>v. fmlookup r ''message'' = Some v \<and> type_of_json (to_json v) = TString) \<and>
     (\<forall>v. fmlookup r ''error_thrown'' = Some v \<longrightarrow> type_of_json (to_json v) \<in> {TObject, TString})"
  by (auto simp: errorMember_def accepts_encoded fmlookup_dom'_iff simp del: to_json.simps)

lemma accepts_errorMember_type: "accepts errorMember j \<Longrightarrow> type_of_json j = TObject"
  by (simp add: errorMember_def accepts_flat accepts.simps)

lemma accepts_errorMember_norm:
  assumes "accepts errorMember (to_json v)"
  shows "accepts errorMember (to_json (json_norm v))"
proof (cases v)
  case (GMap m)
  then obtain f where m: "m = Some f" using accepts_errorMember_type [OF assms] by (cases m) auto
  have "json_norm v = GMap (Some (fmmap json_norm f))" using GMap m by simp
  with assms GMap m show ?thesis
    by (auto simp: accepts_errorMember_encoded type_to_json_norm simp del: to_json.simps)
next
  case (GWarning w)
  then have "json_norm v = GMap (Some (fmap_of_list
      [(''case'', GFloat (of_int (cw_Case w))), (''message'', GStr (cw_Message w))]))"
    by (simp add: warning_val_def warning_json_def)
  then show ?thesis by (simp only: accepts_errorMember_encoded) simp
qed (use accepts_errorMember_type [OF assms] in simp_all)

lemma accepts_result_object:
  assumes "accepts result_schema (to_json v)"
  shows "\<exists>r. v = GMap (Some r)"
proof -
  have "type_of_json (to_json v) = TObject" "accepts (Required [''is_correct'']) (to_json v)"
    using assms by (simp_all add: result_schema_def accepts.simps)
  then show ?thesis
    by (cases v) (auto simp: warning_json_def accepts.simps split: option.splits)
qed

lemma accepts_evalResponse_rewrite:
  assumes acc: "accepts evalResponse (to_json (GMap (Some f)))"
    and r: "fmlookup f ''result'' = Some (GMap (Some r))"
    and dom: "fmdom' r \<subseteq> fmdom' r'"
    and ic: "mget (Some r') ''is_correct'' = json_norm (mget (Some r) ''is_correct'') \<or>
             (\<exists>b. mget (Some r') ''is_correct'' = GBool b)"
    and fb: "(mget (Some r') ''feedback'' = json_norm (mget (Some r) ''feedback'') \<and>
              mhas (Some r') ''feedback'' = mhas (Some r) ''feedback'') \<or>
             feedback_type (mget (Some r') ''feedback'')"
  shows "accepts evalResponse (to_json (GMap (Some (fmupd ''result'' (GMap (Some r')) (fmmap json_norm f)))))"
proof -
  have acc_r: "accepts result_schema (to_json (GMap (Some r)))"
    using acc r by (simp add: accepts_evalResponse_encoded del: to_json.simps)
  then obtain b where b: "fmlookup r ''is_correct'' = Some b" "type_of_json (to_json b) = TBoolean"
    unfolding accepts_result_encoded by blast
  obtain b' where b': "fmlookup r' ''is_correct'' = Some b'"
    using b dom by (metis fmlookup_dom'_iff subsetD)
  have tb': "type_of_json (to_json b') = TBoolean"
    using ic b b' by (auto simp: mget_Some type_to_json_norm to_json_bool)
  have fb': "type_of_json (to_json v) \<in> {TObject, TArray, TString}" if v: "fmlookup r' ''feedback'' = Some v" for v
    using fb v acc_r unfolding accepts_result_encoded
    by (auto simp: mget_Some mhas_Some feedback_type_def type_to_json_norm)
  have "accepts result_schema (to_json (GMap (Some r')))"
    unfolding accepts_result_encoded using b' tb' fb' by blast
  moreover have "to_json (json_norm v) = JStr ''eval''" if "to_json v = JStr ''eval''" for v
    using that by (cases v) (auto simp: warning_json_def split: option.splits)
  ultimately show ?thesis
    using acc r accepts_errorMember_norm unfolding accepts_evalResponse_encoded
    by (auto simp: fmlookup_dom'_iff split: if_splits simp del: to_json.simps)
qed

lemma Handle_200_sent:
  assumes "Handle h req w = (Ret res, w')" and "res_StatusCode res = 200"
    and "getCommand req = Some p" and "ParseCommand p = Some c"
  shows "req_Method req = ''POST'' \<and> (\<exists>b w1. SendCommand req c h w = (Ret (Inr b), w1))"
proof -
  have err: "res_StatusCode (newErrorResponse e) \<noteq> 200" for e
    using getErrorStatusCode_range [of e] by (auto simp: newErrorResponse_def)
  have post: "req_Method req = ''POST''"
    using assms(1,2) by (auto simp: Handle_def handle_def newErrorResponse_def split: if_splits)
  show ?thesis
  proof (cases "SendCommand req c h w")
    case (Pair o1 w1)
    show ?thesis
      using assms Pair post err
      by (cases o1; cases "projr (case o1 of Ret x \<Rightarrow> x)") (auto simp: Handle_def handle_def split: sum.splits)
  qed
qed

lemma ProcessEval_conforms:
  assumes body: "UnmarshalMap (req_Body req) = Inr reqData" and usable: "list_all usable_case (request_cases req)"
    and acc: "accepts evalResponse (to_json (GMap (Some f)))" and r: "fmlookup f ''result'' = Some (GMap (Some r))"
    and pe: "ProcessEval reqData (Some (fmmap json_norm r)) req CommandEvaluate h w1 = (Ret r', w')"
  shows "accepts evalResponse (to_json (GMap (Some (fmupd ''result'' (GMap r') (fmmap json_norm f)))))"
proof -
  obtain f' where f': "r' = Some f'" "fmdom' r \<subseteq> fmdom' f'"
    "mget r' ''is_correct'' = mget (Some (fmmap json_norm r)) ''is_correct'' \<or> (\<exists>b. mget r' ''is_correct'' = GBool b)"
    "(mget r' ''feedback'' = mget (Some (fmmap json_norm r)) ''feedback'' \<and>
      mhas r' ''feedback'' = mhas (Some (fmmap json_norm r)) ''feedback'') \<or>
     feedback_type (mget r' ''feedback'')"
    using ProcessEval_result [OF body usable pe] by (auto simp: fmdom'_map)
  have norm: "mget (Some (fmmap json_norm r)) k = json_norm (mget (Some r) k)"
    "mhas (Some (fmmap json_norm r)) k = mhas (Some r) k" for k
    using mget_norm [of "Some r" k] by (simp_all add: mhas_Some)
  show ?thesis
    unfolding f'(1) by (rule accepts_evalResponse_rewrite [OF acc r f'(2)])
      (use f'(3,4) in \<open>simp_all add: f'(1) norm\<close>)
qed



section \<open>Rejection and pass-through\<close>

text \<open>
  C23: a request with a method other than POST is answered 405, an unknown command 400, a body
  that does not decode 500 (a health check without a body too), and a body outside the schema of
  its command 422 (400 where the validator itself fails); none of them reaches the evaluation
  function: the world is unchanged.
\<close>

theorem handle_rejects_before_runtime:
  fixes h :: "('s, 'w) RuntimeHandler"
  assumes "NewRuntimeHandler compile gjs rt = Inr h" and "validator_conforms compile gjs"
  shows "(req_Method req \<noteq> ''POST'' \<longrightarrow> Handle h req w = (Ret (newErrorResponse errInvalidMethod), w) \<and>
            res_StatusCode (newErrorResponse errInvalidMethod) = 405) \<and>
         (req_Method req = ''POST'' \<and> getCommand req = Some p \<and> ParseCommand p = None \<longrightarrow>
            Handle h req w = (Ret (newErrorResponse errInvalidCommand), w) \<and>
            res_StatusCode (newErrorResponse errInvalidCommand) = 400) \<and>
         (req_Method req = ''POST'' \<and> getCommand req = Some p \<and> ParseCommand p = Some c \<and>
          UnmarshalMap (req_Body req) = Inl e \<longrightarrow>
            Handle h req w = (Ret (newErrorResponse (ErrorString e)), w) \<and>
            res_StatusCode (newErrorResponse (ErrorString e)) = 500) \<and>
         (req_Method req = ''POST'' \<and> getCommand req = Some p \<and> ParseCommand p = Some c \<and>
          UnmarshalMap (req_Body req) = Inr data \<and> getSchemaType c = Inr st \<and>
          schema_doc validationTypeRequest st = Some doc \<and> \<not> accepts doc (to_json (GMap data)) \<longrightarrow>
            (\<exists>err. Handle h req w = (Ret (newErrorResponse err), w) \<and>
                   res_StatusCode (newErrorResponse err) \<in> {400, 422}))"
proof (intro conjI impI)
  assume a: "req_Method req = ''POST'' \<and> getCommand req = Some p \<and> ParseCommand p = Some c \<and>
          UnmarshalMap (req_Body req) = Inr data \<and> getSchemaType c = Inr st \<and>
          schema_doc validationTypeRequest st = Some doc \<and> \<not> accepts doc (to_json (GMap data))"
  then have st: "getSchemaType c = Inr st" and doc: "schema_doc validationTypeRequest st = Some doc" by auto
  have "validate h validationTypeRequest c data \<noteq> Ret None"
    using validate_ok_accepts [OF assms st doc] a by blast
  then obtain err where v: "validate h validationTypeRequest c data = Ret (Some err)"
    and err: "res_StatusCode (newErrorResponse err) \<in> {400, 422}"
    unfolding validate_handler [OF assms(1) st doc]
    by (auto simp: newErrorResponse_def split: sum.splits if_splits)
  then show "\<exists>err. Handle h req w = (Ret (newErrorResponse err), w) \<and> res_StatusCode (newErrorResponse err) \<in> {400, 422}"
    using a by (auto simp: Handle_def handle_def SendCommand_def)
qed (auto simp: Handle_def handle_def SendCommand_def newErrorResponse_def)

theorem handle_rejects_before_runtime_witness:
  "Handle sample_handler ((sample_request ''no'' JNull)\<lparr> req_Method := ''GET'' \<rparr>) 0
     = (Ret (newErrorResponse errInvalidMethod), 0) \<and>
   (\<exists>err. Handle sample_handler ((sample_request ''no'' JNull)\<lparr> req_Body := Doc (JObj []) \<rparr>) 0
        = (Ret (newErrorResponse err), 0) \<and> res_StatusCode (newErrorResponse err) \<in> {400, 422})"
proof -
  let ?get = "(sample_request ''no'' JNull)\<lparr> req_Method := ''GET'' \<rparr>"
  let ?bad = "(sample_request ''no'' JNull)\<lparr> req_Body := Doc (JObj []) \<rparr>"
  have m: "req_Method ?get \<noteq> ''POST''" and c: "getCommand ?bad = Some ''eval''"
    and b: "req_Method ?bad = ''POST''" "ParseCommand ''eval'' = Some CommandEvaluate"
      "UnmarshalMap (req_Body ?bad) = Inr (Some fmempty)"
      "getSchemaType CommandEvaluate = Inr SchemaTypeEval"
      "schema_doc validationTypeRequest SchemaTypeEval = Some evalRequest"
      "\<not> accepts evalRequest (to_json (GMap (Some fmempty)))"
    by code_simp+
  note rejects = handle_rejects_before_runtime [OF sample_handler_new plain_conforms]
  from rejects [of ?get 0 "''eval''" CommandEvaluate] m rejects [of ?bad 0 "''eval''" CommandEvaluate] b c
  show ?thesis by blast
qed

lemma Handle_idle:
  fixes h :: "('s, 'w) RuntimeHandler"
  assumes "req_Method req = ''POST''" and "getCommand req = Some p" and "ParseCommand p = Some c"
    and "SendCommand req c h w = (Ret (Inr (Doc (to_json (GMap (Some f))))), w1)"
    and "fmlookup f ''result'' = Some (GMap (Some r))"
    and "c \<noteq> CommandEvaluate \<or> mget (Some r) ''is_correct'' \<noteq> GBool False \<or> request_cases req = []"
  shows "Handle h req w = (Ret (newResponse 200 (Doc (to_json (json_norm (GMap (Some f)))))), w1)"
proof -
  obtain rb where body: "UnmarshalMap (req_Body req) = Inr rb" using SendCommand_ok [OF assms(4)] by blast
  let ?r = "fmmap json_norm r"
  have res: "as_map (json_norm (mget (Some f) ''result'')) = Some (Some ?r)"
    using assms(5) by (simp add: mget_Some)
  have keep: "fmupd ''result'' (GMap (Some ?r)) (fmmap json_norm f) = fmmap json_norm f"
    using assms(5) by (intro fmap_ext) auto
  have idle: "ProcessEval rb (Some ?r) req c h w1 = (Ret (Some ?r), w1)" if "c = ''eval''"
  proof (rule ProcessEval_idle [OF body])
    have "json_norm v = GBool False \<longleftrightarrow> v = GBool False" for v
      by (cases v) (auto simp: warning_val_def warning_json_def split: option.splits)
    then show "mget (Some ?r) ''is_correct'' \<noteq> GBool False \<or> request_cases req = []"
      using assms(6) that mget_norm [of "Some r" "''is_correct''"] by (auto simp: CommandEvaluate_def)
  qed
  show ?thesis
    unfolding Handle_after_send [OF assms(1-4)] finish_handle_cases [OF body] res
    by (cases "c = ''eval''") (use idle in \<open>simp_all add: mset_Some keep StatusOK_def del: to_json.simps\<close>)
qed



lemma Handle_no_result:
  fixes h :: "('s, 'w) RuntimeHandler"
  assumes "req_Method req = ''POST''" and "getCommand req = Some p" and "ParseCommand p = Some c"
    and "SendCommand req c h w = (Ret (Inr (Doc (to_json (GMap m)))), w1)"
    and "\<not> mhas m ''result''"
  shows "Handle h req w = (Ret (newResponse 200 empty_body), w1)"
proof -
  obtain rb where body: "UnmarshalMap (req_Body req) = Inr rb" using SendCommand_ok [OF assms(4)] by blast
  have "mget m ''result'' = GNil" using assms(5) by (cases m) (auto simp: mget_def mhas_def)
  then show ?thesis
    unfolding Handle_after_send [OF assms(1-4)] finish_handle_cases [OF body]
    by (simp add: StatusOK_def)
qed

text \<open>
  C29: a response of the evaluation function that has no \<^verbatim>\<open>result\<close> (the schema then makes it
  an \<^verbatim>\<open>error\<close>) is answered with status 200 and no body: the error does not reach the client.
\<close>

theorem handle_error_answer_lost:
  fixes h :: "('s, 'w) RuntimeHandler"
  assumes "req_Method req = ''POST''" and "getCommand req = Some p" and "ParseCommand p = Some c"
    and "SendCommand req c h w = (Ret (Inr (Doc (to_json (GMap m)))), w1)"
    and "\<not> mhas m ''result''"
  shows "Handle h req w = (Ret (newResponse 200 empty_body), w1)"
  by (rule Handle_no_result [OF assms])

theorem handle_error_answer_lost_witness:
  "Handle sample_handler (sample_request ''error'' JNull) 0 = (Ret (newResponse 200 empty_body), 1)"
proof -
  let ?req = "sample_request ''error'' JNull"
  let ?m = "Some (fmap_of_list [(''error'', GMap (Some (fmap_of_list [(''message'', GStr ''Something went wrong'')])))])"
  have s: "SendCommand ?req CommandEvaluate sample_handler 0 = (Ret (Inr (Doc (to_json (GMap ?m)))), 1)"
    and m: "req_Method ?req = ''POST''" "getCommand ?req = Some ''eval''"
      "ParseCommand ''eval'' = Some CommandEvaluate"
    and r: "\<not> mhas ?m ''result''"
    by code_simp+
  from handle_error_answer_lost [OF m s r] show ?thesis .
qed

section \<open>Panics\<close>

text \<open>A case on which the shim's own type assertions succeed.\<close>

definition safe_case :: "gval \<Rightarrow> bool" where
  "safe_case v = (case as_map v of None \<Rightarrow> False
     | Some c \<Rightarrow> overrides_feedback c \<longrightarrow> as_string (mget c ''feedback'') \<noteq> None)"

lemma case_feedback_safe:
  assumes "safe_case (cs ! j)"
  shows "\<exists>fb. case_feedback (case_map cs j) ev = Some fb"
  using assms by (auto simp: safe_case_def case_feedback_def case_map_def split: option.splits)

lemma ProcessEval_returns:
  assumes np: "no_panic h command" and body: "UnmarshalMap (req_Body req) = Inr rb"
    and safe: "list_all safe_case (request_cases req)"
  shows "returns (fst (ProcessEval rb (Some r) req command h w))"
proof (cases "mget (Some r) ''is_correct'' \<noteq> GBool False \<or> request_cases req = []")
  case True
  then show ?thesis by (simp add: ProcessEval_idle [OF body])
next
  case False
  then have wrong: "mget (Some r) ''is_correct'' = GBool False" and some: "request_cases req \<noteq> []" by auto
  obtain f where f: "UnmarshalMap (req_Body req) = Inr (Some f)"
    using request_cases_body [OF some] by blast
  have objs: "list_all is_object (request_cases req)"
    using safe by (auto simp: list_all_iff safe_case_def is_object_def split: option.splits)
  let ?V = "case_verdict req command h (request_params req) (request_cases req) w"
  show ?thesis
  proof (cases "first_correct ?V [0..<length (request_cases req)]")
    case None
    show ?thesis
      using ProcessEval_no_match [OF np f objs wrong some None] f body
        apply_warnings_spec [of "verdict_warnings ?V [0..<length (request_cases req)]" r] by force
  next
    case (Some j)
    then have "safe_case (request_cases req ! j)"
      using safe by (simp add: first_correct_Some list_all_length)
    then obtain fb where "case_feedback (case_map (request_cases req) j) (cr_Feedback (?V j)) = Some fb"
      using case_feedback_safe by blast
    from ProcessEval_match [OF np f objs wrong some Some this] f body show ?thesis by force
  qed
qed

lemma Handle_never_panics:
  fixes h :: "('s, 'w) RuntimeHandler"
  assumes "NewRuntimeHandler compile gjs rt = Inr h" and "\<And>msg w. returns (fst (rt msg w))"
    and "list_all safe_case (request_cases req)"
  shows "\<exists>res w'. Handle h req w = (Ret res, w') \<and> res_StatusCode res \<in> {200, 400, 404, 405, 422, 500}"
proof -
  have fin: "returns (fst (finish_handle req c h b w1))"
    if send: "SendCommand req c h w = (Ret (Inr b), w1)" and p: "ParseCommand p = Some c" for c b w1 p
  proof -
    obtain rb m where body: "UnmarshalMap (req_Body req) = Inr rb" and b: "b = Doc (to_json (GMap m))"
      using SendCommand_ok [OF send] by blast
    have np: "no_panic h c" by (rule no_panic_handler [OF assms(1) p assms(2)])
    show ?thesis
    proof (cases "as_map (json_norm (mget m ''result''))")
      case None
      then show ?thesis unfolding b finish_handle_cases [OF body] by simp
    next
      case (Some r)
      then obtain f where f: "r = Some f" using as_map_norm_Some by blast
      have "m \<noteq> None" using Some by (cases m) (auto simp: mget_def)
      then obtain g where g: "m = Some g" by blast
      obtain r' w' where pe: "(if c = ''eval'' then ProcessEval rb r req c h w1 else (Ret r, w1)) = (Ret r', w')"
        using ProcessEval_returns [OF np body assms(3), of f w1] unfolding f
        by (cases "ProcessEval rb (Some f) req c h w1"; cases "c = ''eval''") (auto simp: returns_iff)
      show ?thesis unfolding b finish_handle_cases [OF body] Some option.case pe
        by (simp add: g mset_Some)
    qed
  qed
  have send: "returns (fst (SendCommand req c h w))" if "ParseCommand p = Some c" for p c
    by (rule SendCommand_returns [OF no_panic_handler [OF assms(1) that assms(2)]])
  have "returns (fst (handle h req w))"
    using fin send by (fastforce simp: handle_def returns_iff split: option.splits prod.splits go.splits sum.splits)
  then obtain o1 w' where "handle h req w = (Ret o1, w')" by (metis prod.collapse returns_iff)
  then show ?thesis
    using getErrorStatusCode_range by (cases o1) (auto simp: Handle_def newErrorResponse_def StatusOK_def)
qed

text \<open>
  C21: when the runtime returns and every case of the request is an object, with a string feedback
  where it overrides the evaluation's, the handler returns a response, whose status is one of
  200, 400, 404, 405, 422 and 500.
\<close>

theorem handle_never_panics:
  fixes h :: "('s, 'w) RuntimeHandler"
  assumes "NewRuntimeHandler compile gjs rt = Inr h" and "\<And>msg w. returns (fst (rt msg w))"
    and "list_all safe_case (request_cases req)"
  shows "\<exists>res w'. Handle h req w = (Ret res, w') \<and> res_StatusCode res \<in> {200, 400, 404, 405, 422, 500}"
  by (rule Handle_never_panics [OF assms])

theorem handle_never_panics_witness:
  "\<exists>res w'. Handle sample_handler (sample_request ''no'' sample_cases) 0 = (Ret res, w')"
proof -
  have "list_all safe_case (request_cases (sample_request ''no'' sample_cases))" by code_simp
  from handle_never_panics [OF sample_handler_new sample_runtime_returns this] show ?thesis by blast
qed

text \<open>
  the search stops at the first match: it never reports two, so the warning about several
  matched cases is never given; and every warning carries the number of a case of the request.
\<close>

theorem matches_at_most_one:
  assumes "FindFirstMatchingCase params cs req command h w = (Ret (ms, fb, ws, cs'), w')"
  shows "length ms \<le> 1 \<and> length fb = length ms \<and> (\<forall>x \<in> set ws. 0 \<le> cw_Case x \<and> cw_Case x < int (length cs))"
proof -
  note f = assms [unfolded FindFirstMatchingCase_def]
  show ?thesis using find_loop_matches [OF f] find_loop_warnings [OF f] by fastforce
qed

theorem matches_at_most_one_witness:
  "length (fst (case fst (FindFirstMatchingCase None [GMap (Some fmempty)] (sample_request ''no'' JNull)
      CommandEvaluate sample_handler 0) of Ret x \<Rightarrow> x | Panic p \<Rightarrow> ([], [], [], []))) \<le> 1"
proof -
  have "FindFirstMatchingCase None [GMap (Some fmempty)] (sample_request ''no'' JNull) CommandEvaluate sample_handler 0
    = (Ret ([], [], [case_warning_of 0 ''Missing answer field''], [GMap (Some fmempty)]), 0)"
    by code_simp
  from matches_at_most_one [OF this] this show ?thesis by simp
qed

text \<open>
  A panic while a case is evaluated is recovered, but its warning is stored in the case's
  own map and the zero result is returned: nothing is added to the warnings of the answer.
\<close>

theorem recovered_panic_is_silent:
  assumes "mhas (Some c) ''answer''" and "mhas (Some c) ''feedback''"
    and "try_case (combine_params params (mget (Some c) ''params'')) (Some c) i req command h w = (Panic p, w')"
  shows "EvaluateCase params (Some c) i req command h w =
    (Ret (zero_result, Some (fmupd ''warning'' (GWarning (case_warning_of i
        ''An exception was raised while executing the evaluation function.'')) c)), w') \<and>
    append_warning ws zero_result = ws"
  using assms by (simp add: EvaluateCase_def mset_Some append_warning_def zero_result_def)

text \<open>A handler whose runtime panics.\<close>

definition panicking_handler :: "(jschema, nat) RuntimeHandler" where
  "panicking_handler = sample_handler\<lparr> rh_runtime := (\<lambda>msg n. (Panic ''boom'', Suc n)) \<rparr>"

theorem recovered_panic_is_silent_witness:
  "\<exists>c. EvaluateCase None (Some (fmap_of_list [(''answer'', GStr ''x''), (''feedback'', GStr ''A'')])) 0
     (sample_request ''no'' JNull) CommandEvaluate panicking_handler 0 = (Ret (zero_result, c), 1)"
proof -
  let ?c = "fmap_of_list [(''answer'', GStr ''x''), (''feedback'', GStr ''A'')]"
  have "mhas (Some ?c) ''answer''" "mhas (Some ?c) ''feedback''"
    "try_case (combine_params None (mget (Some ?c) ''params'')) (Some ?c) 0 (sample_request ''no'' JNull)
       CommandEvaluate panicking_handler 0 = (Panic ''boom'', 1)"
    by code_simp+
  from recovered_panic_is_silent [OF this] show ?thesis by blast
qed

end
