(* ===== verification/Frame_Pipe.thy ===== *)
theory Frame_Pipe
  imports Go_Strings Go_Errors
begin

text \<open>
  \<^verbatim>\<open>internal/execution/supervisor/adapter_rpc_pipe.go\<close>: \<open>headerPrefixPipe\<close>, the framing of RPC
  messages over a worker's standard streams.  A byte is a \<^typ>\<open>char\<close>.  What the worker sends is the
  sequence of bytes that arrive before the end of file; waiting for bytes is left out.
\<close>

section \<open>The pipe\<close>

text \<open>
  The bytes the buffered reader has not yet handed out, and \<^verbatim>\<open>buf\<close>, the rest of a message larger
  than the caller's buffer.
\<close>

record headerPrefixPipe =
  hp_reader :: string
  hp_buf :: string

definition CR :: char where "CR = CHR 0x0D"
definition LF :: char where "LF = CHR 0x0A"

definition io_EOF :: go_error where
  "io_EOF = ErrorString ''EOF''"

text \<open>\<open>bufio.Reader.ReadString\<close>: the line without its line feed, and the bytes after it.\<close>

definition ReadString :: "string \<Rightarrow> (string \<times> string) option" where
  "ReadString s = (case dropWhile (\<lambda>c. c \<noteq> LF) s of
       [] \<Rightarrow> None
     | _ # rest \<Rightarrow> Some (takeWhile (\<lambda>c. c \<noteq> LF) s, rest))"

lemma ReadString_shorter: "ReadString s = Some (l, rest) \<Longrightarrow> length rest < length s"
  using length_dropWhile_le [of "\<lambda>c. c \<noteq> LF" s] by (auto simp: ReadString_def split: list.splits)

text \<open>
  The value of a header line: what follows the first colon.  \<open>strings.SplitN(line, ":", 2)\<close> has
  two parts exactly when the line has a colon.
\<close>

definition header_value :: "string \<Rightarrow> go_error + int" where
  "header_value line =
     (case dropWhile (\<lambda>c. c \<noteq> CHR '':'') line of
        [] \<Rightarrow> Inl (ErrorString ''malformed Content-Length header'')
      | _ # v \<Rightarrow>
          (case Atoi (TrimSpace v) of
             None \<Rightarrow> Inl (ErrorString (''invalid Content-Length value: '' @ v))
           | Some n \<Rightarrow> Inr n))"

text \<open>
  The first loop of \<open>Read\<close>: lines are skipped until one starts with \<^verbatim>\<open>Content-Length:\<close>.  The
  second component is what is left to read, also when the loop fails.
\<close>

function scan_length :: "string \<Rightarrow> (go_error + int) \<times> string" where
  "scan_length s =
     (case ReadString s of
        None \<Rightarrow> (Inl io_EOF, [])
      | Some (line, rest) \<Rightarrow>
          (let l = TrimRight line [CR, LF]
           in if \<not> HasPrefix l ''Content-Length:'' then scan_length rest
              else (header_value l, rest)))"
  by pat_completeness auto
termination by (relation "measure length") (auto dest: ReadString_shorter)

text \<open>The second loop: the remaining header lines up to the blank one.\<close>

function skip_headers :: "string \<Rightarrow> string option" where
  "skip_headers s =
     (case ReadString s of
        None \<Rightarrow> None
      | Some (line, rest) \<Rightarrow>
          (if TrimRight line [CR, LF] = [] then Some rest else skip_headers rest))"
  by pat_completeness auto
termination by (relation "measure length") (auto dest: ReadString_shorter)

declare scan_length.simps [simp del] skip_headers.simps [simp del]

text \<open>
  \<open>make([]byte, n)\<close> panics for a negative length and for one over the largest allocation of the
  Go runtime on a 64-bit platform.
\<close>

definition makeslice :: "int \<Rightarrow> nat go" where
  "makeslice n = (if n < 0 \<or> 2 ^ 48 < n then Panic ''runtime error: makeslice: len out of range''
                  else Ret (nat n))"

text \<open>\<open>io.ReadFull\<close> of \<open>n\<close> bytes, with the two errors \<open>Read\<close> tells apart.\<close>

definition ReadFull :: "nat \<Rightarrow> string \<Rightarrow> (go_error + string) \<times> string" where
  "ReadFull n s =
     (if n \<le> length s then (Inr (take n s), drop n s)
      else if s = [] then (Inl io_EOF, [])
      else (Inl (ErrorString (''unexpected EOF, expected '' @ show_nat n @ '' bytes, got '' @
                  show_nat (length s) @ '' bytes'')), []))"

text \<open>
  \<open>Read\<close> with a buffer of \<open>k\<close> bytes: the bytes copied into it, or an error.  A panic leaves the
  bytes consumed so far consumed.
\<close>

definition Read :: "nat \<Rightarrow> headerPrefixPipe \<Rightarrow> (go_error + string) go \<times> headerPrefixPipe" where
  "Read k h =
     (if hp_buf h \<noteq> [] then
        (Ret (Inr (take k (hp_buf h))), h\<lparr> hp_buf := drop k (hp_buf h) \<rparr>)
      else (case scan_length (hp_reader h) of
          (Inl err, rest) \<Rightarrow> (Ret (Inl err), h\<lparr> hp_reader := rest \<rparr>)
        | (Inr contentLength, rest) \<Rightarrow>
            (case skip_headers rest of
               None \<Rightarrow> (Ret (Inl io_EOF), h\<lparr> hp_reader := [] \<rparr>)
             | Some rest' \<Rightarrow>
                 (case makeslice contentLength of
                    Panic p \<Rightarrow> (Panic p, h\<lparr> hp_reader := rest' \<rparr>)
                  | Ret n \<Rightarrow>
                      (case ReadFull n rest' of
                         (Inl err, rest'') \<Rightarrow> (Ret (Inl err), h\<lparr> hp_reader := rest'' \<rparr>)
                       | (Inr content, rest'') \<Rightarrow>
                           (Ret (Inr (take k content)),
                            \<lparr> hp_reader = rest'', hp_buf = drop k content \<rparr>))))))"

text \<open>
  \<open>Write\<close> over the write operation of the wrapped pipe, which acts on a world and returns a
  count and an error: the header first; when that fails nothing else is written.
\<close>

definition pipe_header :: "nat \<Rightarrow> string" where
  "pipe_header n = ''Content-Length: '' @ show_nat n @ [CR, LF, CR, LF]"

definition Write ::
  "(string \<Rightarrow> 'w \<Rightarrow> (nat \<times> go_error option) \<times> 'w) \<Rightarrow> string \<Rightarrow> 'w \<Rightarrow> (nat \<times> go_error option) \<times> 'w" where
  "Write stdio_Write p w =
     (case stdio_Write (pipe_header (length p)) w of
        ((_, Some err), w') \<Rightarrow> ((0, Some err), w')
      | ((_, None), w') \<Rightarrow> stdio_Write p w')"

section \<open>Lines\<close>

lemma CR_LF_distinct [simp]: "CR \<noteq> LF" "LF \<noteq> CR"
  by (simp_all add: CR_def LF_def)

lemma ReadString_line: "LF \<notin> set l \<Longrightarrow> ReadString (l @ LF # rest) = Some (l, rest)"
proof -
  assume "LF \<notin> set l"
  then have "\<forall>x \<in> set l. x \<noteq> LF" by auto
  then show ?thesis
    using dropWhile_append_stop [of l "\<lambda>c. c \<noteq> LF" LF rest]
      takeWhile_append_stop [of l "\<lambda>c. c \<noteq> LF" LF rest]
    by (simp add: ReadString_def)
qed

lemma TrimRight_end: "TrimRight (l @ cs') cs = TrimRight l cs" if "set cs' \<subseteq> set cs"
proof -
  have "dropWhile (\<lambda>c. c \<in> set cs) (rev cs' @ rev l) = dropWhile (\<lambda>c. c \<in> set cs) (rev l)"
    using that by (intro dropWhile_append2) auto
  then show ?thesis by (simp add: TrimRight_def)
qed

lemma TrimRight_keep: "l = [] \<or> last l \<notin> set cs \<Longrightarrow> TrimRight l cs = l"
  by (cases l rule: rev_cases) (auto simp: TrimRight_def)

section \<open>Reading back a header\<close>

lemma strip_all_stop:
  assumes "\<And>r. r \<in> set rs \<Longrightarrow> r \<noteq> [] \<Longrightarrow> hd r \<noteq> hd s" and "s \<noteq> []"
  shows "strip_all rs s = s"
proof -
  have "r = [] \<or> \<not> HasPrefix s r" if "r \<in> set rs" for r
    using assms(1) [OF that] assms(2) by (cases r; cases s) (auto simp: HasPrefix_def)
  then have "find (\<lambda>r. r \<noteq> [] \<and> HasPrefix s r) rs = None"
    by (auto simp: find_None_iff)
  then show ?thesis by (subst strip_all.simps) (simp add: strip_one_def)
qed

lemma space_runes_first: "r \<in> set space_runes \<Longrightarrow> \<not> is_digit (hd r) \<and> \<not> is_digit (hd (rev r))"
  by (auto simp: space_runes_def is_digit_def)

lemma strip_all_digits:
  assumes "rs = space_runes \<or> rs = map rev space_runes" and "s \<noteq> []" and "is_digit (hd s)"
  shows "strip_all rs s = s"
  using assms space_runes_first by (intro strip_all_stop) fastforce+

lemma strip_space: "strip_all space_runes (CHR '' '' # s) = strip_all space_runes s"
proof -
  have "strip_one space_runes (CHR '' '' # s) = Some s"
    by (simp add: strip_one_def space_runes_def HasPrefix_def)
  then show ?thesis by (subst strip_all.simps) simp
qed

lemma TrimSpace_number:
  "TrimSpace (CHR '' '' # show_nat n) = show_nat n"
  "TrimSpace (CHR '' '' # CHR ''-'' # show_nat n) = CHR ''-'' # show_nat n"
proof -
  have d: "show_nat n \<noteq> []" "is_digit (hd (show_nat n))" "is_digit (last (show_nat n))"
    using show_nat_nonempty show_nat_digits [of n] by (simp_all add: list_all_iff)
  have "strip_all space_runes (show_nat n) = show_nat n"
    by (rule strip_all_digits) (use d in simp_all)
  moreover have m: "strip_all space_runes (CHR ''-'' # show_nat n) = CHR ''-'' # show_nat n"
    by (rule strip_all_stop) (auto simp: space_runes_def)
  moreover have "strip_all (map rev space_runes) (rev (show_nat n)) = rev (show_nat n)"
    by (rule strip_all_digits) (use d in \<open>simp_all add: hd_rev\<close>)
  moreover have "strip_all (map rev space_runes) (rev (CHR ''-'' # show_nat n)) = rev (CHR ''-'' # show_nat n)"
    by (rule strip_all_digits) (use d in \<open>simp_all add: hd_rev\<close>)
  ultimately show "TrimSpace (CHR '' '' # show_nat n) = show_nat n"
    "TrimSpace (CHR '' '' # CHR ''-'' # show_nat n) = CHR ''-'' # show_nat n"
    by (simp_all add: TrimSpace_def strip_space)
qed

lemma header_value_number:
  assumes "n < 2 ^ 63"
  shows "header_value (''Content-Length: '' @ show_nat n) = Inr (int n)"
  using assms by (simp add: header_value_def TrimSpace_number Atoi_show_nat)

text \<open>A line of stray output: one line that is not a length header.\<close>

definition stray :: "string \<Rightarrow> bool" where
  "stray l \<longleftrightarrow> LF \<notin> set l \<and> \<not> HasPrefix (TrimRight l [CR, LF]) ''Content-Length:''"

definition as_lines :: "string list \<Rightarrow> string" where
  "as_lines ls = concat (map (\<lambda>l. l @ [LF]) ls)"

lemma as_lines_simps [simp]:
  "as_lines [] = []" "as_lines (l # ls) = l @ LF # as_lines ls"
  by (simp_all add: as_lines_def)

lemma scan_length_stray: "list_all stray ls \<Longrightarrow> scan_length (as_lines ls @ s) = scan_length s"
proof (induction ls)
  case (Cons l ls)
  then have "scan_length (l @ LF # (as_lines ls @ s)) = scan_length (as_lines ls @ s)"
    by (subst scan_length.simps) (simp add: ReadString_line stray_def Let_def)
  with Cons show ?case by simp
qed simp

lemma skip_headers_lines:
  assumes "\<And>l. l \<in> set ls \<Longrightarrow> LF \<notin> set l \<and> TrimRight l [CR, LF] \<noteq> []"
  shows "skip_headers (as_lines ls @ CR # LF # s) = Some s"
  using assms
proof (induction ls)
  case Nil
  have "ReadString ([CR] @ LF # s) = Some ([CR], s)" by (rule ReadString_line) simp
  then show ?case by (subst skip_headers.simps) (simp add: TrimRight_def)
next
  case (Cons l ls)
  then have "skip_headers (l @ LF # (as_lines ls @ CR # LF # s)) = skip_headers (as_lines ls @ CR # LF # s)"
    by (subst skip_headers.simps) (simp add: ReadString_line)
  with Cons show ?case by simp
qed

lemma header_line_no_LF: "LF \<notin> set (''Content-Length: '' @ show_nat n @ [CR])"
  using show_nat_no_char [of LF n] by (simp add: LF_def CR_def is_digit_def)

lemma show_nat_last: "last (show_nat n) \<noteq> CR \<and> last (show_nat n) \<noteq> LF"
  using show_nat_no_char [of CR n] show_nat_no_char [of LF n] last_in_set [OF show_nat_nonempty [of n]]
  by (auto simp: CR_def LF_def is_digit_def)

lemma header_line_trim:
  assumes "pre = ''Content-Length: '' \<or> pre = ''Content-Length: -''"
  shows "TrimRight (pre @ show_nat n @ [CR]) [CR, LF] = pre @ show_nat n"
proof -
  have "TrimRight (pre @ show_nat n) [CR, LF] = pre @ show_nat n"
    using show_nat_nonempty [of n] show_nat_last [of n] by (intro TrimRight_keep) simp
  then show ?thesis using TrimRight_end [of "[CR]" "[CR, LF]" "pre @ show_nat n"] by simp
qed

lemma scan_length_header:
  assumes "n < 2 ^ 63"
  shows "scan_length (''Content-Length: '' @ show_nat n @ CR # LF # s) = (Inr (int n), s)"
proof -
  have "ReadString ((''Content-Length: '' @ show_nat n @ [CR]) @ LF # s)
      = Some (''Content-Length: '' @ show_nat n @ [CR], s)"
    by (rule ReadString_line [OF header_line_no_LF])
  then show ?thesis
    using header_line_trim [of "''Content-Length: ''" n] header_value_number [OF assms]
    by (subst scan_length.simps) (simp add: HasPrefix_def Let_def)
qed

section \<open>What is on the wire\<close>

text \<open>
  One message as a worker sends it: lines of stray output, the length header, further header
  lines, a blank line, and the payload.  \<open>Write\<close> sends it without the optional parts.
\<close>

record wire_item =
  wi_stray :: "string list"
  wi_headers :: "string list"
  wi_payload :: string

definition wire_bytes :: "wire_item \<Rightarrow> string" where
  "wire_bytes i =
     as_lines (wi_stray i) @ ''Content-Length: '' @ show_nat (length (wi_payload i)) @ CR # LF #
     as_lines (wi_headers i) @ CR # LF # wi_payload i"

definition wire_ok :: "wire_item \<Rightarrow> bool" where
  "wire_ok i \<longleftrightarrow> list_all stray (wi_stray i) \<and>
     list_all (\<lambda>l. LF \<notin> set l \<and> TrimRight l [CR, LF] \<noteq> []) (wi_headers i) \<and>
     length (wi_payload i) \<le> 2 ^ 48"

definition plain_item :: "string \<Rightarrow> wire_item" where
  "plain_item p = \<lparr> wi_stray = [], wi_headers = [], wi_payload = p \<rparr>"

lemma wire_bytes_plain: "wire_bytes (plain_item p) = pipe_header (length p) @ p"
  by (simp add: wire_bytes_def plain_item_def pipe_header_def)

text \<open>Reads one after the other, up to the first error or panic, and the bytes they deliver.\<close>

primrec read_many ::
  "(nat \<Rightarrow> 's \<Rightarrow> (go_error + string) go \<times> 's) \<Rightarrow> nat list \<Rightarrow> 's \<Rightarrow> string \<times> 's" where
  "read_many rd [] s = ([], s)"
| "read_many rd (k # ks) s =
     (case rd k s of
        (Ret (Inr b), s') \<Rightarrow> (let (out, s'') = read_many rd ks s' in (b @ out, s''))
      | (_, s') \<Rightarrow> ([], s'))"

text \<open>
  The contract between the framing and its reader: a reader over a state made of the bytes still
  to come and a buffered rest hands out the rest first, then at most one message at a time.
\<close>

locale message_stream =
  fixes wire :: "'m \<Rightarrow> string"
    and payload :: "'m \<Rightarrow> string"
    and good :: "'m \<Rightarrow> bool"
    and rd :: "nat \<Rightarrow> 's \<Rightarrow> (go_error + string) go \<times> 's"
    and mk :: "string \<Rightarrow> string \<Rightarrow> 's"
  assumes rd_rest: "b \<noteq> [] \<Longrightarrow> rd k (mk s b) = (Ret (Inr (take k b)), mk s (drop k b))"
    and rd_wire: "good m \<Longrightarrow>
      rd k (mk (wire m @ s) []) = (Ret (Inr (take k (payload m))), mk s (drop k (payload m)))"
    and rd_end: "rd k (mk [] []) = (Ret (Inl io_EOF), mk [] [])"
begin

lemma read_many_cons:
  assumes "rd k s = (Ret (Inr x), s')" and "read_many rd ks s' = (out, s'')"
  shows "read_many rd (k # ks) s = (x @ out, s'')"
  using assms by simp

text \<open>One read with something left to read: what it delivers, and what is less afterwards.\<close>

lemma read_one:
  assumes "list_all good ms" and "\<not> (b = [] \<and> ms = [])"
  shows "\<exists>x b1 ms1. list_all good ms1 \<and>
    rd k (mk (concat (map wire ms)) b) = (Ret (Inr x), mk (concat (map wire ms1)) b1) \<and>
    x @ b1 @ concat (map payload ms1) = b @ concat (map payload ms) \<and>
    (0 < k \<longrightarrow> Suc (length b1 + (\<Sum>m\<leftarrow>ms1. Suc (length (payload m))))
      \<le> length b + (\<Sum>m\<leftarrow>ms. Suc (length (payload m))))"
proof (cases "b = []")
  case True
  with assms obtain m ms1 where "ms = m # ms1" by (cases ms) auto
  with assms True show ?thesis
    by (intro exI [of _ "take k (payload m)"] exI [of _ "drop k (payload m)"] exI [of _ ms1]) (simp add: rd_wire)
next
  case b: False
  then have "0 < k \<longrightarrow> Suc (length b - k) \<le> length b" by (cases b) auto
  with b assms show ?thesis
    by (intro exI [of _ "take k b"] exI [of _ "drop k b"] exI [of _ ms]) (simp add: rd_rest)
qed

lemma read_many_invariant:
  assumes "list_all good ms"
  shows "\<exists>out ms' b'. read_many rd ks (mk (concat (map wire ms)) b) = (out, mk (concat (map wire ms')) b') \<and>
           out @ b' @ concat (map payload ms') = b @ concat (map payload ms) \<and>
           (list_all ((<) 0) ks \<longrightarrow> (b' = [] \<and> ms' = []) \<or>
              length ks + length b' + (\<Sum>m\<leftarrow>ms'. Suc (length (payload m)))
                \<le> length b + (\<Sum>m\<leftarrow>ms. Suc (length (payload m))))"
  using assms
proof (induction ks arbitrary: b ms)
  case Nil
  then show ?case by auto
next
  case (Cons k ks)
  show ?case
  proof (cases "b = [] \<and> ms = []")
    case True
    then have "read_many rd (k # ks) (mk (concat (map wire ms)) b) = ([], mk (concat (map wire [])) [])"
      by (simp add: rd_end)
    with True show ?thesis by (metis append_Nil)
  next
    case False
    from read_one [OF Cons.prems this, of k] obtain x b1 ms1 where ms1: "list_all good ms1"
      and r: "rd k (mk (concat (map wire ms)) b) = (Ret (Inr x), mk (concat (map wire ms1)) b1)"
      and d: "x @ b1 @ concat (map payload ms1) = b @ concat (map payload ms)"
      and l: "0 < k \<longrightarrow> Suc (length b1 + (\<Sum>m\<leftarrow>ms1. Suc (length (payload m))))
                 \<le> length b + (\<Sum>m\<leftarrow>ms. Suc (length (payload m)))"
      by blast
    obtain out ms' b' where IH:
      "read_many rd ks (mk (concat (map wire ms1)) b1) = (out, mk (concat (map wire ms')) b')"
      "out @ b' @ concat (map payload ms') = b1 @ concat (map payload ms1)"
      "list_all ((<) 0) ks \<longrightarrow> (b' = [] \<and> ms' = []) \<or>
         length ks + length b' + (\<Sum>m\<leftarrow>ms'. Suc (length (payload m)))
           \<le> length b1 + (\<Sum>m\<leftarrow>ms1. Suc (length (payload m)))"
      using Cons.IH [OF ms1, of b1] by blast
    have "(x @ out) @ b' @ concat (map payload ms') = b @ concat (map payload ms)"
      using IH(2) d by simp
    moreover have "list_all ((<) 0) (k # ks) \<longrightarrow> (b' = [] \<and> ms' = []) \<or>
        length (k # ks) + length b' + (\<Sum>m\<leftarrow>ms'. Suc (length (payload m)))
          \<le> length b + (\<Sum>m\<leftarrow>ms. Suc (length (payload m)))"
      using IH(3) l by auto
    ultimately show ?thesis using read_many_cons [OF r IH(1)] by blast
  qed
qed

text \<open>Enough reads with non-empty buffers deliver everything; any reads deliver a prefix.\<close>

lemma read_many_all:
  assumes "list_all good ms" and "list_all ((<) 0) ks"
    and "(\<Sum>m\<leftarrow>ms. Suc (length (payload m))) \<le> length ks"
  shows "fst (read_many rd ks (mk (concat (map wire ms)) [])) = concat (map payload ms)"
proof -
  obtain out ms' b' where o:
      "read_many rd ks (mk (concat (map wire ms)) []) = (out, mk (concat (map wire ms')) b')"
      "out @ b' @ concat (map payload ms') = concat (map payload ms)"
      "(b' = [] \<and> ms' = []) \<or> length ks + length b' + (\<Sum>m\<leftarrow>ms'. Suc (length (payload m)))
                \<le> (\<Sum>m\<leftarrow>ms. Suc (length (payload m)))"
    using read_many_invariant [OF assms(1), of ks "[]"] assms(2) by auto
  from o(3) have "b' = [] \<and> ms' = []"
  proof
    assume "length ks + length b' + (\<Sum>m\<leftarrow>ms'. Suc (length (payload m)))
                \<le> (\<Sum>m\<leftarrow>ms. Suc (length (payload m)))"
    with assms(3) have "length b' + (\<Sum>m\<leftarrow>ms'. Suc (length (payload m))) = 0" by linarith
    then show ?thesis by (cases ms') auto
  qed
  with o show ?thesis by simp
qed

lemma read_many_prefix:
  assumes "list_all good ms"
  shows "\<exists>rest. concat (map payload ms) = fst (read_many rd ks (mk (concat (map wire ms)) [])) @ rest"
proof -
  obtain out ms' b' where
      "read_many rd ks (mk (concat (map wire ms)) []) = (out, mk (concat (map wire ms')) b')"
      "out @ b' @ concat (map payload ms') = concat (map payload ms)"
    using read_many_invariant [OF assms, of ks "[]"] by auto
  then have "concat (map payload ms) = fst (read_many rd ks (mk (concat (map wire ms)) [])) @ b' @ concat (map payload ms')"
    by simp
  then show ?thesis by blast
qed

end

lemma Read_wire:
  assumes "wire_ok i"
  shows "Read k \<lparr> hp_reader = wire_bytes i @ s, hp_buf = [] \<rparr> =
    (Ret (Inr (take k (wi_payload i))), \<lparr> hp_reader = s, hp_buf = drop k (wi_payload i) \<rparr>)"
proof -
  let ?n = "length (wi_payload i)"
  have n: "?n < 2 ^ 63" "int ?n \<le> 2 ^ 48"
    using assms by (auto simp: wire_ok_def)
  have "scan_length (wire_bytes i @ s) = (Inr (int ?n), as_lines (wi_headers i) @ CR # LF # wi_payload i @ s)"
    using assms scan_length_header [OF n(1), of "as_lines (wi_headers i) @ CR # LF # wi_payload i @ s"]
    by (simp add: wire_bytes_def scan_length_stray wire_ok_def)
  moreover have "skip_headers (as_lines (wi_headers i) @ CR # LF # wi_payload i @ s) = Some (wi_payload i @ s)"
    by (rule skip_headers_lines) (use assms in \<open>auto simp: wire_ok_def list_all_iff\<close>)
  ultimately show ?thesis
    using n(2) by (simp add: Read_def makeslice_def ReadFull_def)
qed

interpretation pipe_stream: message_stream wire_bytes wi_payload wire_ok Read
    "\<lambda>s b. \<lparr> hp_reader = s, hp_buf = b \<rparr>"
proof unfold_locales
  show "Read k \<lparr> hp_reader = [], hp_buf = [] \<rparr> = (Ret (Inl io_EOF), \<lparr> hp_reader = [], hp_buf = [] \<rparr>)" for k
    by (simp add: Read_def ReadString_def, subst scan_length.simps) (simp add: ReadString_def)
qed (simp add: Read_def, rule Read_wire)

end
