(* ===== verification/Frame_Contract.thy ===== *)
theory Frame_Contract
  imports Frame_Pipe
begin

text \<open>
  The write side of the pipe as a step relation of concurrent writers under the write mutex, and
  the properties of the framing in both directions.
\<close>

section \<open>The write side\<close>

text \<open>The in-memory sink: a write appends all bytes and succeeds.\<close>

definition append_write :: "string \<Rightarrow> string \<Rightarrow> (nat \<times> go_error option) \<times> string" where
  "append_write p out = ((length p, None), out @ p)"

lemma Write_append: "Write append_write p out = ((length p, None), out @ wire_bytes (plain_item p))"
  by (simp add: Write_def append_write_def wire_bytes_plain)

text \<open>
  Concurrent calls of \<open>Write\<close>: the bytes written, the call that holds the mutex \<^verbatim>\<open>wmu\<close> with
  whether it has written its header, and the messages of the calls that returned, in that order.
\<close>

record pipe_writers =
  pw_out :: string
  pw_lock :: "(string \<times> bool) option"
  pw_done :: "string list"

definition writers_start :: "pipe_writers \<Rightarrow> bool" where
  "writers_start s \<longleftrightarrow> pw_out s = [] \<and> pw_lock s = None \<and> pw_done s = []"

inductive writer_step :: "pipe_writers \<Rightarrow> pipe_writers \<Rightarrow> bool" where
  lock: "pw_lock s = None \<Longrightarrow> writer_step s (s\<lparr> pw_lock := Some (p, False) \<rparr>)"
| header: "pw_lock s = Some (p, False) \<Longrightarrow>
    writer_step s (s\<lparr> pw_out := snd (append_write (pipe_header (length p)) (pw_out s)),
                      pw_lock := Some (p, True) \<rparr>)"
| payload_unlock: "pw_lock s = Some (p, True) \<Longrightarrow>
    writer_step s (s\<lparr> pw_out := snd (append_write p (pw_out s)), pw_lock := None,
                      pw_done := pw_done s @ [p] \<rparr>)"

inductive_cases writer_stepE: "writer_step s t"

text \<open>One call on its own is three steps, and they have the effect of \<open>Write\<close>.\<close>

lemma Write_steps:
  assumes "pw_lock s = None"
  shows "writer_step\<^sup>*\<^sup>* s (s\<lparr> pw_out := snd (Write append_write p (pw_out s)), pw_done := pw_done s @ [p] \<rparr>)"
proof -
  let ?s1 = "s\<lparr> pw_lock := Some (p, False) \<rparr>"
  let ?s2 = "?s1\<lparr> pw_out := snd (append_write (pipe_header (length p)) (pw_out ?s1)), pw_lock := Some (p, True) \<rparr>"
  let ?s3 = "?s2\<lparr> pw_out := snd (append_write p (pw_out ?s2)), pw_lock := None, pw_done := pw_done ?s2 @ [p] \<rparr>"
  have "writer_step s ?s1" "writer_step ?s1 ?s2" "writer_step ?s2 ?s3"
    by (rule lock [OF assms], rule header, simp, rule payload_unlock, simp)
  then have "writer_step\<^sup>*\<^sup>* s ?s3"
    by (blast intro: rtranclp.rtrancl_into_rtrancl rtranclp.rtrancl_refl)
  moreover have "?s3 = s\<lparr> pw_out := snd (Write append_write p (pw_out s)), pw_done := pw_done s @ [p] \<rparr>"
    using assms by (simp add: Write_append wire_bytes_plain append_write_def)
  ultimately show ?thesis by simp
qed

text \<open>
  The invariant: the bytes written are the frames of the finished calls, followed by the header
  of the call under way when it has written it.
\<close>

definition writers_inv :: "pipe_writers \<Rightarrow> bool" where
  "writers_inv s \<longleftrightarrow>
     pw_out s = concat (map (wire_bytes \<circ> plain_item) (pw_done s)) @
       (case pw_lock s of Some (p, True) \<Rightarrow> pipe_header (length p) | _ \<Rightarrow> [])"

interpretation writers: invariant_system writers_start writer_step writers_inv
proof unfold_locales
  show "writers_inv s" if "writers_start s" for s
    using that by (simp add: writers_start_def writers_inv_def)
  show "writers_inv t" if "writers_inv s" "writer_step s t" for s t
    using that(2,1) by (cases rule: writer_step.cases)
      (simp_all add: writers_inv_def append_write_def wire_bytes_plain)
qed

text \<open>The abstract view of the pipe: a queue of messages to which calls append atomically.\<close>

definition queue_start :: "string list \<Rightarrow> bool" where
  "queue_start q \<longleftrightarrow> q = []"

inductive queue_step :: "string list \<Rightarrow> string list \<Rightarrow> bool" where
  enqueue: "queue_step q (q @ [p])"

interpretation writers_queue: simulation writers_start writer_step queue_start queue_step pw_done writers_inv
proof unfold_locales
  show "queue_step\<^sup>*\<^sup>* (pw_done s) (pw_done t)" if "writer_step s t" for s t
    using that by (cases rule: writer_step.cases) (auto intro: enqueue)
  show "writers_inv s" if "reachable writers_start writer_step s" for s
    by (rule writers.reachable_inv [OF that])
qed (simp add: writers_start_def queue_start_def)

section \<open>Properties\<close>

text \<open>
  C9: reading delivers exactly the payloads that were framed, in order.  For any messages, each
  with any stray output lines before its length header and any further header lines after it,
  and any sequence of buffer sizes, the bytes read are a prefix of the concatenated payloads; with
  non-empty buffers and one read per payload byte and message they are all of them.
\<close>

theorem pipe_delivers_payloads:
  assumes "list_all wire_ok items"
  shows "(\<exists>rest. concat (map wi_payload items) =
             fst (read_many Read ks \<lparr> hp_reader = concat (map wire_bytes items), hp_buf = [] \<rparr>) @ rest) \<and>
         (list_all ((<) 0) ks \<and> (\<Sum>i\<leftarrow>items. Suc (length (wi_payload i))) \<le> length ks \<longrightarrow>
            fst (read_many Read ks \<lparr> hp_reader = concat (map wire_bytes items), hp_buf = [] \<rparr>)
              = concat (map wi_payload items))"
  by (intro conjI impI pipe_stream.read_many_prefix [OF assms] pipe_stream.read_many_all [OF assms]) auto

theorem pipe_delivers_payloads_witness:
  "fst (read_many Read [2, 2, 2, 2, 2, 2, 2, 2, 2]
     \<lparr> hp_reader = concat (map wire_bytes
         [\<lparr> wi_stray = [''warning: x''], wi_headers = [''Content-Type: json''], wi_payload = ''abcde'' \<rparr>,
          plain_item ''fg'']), hp_buf = [] \<rparr>) = ''abcdefg''"
proof -
  let ?items = "[\<lparr> wi_stray = [''warning: x''], wi_headers = [''Content-Type: json''], wi_payload = ''abcde'' \<rparr>,
          plain_item ''fg'']"
  have items: "list_all wire_ok ?items"
    by (simp add: wire_ok_def stray_def plain_item_def TrimRight_def HasPrefix_def CR_def LF_def)
  have ok: "concat (map wi_payload ?items) = ''abcdefg''"
    "list_all ((<) 0) [2, 2, 2, 2, 2, 2, 2, 2, 2 :: nat]"
    "(\<Sum>i\<leftarrow>?items. Suc (length (wi_payload i))) \<le> length [2, 2, 2, 2, 2, 2, 2, 2, 2 :: nat]"
    by code_simp+
  show ?thesis
    by (rule conjunct2 [OF pipe_delivers_payloads [OF items], rule_format, OF conjI, OF ok(2,3), unfolded ok(1)])
qed



text \<open>
  a payload cut short by the end of the stream is an error that names both lengths, for any
  buffer size: none of its bytes is delivered.
\<close>

theorem pipe_truncated_payload:
  assumes "length p < n" and "n \<le> 2 ^ 48" and "p \<noteq> []"
  shows "Read k \<lparr> hp_reader = pipe_header n @ p, hp_buf = [] \<rparr> =
    (Ret (Inl (ErrorString (''unexpected EOF, expected '' @ show_nat n @ '' bytes, got '' @
        show_nat (length p) @ '' bytes''))), \<lparr> hp_reader = [], hp_buf = [] \<rparr>)"
proof -
  have "scan_length (pipe_header n @ p) = (Inr (int n), CR # LF # p)"
    using scan_length_header [of n "CR # LF # p"] assms(2) by (simp add: pipe_header_def)
  moreover have "skip_headers (CR # LF # p) = Some p"
    using skip_headers_lines [of "[]" p] by simp
  moreover have "int n \<le> 2 ^ 48" using assms(2) by simp
  ultimately show ?thesis
    using assms by (simp add: Read_def makeslice_def ReadFull_def)
qed

theorem pipe_truncated_payload_witness:
  "fst (Read 16 \<lparr> hp_reader = pipe_header 4 @ ''Tes'', hp_buf = [] \<rparr>) =
     Ret (Inl (ErrorString ''unexpected EOF, expected 4 bytes, got 3 bytes''))"
proof -
  have n: "show_nat 4 = ''4''" "show_nat (length ''Tes'') = ''3''" by code_simp+
  show ?thesis using pipe_truncated_payload [of "''Tes''" 4 16, unfolded n] by simp
qed

text \<open>
  A header that declares a negative length makes \<open>Read\<close> panic, whatever follows it: the
  length is not checked before the buffer is allocated.
\<close>

theorem pipe_negative_length_panics:
  assumes "0 < n" and "n < 2 ^ 63"
  shows "Read k \<lparr> hp_reader = ''Content-Length: -'' @ show_nat n @ [CR, LF, CR, LF] @ s, hp_buf = [] \<rparr> =
    (Panic ''runtime error: makeslice: len out of range'', \<lparr> hp_reader = s, hp_buf = [] \<rparr>)"
proof -
  let ?l = "''Content-Length: -'' @ show_nat n"
  have "LF \<notin> set (?l @ [CR])" using header_line_no_LF [of n] by (simp add: LF_def CR_def)
  from ReadString_line [OF this, of "CR # LF # s"]
  have r: "ReadString (?l @ CR # LF # CR # LF # s) = Some (?l @ [CR], CR # LF # s)" by simp
  have t: "TrimRight (?l @ [CR]) [CR, LF] = ?l" using header_line_trim [of "''Content-Length: -''" n] by simp
  have "Atoi (CHR ''-'' # show_nat n) = Some (- int n)"
  proof -
    have "int n < 2 ^ 63" using assms(2) by (metis of_nat_less_iff of_nat_numeral of_nat_power)
    then show ?thesis
      using show_nat_digits [of n] show_nat_nonempty [of n] read_show_nat [of n] by (simp add: Atoi_def)
  qed
  then have "header_value ?l = Inr (- int n)" by (simp add: header_value_def TrimSpace_number)
  then have "scan_length (?l @ [CR, LF, CR, LF] @ s) = (Inr (- int n), CR # LF # s)"
    using r t by (subst scan_length.simps) (simp add: HasPrefix_def Let_def)
  moreover have "skip_headers (CR # LF # s) = Some s" using skip_headers_lines [of "[]" s] by simp
  ultimately show ?thesis using assms(1) by (simp add: Read_def makeslice_def)
qed

theorem pipe_negative_length_panics_witness:
  "fst (Read 8 \<lparr> hp_reader = ''Content-Length: -'' @ show_nat 1 @ [CR, LF, CR, LF] @ ''x'', hp_buf = [] \<rparr>)
     = Panic ''runtime error: makeslice: len out of range''"
  using pipe_negative_length_panics [of 1 8 "''x''"] by simp

end
