(* ===== verification/Worker.thy ===== *)
theory Worker
  imports Shimmy_Prelude Go_Strings Go_Errors
begin

text \<open>
  \<^verbatim>\<open>internal/execution/worker\<close>: the configuration of a worker process, what its termination
  reports, its pipes, and the protocol between \<open>Start\<close>, \<open>Wait\<close>, \<open>Stop\<close> and the goroutine that
  waits for the process.  The operating system decides when and how a process ends.
\<close>

section \<open>Configuration and command\<close>

record StartConfig =
  sc_Cmd :: string
  sc_Cwd :: string
  sc_Args :: "string list"
  sc_Env :: "string list option"

text \<open>
  The fields of \<open>exec.Cmd\<close> the code sets.  \<open>Setpgid\<close> is set by \<open>initCmd\<close> on Unix: the process
  leads its own group.
\<close>

record Cmd =
  cmd_Path :: string
  cmd_Args :: "string list"
  cmd_Env :: "string list"
  cmd_Dir :: string
  cmd_Setpgid :: bool

definition initCmd :: "Cmd \<Rightarrow> Cmd" where
  "initCmd cmd = cmd\<lparr> cmd_Setpgid := True \<rparr>"

text \<open>\<open>environ\<close> is \<^verbatim>\<open>os.Environ()\<close>.\<close>

definition createCmd :: "string list \<Rightarrow> StartConfig \<Rightarrow> Cmd" where
  "createCmd environ config =
     initCmd \<lparr> cmd_Path = sc_Cmd config, cmd_Args = sc_Cmd config # sc_Args config,
               cmd_Env = (case sc_Env config of None \<Rightarrow> environ | Some env \<Rightarrow> environ @ env),
               cmd_Dir = (if sc_Cwd config \<noteq> [] then sc_Cwd config else []),
               cmd_Setpgid = False \<rparr>"

text \<open>
  The value the process sees for a variable: of several entries \<^verbatim>\<open>key=value\<close> the last one counts
  (\<open>exec.Cmd\<close> removes the earlier ones).
\<close>

definition entry_value :: "string \<Rightarrow> string \<Rightarrow> string option" where
  "entry_value k e = (if HasPrefix e (k @ ''='') then Some (drop (Suc (length k)) e) else None)"

definition env_lookup :: "string list \<Rightarrow> string \<Rightarrow> string option" where
  "env_lookup env k =
     foldl (\<lambda>r e. case entry_value k e of Some v \<Rightarrow> Some v | None \<Rightarrow> r) None env"

lemma env_lookup_append:
  "env_lookup (env @ env') k = (case env_lookup env' k of Some v \<Rightarrow> Some v | None \<Rightarrow> env_lookup env k)"
  by (induction env' rule: rev_induct) (auto simp: env_lookup_def split: option.splits)

section \<open>How a process ended\<close>

record ExitEvent =
  ee_Code :: "int option"
  ee_Signal :: "int option"
  ee_Stderr :: string

definition Success :: "ExitEvent \<Rightarrow> bool" where
  "Success e \<longleftrightarrow> ee_Code e = Some 0"

definition ExitEvent_String :: "ExitEvent \<Rightarrow> string" where
  "ExitEvent_String e =
     (let code = (case ee_Code e of Some c \<Rightarrow> show_int c | None \<Rightarrow> ''(nil)'');
          signal = (case ee_Signal e of Some c \<Rightarrow> show_int c | None \<Rightarrow> ''(nil)'');
          stderr = Trim (ReplaceAll (ee_Stderr e) [CHR 0x0A] '' '') '' ''
      in ''code='' @ code @ '', signal='' @ signal @ '', stderr='' @ stderr)"

text \<open>
  The error of \<open>cmd.Wait\<close>: nil, an exit error with the status the system reports (\<open>None\<close> where it
  is not a \<open>WaitStatus\<close>), or another error.
\<close>

datatype wait_status = Exited nat | Signaled nat | OtherStatus

datatype wait_error = WaitNil | WaitExitError "wait_status option" | WaitOther

fun ExitStatus :: "wait_status \<Rightarrow> int" where
  "ExitStatus (Exited c) = int c"
| "ExitStatus _ = -1"

fun Signal :: "wait_status \<Rightarrow> int" where
  "Signal (Signaled s) = int s"
| "Signal _ = -1"

definition getExitEvent :: "wait_error \<Rightarrow> string \<Rightarrow> ExitEvent" where
  "getExitEvent err stderr =
     (let (exitStatus, signo) =
        (case err of
           WaitNil \<Rightarrow> (Some 0, None)
         | WaitExitError (Some status) \<Rightarrow>
             (if 0 \<le> ExitStatus status then (Some (ExitStatus status), None)
              else (None, Some (Signal status)))
         | _ \<Rightarrow> (None, None))
      in \<lparr> ee_Code = (if signo = None \<and> exitStatus = None then Some 1 else exitStatus),
           ee_Signal = signo, ee_Stderr = stderr \<rparr>)"

section \<open>The worker\<close>

text \<open>
  What the goroutine started by \<open>Start\<close> is doing: it does not exist, is parked on \<^verbatim>\<open>w.wait\<close>, waits
  for the end of stderr and of the process, is sending the exit event on the unbuffered channel
  \<^verbatim>\<open>w.exit\<close>, or has closed \<^verbatim>\<open>w.exit\<close> and \<^verbatim>\<open>w.done\<close>.
\<close>

datatype goroutine = NotStarted | Parked | Waiting | Sending ExitEvent | Finished

text \<open>The one call of \<open>Wait\<close> that got past the check: none yet, receiving, or returned.\<close>

datatype waiter = NoWaiter | Receiving | Got ExitEvent | Cancelled go_error

text \<open>
  \<open>w_proc\<close> is \<^verbatim>\<open>cmd.Process != nil\<close>; \<open>w_end\<close> the way the process has ended, once it has;
  \<open>w_wait_closed\<close> whether the channel \<^verbatim>\<open>wait\<close> is closed.  The pipe flags say which standard
  streams were requested.
\<close>

record ProcessWorker =
  w_cmd :: Cmd
  w_proc :: bool
  w_end :: "wait_error option"
  w_stderr :: string
  w_wait_closed :: bool
  w_goroutine :: goroutine
  w_waiter :: waiter
  w_stdin_piped :: bool
  w_stdout_piped :: bool
  w_stderr_piped :: bool

definition NewProcessWorker :: "string list \<Rightarrow> StartConfig \<Rightarrow> ProcessWorker" where
  "NewProcessWorker environ config =
     \<lparr> w_cmd = createCmd environ config, w_proc = False, w_end = None, w_stderr = [],
       w_wait_closed = False, w_goroutine = NotStarted, w_waiter = NoWaiter,
       w_stdin_piped = False, w_stdout_piped = False, w_stderr_piped = False \<rparr>"

text \<open>
  \<open>exec.Cmd\<close> refuses a second pipe for a stream and a pipe after the start.
\<close>

definition pipe_check :: "bool \<Rightarrow> bool \<Rightarrow> string \<Rightarrow> go_error option" where
  "pipe_check piped started stream =
     (if piped then Some (ErrorString (''exec: '' @ stream @ '' already set''))
      else if started then Some (ErrorString (''exec: '' @ stream @ ''Pipe after process started''))
      else None)"

definition ReadPipe :: "ProcessWorker \<Rightarrow> go_error option \<times> ProcessWorker" where
  "ReadPipe w =
     (if w_proc w then (Some ErrWorkerAlreadyStarted, w)
      else case pipe_check (w_stdout_piped w) (w_proc w) ''Stdout'' of
        Some err \<Rightarrow> (Some (Wrapped ''failed to get stdout pipe'' (Some err)), w)
      | None \<Rightarrow> (None, w\<lparr> w_stdout_piped := True \<rparr>))"

definition WritePipe :: "ProcessWorker \<Rightarrow> go_error option \<times> ProcessWorker" where
  "WritePipe w =
     (if w_proc w then (Some ErrWorkerAlreadyStarted, w)
      else case pipe_check (w_stdin_piped w) (w_proc w) ''Stdin'' of
        Some err \<Rightarrow> (Some (Wrapped ''failed to get stdin pipe'' (Some err)), w)
      | None \<Rightarrow> (None, w\<lparr> w_stdin_piped := True \<rparr>))"

definition DuplexPipe :: "ProcessWorker \<Rightarrow> go_error option \<times> ProcessWorker" where
  "DuplexPipe w =
     (if w_proc w then (Some ErrWorkerAlreadyStarted, w)
      else case pipe_check (w_stdin_piped w) (w_proc w) ''Stdin'' of
        Some err \<Rightarrow> (Some (Wrapped ''failed to get stdin pipe'' (Some err)), w)
      | None \<Rightarrow>
          (let w1 = w\<lparr> w_stdin_piped := True \<rparr> in
           case pipe_check (w_stdout_piped w1) (w_proc w1) ''Stdout'' of
             Some err \<Rightarrow> (Some (Wrapped ''failed to get stdout pipe'' (Some err)), w1)
           | None \<Rightarrow> (None, w1\<lparr> w_stdout_piped := True \<rparr>)))"

text \<open>
  \<open>Start\<close>.  \<open>ctx_err\<close> is \<^verbatim>\<open>ctx.Err()\<close>; \<open>start_err\<close> is the error of \<^verbatim>\<open>cmd.Start()\<close>, which sets the
  process when it is nil.  The goroutines are started before the process is.
\<close>

definition Start :: "go_error option \<Rightarrow> go_error option \<Rightarrow> ProcessWorker \<Rightarrow> go_error option \<times> ProcessWorker" where
  "Start ctx_err start_err w =
     (if w_proc w then (Some ErrWorkerAlreadyStarted, w)
      else if ctx_err \<noteq> None then (Some (Wrapped ''won't start process'' ctx_err), w)
      else case pipe_check (w_stderr_piped w) (w_proc w) ''Stderr'' of
        Some err \<Rightarrow> (Some (Wrapped ''failed to get stderr pipe'' (Some err)), w)
      | None \<Rightarrow>
          (let w1 = w\<lparr> w_stderr_piped := True, w_goroutine := Parked \<rparr> in
           case start_err of
             Some err \<Rightarrow> (Some (Wrapped ''failed to start process'' (Some err)), w1)
           | None \<Rightarrow> (None, w1\<lparr> w_proc := True \<rparr>)))"

text \<open>
  \<open>Wait\<close> up to its blocking receive: the channel \<^verbatim>\<open>wait\<close> is closed once, later calls fail.
\<close>

definition Wait_enter :: "ProcessWorker \<Rightarrow> go_error option \<times> ProcessWorker" where
  "Wait_enter w =
     (if w_wait_closed w then (Some (ErrorString ''wait has already been called''), w)
      else (None, w\<lparr> w_wait_closed := True, w_waiter := Receiving \<rparr>))"

text \<open>
  \<open>WaitFor\<close> is \<open>Wait\<close> on a context derived from the caller's: one that ends with it, and after the
  deadline when that is positive.
\<close>

datatype wait_context = WithCancel | WithTimeout int

definition WaitFor_enter :: "int \<Rightarrow> ProcessWorker \<Rightarrow> wait_context \<times> go_error option \<times> ProcessWorker" where
  "WaitFor_enter deadline w = (if deadline \<le> 0 then WithCancel else WithTimeout deadline, Wait_enter w)"

text \<open>
  \<open>halt\<close>: the signals sent, as the target (negative for a process group) and the number.
  \<open>getpgid\<close> is the system call, \<open>None\<close> its error; the errors of \<open>kill\<close> are ignored.
\<close>

definition killProcess :: "(int \<Rightarrow> int option) \<Rightarrow> int \<Rightarrow> bool \<Rightarrow> int \<times> int" where
  "killProcess getpgid pid force =
     (let signal = (if force then 9 else 15) in
      case getpgid pid of Some pgid \<Rightarrow> (- pgid, signal) | None \<Rightarrow> (pid, signal))"

text \<open>
  The variants of \<^verbatim>\<open>worker_windows.go\<close>: the process itself is killed, whatever \<open>force\<close> says, and there is no
  process group to set up.  The signal number stands for the end the system brings about.
\<close>

definition killProcess_windows :: "int \<Rightarrow> bool \<Rightarrow> int \<times> int" where
  "killProcess_windows pid force = (pid, 9)"

definition initCmd_windows :: "Cmd \<Rightarrow> Cmd" where
  "initCmd_windows cmd = cmd"

definition halt :: "(int \<Rightarrow> int option) \<Rightarrow> int \<Rightarrow> bool \<Rightarrow> ProcessWorker \<Rightarrow> go_error option \<times> (int \<times> int) list" where
  "halt getpgid pid force w =
     (if \<not> w_proc w then (Some (ErrorString ''process is not running''), [])
      else (None, [killProcess getpgid pid force]))"

definition Stop :: "(int \<Rightarrow> int option) \<Rightarrow> int \<Rightarrow> ProcessWorker \<Rightarrow> go_error option \<times> (int \<times> int) list" where
  "Stop getpgid pid w = halt getpgid pid False w"

definition Kill :: "(int \<Rightarrow> int option) \<Rightarrow> int \<Rightarrow> ProcessWorker \<Rightarrow> go_error option \<times> (int \<times> int) list" where
  "Kill getpgid pid w = halt getpgid pid True w"

definition Pid :: "int \<Rightarrow> ProcessWorker \<Rightarrow> int" where
  "Pid pid w = (if \<not> w_proc w then 0 else pid)"


section \<open>The protocol\<close>

text \<open>
  The steps of a worker: the calls of its methods, the end of its process, the moves of its
  goroutine, and the end of the context of a waiting call.  When \<^verbatim>\<open>cmd.Start\<close> failed there is no
  process, and \<^verbatim>\<open>cmd.Wait\<close> fails at once.
\<close>

definition reaped_error :: "ProcessWorker \<Rightarrow> wait_error option" where
  "reaped_error w = (if w_proc w then w_end w else Some WaitOther)"

inductive worker_step :: "ProcessWorker \<Rightarrow> ProcessWorker \<Rightarrow> bool" where
  call_Start: "worker_step w (snd (Start ctx_err start_err w))"
| call_Wait: "worker_step w (snd (Wait_enter w))"
| call_ReadPipe: "worker_step w (snd (ReadPipe w))"
| call_WritePipe: "worker_step w (snd (WritePipe w))"
| call_DuplexPipe: "worker_step w (snd (DuplexPipe w))"
| process_ends: "w_proc w \<Longrightarrow> w_end w = None \<Longrightarrow>
    worker_step w (w\<lparr> w_end := Some e, w_stderr := out \<rparr>)"
| wake: "w_goroutine w = Parked \<Longrightarrow> w_wait_closed w \<Longrightarrow> worker_step w (w\<lparr> w_goroutine := Waiting \<rparr>)"
| reap: "w_goroutine w = Waiting \<Longrightarrow> reaped_error w = Some e \<Longrightarrow>
    worker_step w (w\<lparr> w_goroutine := Sending (getExitEvent e (w_stderr w)) \<rparr>)"
| deliver: "w_goroutine w = Sending evt \<Longrightarrow> w_waiter w = Receiving \<Longrightarrow>
    worker_step w (w\<lparr> w_goroutine := Finished, w_waiter := Got evt \<rparr>)"
| cancel: "w_waiter w = Receiving \<Longrightarrow> err = CtxCanceled \<or> err = CtxDeadlineExceeded \<Longrightarrow>
    worker_step w (w\<lparr> w_waiter := Cancelled err \<rparr>)"

definition worker_start :: "ProcessWorker \<Rightarrow> bool" where
  "worker_start w \<longleftrightarrow> (\<exists>environ config. w = NewProcessWorker environ config)"

text \<open>The event a worker may report: the one of the end of its process.\<close>

definition truthful :: "ProcessWorker \<Rightarrow> ExitEvent \<Rightarrow> bool" where
  "truthful w evt \<longleftrightarrow> (\<exists>e. reaped_error w = Some e \<and> evt = getExitEvent e (w_stderr w))"

definition worker_inv :: "ProcessWorker \<Rightarrow> bool" where
  "worker_inv w \<longleftrightarrow>
     (w_goroutine w \<noteq> NotStarted \<longleftrightarrow> w_stderr_piped w) \<and>
     (w_proc w \<longrightarrow> w_stderr_piped w) \<and> (w_end w \<noteq> None \<longrightarrow> w_proc w) \<and>
     (w_wait_closed w \<longleftrightarrow> w_waiter w \<noteq> NoWaiter) \<and>
     (w_goroutine w \<notin> {NotStarted, Parked} \<longrightarrow> w_wait_closed w) \<and>
     (\<forall>evt. w_goroutine w = Sending evt \<longrightarrow> truthful w evt \<and> (\<forall>x. w_waiter w \<noteq> Got x)) \<and>
     (w_goroutine w = Finished \<longleftrightarrow> (\<exists>evt. w_waiter w = Got evt)) \<and>
     (\<forall>evt. w_waiter w = Got evt \<longrightarrow> truthful w evt)"

lemmas worker_op_defs = Start_def Wait_enter_def ReadPipe_def WritePipe_def DuplexPipe_def pipe_check_def

interpretation worker: invariant_system worker_start worker_step worker_inv
proof unfold_locales
  show "worker_inv w" if "worker_start w" for w
    using that by (auto simp: worker_start_def NewProcessWorker_def worker_inv_def)
  show "worker_inv t" if "worker_inv w" "worker_step w t" for w t
    using that(2,1)
    by (cases rule: worker_step.cases)
      (auto simp: worker_inv_def worker_op_defs truthful_def reaped_error_def Let_def
        split: option.splits if_splits)
qed

text \<open>A waiting call that was cancelled stays cancelled, and then nothing receives the event.\<close>

lemma cancelled_stays:
  assumes "worker_step\<^sup>*\<^sup>* w w'" and "worker_inv w" and "w_waiter w = Cancelled err"
  shows "w_waiter w' = Cancelled err \<and> worker_inv w'"
  using assms
proof (induction rule: rtranclp_induct)
  case (step x y)
  then have x: "w_waiter x = Cancelled err" "worker_inv x" by auto
  have "w_waiter y = Cancelled err"
    using step(2) x
    by (cases rule: worker_step.cases)
      (auto simp: worker_op_defs worker_inv_def Let_def split: option.splits if_splits)
  with worker.step_inv [OF x(2) step(2)] show ?case by simp
qed simp

text \<open>From a waiting call on a process that has ended, the goroutine can deliver the event.\<close>

lemma wait_completes:
  assumes inv: "worker_inv w" and r: "w_waiter w = Receiving" and g: "w_goroutine w \<noteq> NotStarted"
    and e: "reaped_error w = Some e"
  shows "\<exists>w'. worker_step\<^sup>*\<^sup>* w w' \<and> w_waiter w' = Got (getExitEvent e (w_stderr w)) \<and> w_goroutine w' = Finished"
proof -
  let ?evt = "getExitEvent e (w_stderr w)"
  have send: "\<exists>w'. worker_step\<^sup>*\<^sup>* x w' \<and> w_waiter w' = Got ?evt \<and> w_goroutine w' = Finished"
    if "w_goroutine x = Sending ?evt" "w_waiter x = Receiving" for x
    using deliver [OF that] by (intro exI [of _ "x\<lparr> w_goroutine := Finished, w_waiter := Got ?evt \<rparr>"]) auto
  have waiting: "\<exists>w'. worker_step\<^sup>*\<^sup>* x w' \<and> w_waiter w' = Got ?evt \<and> w_goroutine w' = Finished"
    if "w_goroutine x = Waiting" "w_waiter x = Receiving" "reaped_error x = Some e" "w_stderr x = w_stderr w" for x
    using reap [OF that(1,3)] send [of "x\<lparr> w_goroutine := Sending ?evt \<rparr>"] that
    by (auto intro: converse_rtranclp_into_rtranclp)
  have closed: "w_wait_closed w" using inv r by (simp add: worker_inv_def)
  show ?thesis
  proof (cases "w_goroutine w")
    case Parked
    have "reaped_error (w\<lparr> w_goroutine := Waiting \<rparr>) = Some e" using e by (simp add: reaped_error_def split: if_splits)
    with waiting [of "w\<lparr> w_goroutine := Waiting \<rparr>"] wake [OF Parked closed] r
    show ?thesis by (auto intro: converse_rtranclp_into_rtranclp)
  next
    case Waiting
    then show ?thesis using waiting [of w] r e by simp
  next
    case (Sending evt)
    with inv e have "evt = ?evt" by (auto simp: worker_inv_def truthful_def)
    with Sending show ?thesis using send [of w] r by simp
  qed (use g inv r in \<open>auto simp: worker_inv_def\<close>)
qed

end
