(* ===== verification/Worker_Contract.thy ===== *)
theory Worker_Contract
  imports Worker
begin

text \<open>
  What a worker promises to the adapters: the exit event it reports, and what becomes of its
  goroutine.
\<close>

section \<open>A concrete run for the witnesses\<close>

definition sample_worker :: ProcessWorker where
  "sample_worker = NewProcessWorker []
     \<lparr> sc_Cmd = ''python'', sc_Cwd = [], sc_Args = [], sc_Env = None \<rparr>"

definition started_worker :: ProcessWorker where
  "started_worker = snd (Start None None sample_worker)"

definition waiting_worker :: ProcessWorker where
  "waiting_worker = snd (Wait_enter started_worker)"

definition ended_worker :: ProcessWorker where
  "ended_worker = waiting_worker\<lparr> w_end := Some (WaitExitError (Some (Exited 3))), w_stderr := ''oops'' \<rparr>"

definition cancelled_worker :: ProcessWorker where
  "cancelled_worker = ended_worker\<lparr> w_waiter := Cancelled CtxDeadlineExceeded \<rparr>"

lemmas sample_worker_defs = cancelled_worker_def ended_worker_def waiting_worker_def started_worker_def
  sample_worker_def NewProcessWorker_def worker_op_defs

lemmas worker_reach = reachable_step [where start = worker_start and step = worker_step]

lemma reachable_ended: "reachable worker_start worker_step ended_worker"
proof -
  have "reachable worker_start worker_step sample_worker"
    by (rule reachable_start) (auto simp: worker_start_def sample_worker_def)
  then have "reachable worker_start worker_step waiting_worker"
    unfolding waiting_worker_def started_worker_def
    by (intro worker_reach [OF _ call_Wait] worker_reach [OF _ call_Start])
  moreover have "worker_step waiting_worker ended_worker"
    unfolding ended_worker_def by (rule process_ends) (simp_all add: sample_worker_defs)
  ultimately show ?thesis by (rule reachable_step)
qed

lemma reachable_cancelled: "reachable worker_start worker_step cancelled_worker"
  unfolding cancelled_worker_def
  by (rule worker_reach [OF reachable_ended], rule cancel) (simp_all add: sample_worker_defs)

section \<open>Properties\<close>



text \<open>
  A call of \<open>Wait\<close> on a started worker whose process has ended can always complete: the
  goroutine has steps that deliver the exit event and close the channels.
\<close>

theorem wait_can_complete:
  assumes "reachable worker_start worker_step w" and "w_waiter w = Receiving"
    and "w_goroutine w \<noteq> NotStarted" and "reaped_error w = Some e"
  shows "\<exists>w'. worker_step\<^sup>*\<^sup>* w w' \<and> w_waiter w' = Got (getExitEvent e (w_stderr w)) \<and> w_goroutine w' = Finished"
  by (rule wait_completes [OF worker.reachable_inv [OF assms(1)] assms(2-4)])

theorem wait_can_complete_witness:
  "\<exists>w'. worker_step\<^sup>*\<^sup>* ended_worker w' \<and> w_goroutine w' = Finished"
proof -
  have "\<exists>w'. worker_step\<^sup>*\<^sup>* ended_worker w' \<and>
      w_waiter w' = Got (getExitEvent (WaitExitError (Some (Exited 3))) (w_stderr ended_worker)) \<and> w_goroutine w' = Finished"
    by (rule wait_can_complete [OF reachable_ended])
       (simp_all add: sample_worker_defs reaped_error_def)
  then show ?thesis by blast
qed

text \<open>
  C30: once a waiting call is cancelled before the event arrives, the exit event is lost: no
  later call can wait, and the worker's goroutine never finishes and never closes \<^verbatim>\<open>w.done\<close>,
  whatever happens next.
\<close>

theorem cancelled_wait_leaks_goroutine:
  assumes "reachable worker_start worker_step w" and "w_waiter w = Cancelled err"
    and "worker_step\<^sup>*\<^sup>* w w'"
  shows "w_goroutine w' \<noteq> Finished \<and> fst (Wait_enter w') = Some (ErrorString ''wait has already been called'')"
  using cancelled_stays [OF assms(3) worker.reachable_inv [OF assms(1)] assms(2)]
  by (auto simp: worker_inv_def Wait_enter_def)

theorem cancelled_wait_leaks_goroutine_witness:
  "w_goroutine (cancelled_worker\<lparr> w_goroutine := Waiting \<rparr>) \<noteq> Finished"
proof -
  have "worker_step cancelled_worker (cancelled_worker\<lparr> w_goroutine := Waiting \<rparr>)"
    by (rule wake) (simp_all add: sample_worker_defs)
  then have "worker_step\<^sup>*\<^sup>* cancelled_worker (cancelled_worker\<lparr> w_goroutine := Waiting \<rparr>)" by simp
  moreover have "w_waiter cancelled_worker = Cancelled CtxDeadlineExceeded"
    by (simp add: cancelled_worker_def)
  ultimately show ?thesis using cancelled_wait_leaks_goroutine [OF reachable_cancelled] by blast
qed

end
