(* ===== verification/Adapters.thy ===== *)
theory Adapters
  imports Worker "HOL-Library.Word"
begin

text \<open>
  \<^verbatim>\<open>internal/execution/supervisor/adapter.go\<close>, \<^verbatim>\<open>adapter_rpc.go\<close> and \<^verbatim>\<open>adapter_file.go\<close>: how a
  supervisor talks to its worker.  The RPC client library, the file system calls and the moments
  at which contexts end are parameters; the worker is the one of theory \<^verbatim>\<open>Worker\<close>.
\<close>

section \<open>Configuration\<close>

type_synonym IOInterface = string
type_synonym IOTransport = string

definition RpcIO :: IOInterface where "RpcIO = ''rpc''"
definition FileIO :: IOInterface where "FileIO = ''file''"
definition WasmIO :: IOInterface where "WasmIO = ''wasm''"

definition IpcTransport :: IOTransport where "IpcTransport = ''ipc''"
definition HttpTransport :: IOTransport where "HttpTransport = ''http''"
definition StdioTransport :: IOTransport where "StdioTransport = ''stdio''"
definition WsTransport :: IOTransport where "WsTransport = ''ws''"
definition TcpTransport :: IOTransport where "TcpTransport = ''tcp''"

lemmas io_defs = RpcIO_def FileIO_def WasmIO_def IpcTransport_def HttpTransport_def
  StdioTransport_def WsTransport_def TcpTransport_def

record RpcConfig =
  rc_Transport :: IOTransport
  rc_HttpUrl :: string
  rc_IpcEndpoint :: string
  rc_WsUrl :: string
  rc_TcpAddress :: string

record IOConfig =
  io_Interface :: IOInterface
  io_Rpc :: RpcConfig

definition getIPCEndpoint :: "bool \<Rightarrow> string \<Rightarrow> string" where
  "getIPCEndpoint windows endpoint =
     (if endpoint \<noteq> [] then endpoint
      else if windows then [CHR 0x5C, CHR 0x5C] @ ''.'' @ [CHR 0x5C] @ ''pipe'' @ [CHR 0x5C] @ ''eval''
      else ''/tmp/eval.sock'')"

definition buildEnv :: "bool \<Rightarrow> string list option \<Rightarrow> RpcConfig \<Rightarrow> string list" where
  "buildEnv windows env config =
     (case env of None \<Rightarrow> [] | Some e \<Rightarrow> e) @
     [''EVAL_IO=rpc'', ''EVAL_RPC_TRANSPORT='' @ rc_Transport config] @
     (if rc_Transport config = IpcTransport
      then [''EVAL_RPC_IPC_ENDPOINT='' @ getIPCEndpoint windows (rc_IpcEndpoint config)]
      else if rc_Transport config = HttpTransport then [''EVAL_RPC_HTTP_URL='' @ rc_HttpUrl config]
      else if rc_Transport config = WsTransport then [''EVAL_RPC_WS_URL='' @ rc_WsUrl config]
      else if rc_Transport config = TcpTransport then [''EVAL_RPC_TCP_ADDRESS='' @ rc_TcpAddress config]
      else [])"

section \<open>Dialing with a backoff\<close>

text \<open>
  A \<open>time.Duration\<close> is a signed 64-bit number of nanoseconds.  \<^verbatim>\<open>time.Duration(math.Pow(2, i))\<close> is
  exact below 63; from there on the conversion is out of range and its result depends on the
  platform: \<open>conv\<close>.
\<close>

type_synonym Duration = "64 word"

definition backoffDelay :: "(nat \<Rightarrow> Duration) \<Rightarrow> Duration \<Rightarrow> Duration \<Rightarrow> nat \<Rightarrow> Duration" where
  "backoffDelay conv baseDelay maxDelay i =
     (let d = baseDelay * (if i < 63 then 2 ^ i else conv i)
      in if maxDelay <s d then maxDelay else d)"

definition initialDelay :: Duration where "initialDelay = 100000000"
definition maximalDelay :: Duration where "maximalDelay = 10000000000"

text \<open>
  The loop of \<open>dialRpcWithRetry\<close> from attempt \<open>i\<close> on.  \<open>dial i\<close> is the outcome of that call of
  \<open>dialRpc\<close>, \<open>expired i\<close> whether the context ends before the timer of that attempt.  The loop
  reports the outer variable \<^verbatim>\<open>err\<close>, which the \<^verbatim>\<open>:=\<close> in the condition shadows: it is nil.  The
  second component lists the delays waited.
\<close>

partial_function (option) dial_loop ::
  "(nat \<Rightarrow> go_error + 'c) \<Rightarrow> (nat \<Rightarrow> bool) \<Rightarrow> (nat \<Rightarrow> Duration) \<Rightarrow> nat \<Rightarrow> Duration list
     \<Rightarrow> ((go_error + 'c) \<times> Duration list) option" where
  "dial_loop dial expired delay i waited =
     (case dial i of
        Inr client \<Rightarrow> Some (Inr client, waited)
      | Inl _ \<Rightarrow>
          (if expired i then Some (Inl (Wrapped ''error dialing rpc'' None), waited)
           else dial_loop dial expired delay (Suc i) (waited @ [delay i])))"

definition dialRpcWithRetry ::
  "(nat \<Rightarrow> Duration) \<Rightarrow> (nat \<Rightarrow> go_error + 'c) \<Rightarrow> (nat \<Rightarrow> bool) \<Rightarrow> Duration \<Rightarrow> Duration
     \<Rightarrow> ((go_error + 'c) \<times> Duration list) option" where
  "dialRpcWithRetry conv dial expired baseDelay maxDelay =
     dial_loop dial expired (backoffDelay conv baseDelay maxDelay) 0 []"

text \<open>
  One call of \<open>dialRpc\<close>: what can be decided before the library dials.  \<open>lib\<close> is the dial call of
  the library for the transport, applied to its address.
\<close>

definition dialRpc ::
  "bool \<Rightarrow> (IOTransport \<Rightarrow> string \<Rightarrow> go_error + 'c) \<Rightarrow> bool \<Rightarrow> bool \<Rightarrow> RpcConfig \<Rightarrow> go_error + 'c" where
  "dialRpc windows lib has_worker has_pipe config =
     (if \<not> has_worker then Inl (ErrorString ''worker not available'')
      else if rc_Transport config = StdioTransport then
        (if \<not> has_pipe then Inl (ErrorString ''stdio pipe not available'') else lib StdioTransport [])
      else if rc_Transport config = IpcTransport then
        lib IpcTransport (getIPCEndpoint windows (rc_IpcEndpoint config))
      else if rc_Transport config = HttpTransport then lib HttpTransport (rc_HttpUrl config)
      else if rc_Transport config = WsTransport then lib WsTransport (rc_WsUrl config)
      else if rc_Transport config = TcpTransport then lib TcpTransport (rc_TcpAddress config)
      else Inl ErrUnsupportedIOTransport)"

section \<open>The RPC adapter\<close>

type_synonym worker_factory = "StartConfig \<Rightarrow> go_error + ProcessWorker"

record 'c rpcAdapter =
  ra_workerFactory :: "worker_factory option"
  ra_worker :: "ProcessWorker option"
  ra_stdioPipe :: bool
  ra_rpcClient :: "'c option"
  ra_config :: RpcConfig

definition newRpcAdapter :: "worker_factory option \<Rightarrow> RpcConfig \<Rightarrow> 'c rpcAdapter" where
  "newRpcAdapter workerFactory config =
     \<lparr> ra_workerFactory = workerFactory, ra_worker = None, ra_stdioPipe = False,
       ra_rpcClient = None, ra_config = config \<rparr>"

text \<open>
  What the outside decides during \<open>Start\<close>: the platform, the context error and the error of
  \<^verbatim>\<open>cmd.Start\<close>, the dial calls of the library and when the context ends.
\<close>

record 'c rpc_env =
  re_windows :: bool
  re_ctx_err :: "go_error option"
  re_start_err :: "go_error option"
  re_dial :: "nat \<Rightarrow> IOTransport \<Rightarrow> string \<Rightarrow> go_error + 'c"
  re_expired :: "nat \<Rightarrow> bool"
  re_conv :: "nat \<Rightarrow> Duration"

text \<open>The value \<open>None\<close> stands for a call that never returns.\<close>

definition rpcAdapter_Start ::
  "'c rpc_env \<Rightarrow> StartConfig \<Rightarrow> 'c rpcAdapter \<Rightarrow> (go_error option \<times> 'c rpcAdapter) option" where
  "rpcAdapter_Start E params a =
     (case ra_workerFactory a of
        None \<Rightarrow> Some (Some (ErrorString ''no worker factory provided''), a)
      | Some factory \<Rightarrow>
         (case factory (params\<lparr> sc_Env := Some (buildEnv (re_windows E) (sc_Env params) (ra_config a)) \<rparr>) of
            Inl err \<Rightarrow> Some (Some (Wrapped ''error creating worker'' (Some err)), a)
          | Inr w \<Rightarrow>
             (let stdio = (rc_Transport (ra_config a) = StdioTransport) in
              case (if stdio then DuplexPipe w else (None, w)) of
                (Some err, w1) \<Rightarrow>
                  Some (Some (Wrapped ''error creating duplex pipe'' (Some err)), a\<lparr> ra_worker := Some w1 \<rparr>)
              | (None, w1) \<Rightarrow>
                 (let a1 = a\<lparr> ra_stdioPipe := ra_stdioPipe a \<or> stdio \<rparr> in
                  case Start (re_ctx_err E) (re_start_err E) w1 of
                    (Some err, w2) \<Rightarrow>
                      Some (Some (Wrapped ''error starting worker'' (Some err)), a1\<lparr> ra_worker := Some w2 \<rparr>)
                  | (None, w2) \<Rightarrow>
                     (let a2 = a1\<lparr> ra_worker := Some w2 \<rparr> in
                      case dialRpcWithRetry (re_conv E)
                             (\<lambda>i. dialRpc (re_windows E) (re_dial E i) True (ra_stdioPipe a2) (ra_config a2))
                             (re_expired E) initialDelay maximalDelay of
                        None \<Rightarrow> None
                      | Some (Inl err, _) \<Rightarrow> Some (Some err, a2)
                      | Some (Inr client, _) \<Rightarrow> Some (None, a2\<lparr> ra_rpcClient := Some client \<rparr>))))))"

text \<open>\<open>call\<close> is \<^verbatim>\<open>CallContext\<close> of the client: the decoded result or an error.\<close>

definition rpcAdapter_Send ::
  "('c \<Rightarrow> string \<Rightarrow> gomap \<Rightarrow> go_error + gomap) \<Rightarrow> string \<Rightarrow> gomap \<Rightarrow> 'c rpcAdapter \<Rightarrow> go_error + gomap" where
  "rpcAdapter_Send call method data a =
     (if ra_worker a = None then Inl (ErrorString ''no worker provided'')
      else case ra_rpcClient a of
        None \<Rightarrow> Inl (ErrorString ''rpc client not available'')
      | Some client \<Rightarrow>
         (case call client method data of
            Inl err \<Rightarrow> Inl (Wrapped ''error sending rpc request'' (Some err))
          | Inr result \<Rightarrow> Inr (mlit [(''result'', GMap result), (''command'', GStr method)])))"

text \<open>
  \<open>stopWorker\<close>: the signals sent, and an error or the permission to wait.  \<open>release_wait\<close> is the
  function it returns, where \<open>outcome\<close> is what the blocking receive of \<open>Wait\<close> ends with.
\<close>

definition stopWorker ::
  "(int \<Rightarrow> int option) \<Rightarrow> int \<Rightarrow> ProcessWorker \<Rightarrow> go_error option \<times> (int \<times> int) list" where
  "stopWorker getpgid pid w = Stop getpgid pid w"

definition release_wait :: "go_error + ExitEvent \<Rightarrow> ProcessWorker \<Rightarrow> go_error option \<times> ProcessWorker" where
  "release_wait outcome w =
     (case Wait_enter w of
        (Some err, w') \<Rightarrow> (Some err, w')
      | (None, w') \<Rightarrow> (case outcome of Inl err \<Rightarrow> (Some err, w') | Inr _ \<Rightarrow> (None, w')))"

definition rpcAdapter_Stop ::
  "(int \<Rightarrow> int option) \<Rightarrow> int \<Rightarrow> 'c rpcAdapter \<Rightarrow> go_error option \<times> (int \<times> int) list" where
  "rpcAdapter_Stop getpgid pid a =
     (case ra_worker a of
        None \<Rightarrow> (Some (ErrorString ''no worker provided''), [])
      | Some w \<Rightarrow> stopWorker getpgid pid w)"


section \<open>The file adapter\<close>

text \<open>
  The part of the file system the adapter uses: its directories, and its files with their
  contents.  An open file keeps its contents when the name is removed; the adapter reads the
  response before the deferred removals run.
\<close>

record file_world =
  fw_dirs :: "string fset"
  fw_files :: "(string, body) fmap"

definition os_ErrExist :: go_error where
  "os_ErrExist = ErrorString ''file exists''"

text \<open>
  What the outside decides during \<open>Send\<close>: the outcomes of the file system calls (the temporary
  names are chosen by the system), those of the start, whether the process ever closes its
  standard output, how the call of \<open>Wait\<close> ends, and what the process does to the files, given
  its arguments and environment.
\<close>

record file_env =
  fe_Mkdir :: "go_error option"
  fe_MkdirTemp :: "go_error + string"
  fe_RequestTemp :: "go_error + string"
  fe_ResponseTemp :: "go_error + string"
  fe_Encode :: "go_error option"
  fe_Close :: "go_error option"
  fe_ctx_err :: "go_error option"
  fe_start_err :: "go_error option"
  fe_process :: "Cmd \<Rightarrow> (string, body) fmap \<Rightarrow> (string, body) fmap"
  fe_stdout_closes :: bool
  fe_wait :: "go_error + ExitEvent"

record fileAdapter =
  fa_workerFactory :: "worker_factory option"
  fa_startParams :: StartConfig
  fa_worker :: "ProcessWorker option"

definition newFileAdapter :: "worker_factory option \<Rightarrow> fileAdapter" where
  "newFileAdapter workerFactory =
     \<lparr> fa_workerFactory = workerFactory,
       fa_startParams = \<lparr> sc_Cmd = [], sc_Cwd = [], sc_Args = [], sc_Env = None \<rparr>, fa_worker = None \<rparr>"

definition fileAdapter_Start :: "StartConfig \<Rightarrow> fileAdapter \<Rightarrow> go_error option \<times> fileAdapter" where
  "fileAdapter_Start params a = (None, a\<lparr> fa_startParams := params \<rparr>)"

definition fileAdapter_Stop :: "fileAdapter \<Rightarrow> go_error option" where
  "fileAdapter_Stop a = None"

definition create_file :: "string \<Rightarrow> file_world \<Rightarrow> file_world" where
  "create_file name fw = fw\<lparr> fw_files := fmupd name empty_body (fw_files fw) \<rparr>"

definition remove_file :: "string \<Rightarrow> file_world \<Rightarrow> file_world" where
  "remove_file name fw = fw\<lparr> fw_files := fmdrop name (fw_files fw) \<rparr>"

definition file_params :: "StartConfig \<Rightarrow> string \<Rightarrow> string \<Rightarrow> StartConfig" where
  "file_params params req res =
     params\<lparr> sc_Args := sc_Args params @ [req, res],
             sc_Env := Some ((case sc_Env params of None \<Rightarrow> [] | Some env \<Rightarrow> env) @
               [''EVAL_IO=FILE'', ''EVAL_FILE_NAME_REQUEST='' @ req, ''EVAL_FILE_NAME_RESPONSE='' @ res]) \<rparr>"

text \<open>The first value of the stream: an empty file is an end of file.\<close>

definition decode_file :: "body \<Rightarrow> go_error + gomap" where
  "decode_file b = (case b of
       Raw s e \<Rightarrow> Inl (ErrorString (if s = [] then ''EOF'' else e))
     | Doc j \<Rightarrow> (case UnmarshalMap (Doc j) of Inl e \<Rightarrow> Inl (ErrorString e) | Inr m \<Rightarrow> Inr m))"

definition request_message :: "string \<Rightarrow> gomap \<Rightarrow> body" where
  "request_message method data = Doc (to_json (GMap (mlit [(''command'', GStr method), (''params'', GMap data)])))"

text \<open>
  The run of the worker, from its creation to the decoded response, with both files created.
  The copy of standard output is awaited without the context: a process that never closes it
  makes the call hang (\<open>None\<close>), whatever the timeout.
\<close>

definition file_run ::
  "file_env \<Rightarrow> worker_factory \<Rightarrow> string \<Rightarrow> string \<Rightarrow> fileAdapter \<Rightarrow> file_world
     \<Rightarrow> ((go_error + gomap) \<times> fileAdapter \<times> file_world) option" where
  "file_run E factory req res a fw =
     (case factory (file_params (fa_startParams a) req res) of
        Inl err \<Rightarrow> Some (Inl (Wrapped ''error creating worker'' (Some err)), a, fw)
      | Inr w \<Rightarrow>
         (case ReadPipe w of
            (Some err, w1) \<Rightarrow>
              Some (Inl (Wrapped ''error getting read pipe'' (Some err)), a\<lparr> fa_worker := Some w1 \<rparr>, fw)
          | (None, w1) \<Rightarrow>
             (case Start (fe_ctx_err E) (fe_start_err E) w1 of
                (Some err, w2) \<Rightarrow>
                  Some (Inl (Wrapped ''error starting process'' (Some err)), a\<lparr> fa_worker := Some w2 \<rparr>, fw)
              | (None, w2) \<Rightarrow>
                 (if \<not> fe_stdout_closes E then None
                  else let fw1 = fw\<lparr> fw_files := fe_process E (w_cmd w2) (fw_files fw) \<rparr>;
                           w3 = snd (Wait_enter w2);
                           a1 = a\<lparr> fa_worker := Some w3 \<rparr>
                       in case fe_wait E of
                            Inl err \<Rightarrow> Some (Inl (Wrapped ''error waiting for process'' (Some err)), a1, fw1)
                          | Inr evt \<Rightarrow>
                             (if \<not> Success evt
                              then Some (Inl (ErrorString (''process exited with non-zero code: '' @
                                           ExitEvent_String evt)), a1, fw1)
                              else case decode_file (case fmlookup (fw_files fw1) res of
                                                       Some b \<Rightarrow> b | None \<Rightarrow> empty_body) of
                                     Inl err \<Rightarrow>
                                       Some (Inl (Wrapped ''error decoding response data'' (Some err)), a1, fw1)
                                   | Inr response \<Rightarrow> Some (Inr response, a1, fw1))))))"

definition fileAdapter_Send ::
  "file_env \<Rightarrow> string \<Rightarrow> gomap \<Rightarrow> fileAdapter \<Rightarrow> file_world
     \<Rightarrow> ((go_error + gomap) \<times> fileAdapter \<times> file_world) option" where
  "fileAdapter_Send E method data a fw =
     (case fa_workerFactory a of
        None \<Rightarrow> Some (Inl (ErrorString ''no worker factory provided''), a, fw)
      | Some factory \<Rightarrow>
     (if (case fe_Mkdir E of None \<Rightarrow> False | Some err \<Rightarrow> \<not> errors_is err os_ErrExist)
      then Some (Inl (Wrapped ''error creating working dir'' (fe_Mkdir E)), a, fw)
      else
     (case fe_MkdirTemp E of
        Inl err \<Rightarrow> Some (Inl (Wrapped ''error creating temp dir'' (Some err)), a, fw)
      | Inr tmpPath \<Rightarrow>
     (let fw0 = fw\<lparr> fw_dirs := finsert tmpPath (fw_dirs fw) \<rparr> in
      case fe_RequestTemp E of
        Inl err \<Rightarrow> Some (Inl (Wrapped ''error creating temp file'' (Some err)), a, fw0)
      | Inr req \<Rightarrow>
     (let fw1 = create_file req fw0 in
      case fe_ResponseTemp E of
        Inl err \<Rightarrow> Some (Inl (Wrapped ''error creating temp file'' (Some err)), a, remove_file req fw1)
      | Inr res \<Rightarrow>
     (let fw2 = create_file res fw1;
          cleanup = (\<lambda>fw. remove_file req (remove_file res fw)) in
      case fe_Encode E of
        Some err \<Rightarrow> Some (Inl (Wrapped ''error writing request data'' (Some err)), a, cleanup fw2)
      | None \<Rightarrow>
     (let fw3 = fw2\<lparr> fw_files := fmupd req (request_message method data) (fw_files fw2) \<rparr> in
      case fe_Close E of
        Some err \<Rightarrow> Some (Inl (Wrapped ''error closing request file'' (Some err)), a, cleanup fw3)
      | None \<Rightarrow> map_option (\<lambda>(r, a', fw'). (r, a', cleanup fw')) (file_run E factory req res a fw3))))))))"

end
