(* ===== verification/Adapter_Contract.thy ===== *)
theory Adapter_Contract
  imports Adapters Handler_Facts
begin

text \<open>
  The properties of the adapters: the environment a worker is started with, the retry loop of
  the RPC adapter and its delays, and the exchange of files.
\<close>

section \<open>Facts\<close>

lemma entry_value_self: "entry_value k (k @ ''='' @ v) = Some v"
  by (simp add: entry_value_def HasPrefix_def)

lemma NewProcessWorker_started [simp]:
  "ReadPipe (NewProcessWorker environ config) = (None, (NewProcessWorker environ config)\<lparr> w_stdout_piped := True \<rparr>)"
  by (simp add: ReadPipe_def NewProcessWorker_def pipe_check_def)

lemma sint_small: "0 \<le> y \<Longrightarrow> y < 2 ^ 63 \<Longrightarrow> sint (word_of_int y :: Duration) = y"
  unfolding sint_sbintrunc' by (intro signed_take_bit_int_eq_self) auto

text \<open>The loop of attempts up to the first one that ends it.\<close>

lemma dial_loop_skip:
  assumes "\<And>j. i \<le> j \<Longrightarrow> j < i + n \<Longrightarrow> (\<exists>e. dial j = Inl e) \<and> \<not> expired j"
  shows "dial_loop dial expired delay i ws = dial_loop dial expired delay (i + n) (ws @ map delay [i..<i + n])"
  using assms
proof (induction n arbitrary: i ws)
  case (Suc n)
  from Suc.prems [of i] obtain e where "dial i = Inl e" "\<not> expired i" by auto
  then have "dial_loop dial expired delay i ws = dial_loop dial expired delay (Suc i) (ws @ [delay i])"
    by (subst dial_loop.simps) simp
  also have "\<dots> = dial_loop dial expired delay (Suc i + n) ((ws @ [delay i]) @ map delay [Suc i..<Suc i + n])"
    using Suc.prems by (intro Suc.IH) auto
  finally show ?case by (simp add: upt_conv_Cons del: upt_Suc)
qed simp

section \<open>Properties\<close>





text \<open>
  C33: the retry loop returns as soon as an attempt succeeds or the context ends: with the client
  of the first attempt that succeeds, or with an error.  The error is the same whatever the
  attempts failed with: it wraps the nil error of the outer variable.
\<close>

theorem dial_retry_result:
  assumes "\<And>j. j < n \<Longrightarrow> (\<exists>e. dial j = Inl e) \<and> \<not> expired j"
    and "(\<exists>c. dial n = Inr c) \<or> expired n"
  shows "dialRpcWithRetry conv dial expired base m =
    Some (case dial n of Inr c \<Rightarrow> Inr c | Inl _ \<Rightarrow> Inl (Wrapped ''error dialing rpc'' None),
          map (backoffDelay conv base m) [0..<n]) \<and>
    err_text (Wrapped ''error dialing rpc'' None) = ''error dialing rpc: %!w(<nil>)''"
proof -
  let ?d = "backoffDelay conv base m"
  have "dialRpcWithRetry conv dial expired base m = dial_loop dial expired ?d (0 + n) ([] @ map ?d [0..<0 + n])"
    unfolding dialRpcWithRetry_def by (rule dial_loop_skip) (use assms(1) in simp)
  also have "\<dots> = Some (case dial n of Inr c \<Rightarrow> Inr c | Inl _ \<Rightarrow> Inl (Wrapped ''error dialing rpc'' None), map ?d [0..<n])"
    using assms(2) by (subst dial_loop.simps) (auto split: sum.splits)
  finally show ?thesis by simp
qed

theorem dial_retry_result_witness:
  "dialRpcWithRetry (\<lambda>_. 0) (\<lambda>i. if i < 2 then Inl (ErrorString ''connection refused'') else Inr ()) (\<lambda>_. False)
     initialDelay maximalDelay = Some (Inr (), map (backoffDelay (\<lambda>_. 0) initialDelay maximalDelay) [0..<2])"
  using dial_retry_result [of 2 "\<lambda>i. if i < 2 then Inl (ErrorString ''connection refused'') else Inr ()" "\<lambda>_. False"]
  by simp


section \<open>The exchange of files\<close>

lemma file_run_files:
  assumes "file_run E factory req res a fw = Some (r, a', fw')"
  shows "fw_dirs fw' = fw_dirs fw \<and>
    (fw_files fw' = fw_files fw \<or> (\<exists>cmd. fw_files fw' = fe_process E cmd (fw_files fw)))"
  using assms
  by (auto simp: file_run_def Let_def split: sum.splits option.splits prod.splits if_splits)

text \<open>
  C34: \<open>Send\<close> of the file adapter leaves no file behind on any path on which it returns: when the
  names the system chose were free and the process creates no file of its own, the files are
  those from before.  The temporary directory it created is never removed.
\<close>

theorem file_send_cleans_files:
  assumes "fileAdapter_Send E method data a fw = Some (r, a', fw')"
    and "fe_RequestTemp E = Inr req \<Longrightarrow> req |\<notin>| fmdom (fw_files fw)"
    and "fe_ResponseTemp E = Inr res \<Longrightarrow> res |\<notin>| fmdom (fw_files fw)"
    and "\<And>cmd files. fmdom (fe_process E cmd files) |\<subseteq>| fmdom files"
    and "\<And>cmd files p. p \<noteq> req \<and> p \<noteq> res \<Longrightarrow> fmlookup (fe_process E cmd files) p = fmlookup files p"
    and "fe_RequestTemp E \<in> {Inr req} \<union> range Inl" and "fe_ResponseTemp E \<in> {Inr res} \<union> range Inl"
  shows "fw_files fw' = fw_files fw \<and>
    (fa_workerFactory a \<noteq> None \<and> fe_Mkdir E = None \<and> fe_MkdirTemp E = Inr tmp \<longrightarrow> tmp |\<in>| fw_dirs fw')"
proof -
  have run: "fw_files (remove_file req (remove_file res fwr)) = fw_files fw \<and> fw_dirs fwr = fw_dirs fw3"
    if "file_run E factory req res a fw3 = Some (r', ar, fwr)"
      and "fw_files fw3 = fmupd req m (fmupd res b (fmupd req b' (fw_files fw)))"
      and "req |\<notin>| fmdom (fw_files fw)" "res |\<notin>| fmdom (fw_files fw)"
    for factory fw3 r' ar fwr m b b'
  proof -
    have "fmlookup (fw_files fwr) p = fmlookup (fw_files fw) p" if "p \<noteq> req" "p \<noteq> res" for p
      using file_run_files [OF \<open>file_run E factory req res a fw3 = _\<close>] that assms(5)
        \<open>fw_files fw3 = _\<close> by auto
    then have "fw_files (remove_file req (remove_file res fwr)) = fw_files fw"
      using that(3,4) by (intro fmap_ext) (auto simp: remove_file_def fmdom_notD)
    then show ?thesis using file_run_files [OF that(1)] by simp
  qed
  have drop: "fmdrop req (fmdrop res (fmupd res b (fmupd req b' f))) = f" "fmdrop req (fmupd req b f) = f"
      "fmdrop req (fmdrop res (fmupd req c (fmupd res b (fmupd req b' f)))) = f"
    if "req |\<notin>| fmdom f" "res |\<notin>| fmdom f" for f and b b' c :: body
    using that by (auto intro!: fmap_ext simp: fmdom_notD)
  have drop1: "fmdrop req (fmupd req b f) = f" if "req |\<notin>| fmdom f" for f and b :: body
    using that by (auto intro!: fmap_ext simp: fmdom_notD)
  show ?thesis
    using assms(1-3,6,7) drop drop1
    by (auto simp: fileAdapter_Send_def Let_def create_file_def remove_file_def
        split: option.splits if_splits sum.splits dest!: run)
qed


text \<open>An environment in which the file system calls succeed and the process starts.\<close>

definition file_calls_ok :: "file_env \<Rightarrow> string \<Rightarrow> string \<Rightarrow> bool" where
  "file_calls_ok E req res \<longleftrightarrow>
     fe_Mkdir E = None \<and> (\<exists>tmp. fe_MkdirTemp E = Inr tmp) \<and> fe_RequestTemp E = Inr req \<and>
     fe_ResponseTemp E = Inr res \<and> fe_Encode E = None \<and> fe_Close E = None \<and>
     fe_ctx_err E = None \<and> fe_start_err E = None"

lemma start_fresh_worker:
  "Start None None ((NewProcessWorker environ config)\<lparr> w_stdout_piped := True \<rparr>) =
    (None, (NewProcessWorker environ config)\<lparr> w_stdout_piped := True, w_stderr_piped := True,
        w_goroutine := Parked, w_proc := True \<rparr>)"
  by (simp add: Start_def NewProcessWorker_def pipe_check_def)

text \<open>The process, the command it is given and the files it finds.\<close>

lemma file_send_runs:
  assumes "file_calls_ok E req res" and "req \<noteq> res"
    and "fa_workerFactory a = Some (\<lambda>c. Inr (NewProcessWorker environ c))"
  shows "\<exists>fw3 cleanup. fmlookup (fw_files fw3) req = Some (request_message method data) \<and>
     fmlookup (fw_files fw3) res = Some empty_body \<and>
     fileAdapter_Send E method data a fw =
       map_option (\<lambda>(r, a', fw'). (r, a', cleanup fw'))
         (file_run E (\<lambda>c. Inr (NewProcessWorker environ c)) req res a fw3)"
  using assms
  by (force simp: fileAdapter_Send_def file_calls_ok_def Let_def create_file_def)

lemma file_send_result:
  fixes a :: fileAdapter
  assumes "file_calls_ok E req res" and "req \<noteq> res"
    and "fa_workerFactory a = Some (\<lambda>c. Inr (NewProcessWorker environ c))"
    and "fe_stdout_closes E" and "fe_wait E = Inr evt"
    and "\<And>cmd files. cmd = createCmd environ (file_params (fa_startParams a) req res) \<Longrightarrow>
           fmlookup files req = Some (request_message method data) \<Longrightarrow>
           fmlookup files res = Some empty_body \<Longrightarrow>
           fmlookup (fe_process E cmd files) res = Some (Doc j)"
  shows "\<exists>a' fw'. fileAdapter_Send E method data a fw =
    Some (if Success evt then (case UnmarshalMap (Doc j) of
              Inl e \<Rightarrow> Inl (Wrapped ''error decoding response data'' (Some (ErrorString e))) | Inr m \<Rightarrow> Inr m)
          else Inl (ErrorString (''process exited with non-zero code: '' @ ExitEvent_String evt)), a', fw')"
proof -
  obtain fw3 cleanup where f: "fmlookup (fw_files fw3) req = Some (request_message method data)"
      "fmlookup (fw_files fw3) res = Some empty_body"
    and s: "fileAdapter_Send E method data a fw =
       map_option (\<lambda>(r, a', fw'). (r, a', cleanup fw'))
         (file_run E (\<lambda>c. Inr (NewProcessWorker environ c)) req res a fw3)"
    using file_send_runs [OF assms(1-3)] by blast
  have cmd: "w_cmd (NewProcessWorker environ c) = createCmd environ c" for c
    by (simp add: NewProcessWorker_def)
  show ?thesis
    unfolding s using assms(1,4,5) assms(6) [OF refl f(1,2)]
    by (auto simp: file_run_def file_calls_ok_def start_fresh_worker Let_def cmd decode_file_def
        split: sum.splits)
qed


text \<open>
  The timeout of \<open>Send\<close> does not bound the exchange: a process that keeps its standard output
  open makes the call hang, since the copy of the output is awaited without the context.
\<close>

theorem file_send_hangs:
  fixes a :: fileAdapter
  assumes "file_calls_ok E req res" and "req \<noteq> res"
    and "fa_workerFactory a = Some (\<lambda>c. Inr (NewProcessWorker environ c))"
    and "\<not> fe_stdout_closes E" and "fe_wait E = Inl CtxDeadlineExceeded"
  shows "fileAdapter_Send E method data a fw = None"
proof -
  obtain fw3 cleanup where
    s: "fileAdapter_Send E method data a fw =
       map_option (\<lambda>(r, a', fw'). (r, a', cleanup fw'))
         (file_run E (\<lambda>c. Inr (NewProcessWorker environ c)) req res a fw3)"
    using file_send_runs [OF assms(1-3)] by blast
  show ?thesis
    unfolding s using assms(1,4) by (simp add: file_run_def file_calls_ok_def start_fresh_worker)
qed

section \<open>Concrete exchanges for the witnesses\<close>

text \<open>A process that answers the request file with a fixed object in the response file.\<close>

definition sample_files :: "bool \<Rightarrow> file_env" where
  "sample_files closes =
     \<lparr> fe_Mkdir = None, fe_MkdirTemp = Inr ''/tmp/shimmy/1'', fe_RequestTemp = Inr ''/tmp/shimmy/1/request-data-1'',
       fe_ResponseTemp = Inr ''/tmp/shimmy/1/response-data-1'', fe_Encode = None, fe_Close = None,
       fe_ctx_err = None, fe_start_err = None,
       fe_process = (\<lambda>cmd files.
          if last (cmd_Args cmd) \<noteq> ''/tmp/shimmy/1/response-data-1'' \<or>
             fmlookup files ''/tmp/shimmy/1/response-data-1'' = None then files
          else fmupd ''/tmp/shimmy/1/response-data-1'' (Doc (JObj [(''command'', JStr ''eval'')])) files),
       fe_stdout_closes = closes,
       fe_wait = (if closes then Inr \<lparr> ee_Code = Some 0, ee_Signal = None, ee_Stderr = [] \<rparr>
                  else Inl CtxDeadlineExceeded) \<rparr>"

definition sample_adapter :: fileAdapter where
  "sample_adapter = newFileAdapter (Some (\<lambda>c. Inr (NewProcessWorker [] c)))"

definition no_files :: file_world where
  "no_files = \<lparr> fw_dirs = {||}, fw_files = fmempty \<rparr>"

lemma sample_files_ok: "file_calls_ok (sample_files b) ''/tmp/shimmy/1/request-data-1'' ''/tmp/shimmy/1/response-data-1''"
  by (simp add: file_calls_ok_def sample_files_def)

lemma sample_adapter_factory: "fa_workerFactory sample_adapter = Some (\<lambda>c. Inr (NewProcessWorker [] c))"
  by (simp add: sample_adapter_def newFileAdapter_def)

theorem file_send_hangs_witness:
  "fileAdapter_Send (sample_files False) ''eval'' None sample_adapter no_files = None"
  by (rule file_send_hangs [OF sample_files_ok _ sample_adapter_factory]) (simp_all add: sample_files_def)



lemma sample_send_returns:
  "\<exists>r a' fw'. fileAdapter_Send (sample_files True) ''eval'' None sample_adapter no_files = Some (r, a', fw')"
proof -
  have "fileAdapter_Send (sample_files True) ''eval'' None sample_adapter no_files \<noteq> None"
    by (simp add: sample_files_def sample_adapter_def newFileAdapter_def no_files_def fileAdapter_Send_def
        file_run_def start_fresh_worker Let_def split: sum.splits)
  then show ?thesis by auto
qed

theorem file_send_cleans_files_witness:
  "\<exists>r a' fw'. fileAdapter_Send (sample_files True) ''eval'' None sample_adapter no_files = Some (r, a', fw') \<and>
     fw_files fw' = fmempty \<and> ''/tmp/shimmy/1'' |\<in>| fw_dirs fw'"
proof -
  let ?E = "sample_files True"
  obtain r a' fw' where s: "fileAdapter_Send ?E ''eval'' None sample_adapter no_files = Some (r, a', fw')"
    using sample_send_returns by blast
  have "fw_files fw' = fw_files no_files \<and>
    (fa_workerFactory sample_adapter \<noteq> None \<and> fe_Mkdir ?E = None \<and> fe_MkdirTemp ?E = Inr ''/tmp/shimmy/1''
       \<longrightarrow> ''/tmp/shimmy/1'' |\<in>| fw_dirs fw')"
  proof (rule file_send_cleans_files [OF s, where req = "''/tmp/shimmy/1/request-data-1''" and
        res = "''/tmp/shimmy/1/response-data-1''"])
    show "fmdom (fe_process ?E cmd files) |\<subseteq>| fmdom files" for cmd files
      by (auto simp: sample_files_def fmlookup_dom_iff)
  qed (auto simp: sample_files_def no_files_def)
  then show ?thesis using s by (simp add: sample_files_def no_files_def sample_adapter_factory)
qed

end
