(* ===== verification/Supervisor.thy ===== *)
theory Supervisor
  imports Shimmy_Prelude Adapters "HOL-Library.Monad_Syntax"
begin

text \<open>
  \<^verbatim>\<open>internal/execution/supervisor/supervisor.go\<close>: a supervisor owns at most one worker, which it
  boots on demand and either keeps (persistent, RPC) or terminates after each message
  (transient).  A call acts on a world of type \<open>'w\<close> and returns \<open>None\<close> when it never returns.
  The two mutexes make the operations on \<^verbatim>\<open>workerRef\<close> and the sends atomic with respect to each
  other, so each is one function here.
\<close>

section \<open>The interface to the adapters\<close>

text \<open>
  The operations a supervisor calls: the adapter factory with a fresh worker context, the
  methods of \<open>Adapter\<close>, the function \<open>Stop\<close> returns (its handle is of type \<open>'r\<close>), and the cancel
  function of the worker context.
\<close>

record ('a, 'r, 'w) adapter_ops =
  ao_create :: "IOConfig \<Rightarrow> 'w \<Rightarrow> ((go_error + 'a) \<times> 'w) option"
  ao_Start :: "'a \<Rightarrow> StartConfig \<Rightarrow> 'w \<Rightarrow> (go_error option \<times> 'w) option"
  ao_Send :: "'a \<Rightarrow> string \<Rightarrow> gomap \<Rightarrow> int \<Rightarrow> 'w \<Rightarrow> ((go_error + gomap) \<times> 'w) option"
  ao_Stop :: "'a \<Rightarrow> 'w \<Rightarrow> ((go_error + 'r) \<times> 'w) option"
  ao_wait :: "'r \<Rightarrow> 'w \<Rightarrow> (go_error option \<times> 'w) option"
  ao_cancel :: "'a \<Rightarrow> 'w \<Rightarrow> 'w"

section \<open>The supervisor\<close>

record SupervisorConfig =
  cfg_IO :: IOConfig
  cfg_StartParams :: StartConfig
  cfg_StopTimeout :: int
  cfg_SendTimeout :: int

record 'a WorkerSupervisor =
  ws_persistent :: bool
  ws_workerRef :: "'a option"
  ws_config :: SupervisorConfig

definition New :: "SupervisorConfig \<Rightarrow> 'a WorkerSupervisor" where
  "New config =
     \<lparr> ws_persistent = (io_Interface (cfg_IO config) = RpcIO), ws_workerRef = None, ws_config = config \<rparr>"

text \<open>
  The release functions: the no-op, the one \<open>terminateWorker\<close> builds from the function of \<open>Stop\<close>
  and the cancel function, and the one \<open>Send\<close> substitutes when the release failed.
\<close>

datatype ('a, 'r) release = NoopRelease | WaitAndCancel 'r 'a | ReleaseError go_error

text \<open>
  Running a release function.  The worker context is cancelled when the wait returns, or before
  it does when the stop timeout is reached first (\<open>late\<close>).
\<close>

definition run_release ::
  "('a, 'r, 'w) adapter_ops \<Rightarrow> bool \<Rightarrow> ('a, 'r) release \<Rightarrow> 'w \<Rightarrow> (go_error option \<times> 'w) option" where
  "run_release ops late rel w = (case rel of
       NoopRelease \<Rightarrow> Some (None, w)
     | ReleaseError err \<Rightarrow> Some (Some (Wrapped ''failed to release worker'' (Some err)), w)
     | WaitAndCancel r a \<Rightarrow>
         (if late then ao_wait ops r (ao_cancel ops a w)
          else do { (err, w1) \<leftarrow> ao_wait ops r w; Some (err, ao_cancel ops a w1) }))"

text \<open>\<open>createWorker\<close> cancels the fresh context itself when the factory fails.\<close>

definition createWorker :: "('a, 'r, 'w) adapter_ops \<Rightarrow> SupervisorConfig \<Rightarrow> 'w \<Rightarrow> ((go_error + 'a) \<times> 'w) option" where
  "createWorker ops config w = do {
     (r, w1) \<leftarrow> ao_create ops (cfg_IO config) w;
     Some (case r of Inl err \<Rightarrow> Inl (Wrapped ''failed to create adapter'' (Some err)) | Inr a \<Rightarrow> Inr a, w1) }"

definition bootWorker :: "('a, 'r, 'w) adapter_ops \<Rightarrow> SupervisorConfig \<Rightarrow> 'w \<Rightarrow> ((go_error + 'a) \<times> 'w) option" where
  "bootWorker ops config w = do {
     (r, w1) \<leftarrow> createWorker ops config w;
     (case r of
        Inl err \<Rightarrow> Some (Inl (Wrapped ''failed to create worker'' (Some err)), w1)
      | Inr a \<Rightarrow> do {
          (e, w2) \<leftarrow> ao_Start ops a (cfg_StartParams config) w1;
          Some (case e of
                  Some err \<Rightarrow> (Inl (Wrapped ''failed to start worker'' (Some err)), w2)
                | None \<Rightarrow> (Inr a, w2)) }) }"

definition acquireWorker ::
  "('a, 'r, 'w) adapter_ops \<Rightarrow> 'a WorkerSupervisor \<Rightarrow> 'w \<Rightarrow> ((go_error + 'a) \<times> 'a WorkerSupervisor \<times> 'w) option" where
  "acquireWorker ops s w = (case ws_workerRef s of
       Some a \<Rightarrow> Some (Inr a, s, w)
     | None \<Rightarrow> do {
         (r, w1) \<leftarrow> bootWorker ops (ws_config s) w;
         Some (case r of
                 Inl err \<Rightarrow> (Inl (Wrapped ''failed to boot worker'' (Some err)), s, w1)
               | Inr a \<Rightarrow> (Inr a, s\<lparr> ws_workerRef := Some a \<rparr>, w1)) })"

definition terminateWorker ::
  "('a, 'r, 'w) adapter_ops \<Rightarrow> 'a WorkerSupervisor \<Rightarrow> 'w
     \<Rightarrow> ((go_error + ('a, 'r) release) \<times> 'a WorkerSupervisor \<times> 'w) option" where
  "terminateWorker ops s w = (case ws_workerRef s of
       None \<Rightarrow> Some (Inr NoopRelease, s, w)
     | Some a \<Rightarrow> do {
         (r, w1) \<leftarrow> ao_Stop ops a w;
         Some (case r of
                 Inl err \<Rightarrow> (Inl err, s\<lparr> ws_workerRef := None \<rparr>, ao_cancel ops a w1)
               | Inr h \<Rightarrow> (Inr (WaitAndCancel h a), s\<lparr> ws_workerRef := None \<rparr>, w1)) })"

definition releaseWorker ::
  "('a, 'r, 'w) adapter_ops \<Rightarrow> 'a WorkerSupervisor \<Rightarrow> 'w
     \<Rightarrow> ((go_error + ('a, 'r) release) \<times> 'a WorkerSupervisor \<times> 'w) option" where
  "releaseWorker ops s w =
     (if ws_persistent s then Some (Inr NoopRelease, s, w) else terminateWorker ops s w)"

definition Supervisor_Start ::
  "('a, 'r, 'w) adapter_ops \<Rightarrow> 'a WorkerSupervisor \<Rightarrow> 'w \<Rightarrow> (go_error option \<times> 'a WorkerSupervisor \<times> 'w) option" where
  "Supervisor_Start ops s w =
     (if \<not> ws_persistent s then Some (None, s, w)
      else do {
        (r, s1, w1) \<leftarrow> acquireWorker ops s w;
        Some (case r of Inl err \<Rightarrow> Some (Wrapped ''failed to start worker'' (Some err)) | Inr _ \<Rightarrow> None, s1, w1) })"

text \<open>
  The pair \<^verbatim>\<open>(*Result, error)\<close> of \<open>Send\<close>: when the worker was acquired there is a result, with a
  release function, also when there is an error.
\<close>

record ('a, 'r) send_outcome =
  so_result :: "(gomap \<times> ('a, 'r) release) option"
  so_err :: "go_error option"

definition Supervisor_Send ::
  "('a, 'r, 'w) adapter_ops \<Rightarrow> string \<Rightarrow> gomap \<Rightarrow> 'a WorkerSupervisor \<Rightarrow> 'w
     \<Rightarrow> (('a, 'r) send_outcome \<times> 'a WorkerSupervisor \<times> 'w) option" where
  "Supervisor_Send ops method data s w = do {
     (r, s1, w1) \<leftarrow> acquireWorker ops s w;
     (case r of
        Inl err \<Rightarrow> Some (\<lparr> so_result = None, so_err = Some (Wrapped ''failed to acquire worker'' (Some err)) \<rparr>, s1, w1)
      | Inr worker \<Rightarrow> do {
          (res, w2) \<leftarrow> ao_Send ops worker method data (cfg_SendTimeout (ws_config s1)) w1;
          (rel, s2, w3) \<leftarrow> releaseWorker ops s1 w2;
          Some (\<lparr> so_result = Some (case res of Inl _ \<Rightarrow> None | Inr d \<Rightarrow> d,
                                    case rel of Inl releaseErr \<Rightarrow> ReleaseError releaseErr | Inr f \<Rightarrow> f),
                  so_err = (case res of Inl err \<Rightarrow> Some err | Inr _ \<Rightarrow> None) \<rparr>, s2, w3) }) }"

definition Suspend ::
  "('a, 'r, 'w) adapter_ops \<Rightarrow> 'a WorkerSupervisor \<Rightarrow> 'w
     \<Rightarrow> ((go_error + ('a, 'r) release) \<times> 'a WorkerSupervisor \<times> 'w) option" where
  "Suspend ops s w = releaseWorker ops s w"

definition Shutdown ::
  "('a, 'r, 'w) adapter_ops \<Rightarrow> 'a WorkerSupervisor \<Rightarrow> 'w
     \<Rightarrow> ((go_error + ('a, 'r) release) \<times> 'a WorkerSupervisor \<times> 'w) option" where
  "Shutdown ops s w = terminateWorker ops s w"

text \<open>A send followed by its release, as both dispatchers do it.\<close>

definition send_and_release ::
  "('a, 'r, 'w) adapter_ops \<Rightarrow> bool \<Rightarrow> string \<Rightarrow> gomap \<Rightarrow> 'a WorkerSupervisor \<Rightarrow> 'w
     \<Rightarrow> (('a, 'r) send_outcome \<times> 'a WorkerSupervisor \<times> 'w) option" where
  "send_and_release ops late method data s w = do {
     (out, s1, w1) \<leftarrow> Supervisor_Send ops method data s w;
     (case so_result out of
        None \<Rightarrow> Some (out, s1, w1)
      | Some (_, rel) \<Rightarrow> do { (_, w2) \<leftarrow> run_release ops late rel w1; Some (out, s1, w2) }) }"

section \<open>The contract of the adapters\<close>

text \<open>
  The law the supervisor relies on: the worker contexts that are alive change only by creating
  an adapter, which adds a fresh one, and by cancelling.  \<open>ok\<close> is an invariant of the world.
\<close>

locale adapter_provider =
  fixes ops :: "('a, 'r, 'w) adapter_ops"
    and live :: "'w \<Rightarrow> 'a set"
    and ok :: "'w \<Rightarrow> bool"
  assumes create_ok: "ok w \<Longrightarrow> ao_create ops config w = Some (Inr a, w') \<Longrightarrow>
      ok w' \<and> a \<notin> live w \<and> live w' = insert a (live w)"
    and create_err: "ok w \<Longrightarrow> ao_create ops config w = Some (Inl err, w') \<Longrightarrow> ok w' \<and> live w' = live w"
    and start_live: "ok w \<Longrightarrow> ao_Start ops a params w = Some (e, w') \<Longrightarrow> ok w' \<and> live w' = live w"
    and send_live: "ok w \<Longrightarrow> ao_Send ops a method data t w = Some (res, w') \<Longrightarrow> ok w' \<and> live w' = live w"
    and stop_live: "ok w \<Longrightarrow> ao_Stop ops a w = Some (rel, w') \<Longrightarrow> ok w' \<and> live w' = live w"
    and wait_live: "ok w \<Longrightarrow> ao_wait ops r w = Some (e, w') \<Longrightarrow> ok w' \<and> live w' = live w"
    and cancel_live: "ok w \<Longrightarrow> ok (ao_cancel ops a w) \<and> live (ao_cancel ops a w) = live w - {a}"
begin

lemma boot_live:
  assumes "ok w" and "bootWorker ops config w = Some (r, w')"
  shows "ok w' \<and> (case r of
      Inr a \<Rightarrow> a \<notin> live w \<and> live w' = insert a (live w)
    | Inl _ \<Rightarrow> live w' = live w \<or> (\<exists>a. a \<notin> live w \<and> live w' = insert a (live w)))"
proof -
  obtain r1 w1 where c: "ao_create ops (cfg_IO config) w = Some (r1, w1)"
    using assms(2) by (auto simp: bootWorker_def createWorker_def bind_eq_Some_conv)
  show ?thesis
  proof (cases r1)
    case (Inl e)
    with c create_err [OF assms(1)] assms(2) show ?thesis
      by (fastforce simp: bootWorker_def createWorker_def)
  next
    case (Inr a)
    note c' = create_ok [OF assms(1) c [unfolded Inr]]
    from assms(2) Inr c obtain e w2 where st: "ao_Start ops a (cfg_StartParams config) w1 = Some (e, w2)"
      by (auto simp: bootWorker_def createWorker_def bind_eq_Some_conv)
    from start_live [OF _ st] c' assms(2) Inr c st show ?thesis
      by (auto simp: bootWorker_def createWorker_def split: option.splits)
  qed
qed

lemma acquire_live:
  assumes "ok w" and "acquireWorker ops s w = Some (r, s', w')"
  shows "ok w' \<and> ws_persistent s' = ws_persistent s \<and> ws_config s' = ws_config s \<and>
    (case ws_workerRef s of
       Some a \<Rightarrow> r = Inr a \<and> s' = s \<and> live w' = live w
     | None \<Rightarrow> (case r of
           Inr a \<Rightarrow> ws_workerRef s' = Some a \<and> a \<notin> live w \<and> live w' = insert a (live w)
         | Inl _ \<Rightarrow> s' = s \<and> (live w' = live w \<or> (\<exists>a. a \<notin> live w \<and> live w' = insert a (live w)))))"
proof (cases "ws_workerRef s")
  case None
  with assms(2) obtain r1 w1 where b: "bootWorker ops (ws_config s) w = Some (r1, w1)"
    by (auto simp: acquireWorker_def bind_eq_Some_conv)
  from boot_live [OF assms(1) b] b assms(2) None show ?thesis
    by (cases r1) (auto simp: acquireWorker_def)
next
  case (Some a)
  with assms show ?thesis by (auto simp: acquireWorker_def)
qed

text \<open>
  Terminating gives up the reference; with the release run, or when stopping failed, the worker
  context is cancelled.
\<close>

lemma terminate_live:
  assumes "ok w" and "terminateWorker ops s w = Some (r, s', w')"
  shows "ok w' \<and> s' = s\<lparr> ws_workerRef := None \<rparr> \<and>
    (case ws_workerRef s of
       None \<Rightarrow> r = Inr NoopRelease \<and> live w' = live w
     | Some a \<Rightarrow> (case r of
           Inl _ \<Rightarrow> live w' = live w - {a}
         | Inr rel \<Rightarrow> live w' = live w \<and> (\<exists>h. rel = WaitAndCancel h a)))"
proof (cases "ws_workerRef s")
  case None
  with assms show ?thesis by (cases s) (auto simp: terminateWorker_def)
next
  case (Some a)
  with assms(2) obtain r1 w1 where st: "ao_Stop ops a w = Some (r1, w1)"
    by (auto simp: terminateWorker_def bind_eq_Some_conv)
  from stop_live [OF assms(1) st] cancel_live [of w1 a] assms(2) Some st show ?thesis
    by (auto simp: terminateWorker_def split: sum.splits)
qed

lemma run_release_live:
  assumes "ok w" and "run_release ops late rel w = Some (e, w')"
  shows "ok w' \<and> live w' = (case rel of WaitAndCancel h a \<Rightarrow> live w - {a} | _ \<Rightarrow> live w)"
proof (cases rel)
  case (WaitAndCancel h a)
  show ?thesis
  proof (cases late)
    case True
    with assms(2) WaitAndCancel have "ao_wait ops h (ao_cancel ops a w) = Some (e, w')"
      by (simp add: run_release_def)
    from wait_live [OF _ this] cancel_live [OF assms(1), of a] WaitAndCancel show ?thesis by simp
  next
    case False
    with assms(2) WaitAndCancel obtain w1 where wt: "ao_wait ops h w = Some (e, w1)"
      and w': "w' = ao_cancel ops a w1"
      by (auto simp: run_release_def bind_eq_Some_conv)
    from wait_live [OF assms(1) wt] cancel_live [of w1 a] WaitAndCancel w' show ?thesis by simp
  qed
qed (use assms in \<open>auto simp: run_release_def\<close>)

text \<open>
  One message on a transient supervisor that holds no worker: when the worker boots, no context
  is left alive and the supervisor holds no worker again.
\<close>

lemma transient_send:
  assumes "ok w" and "\<not> ws_persistent s" and "ws_workerRef s = None"
    and "send_and_release ops late method data s w = Some (out, s', w')"
  shows "ok w' \<and> s' = s \<and>
    (so_result out \<noteq> None \<longrightarrow> live w' = live w) \<and>
    (so_result out = None \<longrightarrow> live w' = live w \<or> (\<exists>a. a \<notin> live w \<and> live w' = insert a (live w)))"
proof -
  from assms(4) obtain r s1 w1 where aq: "acquireWorker ops s w = Some (r, s1, w1)"
    by (auto simp: send_and_release_def Supervisor_Send_def bind_eq_Some_conv)
  note al = acquire_live [OF assms(1) aq]
  show ?thesis
  proof (cases r)
    case (Inl e)
    with assms(3,4) al aq show ?thesis
      by (auto simp: send_and_release_def Supervisor_Send_def)
  next
    case (Inr a)
    with al assms(3) have s1: "ws_workerRef s1 = Some a" "a \<notin> live w" "live w1 = insert a (live w)" "ok w1"
        "\<not> ws_persistent s1" "s1\<lparr> ws_workerRef := None \<rparr> = s"
      using assms(2) by (cases s; cases s1; auto)+
    from assms(4) Inr aq obtain res w2 rel w3 s2 where
        sd: "ao_Send ops a method data (cfg_SendTimeout (ws_config s1)) w1 = Some (res, w2)"
      and rl: "releaseWorker ops s1 w2 = Some (rel, s2, w3)"
      by (auto simp: send_and_release_def Supervisor_Send_def bind_eq_Some_conv)
    have tl: "ok w3" "s2 = s" "case rel of Inl _ \<Rightarrow> live w3 = live w | Inr f \<Rightarrow> live w3 = insert a (live w) \<and> (\<exists>h. f = WaitAndCancel h a)"
      using terminate_live [of w2 s1 rel s2 w3] send_live [OF s1(4) sd] rl s1
      by (auto simp: releaseWorker_def split: sum.splits)
    let ?f = "case rel of Inl releaseErr \<Rightarrow> ReleaseError releaseErr | Inr f \<Rightarrow> f"
    from assms(4) Inr aq sd rl obtain e where
        rr: "run_release ops late ?f w3 = Some (e, w')" and out: "s' = s2" "so_result out \<noteq> None"
      by (auto simp: send_and_release_def Supervisor_Send_def bind_eq_Some_conv)
    from run_release_live [OF tl(1) rr] tl(2,3) out s1(2) show ?thesis
      by (auto split: sum.splits)
  qed
qed

text \<open>A persistent supervisor keeps its worker, and boots at most one.\<close>

lemma persistent_send:
  assumes "ok w" and "ws_persistent s"
    and "send_and_release ops late method data s w = Some (out, s', w')"
  shows "ok w' \<and> ws_persistent s' \<and> (case ws_workerRef s of
      Some a \<Rightarrow> s' = s \<and> live w' = live w
    | None \<Rightarrow> (case ws_workerRef s' of
         None \<Rightarrow> live w' = live w \<or> (\<exists>a. a \<notin> live w \<and> live w' = insert a (live w))
       | Some a \<Rightarrow> a \<notin> live w \<and> live w' = insert a (live w)))"
proof -
  from assms(3) obtain r s1 w1 where aq: "acquireWorker ops s w = Some (r, s1, w1)"
    by (auto simp: send_and_release_def Supervisor_Send_def bind_eq_Some_conv)
  note al = acquire_live [OF assms(1) aq]
  show ?thesis
  proof (cases r)
    case (Inl e)
    with assms(2,3) al aq show ?thesis
      by (auto simp: send_and_release_def Supervisor_Send_def split: option.splits)
  next
    case (Inr a)
    from assms(3) Inr aq obtain res w2 where
        sd: "ao_Send ops a method data (cfg_SendTimeout (ws_config s1)) w1 = Some (res, w2)"
      by (auto simp: send_and_release_def Supervisor_Send_def bind_eq_Some_conv)
    from assms(2,3) al aq Inr sd have "w' = w2" "s' = s1"
      by (auto simp: send_and_release_def Supervisor_Send_def releaseWorker_def run_release_def)
    with send_live [OF _ sd] al Inr assms(2) show ?thesis
      by (auto split: option.splits)
  qed
qed

end

end
