(* ===== verification/Supervisor_Adapters.thy ===== *)
theory Supervisor_Adapters
  imports Supervisor
begin

text \<open>
  The supervisor on its own adapters: the default factory, file and RPC adapters over worker
  processes, and the worker contexts that the supervisor cancels.
\<close>

section \<open>The world of the adapters\<close>

datatype 'c adapter = FileAdapter fileAdapter | RpcAdapter "'c rpcAdapter"

text \<open>
  An adapter is a reference into the store \<open>aw_adapters\<close>; its worker context is alive while the
  reference is in \<open>aw_live\<close>.  \<open>aw_clock\<close> counts the calls that leave the shim.
\<close>

record 'c adapter_world =
  aw_next :: nat
  aw_live :: "nat fset"
  aw_adapters :: "(nat, 'c adapter) fmap"
  aw_files :: file_world
  aw_clock :: nat

text \<open>What the outside does at each point of the clock.\<close>

record 'c outside =
  ou_environ :: "string list"
  ou_rpc :: "nat \<Rightarrow> 'c rpc_env"
  ou_file :: "nat \<Rightarrow> file_env"
  ou_call :: "nat \<Rightarrow> 'c \<Rightarrow> string \<Rightarrow> gomap \<Rightarrow> go_error + gomap"
  ou_getpgid :: "int \<Rightarrow> int option"
  ou_pid :: "nat \<Rightarrow> int"
  ou_wait :: "nat \<Rightarrow> go_error + ExitEvent"

definition tick :: "'c adapter_world \<Rightarrow> 'c adapter_world" where
  "tick w = w\<lparr> aw_clock := Suc (aw_clock w) \<rparr>"

definition put_adapter :: "nat \<Rightarrow> 'c adapter \<Rightarrow> 'c adapter_world \<Rightarrow> 'c adapter_world" where
  "put_adapter a x w = w\<lparr> aw_adapters := fmupd a x (aw_adapters w) \<rparr>"

text \<open>The default worker factory never fails.\<close>

definition defaultWorkerFactory :: "string list \<Rightarrow> worker_factory" where
  "defaultWorkerFactory environ config = Inr (NewProcessWorker environ config)"

definition defaultAdapterFactory :: "worker_factory \<Rightarrow> IOConfig \<Rightarrow> go_error + 'c adapter" where
  "defaultAdapterFactory workerFactory config =
     (if io_Interface config = FileIO then Inr (FileAdapter (newFileAdapter (Some workerFactory)))
      else if io_Interface config = RpcIO
      then Inr (RpcAdapter (newRpcAdapter (Some workerFactory) (io_Rpc config)))
      else Inl ErrUnsupportedIOInterface)"

definition adapter_create ::
  "'c outside \<Rightarrow> IOConfig \<Rightarrow> 'c adapter_world \<Rightarrow> ((go_error + nat) \<times> 'c adapter_world) option" where
  "adapter_create E config w =
     (case defaultAdapterFactory (defaultWorkerFactory (ou_environ E)) config of
        Inl err \<Rightarrow> Some (Inl err, w)
      | Inr x \<Rightarrow>
          (let a = aw_next w
           in Some (Inr a, put_adapter a x (w\<lparr> aw_next := Suc a, aw_live := finsert a (aw_live w) \<rparr>))))"

definition adapter_Start ::
  "'c outside \<Rightarrow> nat \<Rightarrow> StartConfig \<Rightarrow> 'c adapter_world \<Rightarrow> (go_error option \<times> 'c adapter_world) option" where
  "adapter_Start E a params w = do {
     x \<leftarrow> fmlookup (aw_adapters w) a;
     (case x of
        FileAdapter f \<Rightarrow>
          (let (err, f') = fileAdapter_Start params f in Some (err, put_adapter a (FileAdapter f') w))
      | RpcAdapter r \<Rightarrow> do {
          (err, r') \<leftarrow> rpcAdapter_Start (ou_rpc E (aw_clock w)) params r;
          Some (err, put_adapter a (RpcAdapter r') (tick w)) }) }"

text \<open>
  The timeout of a send bounds \<^verbatim>\<open>CallContext\<close>, whose outcome the outside decides; the file adapter
  passes it to its worker as in \<open>fileAdapter_Send\<close>.
\<close>

definition adapter_Send ::
  "'c outside \<Rightarrow> nat \<Rightarrow> string \<Rightarrow> gomap \<Rightarrow> int \<Rightarrow> 'c adapter_world \<Rightarrow> ((go_error + gomap) \<times> 'c adapter_world) option" where
  "adapter_Send E a method data timeout w = do {
     x \<leftarrow> fmlookup (aw_adapters w) a;
     (case x of
        FileAdapter f \<Rightarrow> do {
          (res, f', files) \<leftarrow> fileAdapter_Send (ou_file E (aw_clock w)) method data f (aw_files w);
          Some (res, put_adapter a (FileAdapter f') ((tick w)\<lparr> aw_files := files \<rparr>)) }
      | RpcAdapter r \<Rightarrow> Some (rpcAdapter_Send (ou_call E (aw_clock w)) method data r, tick w)) }"

text \<open>The handle of the function \<open>Stop\<close> returns: \<open>None\<close> is the no-op of the file adapter.\<close>

definition adapter_Stop ::
  "'c outside \<Rightarrow> nat \<Rightarrow> 'c adapter_world \<Rightarrow> ((go_error + nat option) \<times> 'c adapter_world) option" where
  "adapter_Stop E a w = do {
     x \<leftarrow> fmlookup (aw_adapters w) a;
     (case x of
        FileAdapter f \<Rightarrow> (case fileAdapter_Stop f of Some err \<Rightarrow> Some (Inl err, w) | None \<Rightarrow> Some (Inr None, w))
      | RpcAdapter r \<Rightarrow>
          (case rpcAdapter_Stop (ou_getpgid E) (ou_pid E a) r of
             (Some err, _) \<Rightarrow> Some (Inl err, w)
           | (None, _) \<Rightarrow> Some (Inr (Some a), tick w))) }"

definition adapter_wait ::
  "'c outside \<Rightarrow> nat option \<Rightarrow> 'c adapter_world \<Rightarrow> (go_error option \<times> 'c adapter_world) option" where
  "adapter_wait E h w = (case h of
       None \<Rightarrow> Some (None, w)
     | Some a \<Rightarrow>
         (case fmlookup (aw_adapters w) a of
            Some (RpcAdapter r) \<Rightarrow>
              (case ra_worker r of
                 Some p \<Rightarrow>
                   (let (err, p') = release_wait (ou_wait E (aw_clock w)) p
                    in Some (err, put_adapter a (RpcAdapter (r\<lparr> ra_worker := Some p' \<rparr>)) (tick w)))
               | None \<Rightarrow> None)
          | _ \<Rightarrow> None))"

definition adapter_cancel :: "nat \<Rightarrow> 'c adapter_world \<Rightarrow> 'c adapter_world" where
  "adapter_cancel a w = w\<lparr> aw_live := aw_live w |-| {|a|} \<rparr>"

definition adapters :: "'c outside \<Rightarrow> (nat, nat option, 'c adapter_world) adapter_ops" where
  "adapters E =
     \<lparr> ao_create = adapter_create E, ao_Start = adapter_Start E, ao_Send = adapter_Send E,
       ao_Stop = adapter_Stop E, ao_wait = adapter_wait E, ao_cancel = adapter_cancel \<rparr>"

definition live_contexts :: "'c adapter_world \<Rightarrow> nat set" where
  "live_contexts w = fset (aw_live w)"

definition contexts_ok :: "'c adapter_world \<Rightarrow> bool" where
  "contexts_ok w \<longleftrightarrow> (\<forall>a \<in> fset (aw_live w). a < aw_next w)"

lemmas adapter_op_defs = adapters_def adapter_create_def adapter_Start_def adapter_Send_def
  adapter_Stop_def adapter_wait_def adapter_cancel_def tick_def put_adapter_def

interpretation adapters: adapter_provider "adapters E" live_contexts contexts_ok
  for E :: "'c outside"
proof unfold_locales
  fix w w' :: "'c adapter_world"
  note defs = adapter_op_defs live_contexts_def contexts_ok_def Let_def bind_eq_Some_conv
  show "contexts_ok w' \<and> a \<notin> live_contexts w \<and> live_contexts w' = insert a (live_contexts w)"
    if "contexts_ok w" "ao_create (adapters E) config w = Some (Inr a, w')" for config a
    using that by (auto simp: defs less_Suc_eq split: sum.splits)
  show "contexts_ok w' \<and> live_contexts w' = live_contexts w"
    if "contexts_ok w" "ao_create (adapters E) config w = Some (Inl err, w')" for config err
    using that by (auto simp: defs split: sum.splits)
  show "contexts_ok w' \<and> live_contexts w' = live_contexts w"
    if "contexts_ok w" "ao_Start (adapters E) a params w = Some (e, w')" for a params e
    using that by (cases "fmlookup (aw_adapters w) a"; cases "the (fmlookup (aw_adapters w) a)"; auto simp: defs split: prod.splits)
  show "contexts_ok w' \<and> live_contexts w' = live_contexts w"
    if "contexts_ok w" "ao_Send (adapters E) a command params t w = Some (res, w')" for a command params t res
    using that by (cases "fmlookup (aw_adapters w) a"; cases "the (fmlookup (aw_adapters w) a)"; auto simp: defs split: prod.splits)
  show "contexts_ok w' \<and> live_contexts w' = live_contexts w"
    if "contexts_ok w" "ao_Stop (adapters E) a w = Some (rel, w')" for a rel
    using that by (cases "fmlookup (aw_adapters w) a"; cases "the (fmlookup (aw_adapters w) a)"; auto simp: defs split: prod.splits option.splits)
  show "contexts_ok w' \<and> live_contexts w' = live_contexts w"
    if "contexts_ok w" "ao_wait (adapters E) r w = Some (e, w')" for r e
    using that by (cases r; cases "fmlookup (aw_adapters w) (the r)"; cases "the (fmlookup (aw_adapters w) (the r))";
      auto simp: defs split: prod.splits option.splits)
  show "contexts_ok (ao_cancel (adapters E) a w) \<and> live_contexts (ao_cancel (adapters E) a w) = live_contexts w - {a}"
    if "contexts_ok w" for a
    using that by (auto simp: defs)
qed

end
