(* ===== verification/Dispatchers.thy ===== *)
theory Dispatchers
  imports Supervisor_Adapters
begin

text \<open>
  \<^verbatim>\<open>internal/execution/dispatcher\<close>: the dispatcher with one supervisor of its own (RPC) and the one
  with a pool of supervisors (files).  The pool library is a parameter; what the dispatcher
  relies on is stated as a hypothesis where it is used.
\<close>

section \<open>The dedicated dispatcher\<close>

text \<open>A factory of supervisors; the default one, used where none is given, never fails.\<close>

type_synonym 'a SupervisorFactory = "SupervisorConfig \<Rightarrow> go_error + 'a WorkerSupervisor"

definition defaultSupervisorFactory :: "'a SupervisorFactory" where
  "defaultSupervisorFactory config = Inr (New config)"

definition factory_or_default :: "'a SupervisorFactory option \<Rightarrow> 'a SupervisorFactory" where
  "factory_or_default factory = (case factory of None \<Rightarrow> defaultSupervisorFactory | Some f \<Rightarrow> f)"

record 'a DedicatedDispatcher =
  dd_supervisor :: "'a WorkerSupervisor"

definition createSupervisor :: "'a SupervisorFactory \<Rightarrow> SupervisorConfig \<Rightarrow> go_error + 'a WorkerSupervisor" where
  "createSupervisor factory config = factory config"

definition NewDedicatedDispatcher ::
  "'a SupervisorFactory option \<Rightarrow> SupervisorConfig \<Rightarrow> go_error + 'a DedicatedDispatcher" where
  "NewDedicatedDispatcher factory config =
     (case createSupervisor (factory_or_default factory) config of
        Inl err \<Rightarrow> Inl err
      | Inr supervisor \<Rightarrow> Inr \<lparr> dd_supervisor = supervisor \<rparr>)"

definition Dedicated_Start ::
  "('a, 'r, 'w) adapter_ops \<Rightarrow> 'a DedicatedDispatcher \<Rightarrow> 'w \<Rightarrow> (go_error option \<times> 'a DedicatedDispatcher \<times> 'w) option" where
  "Dedicated_Start ops d w = do {
     (err, s, w1) \<leftarrow> Supervisor_Start ops (dd_supervisor d) w;
     Some (err, d\<lparr> dd_supervisor := s \<rparr>, w1) }"

text \<open>An error of the send returns before the release function is called.\<close>

definition Dedicated_Send ::
  "('a, 'r, 'w) adapter_ops \<Rightarrow> bool \<Rightarrow> string \<Rightarrow> gomap \<Rightarrow> 'a DedicatedDispatcher \<Rightarrow> 'w
     \<Rightarrow> ((go_error + gomap) go \<times> 'a DedicatedDispatcher \<times> 'w) option" where
  "Dedicated_Send ops late method data d w = do {
     (out, s, w1) \<leftarrow> Supervisor_Send ops method data (dd_supervisor d) w;
     (case so_err out of
        Some err \<Rightarrow> Some (Ret (Inl (Wrapped ''error sending data'' (Some err))), d\<lparr> dd_supervisor := s \<rparr>, w1)
      | None \<Rightarrow>
         (case so_result out of
            None \<Rightarrow> Some (Panic ''nil pointer dereference'', d\<lparr> dd_supervisor := s \<rparr>, w1)
          | Some (res, rel) \<Rightarrow> do {
              (e, w2) \<leftarrow> run_release ops late rel w1;
              Some (case e of
                      Some err \<Rightarrow> Ret (Inl (Wrapped ''error releasing worker'' (Some err)))
                    | None \<Rightarrow> Ret (Inr res), d\<lparr> dd_supervisor := s \<rparr>, w2) })) }"

definition Dedicated_Shutdown ::
  "('a, 'r, 'w) adapter_ops \<Rightarrow> bool \<Rightarrow> 'a DedicatedDispatcher \<Rightarrow> 'w
     \<Rightarrow> (go_error option \<times> 'a DedicatedDispatcher \<times> 'w) option" where
  "Dedicated_Shutdown ops late d w = do {
     (r, s, w1) \<leftarrow> Shutdown ops (dd_supervisor d) w;
     (case r of
        Inl err \<Rightarrow> Some (Some err, d\<lparr> dd_supervisor := s \<rparr>, w1)
      | Inr rel \<Rightarrow> do { (e, w2) \<leftarrow> run_release ops late rel w1; Some (e, d\<lparr> dd_supervisor := s \<rparr>, w2) }) }"

section \<open>The pooled dispatcher\<close>

text \<open>
  The pool: acquiring a resource (which may run the constructor), giving it back, destroying it
  (which runs the destructor), and the supervisor the resource points to, in the world.
\<close>

record ('a, 'res, 'w) pool_ops =
  po_Acquire :: "'w \<Rightarrow> ((go_error + 'res) \<times> 'w) option"
  po_Release :: "'res \<Rightarrow> 'w \<Rightarrow> 'w"
  po_Destroy :: "'res \<Rightarrow> 'w \<Rightarrow> 'w"
  po_Value :: "'res \<Rightarrow> 'w \<Rightarrow> 'a WorkerSupervisor"
  po_store :: "'res \<Rightarrow> 'a WorkerSupervisor \<Rightarrow> 'w \<Rightarrow> 'w"

definition destroyOrRelease :: "('a, 'res, 'w) pool_ops \<Rightarrow> go_error option \<Rightarrow> 'res \<Rightarrow> 'w \<Rightarrow> 'w" where
  "destroyOrRelease pool err resource w =
     (if err \<noteq> None then po_Destroy pool resource w else po_Release pool resource w)"

text \<open>The goroutine that disposes of the resource after the send.\<close>

definition dispose ::
  "('a, 'res, 'w) pool_ops \<Rightarrow> ('a, 'r, 'w) adapter_ops \<Rightarrow> bool \<Rightarrow> ('a, 'r) send_outcome \<Rightarrow> 'res \<Rightarrow> 'w \<Rightarrow> 'w option" where
  "dispose pool ops late out resource w =
     (case so_result out of
        None \<Rightarrow> Some (destroyOrRelease pool (so_err out) resource w)
      | Some (_, rel) \<Rightarrow> do {
          (releaseErr, w1) \<leftarrow> run_release ops late rel w;
          Some (if releaseErr \<noteq> None then po_Destroy pool resource w1
                else destroyOrRelease pool (so_err out) resource w1) })"

text \<open>
  \<open>sendToSupervisor\<close>: what is returned, the world at that moment, and the world when the disposal
  has run (\<open>None\<close> when it does not end).
\<close>

definition sendToSupervisor ::
  "('a, 'res, 'w) pool_ops \<Rightarrow> ('a, 'r, 'w) adapter_ops \<Rightarrow> bool \<Rightarrow> string \<Rightarrow> gomap \<Rightarrow> 'res \<Rightarrow> 'w
     \<Rightarrow> ((go_error + gomap) go \<times> 'w \<times> 'w option) option" where
  "sendToSupervisor pool ops late method data resource w = do {
     (out, s, w1) \<leftarrow> Supervisor_Send ops method data (po_Value pool resource w) w;
     let w2 = po_store pool resource s w1;
     Some (case so_err out of
             Some err \<Rightarrow> Ret (Inl err)
           | None \<Rightarrow> (case so_result out of None \<Rightarrow> Panic ''nil pointer dereference'' | Some (res, _) \<Rightarrow> Ret (Inr res)),
           w2, dispose pool ops late out resource w2) }"

definition Pooled_Send ::
  "('a, 'res, 'w) pool_ops \<Rightarrow> ('a, 'r, 'w) adapter_ops \<Rightarrow> bool \<Rightarrow> string \<Rightarrow> gomap \<Rightarrow> 'w
     \<Rightarrow> ((go_error + gomap) go \<times> 'w \<times> 'w option) option" where
  "Pooled_Send pool ops late method data w = do {
     (r, w1) \<leftarrow> po_Acquire pool w;
     (case r of
        Inl err \<Rightarrow> Some (Ret (Inl (Wrapped ''error acquiring supervisor'' (Some err))), w1, Some w1)
      | Inr resource \<Rightarrow> do {
          (result, w2, w3) \<leftarrow> sendToSupervisor pool ops late method data resource w1;
          Some (case result of
                  Ret (Inl err) \<Rightarrow> Ret (Inl (Wrapped ''error sending data'' (Some err)))
                | Ret (Inr res) \<Rightarrow> Ret (Inr res)
                | Panic p \<Rightarrow> Panic p, w2, w3) }) }"

definition Pooled_Start :: "'w \<Rightarrow> go_error option \<times> 'w" where
  "Pooled_Start w = (None, w)"

text \<open>
  The constructor and destructor the dispatcher gives to the pool, and the size of the pool, which
  the code converts to 32 bits.
\<close>

definition pool_constructor ::
  "('a, 'r, 'w) adapter_ops \<Rightarrow> 'a SupervisorFactory \<Rightarrow> SupervisorConfig \<Rightarrow> 'w
     \<Rightarrow> ((go_error + 'a WorkerSupervisor) \<times> 'w) option" where
  "pool_constructor ops factory config w =
     (case factory config of
        Inl err \<Rightarrow> Some (Inl err, w)
      | Inr sv \<Rightarrow> do {
          (err, s, w1) \<leftarrow> Supervisor_Start ops sv w;
          Some (case err of Some e \<Rightarrow> Inl e | None \<Rightarrow> Inr s, w1) })"

definition pool_destructor ::
  "('a, 'r, 'w) adapter_ops \<Rightarrow> bool \<Rightarrow> 'a WorkerSupervisor \<Rightarrow> 'w \<Rightarrow> 'w option" where
  "pool_destructor ops late s w = do {
     (r, _, w1) \<leftarrow> Shutdown ops s w;
     (case r of Inl _ \<Rightarrow> Some w1 | Inr rel \<Rightarrow> do { (_, w2) \<leftarrow> run_release ops late rel w1; Some w2 }) }"

definition pool_MaxSize :: "int \<Rightarrow> int \<Rightarrow> 32 word" where
  "pool_MaxSize maxWorkers numCPU = word_of_int (if maxWorkers \<le> 0 then numCPU else maxWorkers)"

text \<open>
  The configuration of the pool library, and the dispatcher over the pool it makes of it.
  \<open>newPool\<close> is the library's constructor.
\<close>

record ('a, 'w) pool_config =
  pc_Constructor :: "'w \<Rightarrow> ((go_error + 'a WorkerSupervisor) \<times> 'w) option"
  pc_Destructor :: "bool \<Rightarrow> 'a WorkerSupervisor \<Rightarrow> 'w \<Rightarrow> 'w option"
  pc_MaxSize :: "32 word"

definition createPool ::
  "(('a, 'w) pool_config \<Rightarrow> go_error + 'p) \<Rightarrow> ('a, 'r, 'w) adapter_ops \<Rightarrow> int
     \<Rightarrow> 'a SupervisorFactory \<Rightarrow> SupervisorConfig \<Rightarrow> int \<Rightarrow> go_error + 'p" where
  "createPool newPool ops numCPU factory config maxWorkers =
     newPool \<lparr> pc_Constructor = pool_constructor ops factory config, pc_Destructor = pool_destructor ops,
               pc_MaxSize = pool_MaxSize maxWorkers numCPU \<rparr>"

record 'p PooledDispatcher =
  pd_pool :: 'p

definition NewPooledDispatcher ::
  "(('a, 'w) pool_config \<Rightarrow> go_error + 'p) \<Rightarrow> ('a, 'r, 'w) adapter_ops \<Rightarrow> int
     \<Rightarrow> 'a SupervisorFactory option \<Rightarrow> SupervisorConfig \<Rightarrow> int \<Rightarrow> go_error + 'p PooledDispatcher" where
  "NewPooledDispatcher newPool ops numCPU factory config maxWorkers =
     (case createPool newPool ops numCPU (factory_or_default factory) config maxWorkers of
        Inl err \<Rightarrow> Inl err
      | Inr pool \<Rightarrow> Inr \<lparr> pd_pool = pool \<rparr>)"

text \<open>\<open>close\<close> is the library's \<open>Close\<close>, which waits for the resources in use (\<open>None\<close> when it never returns).\<close>

definition Pooled_Shutdown :: "('p \<Rightarrow> 'w \<Rightarrow> 'w option) \<Rightarrow> 'p PooledDispatcher \<Rightarrow> 'w \<Rightarrow> (go_error option \<times> 'w) option" where
  "Pooled_Shutdown close d w = do { w1 \<leftarrow> close (pd_pool d) w; Some (None, w1) }"

section \<open>The choice of a dispatcher\<close>

text \<open>\<^verbatim>\<open>internal/execution/dispatcher.go\<close>: the interface decides.\<close>

datatype dispatcher_kind = WasmDispatcher string int int | Dedicated | Pooled int

definition NewDispatcher :: "int \<Rightarrow> SupervisorConfig \<Rightarrow> dispatcher_kind" where
  "NewDispatcher maxWorkers config =
     (if io_Interface (cfg_IO config) = WasmIO
      then WasmDispatcher (sc_Cmd (cfg_StartParams config)) maxWorkers (cfg_SendTimeout config)
      else if io_Interface (cfg_IO config) = RpcIO then Dedicated
      else Pooled maxWorkers)"

end
