(* ===== verification/Dispatcher_Contract.thy ===== *)
theory Dispatcher_Contract
  imports Dispatchers Adapter_Contract
begin

text \<open>
  What the dispatchers promise: no worker context outlives its message for transient workers, one
  worker is kept for RPC, a supervisor that failed does not go back to the pool, and what a
  failed boot leaves behind.
\<close>

section \<open>Sequences of messages\<close>

primrec send_all ::
  "('a, 'r, 'w) adapter_ops \<Rightarrow> (bool \<times> string \<times> gomap) list \<Rightarrow> 'a WorkerSupervisor \<Rightarrow> 'w
     \<Rightarrow> (('a, 'r) send_outcome list \<times> 'a WorkerSupervisor \<times> 'w) option" where
  "send_all ops [] s w = Some ([], s, w)"
| "send_all ops (m # ms) s w = do {
     (out, s1, w1) \<leftarrow> send_and_release ops (fst m) (fst (snd m)) (snd (snd m)) s w;
     (outs, s2, w2) \<leftarrow> send_all ops ms s1 w1;
     Some (out # outs, s2, w2) }"

text \<open>A file supervisor always gets its worker: creating and starting the adapter cannot fail.\<close>

lemma file_acquires:
  assumes "io_Interface (cfg_IO (ws_config s)) = FileIO" and "ws_workerRef s = None"
  shows "\<exists>s' w'. acquireWorker (adapters E) s w = Some (Inr (aw_next w), s', w')"
  using assms
  by (auto simp: acquireWorker_def bootWorker_def createWorker_def adapter_op_defs Let_def
      defaultAdapterFactory_def fileAdapter_Start_def)

lemma file_send_result_present:
  assumes "io_Interface (cfg_IO (ws_config s)) = FileIO" and "ws_workerRef s = None"
    and "send_and_release (adapters E) late method data s w = Some (out, s', w')"
  shows "so_result out \<noteq> None"
proof -
  obtain s1 w1 where "acquireWorker (adapters E) s w = Some (Inr (aw_next w), s1, w1)"
    using file_acquires [OF assms(1,2)] by blast
  with assms(3) show ?thesis
    by (auto simp: send_and_release_def Supervisor_Send_def bind_eq_Some_conv)
qed

lemma persistent_start:
  assumes "ws_persistent s" and "Supervisor_Start ops s w = Some (e, s', w')"
  shows "\<exists>r. acquireWorker ops s w = Some (r, s', w') \<and>
    e = (case r of Inl err \<Rightarrow> Some (Wrapped ''failed to start worker'' (Some err)) | Inr _ \<Rightarrow> None)"
  using assms by (fastforce simp: Supervisor_Start_def bind_eq_Some_conv)

lemma dedicated_shutdown_live:
  assumes "contexts_ok w" and "Dedicated_Shutdown (adapters E) late d w = Some (err, d', w')"
  shows "ws_workerRef (dd_supervisor d') = None \<and>
    live_contexts w' = live_contexts w - (case ws_workerRef (dd_supervisor d) of None \<Rightarrow> {} | Some a \<Rightarrow> {a})"
proof -
  from assms(2) obtain r s1 w1 where t: "terminateWorker (adapters E) (dd_supervisor d) w = Some (r, s1, w1)"
    by (auto simp: Dedicated_Shutdown_def Shutdown_def bind_eq_Some_conv)
  note tl = adapters.terminate_live [OF assms(1) t]
  show ?thesis
  proof (cases r)
    case (Inl e)
    with assms(2) t have "w' = w1" "d' = d\<lparr> dd_supervisor := s1 \<rparr>"
      by (simp_all add: Dedicated_Shutdown_def Shutdown_def)
    with tl Inl show ?thesis by (simp split: option.splits)
  next
    case (Inr rel)
    with assms(2) t obtain e where rr: "run_release (adapters E) late rel w1 = Some (e, w')"
      and d': "d' = d\<lparr> dd_supervisor := s1 \<rparr>"
      by (auto simp: Dedicated_Shutdown_def Shutdown_def bind_eq_Some_conv)
    from tl Inr have rel: "live_contexts w1 = live_contexts w" "s1 = (dd_supervisor d)\<lparr> ws_workerRef := None \<rparr>"
        "case ws_workerRef (dd_supervisor d) of None \<Rightarrow> rel = NoopRelease | Some a \<Rightarrow> \<exists>h. rel = WaitAndCancel h a"
      by (simp_all split: option.splits)
    from adapters.run_release_live [OF conjunct1 [OF tl] rr] rel d' show ?thesis
      by (cases "ws_workerRef (dd_supervisor d)") auto
  qed
qed

section \<open>Properties of the supervisors\<close>

text \<open>
  File workers are never leaked.  Through any sequence of messages that return, whatever the
  processes do and whether or not the stop timeout fires first, the supervisor ends without a
  worker and the worker contexts alive are those from before.
\<close>

theorem file_workers_released:
  assumes "contexts_ok w" and "io_Interface (cfg_IO config) = FileIO"
    and "send_all (adapters E) ms (New config) w = Some (outs, s', w')"
  shows "s' = New config \<and> live_contexts w' = live_contexts w \<and> list_all (\<lambda>out. so_result out \<noteq> None) outs"
  using assms(1,3)
proof (induction ms arbitrary: w outs)
  case Nil
  then show ?case by simp
next
  case (Cons m ms)
  from Cons.prems(2) obtain out s1 w1 outs1 where
      m: "send_and_release (adapters E) (fst m) (fst (snd m)) (snd (snd m)) (New config) w = Some (out, s1, w1)"
    and ms: "send_all (adapters E) ms s1 w1 = Some (outs1, s', w')" and outs: "outs = out # outs1"
    by (auto simp: bind_eq_Some_conv)
  have t: "\<not> ws_persistent (New config :: nat WorkerSupervisor)" "ws_workerRef (New config :: nat WorkerSupervisor) = None"
      "io_Interface (cfg_IO (ws_config (New config :: nat WorkerSupervisor))) = FileIO"
    using assms(2) by (simp_all add: New_def io_defs)
  have r: "so_result out \<noteq> None" by (rule file_send_result_present [OF t(3,2) m])
  with adapters.transient_send [OF Cons.prems(1) t(1,2) m] Cons.IH [of w1 outs1] ms outs
  show ?case by simp
qed

text \<open>
  An RPC supervisor that holds a worker holds the same worker after any sequence of messages
  that return, and no context is created or cancelled: also when every message failed, the
  worker is neither stopped nor replaced.
\<close>

theorem rpc_worker_kept:
  assumes "contexts_ok w" and "ws_persistent s" and "ws_workerRef s = Some a"
    and "send_all (adapters E) ms s w = Some (outs, s', w')"
  shows "s' = s \<and> live_contexts w' = live_contexts w"
  using assms(1,4)
proof (induction ms arbitrary: w outs)
  case (Cons m ms)
  from Cons.prems(2) obtain out s1 w1 outs1 where
      m: "send_and_release (adapters E) (fst m) (fst (snd m)) (snd (snd m)) s w = Some (out, s1, w1)"
    and ms: "send_all (adapters E) ms s1 w1 = Some (outs1, s', w')"
    by (auto simp: bind_eq_Some_conv)
  from adapters.persistent_send [OF Cons.prems(1) assms(2) m] assms(3) Cons.IH [of w1 outs1] ms
  show ?case by simp
qed simp

text \<open>
  When the worker of an RPC supervisor cannot be booted, the supervisor holds no worker, and
  the worker context created for it stays alive: nothing refers to it any more, so nothing can
  cancel it or stop a process that was already started.
\<close>

theorem failed_boot_leaks_context:
  assumes "contexts_ok w" and "io_Interface (cfg_IO (ws_config s)) = RpcIO" and "ws_workerRef s = None"
    and "acquireWorker (adapters E) s w = Some (Inl err, s', w')"
  shows "s' = s \<and> aw_next w \<notin> live_contexts w \<and> live_contexts w' = insert (aw_next w) (live_contexts w)"
  using assms
  by (auto simp: acquireWorker_def bootWorker_def createWorker_def adapter_op_defs Let_def io_defs
      defaultAdapterFactory_def live_contexts_def contexts_ok_def bind_eq_Some_conv split: option.splits)

section \<open>Properties of the pool\<close>

text \<open>
  What the dispatcher relies on, for a count of the resources in use: acquiring raises it,
  giving back and destroying lower it, and what supervisors do leaves it alone.
\<close>

definition pool_behaves :: "('a, 'res, 'w) pool_ops \<Rightarrow> ('a, 'r, 'w) adapter_ops \<Rightarrow> ('w \<Rightarrow> nat) \<Rightarrow> bool" where
  "pool_behaves pool ops held \<longleftrightarrow>
     (\<forall>w r w'. po_Acquire pool w = Some (Inr r, w') \<longrightarrow> held w' = Suc (held w)) \<and>
     (\<forall>r w. held (po_Release pool r w) = held w - 1 \<and> held (po_Destroy pool r w) = held w - 1) \<and>
     (\<forall>r s w. held (po_store pool r s w) = held w) \<and>
     (\<forall>method data s w out s' w'. Supervisor_Send ops method data s w = Some (out, s', w') \<longrightarrow> held w' = held w) \<and>
     (\<forall>late rel w e w'. run_release ops late rel w = Some (e, w') \<longrightarrow> held w' = held w)"


text \<open>
  which dispatcher an interface gets, and that an interface the shim does not know is only
  found out by the first message: starting its supervisor succeeds, and every message then
  fails with \<open>ErrUnsupportedIOInterface\<close> in the chain of errors.
\<close>

theorem unsupported_interface_fails_late:
  fixes w :: "'c adapter_world"
  assumes "io_Interface (cfg_IO config) \<notin> {RpcIO, FileIO, WasmIO}"
  shows "NewDispatcher n config = Pooled n \<and>
    pool_constructor (adapters E) defaultSupervisorFactory config w = Some (Inr (New config), w) \<and>
    (\<exists>err. Supervisor_Send (adapters E) method data (New config) w =
             Some (\<lparr> so_result = None, so_err = Some err \<rparr>, New config, w) \<and>
           errors_is err ErrUnsupportedIOInterface)"
  using assms
  by (simp add: NewDispatcher_def pool_constructor_def defaultSupervisorFactory_def Supervisor_Start_def New_def Supervisor_Send_def
      acquireWorker_def bootWorker_def createWorker_def adapters_def adapter_create_def defaultAdapterFactory_def)

text \<open>The documented behaviour of the pool library: it refuses a size below 1 and nothing else.\<close>

definition newPool_conforms :: "(('a, 'w) pool_config \<Rightarrow> go_error + 'p) \<Rightarrow> bool" where
  "newPool_conforms newPool \<longleftrightarrow> (\<forall>c. (\<exists>err. newPool c = Inl err) \<longleftrightarrow> sint (pc_MaxSize c) < 1)"

lemma shift_mod:
  fixes n :: int
  shows "(n + 2147483648) mod 4294967296 - 2147483648 = 
    (if n mod 4294967296 < 2147483648 then n mod 4294967296 else n mod 4294967296 - 4294967296)"
proof -
  define m where "m = n mod 4294967296"
  have m: "0 \<le> m" "m < 4294967296" by (simp_all add: m_def)
  have e: "(n + 2147483648) mod 4294967296 = (m + 2147483648) mod 4294967296"
    unfolding m_def by (simp add: mod_simps)
  show ?thesis
  proof (cases "m < 2147483648")
    case True
    then have "(m + 2147483648) mod 4294967296 = m + 2147483648" using m by (intro mod_pos_pos_trivial) auto
    with True e show ?thesis by (simp add: m_def)
  next
    case False
    have "(m + 2147483648) mod 4294967296 = (m - 2147483648 + 1 * 4294967296) mod 4294967296" by (rule arg_cong [of _ _ "\<lambda>x. x mod 4294967296"]) simp
    also have "\<dots> = (m - 2147483648) mod 4294967296" by (rule mod_mult_self1)
    also have "\<dots> = m - 2147483648" using False m by (intro mod_pos_pos_trivial) auto
    finally show ?thesis using False e by (simp add: m_def)
  qed
qed

lemma sint_of_int32: "sint (word_of_int n :: 32 word) = (if n mod 2 ^ 32 < 2 ^ 31 then n mod 2 ^ 32 else n mod 2 ^ 32 - 2 ^ 32)"
proof -
  have "sint (word_of_int n :: 32 word) = signed_take_bit 31 n"
    by (simp add: sint_sbintrunc')
  also have "\<dots> = (n + 2147483648) mod 4294967296 - 2147483648"
    by (simp add: signed_take_bit_eq_take_bit_shift take_bit_eq_mod)
  finally show ?thesis by (simp add: shift_mod)
qed

lemma pool_MaxSize_sint:
  assumes "1 \<le> numCPU" and "numCPU < 2 ^ 31"
  shows "sint (pool_MaxSize n numCPU) =
    (if n \<le> 0 then numCPU else if n mod 2 ^ 32 < 2 ^ 31 then n mod 2 ^ 32 else n mod 2 ^ 32 - 2 ^ 32)"
  using assms by (simp add: pool_MaxSize_def sint_of_int32)

text \<open>
  C40: the size of the pool.  Without a positive maximum it is the number of processors; otherwise
  the maximum modulo 2 ^ 32, and the dispatcher cannot be made when that is 0 or does not fit 31
  bits: so a maximum below 2 ^ 31 is the size, and a larger one may be refused or give a smaller pool.
\<close>

theorem pool_size:
  assumes "newPool_conforms newPool" and "1 \<le> numCPU" and "numCPU < 2 ^ 31"
  shows "((\<exists>err. NewPooledDispatcher newPool ops numCPU factory config n = Inl err) \<longleftrightarrow>
      0 < n \<and> (n mod 2 ^ 32 = 0 \<or> 2 ^ 31 \<le> n mod 2 ^ 32)) \<and>
    (\<forall>d. NewPooledDispatcher newPool ops numCPU factory config n = Inr d \<longrightarrow>
      (\<exists>c. newPool c = Inr (pd_pool d) \<and> sint (pc_MaxSize c) = (if n \<le> 0 then numCPU else n mod 2 ^ 32)))"
proof -
  let ?c = "\<lparr> pc_Constructor = pool_constructor ops (factory_or_default factory) config,
              pc_Destructor = pool_destructor ops, pc_MaxSize = pool_MaxSize n numCPU \<rparr>"
  have made: "NewPooledDispatcher newPool ops numCPU factory config n =
      (case newPool ?c of Inl err \<Rightarrow> Inl err | Inr pool \<Rightarrow> Inr \<lparr> pd_pool = pool \<rparr>)"
    by (simp add: NewPooledDispatcher_def createPool_def)
  have refused: "(\<exists>err. newPool ?c = Inl err) \<longleftrightarrow> sint (pool_MaxSize n numCPU) < 1"
    using assms(1) unfolding newPool_conforms_def by (metis pool_config.select_convs(3))
  have small: "sint (pool_MaxSize n numCPU) < 1 \<longleftrightarrow> 0 < n \<and> (n mod 2 ^ 32 = 0 \<or> 2 ^ 31 \<le> n mod 2 ^ 32)"
    unfolding pool_MaxSize_sint [OF assms(2,3)] using assms(2) pos_mod_bound [of "2 ^ 32" n] pos_mod_sign [of "2 ^ 32" n]
    by auto
  show ?thesis
  proof (cases "newPool ?c")
    case (Inl err)
    with made refused small show ?thesis by auto
  next
    case (Inr pool)
    then have "\<not> sint (pool_MaxSize n numCPU) < 1" using refused by simp
    moreover from this have "sint (pc_MaxSize ?c) = (if n \<le> 0 then numCPU else n mod 2 ^ 32)"
      using small unfolding pool_config.select_convs pool_MaxSize_sint [OF assms(2,3)] by auto
    ultimately show ?thesis using made Inr small by auto
  qed
qed

section \<open>Witnesses\<close>

definition config_for :: "IOInterface \<Rightarrow> SupervisorConfig" where
  "config_for interface =
     \<lparr> cfg_IO = \<lparr> io_Interface = interface,
                  io_Rpc = \<lparr> rc_Transport = HttpTransport, rc_HttpUrl = ''http://localhost'', rc_IpcEndpoint = [],
                             rc_WsUrl = [], rc_TcpAddress = [] \<rparr> \<rparr>,
       cfg_StartParams = \<lparr> sc_Cmd = ''python'', sc_Cwd = [], sc_Args = [], sc_Env = None \<rparr>,
       cfg_StopTimeout = 5, cfg_SendTimeout = 30 \<rparr>"

text \<open>An outside in which files are exchanged and RPC workers start, or fail to (\<open>fails\<close>).\<close>

definition sample_outside :: "bool \<Rightarrow> unit outside" where
  "sample_outside fails =
     \<lparr> ou_environ = [],
       ou_rpc = (\<lambda>_. \<lparr> re_windows = False, re_ctx_err = None,
          re_start_err = (if fails then Some (ErrorString ''no such file'') else None),
          re_dial = (\<lambda>_ _ _. Inr ()), re_expired = (\<lambda>_. False), re_conv = (\<lambda>_. 0) \<rparr>),
       ou_file = (\<lambda>_. sample_files True),
       ou_call = (\<lambda>_ _ _ data. Inr data), ou_getpgid = (\<lambda>p. Some p), ou_pid = (\<lambda>a. 100 + int a),
       ou_wait = (\<lambda>_. Inr \<lparr> ee_Code = Some 0, ee_Signal = None, ee_Stderr = [] \<rparr>) \<rparr>"

definition empty_world :: "unit adapter_world" where
  "empty_world = \<lparr> aw_next = 0, aw_live = {||}, aw_adapters = fmempty, aw_files = no_files, aw_clock = 0 \<rparr>"

lemma empty_world_ok: "contexts_ok empty_world"
  by (simp add: contexts_ok_def empty_world_def)

definition rpc_supervisor :: "nat WorkerSupervisor" where
  "rpc_supervisor = New (config_for RpcIO)"

theorem unsupported_interface_fails_late_witness:
  "NewDispatcher 4 (config_for ''grpc'') = Pooled 4"
proof -
  have "io_Interface (cfg_IO (config_for ''grpc'')) \<notin> {RpcIO, FileIO, WasmIO}" by (simp add: config_for_def io_defs)
  from unsupported_interface_fails_late [OF this, of 4 "sample_outside False" empty_world] show ?thesis by blast
qed

theorem failed_boot_leaks_context_witness:
  "\<exists>err s' w'. acquireWorker (adapters (sample_outside True)) rpc_supervisor empty_world = Some (Inl err, s', w') \<and>
     live_contexts w' = {0}"
proof -
  obtain err s' w' where a: "acquireWorker (adapters (sample_outside True)) rpc_supervisor empty_world = Some (Inl err, s', w')"
    by (auto simp: acquireWorker_def bootWorker_def createWorker_def adapter_op_defs Let_def io_defs
        defaultAdapterFactory_def rpc_supervisor_def New_def config_for_def sample_outside_def empty_world_def
        rpcAdapter_Start_def defaultWorkerFactory_def newRpcAdapter_def Start_def NewProcessWorker_def pipe_check_def)
  have "io_Interface (cfg_IO (ws_config rpc_supervisor)) = RpcIO" "ws_workerRef rpc_supervisor = None"
    by (simp_all add: rpc_supervisor_def New_def config_for_def)
  from failed_boot_leaks_context [OF empty_world_ok this a] a show ?thesis
    by (auto simp: empty_world_def live_contexts_def)
qed

lemmas sample_run_simps = send_and_release_def Supervisor_Send_def acquireWorker_def bootWorker_def
  createWorker_def releaseWorker_def terminateWorker_def run_release_def adapter_op_defs Let_def
  defaultAdapterFactory_def defaultWorkerFactory_def New_def config_for_def io_defs sample_outside_def
  empty_world_def fileAdapter_Start_def fileAdapter_Stop_def newFileAdapter_def newRpcAdapter_def

lemma sample_file_messages:
  "\<exists>outs s' w'. send_all (adapters (sample_outside False)) [(False, ''eval'', None)] (New (config_for FileIO)) empty_world
     = Some (outs, s', w')"
proof -
  have "Option.is_none (send_all (adapters (sample_outside False)) [(False, ''eval'', None)]
      (New (config_for FileIO)) empty_world) = False"
    by code_simp
  then show ?thesis by (auto simp: Option.is_none_def)
qed

theorem file_workers_released_witness:
  "\<exists>outs w'. send_all (adapters (sample_outside False)) [(False, ''eval'', None)] (New (config_for FileIO)) empty_world
     = Some (outs, New (config_for FileIO), w') \<and> live_contexts w' = {}"
proof -
  obtain outs s' w' where s:
    "send_all (adapters (sample_outside False)) [(False, ''eval'', None)] (New (config_for FileIO)) empty_world
       = Some (outs, s', w')"
    using sample_file_messages by blast
  have "io_Interface (cfg_IO (config_for FileIO)) = FileIO" by (simp add: config_for_def)
  from file_workers_released [OF empty_world_ok this s] s show ?thesis
    by (auto simp: live_contexts_def empty_world_def)
qed

text \<open>An RPC supervisor that has started its worker.\<close>

definition rpc_started :: "nat WorkerSupervisor \<times> unit adapter_world" where
  "rpc_started =
     (case Supervisor_Start (adapters (sample_outside False)) rpc_supervisor empty_world of
        Some (_, s, w) \<Rightarrow> (s, w) | None \<Rightarrow> (rpc_supervisor, empty_world))"

lemma dial_at_once: "dialRpcWithRetry conv (\<lambda>i. Inr c) expired b m = Some (Inr c, [])"
  by (simp add: dialRpcWithRetry_def dial_loop.simps)

lemma rpc_started_facts:
  "ws_persistent (fst rpc_started)" "ws_workerRef (fst rpc_started) = Some 0"
  "contexts_ok (snd rpc_started)" "live_contexts (snd rpc_started) = {0}"
  "\<exists>r. fmlookup (aw_adapters (snd rpc_started)) 0 = Some (RpcAdapter r) \<and>
       (\<exists>p. ra_worker r = Some p \<and> w_proc p) \<and> ra_rpcClient r = Some ()"
  by (simp_all add: rpc_started_def Supervisor_Start_def rpc_supervisor_def sample_run_simps rpcAdapter_Start_def
      Start_def NewProcessWorker_def pipe_check_def dialRpc_def dial_at_once contexts_ok_def live_contexts_def)

theorem rpc_worker_kept_witness:
  "\<exists>outs w'. send_all (adapters (sample_outside False)) [(False, ''eval'', None)] (fst rpc_started) (snd rpc_started)
     = Some (outs, fst rpc_started, w') \<and> live_contexts w' = {0}"
proof -
  obtain r where r: "fmlookup (aw_adapters (snd rpc_started)) 0 = Some (RpcAdapter r)"
    using rpc_started_facts(5) by blast
  obtain s w where sw: "rpc_started = (s, w)" by (cases rpc_started)
  have "send_all (adapters (sample_outside False)) [(False, ''eval'', None)] s w \<noteq> None"
    using rpc_started_facts(1,2) r unfolding sw
    by (simp add: send_and_release_def Supervisor_Send_def acquireWorker_def releaseWorker_def run_release_def
        adapters_def adapter_Send_def)
  then obtain outs s' w' where s:
    "send_all (adapters (sample_outside False)) [(False, ''eval'', None)] (fst rpc_started) (snd rpc_started)
       = Some (outs, s', w')"
    unfolding sw by auto
  from rpc_worker_kept [OF rpc_started_facts(3,1,2) s] s rpc_started_facts(4) show ?thesis by auto
qed

text \<open>A pool with one supervisor over a world that counts the resources in use.\<close>

definition counting_pool :: "(unit, unit, nat) pool_ops" where
  "counting_pool =
     \<lparr> po_Acquire = (\<lambda>w. Some (Inr (), Suc w)), po_Release = (\<lambda>_ w. w - 1), po_Destroy = (\<lambda>_ w. w - 1),
       po_Value = (\<lambda>_ _. New (config_for FileIO)), po_store = (\<lambda>_ _ w. w) \<rparr>"

definition idle_ops :: "(unit, unit, nat) adapter_ops" where
  "idle_ops =
     \<lparr> ao_create = (\<lambda>_ w. Some (Inr (), w)), ao_Start = (\<lambda>_ _ w. Some (None, w)),
       ao_Send = (\<lambda>_ _ data _ w. Some (Inr data, w)), ao_Stop = (\<lambda>_ w. Some (Inr (), w)),
       ao_wait = (\<lambda>_ w. Some (None, w)), ao_cancel = (\<lambda>_ w. w) \<rparr>"

lemma counting_pool_behaves: "pool_behaves counting_pool idle_ops (\<lambda>n. n)"
  by (auto simp: pool_behaves_def counting_pool_def idle_ops_def Supervisor_Send_def acquireWorker_def
      bootWorker_def createWorker_def releaseWorker_def terminateWorker_def run_release_def
      split: option.splits release.splits if_splits)


text \<open>A pool that is its configuration.\<close>

definition plain_pool :: "('a, 'w) pool_config \<Rightarrow> go_error + ('a, 'w) pool_config" where
  "plain_pool c = (if sint (pc_MaxSize c) < 1 then Inl (ErrorString ''MaxSize must be >= 1'') else Inr c)"

theorem pool_size_witness:
  "\<exists>d. NewPooledDispatcher plain_pool idle_ops 8 None (config_for FileIO) 4294967297 = Inr d \<and> sint (pc_MaxSize (pd_pool d)) = 1"
proof -
  have c: "newPool_conforms (plain_pool :: (unit, nat) pool_config \<Rightarrow> _)" by (simp add: newPool_conforms_def plain_pool_def)
  note s = pool_size [OF c, of 8 idle_ops None "config_for FileIO" 4294967297]
  then obtain d where d: "NewPooledDispatcher plain_pool idle_ops 8 None (config_for FileIO) 4294967297 = Inr d"
    by (cases "NewPooledDispatcher plain_pool idle_ops 8 None (config_for FileIO) 4294967297") auto
  with s show ?thesis by (auto simp: plain_pool_def split: if_splits)
qed

end
