(* ===== verification/Supervisor_Interleaving.thy ===== *)
theory Supervisor_Interleaving
  imports Dispatcher_Contract "HOL-Library.Multiset"
begin

text \<open>
  Calls of a supervisor by several goroutines.  \<^verbatim>\<open>sendLock\<close> admits one \<open>Send\<close> at a time, but a send gives
  \<^verbatim>\<open>workerLock\<close> back between acquiring its worker, using it and releasing it, so \<open>Start\<close>, \<open>Suspend\<close>,
  \<open>Shutdown\<close> and the release functions of earlier calls come in between.
\<close>

section \<open>The steps\<close>

text \<open>
  The worker of the send that holds \<^verbatim>\<open>sendLock\<close>: acquired, and then used and about to be released.
\<close>

datatype 'a sender = NoSender | Acquired 'a | Used 'a

text \<open>
  \<open>us_releases\<close> are the release functions that calls returned and nobody has run yet; \<open>us_failed\<close> counts
  the calls that could not boot a worker.
\<close>

record ('a, 'r, 'w) sup_state =
  us_sup :: "'a WorkerSupervisor"
  us_world :: 'w
  us_sender :: "'a sender"
  us_releases :: "('a, 'r) release list"
  us_failed :: nat

inductive sup_step :: "('a, 'r, 'w) adapter_ops \<Rightarrow> ('a, 'r, 'w) sup_state \<Rightarrow> ('a, 'r, 'w) sup_state \<Rightarrow> bool"
  for ops :: "('a, 'r, 'w) adapter_ops" where
  call_Start: "Supervisor_Start ops (us_sup u) (us_world u) = Some (e, s, w) \<Longrightarrow>
    sup_step ops u (u\<lparr> us_sup := s, us_world := w, us_failed := us_failed u + (if e = None then 0 else 1) \<rparr>)"
| send_acquires: "us_sender u = NoSender \<Longrightarrow> acquireWorker ops (us_sup u) (us_world u) = Some (Inr a, s, w) \<Longrightarrow>
    sup_step ops u (u\<lparr> us_sup := s, us_world := w, us_sender := Acquired a \<rparr>)"
| send_fails: "us_sender u = NoSender \<Longrightarrow> acquireWorker ops (us_sup u) (us_world u) = Some (Inl err, s, w) \<Longrightarrow>
    sup_step ops u (u\<lparr> us_sup := s, us_world := w, us_failed := us_failed u + 1 \<rparr>)"
| send_uses: "us_sender u = Acquired a \<Longrightarrow>
    ao_Send ops a method data (cfg_SendTimeout (ws_config (us_sup u))) (us_world u) = Some (res, w) \<Longrightarrow>
    sup_step ops u (u\<lparr> us_world := w, us_sender := Used a \<rparr>)"
| send_releases: "us_sender u = Used a \<Longrightarrow> releaseWorker ops (us_sup u) (us_world u) = Some (rel, s, w) \<Longrightarrow>
    sup_step ops u (u\<lparr> us_sup := s, us_world := w, us_sender := NoSender,
      us_releases := us_releases u @ [case rel of Inl err \<Rightarrow> ReleaseError err | Inr f \<Rightarrow> f] \<rparr>)"
| call_Suspend: "Suspend ops (us_sup u) (us_world u) = Some (rel, s, w) \<Longrightarrow>
    sup_step ops u (u\<lparr> us_sup := s, us_world := w,
      us_releases := us_releases u @ (case rel of Inl err \<Rightarrow> [] | Inr f \<Rightarrow> [f]) \<rparr>)"
| call_Shutdown: "Shutdown ops (us_sup u) (us_world u) = Some (rel, s, w) \<Longrightarrow>
    sup_step ops u (u\<lparr> us_sup := s, us_world := w,
      us_releases := us_releases u @ (case rel of Inl err \<Rightarrow> [] | Inr f \<Rightarrow> [f]) \<rparr>)"
| release_runs: "rel \<in> set (us_releases u) \<Longrightarrow> run_release ops late rel (us_world u) = Some (e, w) \<Longrightarrow>
    sup_step ops u (u\<lparr> us_world := w, us_releases := remove1 rel (us_releases u) \<rparr>)"

definition sup_start :: "SupervisorConfig \<Rightarrow> 'w \<Rightarrow> ('a, 'r, 'w) sup_state \<Rightarrow> bool" where
  "sup_start config w u \<longleftrightarrow>
     u = \<lparr> us_sup = New config, us_world = w, us_sender = NoSender, us_releases = [], us_failed = 0 \<rparr>"

text \<open>A send that nothing interrupts is the function of the same name.\<close>

lemma send_uninterrupted:
  assumes "us_sender u = NoSender"
    and "Supervisor_Send ops method data (us_sup u) (us_world u) = Some (out, s, w)"
  shows "\<exists>u'. (sup_step ops)\<^sup>*\<^sup>* u u' \<and> us_sup u' = s \<and> us_world u' = w \<and> us_sender u' = NoSender \<and>
    us_releases u' = us_releases u @ (case so_result out of None \<Rightarrow> [] | Some (_, rel) \<Rightarrow> [rel])"
proof -
  from assms(2) obtain r s1 w1 where aq: "acquireWorker ops (us_sup u) (us_world u) = Some (r, s1, w1)"
    by (auto simp: Supervisor_Send_def bind_eq_Some_conv)
  show ?thesis
  proof (cases r)
    case (Inl err)
    with assms aq have "so_result out = None" "s = s1" "w = w1" by (auto simp: Supervisor_Send_def)
    with send_fails [OF assms(1) aq [unfolded Inl]] assms(1) show ?thesis
      by (intro exI [of _ "u\<lparr> us_sup := s, us_world := w, us_failed := us_failed u + 1 \<rparr>"]) auto
  next
    case (Inr a)
    from assms(2) Inr aq obtain res w2 rel where
        sd: "ao_Send ops a method data (cfg_SendTimeout (ws_config s1)) w1 = Some (res, w2)"
      and rl: "releaseWorker ops s1 w2 = Some (rel, s, w)"
      and out: "\<exists>d. so_result out = Some (d, case rel of Inl err \<Rightarrow> ReleaseError err | Inr f \<Rightarrow> f)"
      by (auto simp: Supervisor_Send_def bind_eq_Some_conv)
    let ?u1 = "u\<lparr> us_sup := s1, us_world := w1, us_sender := Acquired a \<rparr>"
    let ?u2 = "?u1\<lparr> us_world := w2, us_sender := Used a \<rparr>"
    let ?u3 = "?u2\<lparr> us_sup := s, us_world := w, us_sender := NoSender,
      us_releases := us_releases ?u2 @ [case rel of Inl err \<Rightarrow> ReleaseError err | Inr f \<Rightarrow> f] \<rparr>"
    have 1: "sup_step ops u ?u1" by (rule send_acquires [OF assms(1) aq [unfolded Inr]])
    have 2: "sup_step ops ?u1 ?u2" by (rule send_uses) (use sd in simp_all)
    have 3: "sup_step ops ?u2 ?u3" by (rule send_releases) (use rl in simp_all)
    have "(sup_step ops)\<^sup>*\<^sup>* u ?u3"
      by (rule rtranclp.rtrancl_into_rtrancl [OF rtranclp.rtrancl_into_rtrancl [OF r_into_rtranclp [of "sup_step ops", OF 1] 2] 3])
    with out show ?thesis by (intro exI [of _ ?u3]) auto
  qed
qed

section \<open>Who owns a worker context\<close>

definition pending :: "('a, 'r) release list \<Rightarrow> 'a list" where
  "pending rels = concat (map (\<lambda>rel. case rel of WaitAndCancel h a \<Rightarrow> [a] | _ \<Rightarrow> []) rels)"

definition owned :: "('a, 'r, 'w) sup_state \<Rightarrow> 'a list" where
  "owned u = (case ws_workerRef (us_sup u) of None \<Rightarrow> [] | Some a \<Rightarrow> [a]) @ pending (us_releases u)"

lemma pending_simps [simp]:
  "pending [] = []" "pending (rels @ rels') = pending rels @ pending rels'"
  "pending (NoopRelease # rels) = pending rels" "pending (ReleaseError e # rels) = pending rels"
  "pending (WaitAndCancel h a # rels) = a # pending rels"
  by (simp_all add: pending_def)

lemma pending_remove1:
  "rel \<in> set rels \<Longrightarrow> mset (pending rels) = mset (pending [rel]) + mset (pending (remove1 rel rels))"
proof (induction rels)
  case (Cons x rels)
  have split: "pending (y # ys) = pending [y] @ pending ys" for y :: "('a, 'b) release" and ys
    by (simp add: pending_def)
  show ?case
  proof (cases "x = rel")
    case True
    then show ?thesis using split [of rel rels] by simp
  next
    case False
    with Cons show ?thesis by (subst (1 2) split) (simp add: split [of x "remove1 rel rels"])
  qed
qed simp

text \<open>
  The account of the contexts: those from before (\<open>base\<close>), those owned, each by one owner, and at most one
  for each failed boot.
\<close>

definition accounted :: "('w \<Rightarrow> 'a set) \<Rightarrow> ('w \<Rightarrow> bool) \<Rightarrow> 'a set \<Rightarrow> ('a, 'r, 'w) sup_state \<Rightarrow> bool" where
  "accounted live ok base u \<longleftrightarrow> ok (us_world u) \<and>
     (\<exists>lost. finite lost \<and> card lost \<le> us_failed u \<and> live (us_world u) = base \<union> set (owned u) \<union> lost \<and>
        distinct (owned u) \<and> set (owned u) \<inter> (base \<union> lost) = {})"

lemma accountedI:
  "ok (us_world u) \<Longrightarrow> finite lost \<Longrightarrow> card lost \<le> us_failed u \<Longrightarrow> live (us_world u) = base \<union> set (owned u) \<union> lost \<Longrightarrow>
   distinct (owned u) \<Longrightarrow> set (owned u) \<inter> (base \<union> lost) = {} \<Longrightarrow> accounted live ok base u"
  unfolding accounted_def by blast

text \<open>Steps that change neither the contexts nor their owners.\<close>

lemma accounted_same:
  assumes "accounted live ok base u" and "ok (us_world v)" and "live (us_world v) = live (us_world u)"
    and "set (owned v) = set (owned u)" and "distinct (owned u) \<Longrightarrow> distinct (owned v)"
    and "us_failed u \<le> us_failed v"
  shows "accounted live ok base v"
  using assms unfolding accounted_def by (metis le_trans)

text \<open>An owner gives a context up by cancelling it.\<close>

lemma accounted_cancel:
  assumes "accounted live ok base u" and "ok (us_world v)" and "live (us_world v) = live (us_world u) - {a}"
    and "mset (owned u) = add_mset a (mset (owned v))" and "us_failed v = us_failed u"
  shows "accounted live ok base v"
proof -
  obtain lost where l: "finite lost" "card lost \<le> us_failed u" "live (us_world u) = base \<union> set (owned u) \<union> lost"
      "distinct (owned u)" "set (owned u) \<inter> (base \<union> lost) = {}"
    using assms(1) unfolding accounted_def by blast
  have "mset (owned u) = mset (a # owned v)" using assms(4) by simp
  from mset_eq_setD [OF this] mset_eq_imp_distinct_iff [OF this] l(4)
  have "set (owned u) = insert a (set (owned v))" "distinct (owned v)" "a \<notin> set (owned v)" by simp_all
  with l assms(2,3,5) show ?thesis by (intro accountedI [of _ _ lost]) auto
qed

text \<open>A boot adds a context that is then owned, or lost.\<close>

lemma accounted_boot:
  assumes "accounted live ok base u" and "ok (us_world v)" and "a \<notin> live (us_world u)"
    and "live (us_world v) = insert a (live (us_world u))" and "us_failed u \<le> us_failed v"
    and "mset (owned v) = add_mset a (mset (owned u)) \<or> owned v = owned u \<and> Suc (us_failed u) = us_failed v"
  shows "accounted live ok base v"
proof -
  obtain lost where l: "finite lost" "card lost \<le> us_failed u" "live (us_world u) = base \<union> set (owned u) \<union> lost"
      "distinct (owned u)" "set (owned u) \<inter> (base \<union> lost) = {}"
    using assms(1) unfolding accounted_def by blast
  from assms(6) show ?thesis
  proof
    assume "mset (owned v) = add_mset a (mset (owned u))"
    then have "mset (owned v) = mset (a # owned u)" by simp
    from mset_eq_setD [OF this] mset_eq_imp_distinct_iff [OF this] show ?thesis
      using l assms(2-5) by (intro accountedI [of _ _ lost]) auto
  next
    assume "owned v = owned u \<and> Suc (us_failed u) = us_failed v"
    then show ?thesis
      using l assms(2-4) by (intro accountedI [of _ _ "insert a lost"]) (auto simp: card_insert_if)
  qed
qed

context adapter_provider
begin

lemma acquire_accounted:
  assumes "accounted live ok base u" and "acquireWorker ops (us_sup u) (us_world u) = Some (r, s, w)"
    and "us_sup v = s" and "us_world v = w" and "us_releases v = us_releases u"
    and "us_failed v = us_failed u + (case r of Inl _ \<Rightarrow> 1 | Inr _ \<Rightarrow> 0)"
  shows "accounted live ok base v"
proof -
  have ok: "ok (us_world u)" using assms(1) by (simp add: accounted_def)
  note aq = acquire_live [OF ok assms(2)]
  show ?thesis
  proof (cases "ws_workerRef (us_sup u)")
    case (Some a)
    with aq have "s = us_sup u" "live w = live (us_world u)" "ok w" "r = Inr a" by simp_all
    then show ?thesis
      using assms(3-6) by (intro accounted_same [OF assms(1)]) (auto simp: owned_def)
  next
    case None
    show ?thesis
    proof (cases "live w = live (us_world u)")
      case True
      with None aq have "s = us_sup u" "ok w" "r \<noteq> Inr a" for a by (auto split: sum.splits)
      with True show ?thesis
        using assms(3-6) by (intro accounted_same [OF assms(1)]) (auto simp: owned_def)
    next
      case False
      with None aq obtain a where a: "a \<notin> live (us_world u)" "live w = insert a (live (us_world u))" "ok w"
        "(\<exists>e. r = Inl e \<and> s = us_sup u) \<or> (r = Inr a \<and> ws_workerRef s = Some a)"
        by (auto split: sum.splits)
      then show ?thesis
        using None assms(3-6) by (intro accounted_boot [OF assms(1), of _ a]) (auto simp: owned_def)
    qed
  qed
qed

lemma terminate_accounted:
  assumes "accounted live ok base u" and "terminateWorker ops (us_sup u) (us_world u) = Some (r, s, w)"
    and "us_sup v = s" and "us_world v = w" and "us_failed v = us_failed u"
    and "pending (us_releases v) = pending (us_releases u) @ (case r of Inl _ \<Rightarrow> [] | Inr f \<Rightarrow> pending [f])"
  shows "accounted live ok base v"
proof -
  have ok: "ok (us_world u)" using assms(1) by (simp add: accounted_def)
  note tl = terminate_live [OF ok assms(2)]
  show ?thesis
  proof (cases "ws_workerRef (us_sup u)")
    case None
    with tl assms(3-6) show ?thesis
      by (intro accounted_same [OF assms(1)]) (auto simp: owned_def)
  next
    case (Some a)
    show ?thesis
    proof (cases r)
      case (Inl e)
      with Some tl assms(3-6) show ?thesis
        by (intro accounted_cancel [OF assms(1), of _ a]) (auto simp: owned_def)
    next
      case (Inr f)
      with Some tl obtain h where "f = WaitAndCancel h a" "live w = live (us_world u)" "ok w" "ws_workerRef s = None"
        by auto
      with Some Inr assms(3-6) show ?thesis
        by (intro accounted_same [OF assms(1)]) (auto simp: owned_def)
    qed
  qed
qed

lemma release_accounted:
  assumes "accounted live ok base u" and "releaseWorker ops (us_sup u) (us_world u) = Some (r, s, w)"
    and "us_sup v = s" and "us_world v = w" and "us_failed v = us_failed u"
    and "pending (us_releases v) = pending (us_releases u) @ (case r of Inl _ \<Rightarrow> [] | Inr f \<Rightarrow> pending [f])"
  shows "accounted live ok base v"
proof (cases "ws_persistent (us_sup u)")
  case True
  with assms(2) have "r = Inr NoopRelease" "s = us_sup u" "w = us_world u" by (simp_all add: releaseWorker_def)
  with assms(1,3-6) show ?thesis
    by (intro accounted_same [OF assms(1)]) (auto simp: owned_def accounted_def)
next
  case False
  with assms(2) have "terminateWorker ops (us_sup u) (us_world u) = Some (r, s, w)" by (simp add: releaseWorker_def)
  from terminate_accounted [OF assms(1) this assms(3-6)] show ?thesis .
qed

lemma call_Start_accounted:
  assumes acc: "accounted live ok base u" and st: "Supervisor_Start ops (us_sup u) (us_world u) = Some (e, s, w)"
  shows "accounted live ok base
    (u\<lparr> us_sup := s, us_world := w, us_failed := us_failed u + (if e = None then 0 else 1) \<rparr>)"
proof (cases "ws_persistent (us_sup u)")
  case True
  from persistent_start [OF True st] obtain r where
    r: "acquireWorker ops (us_sup u) (us_world u) = Some (r, s, w)"
      "e = (case r of Inl err \<Rightarrow> Some (Wrapped ''failed to start worker'' (Some err)) | Inr _ \<Rightarrow> None)" by blast
  then show ?thesis by (intro acquire_accounted [OF acc r(1)]) (auto split: sum.splits)
next
  case False
  with st acc show ?thesis by (auto simp: Supervisor_Start_def)
qed

text \<open>A release function that runs ends the context it holds, where it holds one.\<close>

lemma release_runs_accounted:
  assumes acc: "accounted live ok base u" and rel: "rel \<in> set (us_releases u)"
    and run: "run_release ops late rel (us_world u) = Some (e, w)"
  shows "accounted live ok base (u\<lparr> us_world := w, us_releases := remove1 rel (us_releases u) \<rparr>)"
proof -
  have "ok (us_world u)" using acc by (simp add: accounted_def)
  note rl = run_release_live [OF this run] and pd = pending_remove1 [OF rel]
  show ?thesis
  proof (cases rel)
    case (WaitAndCancel h a)
    with rl pd show ?thesis by (intro accounted_cancel [OF acc, of _ a]) (auto simp: owned_def)
  next
    case NoopRelease
    with rl pd show ?thesis
      by (intro accounted_same [OF acc]) (auto simp: owned_def dest: mset_eq_setD mset_eq_imp_distinct_iff)
  next
    case (ReleaseError x)
    with rl pd show ?thesis
      by (intro accounted_same [OF acc]) (auto simp: owned_def dest: mset_eq_setD mset_eq_imp_distinct_iff)
  qed
qed

lemma step_accounted:
  assumes "sup_step ops u v" and acc: "accounted live ok base u"
  shows "accounted live ok base v"
  using assms(1)
proof cases
  case (call_Start e s w)
  then show ?thesis using call_Start_accounted [OF acc] by simp
next
  case (send_acquires a s w)
  then show ?thesis by (intro acquire_accounted [OF acc]) auto
next
  case (send_fails err s w)
  then show ?thesis by (intro acquire_accounted [OF acc]) auto
next
  case (send_uses a m d res w)
  have "ok (us_world u)" using acc by (simp add: accounted_def)
  from send_live [OF this send_uses(3)] send_uses(1) show ?thesis
    by (intro accounted_same [OF acc]) (auto simp: owned_def)
next
  case (send_releases a rel s w)
  then show ?thesis by (intro release_accounted [OF acc]) (auto split: sum.splits)
next
  case (call_Suspend rel s w)
  then show ?thesis by (intro release_accounted [OF acc]) (auto simp: Suspend_def split: sum.splits)
next
  case (call_Shutdown rel s w)
  then show ?thesis by (intro terminate_accounted [OF acc]) (auto simp: Shutdown_def split: sum.splits)
next
  case (release_runs rel late e w)
  then show ?thesis using release_runs_accounted [OF acc] by simp
qed

lemma start_accounted: "ok w \<Longrightarrow> sup_start config w u \<Longrightarrow> accounted live ok (live w) u"
  by (auto simp: sup_start_def accounted_def owned_def New_def intro: exI [of _ "{}"])

end

interpretation interleaving: invariant_system
  "\<lambda>u. contexts_ok w \<and> sup_start config w u" "sup_step (adapters E)" "accounted live_contexts contexts_ok (live_contexts w)"
  for w :: "'c adapter_world" and config E
  by unfold_locales (auto intro: adapters.start_accounted adapters.step_accounted)

section \<open>File supervisors\<close>

text \<open>A boot of a file worker never fails.\<close>

definition file_supervisor :: "('a, 'r, 'w) sup_state \<Rightarrow> bool" where
  "file_supervisor u \<longleftrightarrow> io_Interface (cfg_IO (ws_config (us_sup u))) = FileIO \<and> \<not> ws_persistent (us_sup u) \<and> us_failed u = 0"

lemma acquire_config:
  "acquireWorker ops s w = Some (r, s', w') \<Longrightarrow> ws_config s' = ws_config s \<and> ws_persistent s' = ws_persistent s"
  by (cases "ws_workerRef s"; cases "fst (the (bootWorker ops (ws_config s) w))")
    (auto simp: acquireWorker_def bind_eq_Some_conv)

lemma file_acquire:
  assumes "file_supervisor u" and "acquireWorker (adapters E) (us_sup u) w = Some (r, s, w')"
  shows "\<exists>a. r = Inr a"
proof (cases "ws_workerRef (us_sup u)")
  case None
  with assms(1) obtain s1 w1 where "acquireWorker (adapters E) (us_sup u) w = Some (Inr (aw_next w), s1, w1)"
    using file_acquires unfolding file_supervisor_def by blast
  with assms(2) show ?thesis by auto
next
  case (Some a)
  with assms(2) show ?thesis by (auto simp: acquireWorker_def)
qed

lemma terminate_config:
  "terminateWorker ops s w = Some (r, s', w') \<Longrightarrow> ws_config s' = ws_config s \<and> ws_persistent s' = ws_persistent s"
  by (cases "ws_workerRef s"; cases "fst (the (ao_Stop ops (the (ws_workerRef s)) w))")
    (auto simp: terminateWorker_def bind_eq_Some_conv)

lemma release_config:
  "releaseWorker ops s w = Some (r, s', w') \<Longrightarrow> ws_config s' = ws_config s \<and> ws_persistent s' = ws_persistent s"
  by (auto simp: releaseWorker_def split: if_splits dest: terminate_config)

interpretation file_interleaving: invariant_system
  "\<lambda>u. io_Interface (cfg_IO config) = FileIO \<and> sup_start config w u" "sup_step (adapters E)" file_supervisor
  for w :: "'c adapter_world" and config E
proof unfold_locales
  show "file_supervisor u" if "io_Interface (cfg_IO config) = FileIO \<and> sup_start config w u" for u
    using that by (auto simp: sup_start_def file_supervisor_def New_def io_defs)
  show "file_supervisor v" if f: "file_supervisor u" and "sup_step (adapters E) u v" for u v
    using that(2)
  proof cases
    case (call_Start e s w')
    with f show ?thesis by (simp add: Supervisor_Start_def file_supervisor_def)
  next
    case (send_fails err s w')
    with file_acquire [OF f send_fails(3)] show ?thesis by simp
  next
    case (send_acquires a s w')
    with f acquire_config [OF send_acquires(3)] show ?thesis by (simp add: file_supervisor_def)
  qed (use f in \<open>auto simp: file_supervisor_def Suspend_def Shutdown_def dest: terminate_config release_config\<close>)
qed

section \<open>Properties\<close>

text \<open>
  C6: worker contexts under concurrent calls.  However \<open>Start\<close>, \<open>Send\<close>, \<open>Suspend\<close>, \<open>Shutdown\<close> and the
  release functions interleave, the contexts alive are those from before, the one of the worker the
  supervisor holds, those of workers a returned release function will cancel, and at most one for
  each call that failed to boot a worker.  No context has two owners, and with the file interface
  none is lost: once nothing is held or pending, exactly the contexts from before are left.
\<close>

theorem contexts_accounted:
  assumes "contexts_ok w" and "reachable (sup_start config w) (sup_step (adapters E)) u"
  shows "(\<exists>lost. finite lost \<and> card lost \<le> us_failed u \<and>
      live_contexts (us_world u) = live_contexts w \<union> set (owned u) \<union> lost \<and>
      distinct (owned u) \<and> set (owned u) \<inter> (live_contexts w \<union> lost) = {}) \<and>
    (io_Interface (cfg_IO config) = FileIO \<longrightarrow> us_failed u = 0 \<and>
      (owned u = [] \<longrightarrow> live_contexts (us_world u) = live_contexts w))"
proof -
  have r: "reachable (\<lambda>u. P \<and> sup_start config w u) (sup_step (adapters E)) u" if P for P
    using assms(2) that by simp
  have "accounted live_contexts contexts_ok (live_contexts w) u"
    by (rule interleaving.reachable_inv [OF r [OF assms(1)]])
  then obtain lost where l: "finite lost" "card lost \<le> us_failed u"
      "live_contexts (us_world u) = live_contexts w \<union> set (owned u) \<union> lost"
      "distinct (owned u)" "set (owned u) \<inter> (live_contexts w \<union> lost) = {}"
    unfolding accounted_def by blast
  moreover have "us_failed u = 0" if "io_Interface (cfg_IO config) = FileIO"
    using file_interleaving.reachable_inv [OF r [OF that]] by (simp add: file_supervisor_def)
  ultimately show ?thesis by auto
qed

text \<open>A file supervisor that is shut down between the acquiring and the use of its worker.\<close>

theorem contexts_accounted_witness:
  "\<exists>u a. reachable (sup_start (config_for FileIO) empty_world) (sup_step (adapters (sample_outside False))) u \<and>
     us_sender u = Acquired a \<and> ws_workerRef (us_sup u) = None \<and> live_contexts (us_world u) = {a}"
proof -
  let ?ops = "adapters (sample_outside False)"
  let ?u0 = "\<lparr> us_sup = New (config_for FileIO), us_world = empty_world, us_sender = NoSender, us_releases = [], us_failed = 0 \<rparr>
    :: (nat, nat option, unit adapter_world) sup_state"
  have r0: "reachable (sup_start (config_for FileIO) empty_world) (sup_step ?ops) ?u0"
    by (rule reachable_start) (simp add: sup_start_def)
  have "io_Interface (cfg_IO (ws_config (us_sup ?u0))) = FileIO" "ws_workerRef (us_sup ?u0) = None"
    by (simp_all add: New_def config_for_def)
  from file_acquires [OF this, of "sample_outside False" "us_world ?u0"] obtain s w where
    aq: "acquireWorker ?ops (us_sup ?u0) (us_world ?u0) = Some (Inr 0, s, w)"
    by (auto simp: empty_world_def)
  then have s: "ws_workerRef s = Some 0" and f: "\<exists>x. fmlookup (aw_adapters w) 0 = Some (FileAdapter x)"
    by (auto simp: sample_run_simps bind_eq_Some_conv)
  let ?u1 = "?u0\<lparr> us_sup := s, us_world := w, us_sender := Acquired 0 \<rparr>"
  have r1: "reachable (sup_start (config_for FileIO) empty_world) (sup_step ?ops) ?u1"
    by (rule reachable_step [OF r0 send_acquires]) (use aq in simp_all)
  have sh: "Shutdown ?ops (us_sup ?u1) (us_world ?u1) = Some (Inr (WaitAndCancel None 0), s\<lparr> ws_workerRef := None \<rparr>, w)"
    using s f by (auto simp: Shutdown_def terminateWorker_def adapter_op_defs fileAdapter_Stop_def)
  let ?u2 = "?u1\<lparr> us_sup := s\<lparr> ws_workerRef := None \<rparr>, us_world := w, us_releases := [WaitAndCancel None 0] \<rparr>"
  have r2: "reachable (sup_start (config_for FileIO) empty_world) (sup_step ?ops) ?u2"
    using reachable_step [OF r1 call_Shutdown [OF sh]] by simp
  have "live_contexts (us_world ?u2) = live_contexts empty_world \<union> set (owned ?u2)"
    using contexts_accounted [OF empty_world_ok r2] by (auto simp: config_for_def)
  then have "live_contexts (us_world ?u2) = {0}"
    by (simp add: owned_def live_contexts_def empty_world_def)
  with r2 show ?thesis by (intro exI [of _ ?u2] exI [of _ 0]) simp
qed

end
