(* ===== verification/MuEd.thy ===== *)
theory MuEd
  imports Runtime_Models
begin

text \<open>
  \<^verbatim>\<open>runtime/mued.go\<close>: the messages of the muEd interface, how they are decoded, and the translation
  between them and the requests and results of the evaluation function.
\<close>

section \<open>Messages\<close>

type_synonym MuEdSubmissionType = string

definition MuEdMath :: MuEdSubmissionType where "MuEdMath = ''MATH''"
definition MuEdText :: MuEdSubmissionType where "MuEdText = ''TEXT''"
definition MuEdCode :: MuEdSubmissionType where "MuEdCode = ''CODE''"
definition MuEdModel :: MuEdSubmissionType where "MuEdModel = ''MODEL''"
definition MuEdOther :: MuEdSubmissionType where "MuEdOther = ''OTHER''"

lemmas mued_type_defs = MuEdMath_def MuEdText_def MuEdCode_def MuEdModel_def MuEdOther_def

record MuEdSubmission =
  ms_Type :: MuEdSubmissionType
  ms_Content :: gomap

record MuEdTask =
  mt_ReferenceSolution :: "MuEdSubmission option"

record MuEdConfiguration =
  mc_Params :: gomap

record MuEdPreSubmissionFeedback =
  mp_Enabled :: bool

record MuEdEvaluateRequest =
  me_Submission :: MuEdSubmission
  me_Task :: "MuEdTask option"
  me_Configuration :: "MuEdConfiguration option"
  me_PreSubmissionFeedback :: "MuEdPreSubmissionFeedback option"

definition zero_submission :: MuEdSubmission where
  "zero_submission = \<lparr> ms_Type = [], ms_Content = None \<rparr>"

definition zero_request :: MuEdEvaluateRequest where
  "zero_request = \<lparr> me_Submission = zero_submission, me_Task = None, me_Configuration = None,
     me_PreSubmissionFeedback = None \<rparr>"

section \<open>Decoding\<close>

text \<open>
  \<open>json.Unmarshal\<close> into a variable that may hold a value already: \<open>None\<close> is a type error.  A null
  leaves a string, a boolean or a struct as it is and makes a map or a pointer nil; an object
  adds its members to a map, and to what a pointer points to.
\<close>

fun decode_string :: "json \<Rightarrow> string \<Rightarrow> string option" where
  "decode_string JNull s = Some s"
| "decode_string (JStr t) s = Some t"
| "decode_string _ s = None"

fun decode_bool :: "json \<Rightarrow> bool \<Rightarrow> bool option" where
  "decode_bool JNull b = Some b"
| "decode_bool (JBool c) b = Some c"
| "decode_bool _ b = None"

fun decode_map :: "json \<Rightarrow> gomap \<Rightarrow> gomap option" where
  "decode_map JNull m = Some None"
| "decode_map (JObj kvs) m =
     Some (Some (fold (\<lambda>(k, j). fmupd k (of_json j)) kvs (case m of None \<Rightarrow> fmempty | Some f \<Rightarrow> f)))"
| "decode_map _ m = None"

definition decode_pointer :: "(json \<Rightarrow> 'a \<Rightarrow> 'a option) \<Rightarrow> 'a \<Rightarrow> json \<Rightarrow> 'a option \<Rightarrow> 'a option option" where
  "decode_pointer dec zero j p =
     (if j = JNull then Some None else map_option Some (dec j (case p of None \<Rightarrow> zero | Some x \<Rightarrow> x)))"

text \<open>The members of an object, in order, into the fields of a struct.\<close>

fun decode_members :: "(string \<Rightarrow> json \<Rightarrow> 'a \<Rightarrow> 'a option) \<Rightarrow> (string \<times> json) list \<Rightarrow> 'a \<Rightarrow> 'a option" where
  "decode_members field [] x = Some x"
| "decode_members field ((k, j) # kvs) x =
     (case field k j x of None \<Rightarrow> None | Some y \<Rightarrow> decode_members field kvs y)"

fun decode_struct :: "(string \<Rightarrow> json \<Rightarrow> 'a \<Rightarrow> 'a option) \<Rightarrow> json \<Rightarrow> 'a \<Rightarrow> 'a option" where
  "decode_struct field JNull x = Some x"
| "decode_struct field (JObj kvs) x = decode_members field kvs x"
| "decode_struct field _ x = None"

text \<open>
  A member belongs to the field whose name its key is up to case: besides the ASCII letters the
  folding maps U+017F (bytes C5 BF) to \<open>s\<close> and U+212A (bytes E2 84 AA) to \<open>k\<close>.
\<close>

fun fold_key :: "string \<Rightarrow> string" where
  "fold_key [] = []"
| "fold_key (c # s) =
     (if c = CHR 0xE2 \<and> take 2 s = [CHR 0x84, CHR 0xAA] then CHR ''k'' # fold_key (drop 2 s)
      else if c = CHR 0xC5 \<and> take 1 s = [CHR 0xBF] then CHR ''s'' # fold_key (drop 1 s)
      else lower_byte c # fold_key s)"

definition is_field :: "string \<Rightarrow> string \<Rightarrow> bool" where
  "is_field name key \<longleftrightarrow> fold_key key = fold_key name"

definition submission_field :: "string \<Rightarrow> json \<Rightarrow> MuEdSubmission \<Rightarrow> MuEdSubmission option" where
  "submission_field k j x =
     (if is_field ''type'' k then map_option (\<lambda>t. x\<lparr> ms_Type := t \<rparr>) (decode_string j (ms_Type x))
      else if is_field ''content'' k then map_option (\<lambda>m. x\<lparr> ms_Content := m \<rparr>) (decode_map j (ms_Content x))
      else Some x)"

definition task_field :: "string \<Rightarrow> json \<Rightarrow> MuEdTask \<Rightarrow> MuEdTask option" where
  "task_field k j x =
     (if is_field ''referenceSolution'' k
      then map_option (\<lambda>p. x\<lparr> mt_ReferenceSolution := p \<rparr>)
             (decode_pointer (decode_struct submission_field) zero_submission j (mt_ReferenceSolution x))
      else Some x)"

definition configuration_field :: "string \<Rightarrow> json \<Rightarrow> MuEdConfiguration \<Rightarrow> MuEdConfiguration option" where
  "configuration_field k j x =
     (if is_field ''params'' k then map_option (\<lambda>m. x\<lparr> mc_Params := m \<rparr>) (decode_map j (mc_Params x)) else Some x)"

definition feedback_field :: "string \<Rightarrow> json \<Rightarrow> MuEdPreSubmissionFeedback \<Rightarrow> MuEdPreSubmissionFeedback option" where
  "feedback_field k j x =
     (if is_field ''enabled'' k then map_option (\<lambda>b. x\<lparr> mp_Enabled := b \<rparr>) (decode_bool j (mp_Enabled x)) else Some x)"

definition request_field :: "string \<Rightarrow> json \<Rightarrow> MuEdEvaluateRequest \<Rightarrow> MuEdEvaluateRequest option" where
  "request_field k j x =
     (if is_field ''submission'' k
      then map_option (\<lambda>s. x\<lparr> me_Submission := s \<rparr>) (decode_struct submission_field j (me_Submission x))
      else if is_field ''task'' k
      then map_option (\<lambda>p. x\<lparr> me_Task := p \<rparr>)
             (decode_pointer (decode_struct task_field) \<lparr> mt_ReferenceSolution = None \<rparr> j (me_Task x))
      else if is_field ''configuration'' k
      then map_option (\<lambda>p. x\<lparr> me_Configuration := p \<rparr>)
             (decode_pointer (decode_struct configuration_field) \<lparr> mc_Params = None \<rparr> j (me_Configuration x))
      else if is_field ''preSubmissionFeedback'' k
      then map_option (\<lambda>p. x\<lparr> me_PreSubmissionFeedback := p \<rparr>)
             (decode_pointer (decode_struct feedback_field) \<lparr> mp_Enabled = False \<rparr> j (me_PreSubmissionFeedback x))
      else Some x)"

fun decode_request :: "body \<Rightarrow> MuEdEvaluateRequest option" where
  "decode_request (Raw s e) = None"
| "decode_request (Doc j) = decode_struct request_field j zero_request"

section \<open>Building the evaluation function's requests\<close>

definition muEdContentKey :: "MuEdSubmissionType \<Rightarrow> string" where
  "muEdContentKey t =
     (if t = MuEdMath then ''expression'' else if t = MuEdText then ''text''
      else if t = MuEdCode then ''code'' else if t = MuEdModel then ''model'' else ''value'')"

definition muEdExtractContent :: "gomap \<Rightarrow> MuEdSubmissionType \<Rightarrow> go_error + gval" where
  "muEdExtractContent content t =
     (let key = muEdContentKey t
      in if mhas content key then Inr (mget content key)
         else if t \<noteq> MuEdOther \<and> mhas content ''value'' then Inr (mget content ''value'')
         else Inl (ErrorString (''could not extract content for submission type '' @ t)))"

definition muEdExtractParams :: "MuEdEvaluateRequest \<Rightarrow> gomap" where
  "muEdExtractParams req = (case me_Configuration req of
       Some c \<Rightarrow> (if mc_Params c \<noteq> None then mc_Params c else Some fmempty)
     | None \<Rightarrow> Some fmempty)"

definition MuEdBuildLegacyEvaluateRequest :: "MuEdEvaluateRequest \<Rightarrow> go_error + gomap" where
  "MuEdBuildLegacyEvaluateRequest req =
     (case muEdExtractContent (ms_Content (me_Submission req)) (ms_Type (me_Submission req)) of
        Inl err \<Rightarrow> Inl (Wrapped ''submission'' (Some err))
      | Inr response \<Rightarrow>
         (case Option.bind (me_Task req) mt_ReferenceSolution of
            None \<Rightarrow> Inl (ErrorString ''task.referenceSolution is required for evaluation'')
          | Some sol \<Rightarrow>
             (case muEdExtractContent (ms_Content sol) (ms_Type sol) of
                Inl err \<Rightarrow> Inl (Wrapped ''referenceSolution'' (Some err))
              | Inr answer \<Rightarrow>
                  Inr (mlit [(''response'', response), (''answer'', answer),
                             (''params'', GMap (muEdExtractParams req))]))))"

definition MuEdBuildLegacyPreviewRequest :: "MuEdEvaluateRequest \<Rightarrow> go_error + gomap" where
  "MuEdBuildLegacyPreviewRequest req =
     (case muEdExtractContent (ms_Content (me_Submission req)) (ms_Type (me_Submission req)) of
        Inl err \<Rightarrow> Inl (Wrapped ''submission'' (Some err))
      | Inr response \<Rightarrow>
          Inr (mlit [(''response'', response), (''params'', GMap (muEdExtractParams req))]))"

section \<open>Feedback\<close>

text \<open>\<open>feedback[key]\<close> is set where the assertion on \<open>result[name]\<close> holds.\<close>

definition transfer :: "string \<Rightarrow> 'a option \<Rightarrow> ('a \<Rightarrow> gval) \<Rightarrow> (string, gval) fmap \<Rightarrow> (string, gval) fmap" where
  "transfer key v f m = (case v of None \<Rightarrow> m | Some x \<Rightarrow> fmupd key (f x) m)"

definition string_tags :: "gval list \<Rightarrow> string list" where
  "string_tags tags = List.map_filter as_string tags"

definition evaluate_feedback :: "gomap \<Rightarrow> (string, gval) fmap" where
  "evaluate_feedback result =
     (transfer ''tags'' (as_slice (mget result ''tags'')) (GStrs \<circ> string_tags) \<circ>
      transfer ''responseSimplified'' (as_string (mget result ''response_simplified'')) GStr \<circ>
      transfer ''responseLatex'' (as_string (mget result ''response_latex'')) GStr \<circ>
      transfer ''matchedCase'' (as_float (mget result ''matched_case'')) (GInt \<circ> int_of_float) \<circ>
      transfer ''message'' (as_string (mget result ''feedback'')) GStr \<circ>
      transfer ''awardedPoints'' (as_bool (mget result ''is_correct'')) (\<lambda>b. GFloat (if b then 1 else 0)))
     (fmap_of_list [(''responseLatex'', GNil), (''responseSimplified'', GNil)])"

definition MuEdToEvaluateFeedback :: "gomap \<Rightarrow> gomap list" where
  "MuEdToEvaluateFeedback result = [Some (evaluate_feedback result)]"

definition MuEdToPreviewFeedback :: "gomap \<Rightarrow> gomap list" where
  "MuEdToPreviewFeedback result = [mlit [(''preSubmissionFeedback'', GMap result)]]"

end
