(* ===== verification/Http.thy ===== *)
theory Http
  imports MuEd Runtime_Handler
begin

text \<open>
  The HTTP layer: the request multiplexer and the path normalisation in front of it
  (\<^verbatim>\<open>internal/server\<close>, \<^verbatim>\<open>net/http\<close>), the four routes with their handlers (\<^verbatim>\<open>handler\<close>), the
  standalone server and the Lambda entry (\<^verbatim>\<open>app\<close>).
\<close>

section \<open>Requests, responses and handlers\<close>

text \<open>
  \<open>hq_Body\<close> is the outcome of reading the body.  A response body is a text, the bytes another
  component produced, or an encoded document followed by a newline.
\<close>

record http_request =
  hq_Path :: string
  hq_Method :: string
  hq_Header :: header
  hq_Body :: "go_error + body"

datatype content = Text string | Bytes body | Line json

record http_response =
  hr_Status :: nat
  hr_Header :: header
  hr_Content :: content

type_synonym 'w http_handler = "http_request \<Rightarrow> 'w \<Rightarrow> http_response go \<times> 'w"

definition http_Error :: "string \<Rightarrow> nat \<Rightarrow> http_response" where
  "http_Error msg code =
     \<lparr> hr_Status = code,
       hr_Header = Header_Set (Header_Set fmempty ''Content-Type'' ''text/plain; charset=utf-8'')
                     ''X-Content-Type-Options'' ''nosniff'',
       hr_Content = Text (msg @ [CHR 0x0A]) \<rparr>"

definition json_answer :: "json \<Rightarrow> http_response" where
  "json_answer j =
     \<lparr> hr_Status = StatusOK, hr_Header = Header_Set fmempty ''Content-Type'' ''application/json'', hr_Content = Line j \<rparr>"

text \<open>The loops that copy the headers of a response, and the response as written.\<close>

definition add_headers :: "header \<Rightarrow> header \<Rightarrow> header" where
  "add_headers from to =
     fold (\<lambda>(k, vs) acc. fold (\<lambda>v acc. Header_Add acc k v) vs acc) (sorted_members from) to"

definition write_response :: "Response \<Rightarrow> http_response" where
  "write_response response =
     \<lparr> hr_Status = res_StatusCode response, hr_Header = add_headers (res_Header response) fmempty,
       hr_Content = Bytes (res_Body response) \<rparr>"

section \<open>The legacy handler\<close>

record ('s, 'w) CommandHandler =
  ch_handler :: "('s, 'w) RuntimeHandler"
  ch_Key :: string

definition NewCommandHandler :: "('s, 'w) RuntimeHandler \<Rightarrow> string \<Rightarrow> ('s, 'w) CommandHandler" where
  "NewCommandHandler handler key = \<lparr> ch_handler = handler, ch_Key = key \<rparr>"

definition unauthorized :: "string \<Rightarrow> http_request \<Rightarrow> bool" where
  "unauthorized key r \<longleftrightarrow> key \<noteq> [] \<and> Header_Get (hq_Header r) ''api-key'' \<noteq> key"

definition CommandHandler_ServeHTTP :: "('s, 'w) CommandHandler \<Rightarrow> 'w http_handler" where
  "CommandHandler_ServeHTTP h r w =
     (if unauthorized (ch_Key h) r then (Ret (http_Error ''unauthorized'' StatusUnauthorized), w)
      else case hq_Body r of
        Inl err \<Rightarrow> (Ret (http_Error ''failed to read body'' StatusBadRequest), w)
      | Inr b \<Rightarrow>
         (case Handle (ch_handler h)
                 \<lparr> req_Path = hq_Path r, req_Method = hq_Method r, req_Body = b, req_Header = hq_Header r \<rparr> w of
            (Panic p, w1) \<Rightarrow> (Panic p, w1)
          | (Ret response, w1) \<Rightarrow> (Ret (write_response response), w1)))"

definition HealthHandler :: "'w http_handler" where
  "HealthHandler r w = (Ret (json_answer (JObj [(''status'', JStr ''ok'')])), w)"

section \<open>The muEd handler\<close>

record ('s, 'w) MuEdHandler =
  mh_handler :: "('s, 'w) RuntimeHandler"
  mh_runtime :: "'w runtime"
  mh_Key :: string

definition NewMuEdHandler :: "('s, 'w) RuntimeHandler \<Rightarrow> 'w runtime \<Rightarrow> string \<Rightarrow> ('s, 'w) MuEdHandler" where
  "NewMuEdHandler handler rt key = \<lparr> mh_handler = handler, mh_runtime = rt, mh_Key = key \<rparr>"

text \<open>\<open>None\<close> when the request may go on, else the response that was written.\<close>

definition checkAuth :: "('s, 'w) MuEdHandler \<Rightarrow> http_request \<Rightarrow> http_response option" where
  "checkAuth h r = (if unauthorized (mh_Key h) r then Some (http_Error ''unauthorized'' StatusUnauthorized) else None)"

definition is_preview :: "MuEdEvaluateRequest \<Rightarrow> bool" where
  "is_preview req = (case me_PreSubmissionFeedback req of None \<Rightarrow> False | Some p \<Rightarrow> mp_Enabled p)"

definition mued_answer :: "bool \<Rightarrow> Response \<Rightarrow> http_response" where
  "mued_answer preview resp =
     (if res_StatusCode resp \<noteq> StatusOK then write_response resp
      else case UnmarshalMap (res_Body resp) of
        Inl _ \<Rightarrow> http_Error ''failed to parse response'' StatusInternalServerError
      | Inr respBody \<Rightarrow>
         (case as_map (mget respBody ''result'') of
            None \<Rightarrow> http_Error ''invalid response from evaluation function'' StatusInternalServerError
          | Some result \<Rightarrow>
              json_answer (to_json (GArr (map GMap
                (if preview then MuEdToPreviewFeedback result else MuEdToEvaluateFeedback result))))))"

definition mued_request :: "http_request \<Rightarrow> bool \<Rightarrow> body \<Rightarrow> Request" where
  "mued_request r preview legacyBody =
     \<lparr> req_Path = hq_Path r, req_Method = ''POST'', req_Body = legacyBody,
       req_Header = Header_Set fmempty ''Command'' (if preview then CommandPreview else CommandEvaluate) \<rparr>"

definition ServeEvaluate :: "('s, 'w) MuEdHandler \<Rightarrow> 'w http_handler" where
  "ServeEvaluate h r w =
     (case checkAuth h r of Some resp \<Rightarrow> (Ret resp, w) | None \<Rightarrow>
      if hq_Method r \<noteq> ''POST'' then (Ret (http_Error ''method not allowed'' StatusMethodNotAllowed), w)
      else case hq_Body r of Inl err \<Rightarrow> (Ret (http_Error ''failed to read body'' StatusBadRequest), w) | Inr b \<Rightarrow>
     (case decode_request b of None \<Rightarrow> (Ret (http_Error ''invalid request body'' StatusBadRequest), w) | Some req \<Rightarrow>
     (let preview = is_preview req in
      case (if preview then MuEdBuildLegacyPreviewRequest req else MuEdBuildLegacyEvaluateRequest req) of
        Inl err \<Rightarrow> (Ret (http_Error (err_text err) StatusBadRequest), w)
      | Inr legacyBody \<Rightarrow>
     (case Marshal (GMap legacyBody) of
        Inl _ \<Rightarrow> (Ret (http_Error ''failed to build request'' StatusInternalServerError), w)
      | Inr legacyBodyBytes \<Rightarrow>
     (case Handle (mh_handler h) (mued_request r preview legacyBodyBytes) w of
        (Panic p, w1) \<Rightarrow> (Panic p, w1)
      | (Ret resp, w1) \<Rightarrow> (Ret (mued_answer preview resp), w1))))))"

definition ServeHealth :: "('s, 'w) MuEdHandler \<Rightarrow> 'w http_handler" where
  "ServeHealth h r w =
     (case checkAuth h r of Some resp \<Rightarrow> (Ret resp, w) | None \<Rightarrow>
      if hq_Method r \<noteq> ''GET'' then (Ret (http_Error ''method not allowed'' StatusMethodNotAllowed), w)
      else case mh_runtime h \<lparr> er_Command = CommandHealth, er_Data = Some fmempty \<rparr> w of
        (Panic p, w1) \<Rightarrow> (Panic p, w1)
      | (Ret (Inl err), w1) \<Rightarrow> (Ret (http_Error ''health check failed'' StatusInternalServerError), w1)
      | (Ret (Inr resp), w1) \<Rightarrow>
          (Ret (if mhas resp ''result'' then json_answer (to_json (mget resp ''result''))
                else http_Error ''invalid health response'' StatusInternalServerError), w1))"

section \<open>Routes\<close>

record 'w HttpHandler =
  hh_Name :: string
  hh_Handler :: "'w http_handler"

definition AsHttpHandler :: "string \<Rightarrow> 'w http_handler \<Rightarrow> 'w HttpHandler" where
  "AsHttpHandler name handler = \<lparr> hh_Name = name, hh_Handler = handler \<rparr>"

definition NewLegacyRoute :: "('s, 'w) CommandHandler \<Rightarrow> 'w HttpHandler" where
  "NewLegacyRoute handler = AsHttpHandler ''/'' (CommandHandler_ServeHTTP handler)"

definition NewHealthRoute :: "'w HttpHandler" where
  "NewHealthRoute = AsHttpHandler ''/health'' HealthHandler"

definition NewMuEdEvaluateRoute :: "('s, 'w) MuEdHandler \<Rightarrow> 'w HttpHandler" where
  "NewMuEdEvaluateRoute handler = AsHttpHandler ''/evaluate'' (ServeEvaluate handler)"

definition NewMuEdEvaluateHealthRoute :: "('s, 'w) MuEdHandler \<Rightarrow> 'w HttpHandler" where
  "NewMuEdEvaluateHealthRoute handler = AsHttpHandler ''/evaluate/health'' (ServeHealth handler)"

text \<open>\<open>handler.Module\<close>: the handlers of the group.\<close>

definition handler_Module :: "('s, 'w) RuntimeHandler \<Rightarrow> 'w runtime \<Rightarrow> string \<Rightarrow> 'w HttpHandler list" where
  "handler_Module handler rt key =
     [NewLegacyRoute (NewCommandHandler handler key), NewHealthRoute,
      NewMuEdEvaluateRoute (NewMuEdHandler handler rt key),
      NewMuEdEvaluateHealthRoute (NewMuEdHandler handler rt key)]"

section \<open>The multiplexer\<close>

text \<open>
  \<open>http.ServeMux\<close> on paths without escapes: a path is cleaned, and a request for a path that is
  not clean is redirected; a pattern that ends in a slash matches all paths below it, another
  one only itself, and the longest match wins.
\<close>

fun clean_components :: "string list \<Rightarrow> string list \<Rightarrow> string list" where
  "clean_components [] stack = rev stack"
| "clean_components (c # cs) stack =
     clean_components cs (if c = [] \<or> c = ''.'' then stack else if c = ''..'' then tl stack else c # stack)"

definition cleanPath :: "string \<Rightarrow> string" where
  "cleanPath p0 =
     (if p0 = [] then ''/''
      else let p = (if hd p0 \<noteq> CHR ''/'' then CHR ''/'' # p0 else p0);
               np = CHR ''/'' # Join (clean_components (Split p (CHR ''/'')) []) ''/''
           in if last p = CHR ''/'' \<and> np \<noteq> ''/'' then np @ ''/'' else np)"

datatype 'h mux_result = Moved string | Serve 'h | NoRoute

definition longer :: "string \<times> 'h \<Rightarrow> (string \<times> 'h) option \<Rightarrow> (string \<times> 'h) option" where
  "longer x best = (case best of None \<Rightarrow> Some x | Some y \<Rightarrow> if length (fst y) < length (fst x) then Some x else Some y)"

definition mux_match :: "(string \<times> 'h) list \<Rightarrow> string \<Rightarrow> 'h option" where
  "mux_match pats path =
     (case map_of pats path of
        Some h \<Rightarrow> Some h
      | None \<Rightarrow> map_option snd (fold longer (filter (\<lambda>(p, _). HasSuffix p ''/'' \<and> HasPrefix path p) pats) None))"

definition ServeMux :: "(string \<times> 'h) list \<Rightarrow> string \<Rightarrow> 'h mux_result" where
  "ServeMux pats path =
     (let p = cleanPath path
      in if map_of pats p = None \<and> \<not> HasSuffix p ''/'' \<and> map_of pats (p @ ''/'') \<noteq> None then Moved (p @ ''/'')
         else if p \<noteq> path then Moved p
         else case mux_match pats p of Some h \<Rightarrow> Serve h | None \<Rightarrow> NoRoute)"

text \<open>A redirect has no body here; the library writes a short page for a GET.\<close>

definition moved :: "string \<Rightarrow> http_response" where
  "moved path = \<lparr> hr_Status = 301, hr_Header = Header_Set fmempty ''Location'' path, hr_Content = Text [] \<rparr>"

definition mux_ServeHTTP :: "'w HttpHandler list \<Rightarrow> 'w http_handler" where
  "mux_ServeHTTP handlers r w =
     (case ServeMux (map (\<lambda>h. (hh_Name h, hh_Handler h)) handlers) (hq_Path r) of
        Moved p \<Rightarrow> (Ret (moved p), w)
      | Serve handler \<Rightarrow> handler r w
      | NoRoute \<Rightarrow> (Ret (http_Error ''404 page not found'' StatusNotFound), w))"

definition NormalizePath :: "'w http_handler \<Rightarrow> 'w http_handler" where
  "NormalizePath next r w =
     next (if HasSuffix (hq_Path r) ''/evaluate/health'' then r\<lparr> hq_Path := ''/evaluate/health'' \<rparr>
           else if HasSuffix (hq_Path r) ''/evaluate'' then r\<lparr> hq_Path := ''/evaluate'' \<rparr>
           else r) w"

section \<open>The standalone server and the Lambda entry\<close>

record HttpConfig =
  hc_Host :: string
  hc_Port :: int
  hc_H2c :: bool

record 'w HttpServer =
  hs_Addr :: string
  hs_Handler :: "'w http_handler"

text \<open>\<open>h2c\<close> is the handler of the third-party package around the given one.\<close>

definition NewHttpServer :: "('w http_handler \<Rightarrow> 'w http_handler) \<Rightarrow> HttpConfig \<Rightarrow> 'w HttpHandler list \<Rightarrow> 'w HttpServer" where
  "NewHttpServer h2c config handlers =
     (let mux = mux_ServeHTTP handlers
      in \<lparr> hs_Addr = hc_Host config @ '':'' @ show_int (hc_Port config),
           hs_Handler = (if hc_H2c config then h2c (NormalizePath mux) else NormalizePath mux) \<rparr>)"

text \<open>
  \<open>Serve\<close> and \<open>Shutdown\<close> on the outcomes of listening, serving and shutting down: a failure to listen
  ends the process (\<open>None\<close>), and the error of a closed server is no error.
\<close>

definition ErrServerClosed :: go_error where
  "ErrServerClosed = ErrorString ''http: Server closed''"

definition Server_Serve :: "go_error option \<Rightarrow> go_error option \<Rightarrow> go_error option option" where
  "Server_Serve listen serve =
     (if listen \<noteq> None then None
      else if serve \<noteq> None \<and> serve \<noteq> Some ErrServerClosed then Some serve else Some None)"

definition Server_Shutdown :: "go_error option \<Rightarrow> go_error option" where
  "Server_Shutdown shutdown = shutdown"

definition ProxySourceApiGatewayV1 :: string where "ProxySourceApiGatewayV1 = ''API_GW_V1''"
definition ProxySourceApiGatewayV2 :: string where "ProxySourceApiGatewayV2 = ''API_GW_V2''"
definition ProxySourceAlb :: string where "ProxySourceAlb = ''ALB''"

datatype proxy = ProxyV1 | ProxyV2 | ProxyALB

text \<open>\<open>lh_started\<close>: the proxy the event loop was started with; \<open>lh_cancelled\<close>: its context ended.\<close>

record 'w LambdaHandler =
  lh_ProxySource :: string
  lh_mux :: "'w http_handler"
  lh_started :: "(proxy \<times> 'w http_handler) option"
  lh_cancelled :: bool

definition NewLambdaHandler :: "string \<Rightarrow> 'w HttpHandler list \<Rightarrow> 'w LambdaHandler" where
  "NewLambdaHandler source handlers =
     \<lparr> lh_ProxySource = source, lh_mux = mux_ServeHTTP handlers, lh_started = None, lh_cancelled = False \<rparr>"

definition getProxyFunction :: "'w LambdaHandler \<Rightarrow> go_error + proxy \<times> 'w http_handler" where
  "getProxyFunction s =
     (if lh_ProxySource s = ProxySourceApiGatewayV1 then Inr (ProxyV1, NormalizePath (lh_mux s))
      else if lh_ProxySource s = ProxySourceApiGatewayV2 then Inr (ProxyV2, NormalizePath (lh_mux s))
      else if lh_ProxySource s = ProxySourceAlb then Inr (ProxyALB, NormalizePath (lh_mux s))
      else Inl (ErrorString (''invalid proxy source: '' @ lh_ProxySource s)))"

definition Lambda_Start :: "'w LambdaHandler \<Rightarrow> go_error option \<times> 'w LambdaHandler" where
  "Lambda_Start s = (case getProxyFunction s of
       Inl err \<Rightarrow> (Some err, s)
     | Inr p \<Rightarrow> (None, s\<lparr> lh_started := Some p \<rparr>))"

definition Lambda_Shutdown :: "'w LambdaHandler \<Rightarrow> 'w LambdaHandler" where
  "Lambda_Shutdown s = s\<lparr> lh_cancelled := True \<rparr>"

end
