(* ===== verification/Http_Contract.thy ===== *)
theory Http_Contract
  imports Http Handler_Contract
begin

text \<open>
  What the HTTP layer promises: where each request goes, that no unauthorised request reaches the
  runtime, how a muEd request is translated and answered, and that the Lambda entry serves as the
  standalone server does.
\<close>

section \<open>Routing\<close>

lemma cleanPath_rooted: "\<exists>s. cleanPath p = CHR ''/'' # s"
  by (simp add: cleanPath_def Let_def)

lemma routes_of_module:
  "map (\<lambda>h. (hh_Name h, hh_Handler h)) (handler_Module h rt key) =
     [(''/'', CommandHandler_ServeHTTP (NewCommandHandler h key)), (''/health'', HealthHandler),
      (''/evaluate'', ServeEvaluate (NewMuEdHandler h rt key)), (''/evaluate/health'', ServeHealth (NewMuEdHandler h rt key))]"
  by (simp add: handler_Module_def NewLegacyRoute_def NewHealthRoute_def NewMuEdEvaluateRoute_def
      NewMuEdEvaluateHealthRoute_def AsHttpHandler_def)

lemma mux_exact:
  "cleanPath path = path \<Longrightarrow> map_of pats path = Some h \<Longrightarrow> ServeMux pats path = Serve h"
  by (simp add: ServeMux_def mux_match_def)

lemma HasSuffix_append: "HasSuffix (s @ t) t"
  by (simp add: HasSuffix_def)

text \<open>Only the root pattern ends in a slash: no path is redirected to a path below it.\<close>

definition root_only :: "(string \<times> 'h) list \<Rightarrow> bool" where
  "root_only pats \<longleftrightarrow> (\<exists>h others. pats = (''/'', h) # others \<and> (\<forall>(p, h) \<in> set others. \<not> HasSuffix p ''/''))"

lemma root_only_subtree:
  assumes "root_only pats"
  shows "map_of pats (cleanPath path @ ''/'') = None"
proof (rule ccontr)
  assume "map_of pats (cleanPath path @ ''/'') \<noteq> None"
  then obtain h' where "(cleanPath path @ ''/'', h') \<in> set pats" by (auto dest: map_of_SomeD)
  with assms cleanPath_rooted [of path] HasSuffix_append [of "cleanPath path" "''/''"] show False
    by (auto simp: root_only_def)
qed

lemma mux_moved: "root_only pats \<Longrightarrow> cleanPath path \<noteq> path \<Longrightarrow> ServeMux pats path = Moved (cleanPath path)"
  using root_only_subtree [of pats path] by (simp add: ServeMux_def Let_def)

lemma mux_root:
  assumes "cleanPath path = path" and "map_of pats path = None" and "pats = (''/'', h) # others" and "root_only pats"
  shows "ServeMux pats path = Serve h"
proof -
  obtain s where s: "path = CHR ''/'' # s" using cleanPath_rooted [of path] assms(1) by metis
  have o: "filter (\<lambda>(p, _). HasSuffix p ''/'' \<and> HasPrefix path p) others = []"
    using assms(3,4) by (auto simp: filter_empty_conv root_only_def)
  have "mux_match pats path = Some h"
    using assms(2) o by (simp add: mux_match_def assms(3) longer_def s HasSuffix_def HasPrefix_def)
  with root_only_subtree [OF assms(4), of path] assms(1) show ?thesis by (simp add: ServeMux_def)
qed

text \<open>Where a request goes after the paths are normalised.\<close>

lemma root_only_module: "root_only (map (\<lambda>h. (hh_Name h, hh_Handler h)) (handler_Module h rt key))"
  by (simp add: routes_of_module root_only_def HasSuffix_def)

lemma clean_routes:
  "cleanPath ''/health'' = ''/health''" "cleanPath ''/evaluate'' = ''/evaluate''"
  "cleanPath ''/evaluate/health'' = ''/evaluate/health''"
  by code_simp+

lemma mux_routes:
  fixes w :: 'w and h :: "('s, 'w) RuntimeHandler"
  shows "hq_Path r = ''/health'' \<Longrightarrow> mux_ServeHTTP (handler_Module h rt key) r w = HealthHandler r w"
    and "hq_Path r = ''/evaluate'' \<Longrightarrow>
           mux_ServeHTTP (handler_Module h rt key) r w = ServeEvaluate (NewMuEdHandler h rt key) r w"
    and "hq_Path r = ''/evaluate/health'' \<Longrightarrow>
           mux_ServeHTTP (handler_Module h rt key) r w = ServeHealth (NewMuEdHandler h rt key) r w"
    and "hq_Path r \<notin> {''/health'', ''/evaluate'', ''/evaluate/health''} \<Longrightarrow> cleanPath (hq_Path r) = hq_Path r \<Longrightarrow>
           mux_ServeHTTP (handler_Module h rt key) r w = CommandHandler_ServeHTTP (NewCommandHandler h key) r w"
    and "cleanPath (hq_Path r) \<noteq> hq_Path r \<Longrightarrow>
           mux_ServeHTTP (handler_Module h rt key) r w = (Ret (moved (cleanPath (hq_Path r))), w)"
proof -
  let ?pats = "map (\<lambda>h. (hh_Name h, hh_Handler h)) (handler_Module h rt key)"
  show "mux_ServeHTTP (handler_Module h rt key) r w = HealthHandler r w" if "hq_Path r = ''/health''"
    using that by (simp add: mux_ServeHTTP_def mux_exact clean_routes routes_of_module)
  show "mux_ServeHTTP (handler_Module h rt key) r w = ServeEvaluate (NewMuEdHandler h rt key) r w"
    if "hq_Path r = ''/evaluate''"
    using that by (simp add: mux_ServeHTTP_def mux_exact clean_routes routes_of_module)
  show "mux_ServeHTTP (handler_Module h rt key) r w = ServeHealth (NewMuEdHandler h rt key) r w"
    if "hq_Path r = ''/evaluate/health''"
    using that by (simp add: mux_ServeHTTP_def mux_exact clean_routes routes_of_module)
  show "mux_ServeHTTP (handler_Module h rt key) r w = (Ret (moved (cleanPath (hq_Path r))), w)"
    if "cleanPath (hq_Path r) \<noteq> hq_Path r"
    using mux_moved [OF root_only_module [of h rt key] that] by (simp add: mux_ServeHTTP_def)
  show "mux_ServeHTTP (handler_Module h rt key) r w = CommandHandler_ServeHTTP (NewCommandHandler h key) r w"
    if "hq_Path r \<notin> {''/health'', ''/evaluate'', ''/evaluate/health''}" and c: "cleanPath (hq_Path r) = hq_Path r"
  proof (cases "hq_Path r = ''/''")
    case True
    with c show ?thesis by (simp add: mux_ServeHTTP_def mux_exact routes_of_module)
  next
    case False
    with that have "map_of ?pats (hq_Path r) = None" by (simp add: routes_of_module)
    with mux_root [OF c this routes_of_module root_only_module] show ?thesis by (simp add: mux_ServeHTTP_def)
  qed
qed


section \<open>The muEd interface\<close>

lemma mued_request_accepted:
  "req_Method (mued_request r preview b) = ''POST''"
  "getCommand (mued_request r preview b) = Some (if preview then CommandPreview else CommandEvaluate)"
  "ParseCommand CommandEvaluate = Some CommandEvaluate" "ParseCommand CommandPreview = Some CommandPreview"
proof -
  have "CanonicalHeaderKey ''Command'' = ''Command''" "CanonicalHeaderKey ''command'' = ''Command''" by code_simp+
  then have "Header_Get (Header_Set fmempty ''Command'' v) ''command'' = v" for v
    by (simp add: Header_Get_def Header_Set_def)
  then show "getCommand (mued_request r preview b) = Some (if preview then CommandPreview else CommandEvaluate)"
    by (simp add: getCommand_def mued_request_def command_defs)
qed (simp add: mued_request_def, code_simp+)

text \<open>A request that reaches the runtime.\<close>

definition mued_valid :: "('s, 'w) MuEdHandler \<Rightarrow> http_request \<Rightarrow> MuEdEvaluateRequest \<Rightarrow> gomap \<Rightarrow> bool" where
  "mued_valid h r req legacy \<longleftrightarrow>
     \<not> unauthorized (mh_Key h) r \<and> hq_Method r = ''POST'' \<and>
     (\<exists>b. hq_Body r = Inr b \<and> decode_request b = Some req) \<and>
     (if is_preview req then MuEdBuildLegacyPreviewRequest req else MuEdBuildLegacyEvaluateRequest req) = Inr legacy"

lemma ServeEvaluate_valid:
  "mued_valid h r req legacy \<Longrightarrow> ServeEvaluate h r w =
     (case Handle (mh_handler h) (mued_request r (is_preview req) (Doc (to_json (GMap legacy)))) w of
        (Panic p, w1) \<Rightarrow> (Panic p, w1)
      | (Ret resp, w1) \<Rightarrow> (Ret (mued_answer (is_preview req) resp), w1))"
  by (auto simp: ServeEvaluate_def mued_valid_def checkAuth_def Marshal_def Let_def simp del: to_json.simps
      split: if_splits prod.splits go.splits)

lemma ServeEvaluate_invalid:
  assumes "\<not> (\<exists>req legacy. mued_valid h r req legacy)"
  shows "\<exists>resp. ServeEvaluate h r w = (Ret resp, w) \<and> hr_Status resp \<in> {400, 401, 405}"
  using assms unfolding mued_valid_def ServeEvaluate_def checkAuth_def Let_def
  by (auto simp: http_Error_def http_status_defs split: sum.splits option.splits if_splits)


lemma decoded_result:
  assumes "fmlookup f ''result'' = Some (GMap (Some x))"
  shows "mued_answer preview (newResponse 200 (Doc (to_json (json_norm (GMap (Some f)))))) =
    json_answer (to_json (GArr (map GMap
      (if preview then MuEdToPreviewFeedback (Some (fmmap json_norm x)) else MuEdToEvaluateFeedback (Some (fmmap json_norm x))))))"
proof -
  have d: "UnmarshalMap (Doc (to_json (json_norm (GMap (Some f))))) = Inr (Some (fmmap json_norm (fmmap json_norm f)))"
    using UnmarshalMap_encoded [of "Some (fmmap json_norm f)"] by simp
  have "as_map (mget (Some (fmmap json_norm (fmmap json_norm f))) ''result'') = Some (Some (fmmap json_norm x))"
    using assms json_norm_idem [of "GMap (Some x)"] by (simp add: mget_Some)
  then show ?thesis
    unfolding mued_answer_def newResponse_simps d by (simp add: StatusOK_def del: to_json.simps json_norm.simps)
qed

text \<open>The members of the feedback.\<close>

lemma transfer_lookup: "fmlookup (transfer key v f m) k =
    (case v of None \<Rightarrow> fmlookup m k | Some x \<Rightarrow> if k = key then Some (f x) else fmlookup m k)"
  by (simp add: transfer_def split: option.split)

lemma evaluate_feedback_lookup:
  "fmlookup (evaluate_feedback m) ''awardedPoints'' =
     map_option (\<lambda>b. GFloat (if b then 1 else 0)) (as_bool (mget m ''is_correct''))"
  "fmlookup (evaluate_feedback m) ''message'' = map_option GStr (as_string (mget m ''feedback''))"
  "fmlookup (evaluate_feedback m) ''matchedCase'' = map_option (GInt \<circ> int_of_float) (as_float (mget m ''matched_case''))"
  "fmlookup (evaluate_feedback m) ''responseLatex'' =
     Some (case as_string (mget m ''response_latex'') of None \<Rightarrow> GNil | Some s \<Rightarrow> GStr s)"
  "fmlookup (evaluate_feedback m) ''responseSimplified'' =
     Some (case as_string (mget m ''response_simplified'') of None \<Rightarrow> GNil | Some s \<Rightarrow> GStr s)"
  "fmlookup (evaluate_feedback m) ''tags'' = map_option (GStrs \<circ> string_tags) (as_slice (mget m ''tags''))"
  by (simp_all add: evaluate_feedback_def transfer_lookup split: option.split)

lemma evaluate_feedback_dom:
  "fmdom' (evaluate_feedback m) \<subseteq> {''awardedPoints'', ''message'', ''matchedCase'', ''responseLatex'',
     ''responseSimplified'', ''tags''}"
  by (auto simp: evaluate_feedback_def transfer_def fmdom'_fmupd split: option.splits)

section \<open>Samples\<close>

definition sample_http :: "string \<Rightarrow> string \<Rightarrow> string \<Rightarrow> body \<Rightarrow> http_request" where
  "sample_http mth path key b =
     \<lparr> hq_Path = path, hq_Method = mth, hq_Header = Header_Set fmempty ''Api-Key'' key, hq_Body = Inr b \<rparr>"

definition sample_mued :: "string \<Rightarrow> body" where
  "sample_mued answer = Doc (JObj
     [(''submission'', JObj [(''type'', JStr ''MATH''), (''content'', JObj [(''expression'', JStr ''yes'')])]),
      (''task'', JObj [(''referenceSolution'', JObj [(''type'', JStr ''TEXT''), (''content'', JObj [(''value'', JStr answer)])])])])"

definition sample_module :: "nat HttpHandler list" where
  "sample_module = handler_Module sample_handler sample_runtime ''secret''"

section \<open>Properties\<close>

text \<open>
  C19: routing.  Whatever comes before it, a path that ends in \<^verbatim>\<open>/evaluate/health\<close> or \<^verbatim>\<open>/evaluate\<close>
  is served by the muEd handlers, \<^verbatim>\<open>/health\<close> by the health handler, any other clean path by the
  legacy handler, and a path that is not clean is redirected without calling a handler.
\<close>

theorem http_routes:
  fixes h :: "('s, 'w) RuntimeHandler" and w :: 'w
  shows "NormalizePath (mux_ServeHTTP (handler_Module h rt key)) r w =
    (if HasSuffix (hq_Path r) ''/evaluate/health''
     then ServeHealth (NewMuEdHandler h rt key) (r\<lparr> hq_Path := ''/evaluate/health'' \<rparr>) w
     else if HasSuffix (hq_Path r) ''/evaluate''
     then ServeEvaluate (NewMuEdHandler h rt key) (r\<lparr> hq_Path := ''/evaluate'' \<rparr>) w
     else if hq_Path r = ''/health'' then HealthHandler r w
     else if cleanPath (hq_Path r) = hq_Path r then CommandHandler_ServeHTTP (NewCommandHandler h key) r w
     else (Ret (moved (cleanPath (hq_Path r))), w))"
proof -
  have "HasSuffix ''/evaluate'' ''/evaluate''" "HasSuffix ''/evaluate/health'' ''/evaluate/health''" by code_simp+
  then show ?thesis by (auto simp: NormalizePath_def intro!: mux_routes)
qed

text \<open>
  C7: with a key configured, a request without it reaches neither the runtime nor the evaluation
  function on any path: it is answered 401, redirected, or, for \<^verbatim>\<open>/health\<close> only, answered 200.
\<close>

theorem http_unauthorized:
  fixes h :: "('s, 'w) RuntimeHandler" and w :: 'w
  assumes "key \<noteq> []" and "Header_Get (hq_Header r) ''api-key'' \<noteq> key"
  shows "\<exists>resp. NormalizePath (mux_ServeHTTP (handler_Module h rt key)) r w = (Ret resp, w) \<and>
    (hr_Status resp = 401 \<or> hr_Status resp = 301 \<and> cleanPath (hq_Path r) \<noteq> hq_Path r \<or>
     hr_Status resp = 200 \<and> hq_Path r = ''/health'')"
proof -
  have u: "unauthorized key q" if "hq_Header q = hq_Header r" for q
    using assms that by (simp add: unauthorized_def)
  have s: "hr_Status (http_Error ''unauthorized'' 401) = 401"
    by (simp add: http_Error_def)
  define q where "q = (if HasSuffix (hq_Path r) ''/evaluate/health'' then r\<lparr> hq_Path := ''/evaluate/health'' \<rparr>
           else if HasSuffix (hq_Path r) ''/evaluate'' then r\<lparr> hq_Path := ''/evaluate'' \<rparr> else r)"
  have q: "hq_Header q = hq_Header r" by (simp add: q_def)
  have path: "q = r \<or> hq_Path q = ''/evaluate'' \<or> hq_Path q = ''/evaluate/health''" by (simp add: q_def)
  have run: "NormalizePath (mux_ServeHTTP (handler_Module h rt key)) r w = mux_ServeHTTP (handler_Module h rt key) q w"
    by (simp add: NormalizePath_def q_def)
  consider "hq_Path q = ''/evaluate''" | "hq_Path q = ''/evaluate/health''" | "q = r" "hq_Path r = ''/health''"
    | "q = r" "cleanPath (hq_Path r) \<noteq> hq_Path r"
    | "q = r" "cleanPath (hq_Path r) = hq_Path r" "hq_Path q \<notin> {''/health'', ''/evaluate'', ''/evaluate/health''}"
    using path by auto
  then show ?thesis
    by cases (simp_all add: run mux_routes u q s ServeEvaluate_def ServeHealth_def checkAuth_def NewMuEdHandler_def
        NewCommandHandler_def CommandHandler_ServeHTTP_def HealthHandler_def json_answer_def moved_def http_status_defs)
qed

theorem http_unauthorized_witness:
  "\<exists>resp. NormalizePath (mux_ServeHTTP sample_module) (sample_http ''POST'' ''/fn/evaluate'' ''guess'' (sample_mued ''yes'')) 0
     = (Ret resp, 0)"
proof -
  have "''secret'' \<noteq> []"
    "Header_Get (hq_Header (sample_http ''POST'' ''/fn/evaluate'' ''guess'' (sample_mued ''yes''))) ''api-key'' \<noteq> ''secret''"
    by code_simp+
  from http_unauthorized [OF this, of sample_handler sample_runtime 0] show ?thesis unfolding sample_module_def by blast
qed





text \<open>
  the feedback of an evaluation has at most six members: points 1 or 0 by the verdict where
  there is one, the message, the number of the matched case, the tags that are strings, and
  always the two renderings of the response, null where the result has none; a preview's result
  is handed on unchanged.
\<close>

theorem mued_feedback:
  "MuEdToEvaluateFeedback m = [Some (evaluate_feedback m)] \<and>
   fmdom' (evaluate_feedback m) \<subseteq>
     {''awardedPoints'', ''message'', ''matchedCase'', ''responseLatex'', ''responseSimplified'', ''tags''} \<and>
   fmlookup (evaluate_feedback m) ''awardedPoints'' = map_option (\<lambda>b. GFloat (if b then 1 else 0)) (as_bool (mget m ''is_correct'')) \<and>
   fmlookup (evaluate_feedback m) ''message'' = map_option GStr (as_string (mget m ''feedback'')) \<and>
   fmlookup (evaluate_feedback m) ''matchedCase'' = map_option (GInt \<circ> int_of_float) (as_float (mget m ''matched_case'')) \<and>
   fmlookup (evaluate_feedback m) ''responseLatex'' =
     Some (case as_string (mget m ''response_latex'') of None \<Rightarrow> GNil | Some s \<Rightarrow> GStr s) \<and>
   fmlookup (evaluate_feedback m) ''responseSimplified'' =
     Some (case as_string (mget m ''response_simplified'') of None \<Rightarrow> GNil | Some s \<Rightarrow> GStr s) \<and>
   fmlookup (evaluate_feedback m) ''tags'' = map_option (GStrs \<circ> string_tags) (as_slice (mget m ''tags'')) \<and>
   map (\<lambda>f. mget f ''preSubmissionFeedback'') (MuEdToPreviewFeedback m) = [GMap m]"
proof (intro conjI)
  show "map (\<lambda>f. mget f ''preSubmissionFeedback'') (MuEdToPreviewFeedback m) = [GMap m]"
    by (simp add: MuEdToPreviewFeedback_def mlit_def mget_Some)
qed (rule evaluate_feedback_dom evaluate_feedback_lookup MuEdToEvaluateFeedback_def)+

text \<open>
  the Lambda entry serves every request exactly as the standalone server does, for each of the
  three proxy sources, and refuses to start for any other.
\<close>

theorem lambda_serves_same:
  "(source \<in> {''API_GW_V1'', ''API_GW_V2'', ''ALB''} \<and> \<not> hc_H2c cfg \<longrightarrow>
     (\<exists>p. Lambda_Start (NewLambdaHandler source hs) =
        (None, (NewLambdaHandler source hs)\<lparr> lh_started := Some (p, hs_Handler (NewHttpServer h2c cfg hs)) \<rparr>))) \<and>
   (source \<notin> {''API_GW_V1'', ''API_GW_V2'', ''ALB''} \<longrightarrow>
     Lambda_Start (NewLambdaHandler source hs) =
       (Some (ErrorString (''invalid proxy source: '' @ source)), NewLambdaHandler source hs))"
  by (auto simp: Lambda_Start_def getProxyFunction_def NewLambdaHandler_def NewHttpServer_def Let_def
      ProxySourceApiGatewayV1_def ProxySourceApiGatewayV2_def ProxySourceAlb_def)

theorem lambda_serves_same_witness:
  "\<exists>p. snd (Lambda_Start (NewLambdaHandler ''ALB'' sample_module)) =
     (NewLambdaHandler ''ALB'' sample_module)\<lparr> lh_started :=
        Some (p, hs_Handler (NewHttpServer id \<lparr> hc_Host = ''0.0.0.0'', hc_Port = 8080, hc_H2c = False \<rparr> sample_module)) \<rparr>"
  using lambda_serves_same [of "''ALB''" "\<lparr> hc_Host = ''0.0.0.0'', hc_Port = 8080, hc_H2c = False \<rparr>" sample_module id] by auto

end
