(* ===== verification/Wasm.thy ===== *)
theory Wasm
  imports Shimmy_Prelude Go_Strings Go_Errors "HOL-Library.Word"
begin

text \<open>
  \<^verbatim>\<open>internal/execution/wasm\<close>: one evaluation in a WebAssembly instance, the supervisor that
  restores the instance's memory after it, and the dispatcher with its pool of instances.  The
  runtime library and the guest are parameters: the exported functions and the memory accesses of
  a module, on a guest state of type \<open>'g\<close>.  A byte is a \<^typ>\<open>char\<close>.
\<close>

section \<open>The module\<close>

text \<open>
  \<open>None\<close> for a function the module does not export; a call ends with an error (the end of the
  context included) or with the results.
\<close>

record 'g wasm_module =
  wm_alloc :: "(64 word \<Rightarrow> 'g \<Rightarrow> (go_error + 64 word list) \<times> 'g) option"
  wm_evaluate :: "(64 word \<Rightarrow> 64 word \<Rightarrow> 'g \<Rightarrow> (go_error + 64 word list) \<times> 'g) option"
  wm_has_memory :: "'g \<Rightarrow> bool"
  wm_Size :: "'g \<Rightarrow> 32 word"
  wm_Read :: "32 word \<Rightarrow> 32 word \<Rightarrow> 'g \<Rightarrow> string option"
  wm_Write :: "32 word \<Rightarrow> string \<Rightarrow> 'g \<Rightarrow> 'g option"

text \<open>\<open>binary.LittleEndian.Uint32\<close>.\<close>

definition byte_word :: "char \<Rightarrow> 32 word" where
  "byte_word c = word_of_nat (of_char c)"

fun le_uint32 :: "string \<Rightarrow> 32 word" where
  "le_uint32 [a, b, c, d] =
     byte_word a + byte_word b * 2 ^ 8 + byte_word c * 2 ^ 16 + byte_word d * 2 ^ 24"
| "le_uint32 _ = 0"

definition requestEnvelope :: "string \<Rightarrow> gomap \<Rightarrow> json" where
  "requestEnvelope method params =
     JObj [(''method'', JStr method), (''params'', to_json (GMap params))]"

definition quoted :: "string \<Rightarrow> string" where
  "quoted s = CHR 0x27 # s @ [CHR 0x27]"

text \<open>
  \<open>wasmAdapter.send\<close>.  The two parameters are the encoder and the decoder of documents as bytes.
  The function indexes the first result of a call: a call without results makes it panic.
\<close>

definition wasm_send ::
  "(json \<Rightarrow> string) \<Rightarrow> (string \<Rightarrow> body) \<Rightarrow> 'g wasm_module \<Rightarrow> string \<Rightarrow> gomap \<Rightarrow> 'g
     \<Rightarrow> (go_error + gomap) go \<times> 'g" where
  "wasm_send encode parse M method data g =
     (let reqBytes = encode (requestEnvelope method data);
          reqLen = word_of_nat (length reqBytes) :: 64 word
      in case wm_alloc M of
        None \<Rightarrow> (Ret (Inl (ErrorString (''wasm: guest module does not export '' @ quoted ''alloc''))), g)
      | Some allocFn \<Rightarrow>
     (case allocFn reqLen g of
        (Inl err, g1) \<Rightarrow> (Ret (Inl (Wrapped (''wasm: alloc('' @ show_nat (unat reqLen) @ '')'') (Some err))), g1)
      | (Inr [], g1) \<Rightarrow> (Panic ''runtime error: index out of range [0] with length 0'', g1)
      | (Inr (reqPtr # _), g1) \<Rightarrow>
     (if \<not> wm_has_memory M g1 then (Ret (Inl (ErrorString ''wasm: guest module has no linear memory'')), g1)
      else case wm_Write M (ucast reqPtr) reqBytes g1 of
        None \<Rightarrow> (Ret (Inl (ErrorString (''wasm: failed to write '' @ show_nat (length reqBytes) @ '' bytes at ptr='' @
                   show_nat (unat reqPtr) @ '' (memory size='' @ show_nat (unat (wm_Size M g1)) @ '')''))), g1)
      | Some g2 \<Rightarrow>
     (case wm_evaluate M of
        None \<Rightarrow> (Ret (Inl (ErrorString (''wasm: guest module does not export '' @ quoted ''evaluate''))), g2)
      | Some evalFn \<Rightarrow>
     (case evalFn reqPtr reqLen g2 of
        (Inl err, g3) \<Rightarrow> (Ret (Inl (Wrapped ''wasm: evaluate'' (Some err))), g3)
      | (Inr [], g3) \<Rightarrow> (Panic ''runtime error: index out of range [0] with length 0'', g3)
      | (Inr (res # _), g3) \<Rightarrow>
     (let resPtr = ucast res :: 32 word in
      case wm_Read M resPtr 4 g3 of
        None \<Rightarrow> (Ret (Inl (ErrorString (''wasm: failed to read response length at ptr='' @
                   show_nat (unat resPtr)))), g3)
      | Some lenBytes \<Rightarrow>
     (let resLen = le_uint32 lenBytes in
      case wm_Read M (resPtr + 4) resLen g3 of
        None \<Rightarrow> (Ret (Inl (ErrorString (''wasm: failed to read '' @ show_nat (unat resLen) @
                   '' response bytes at ptr='' @ show_nat (unat (resPtr + 4))))), g3)
      | Some resBytes \<Rightarrow>
          (Ret (case UnmarshalMap (parse resBytes) of
                  Inl e \<Rightarrow> Inl (Wrapped ''wasm: unmarshal response'' (Some (ErrorString e)))
                | Inr m \<Rightarrow> Inr m), g3))))))))"

section \<open>The supervisor\<close>

text \<open>
  \<open>sv_mod\<close> is the guest state of the instance while there is one; the snapshot is the memory after
  the instantiation, absent where there is none.
\<close>

record 'g wasmSupervisor =
  sv_mod :: "'g option"
  sv_adapter :: bool
  sv_snapshot :: "string option"

definition newWasmSupervisor :: "'g wasmSupervisor" where
  "newWasmSupervisor = \<lparr> sv_mod = None, sv_adapter = False, sv_snapshot = None \<rparr>"

definition takeSnapshot :: "'g wasm_module \<Rightarrow> 'g \<Rightarrow> go_error + string option" where
  "takeSnapshot M g =
     (if \<not> wm_has_memory M g then Inr None
      else if wm_Size M g = 0 then Inr None
      else case wm_Read M 0 (wm_Size M g) g of
        None \<Rightarrow> Inl (ErrorString (''wasm: could not read '' @ show_nat (unat (wm_Size M g)) @
                      '' bytes of linear memory''))
      | Some buf \<Rightarrow> Inr (Some buf))"

text \<open>\<open>inst\<close> is the outcome of the instantiation by the runtime, start function included.\<close>

definition wasmSupervisor_Start ::
  "'g wasm_module \<Rightarrow> go_error + 'g \<Rightarrow> 'g wasmSupervisor \<Rightarrow> go_error option \<times> 'g wasmSupervisor" where
  "wasmSupervisor_Start M inst s =
     (if sv_mod s \<noteq> None then (None, s)
      else case inst of
        Inl err \<Rightarrow> (Some (Wrapped ''wasm: instantiate module'' (Some err)), s)
      | Inr g \<Rightarrow>
         (let s1 = s\<lparr> sv_mod := Some g, sv_adapter := True \<rparr> in
          case takeSnapshot M g of
            Inl err \<Rightarrow> (Some (Wrapped ''wasm: snapshot memory'' (Some err)), s1\<lparr> sv_mod := None \<rparr>)
          | Inr snap \<Rightarrow> (None, s1\<lparr> sv_snapshot := snap \<rparr>)))"

text \<open>The guest state after restoring, and whether the write failed (an error that is logged).\<close>

definition restoreSnapshot :: "'g wasm_module \<Rightarrow> string option \<Rightarrow> 'g \<Rightarrow> go_error option \<times> 'g" where
  "restoreSnapshot M snap g =
     (case snap of
        None \<Rightarrow> (None, g)
      | Some bytes \<Rightarrow>
         (if \<not> wm_has_memory M g then (None, g)
          else case wm_Write M 0 bytes g of
            None \<Rightarrow> (Some (ErrorString (''wasm: failed to restore '' @ show_nat (length bytes) @
                      '' snapshot bytes'')), g)
          | Some g' \<Rightarrow> (None, g')))"

text \<open>A panic of the adapter skips the restoring; the deferred unlock runs.\<close>

definition wasmSupervisor_Send ::
  "(json \<Rightarrow> string) \<Rightarrow> (string \<Rightarrow> body) \<Rightarrow> 'g wasm_module \<Rightarrow> string \<Rightarrow> gomap \<Rightarrow> 'g wasmSupervisor
     \<Rightarrow> (go_error + gomap) go \<times> 'g wasmSupervisor" where
  "wasmSupervisor_Send encode parse M method data s =
     (case sv_mod s of
        None \<Rightarrow> (Ret (Inl (ErrorString ''wasm: supervisor not started'')), s)
      | Some g \<Rightarrow>
         (if \<not> sv_adapter s then (Ret (Inl (ErrorString ''wasm: supervisor not started'')), s)
          else case wasm_send encode parse M method data g of
            (Panic p, g1) \<Rightarrow> (Panic p, s\<lparr> sv_mod := Some g1 \<rparr>)
          | (Ret r, g1) \<Rightarrow>
              (Ret r, s\<lparr> sv_mod := Some (snd (restoreSnapshot M (sv_snapshot s) g1)) \<rparr>)))"

text \<open>\<open>close\<close> is the error of closing the module.\<close>

definition wasmSupervisor_Shutdown :: "go_error option \<Rightarrow> 'g wasmSupervisor \<Rightarrow> go_error option \<times> 'g wasmSupervisor" where
  "wasmSupervisor_Shutdown close s =
     (if sv_mod s = None then (None, s)
      else case close of
        Some err \<Rightarrow> (Some (Wrapped ''wasm: close module'' (Some err)), s)
      | None \<Rightarrow> (None, s\<lparr> sv_mod := None, sv_adapter := False, sv_snapshot := None \<rparr>))"

section \<open>The dispatcher\<close>

text \<open>
  The pool is a buffered channel: a queue of supervisors, and its capacity (\<open>None\<close> before it is
  made).  The list \<open>wd_closed\<close> holds the supervisors that were shut down.
\<close>

record WasmConfig =
  wc_ModulePath :: string
  wc_MaxInstances :: int

record 'g wasm_dispatcher =
  wd_cfg :: WasmConfig
  wd_rt :: bool
  wd_pool :: "'g wasmSupervisor list option"
  wd_capacity :: nat
  wd_closed :: "'g wasmSupervisor list"

definition NewWasmDispatcher :: "WasmConfig \<Rightarrow> 'g wasm_dispatcher" where
  "NewWasmDispatcher cfg =
     \<lparr> wd_cfg = cfg, wd_rt = False, wd_pool = None, wd_capacity = 0, wd_closed = [] \<rparr>"

definition drainPool :: "'g wasm_dispatcher \<Rightarrow> 'g wasm_dispatcher" where
  "drainPool d = (case wd_pool d of
       None \<Rightarrow> d
     | Some svs \<Rightarrow> d\<lparr> wd_pool := Some [],
                       wd_closed := wd_closed d @ map (snd \<circ> wasmSupervisor_Shutdown None) svs \<rparr>)"

text \<open>
  The loop of \<open>Start\<close> over the instances still to start, from instance \<open>i\<close> on.
\<close>

fun start_instances ::
  "'g wasm_module \<Rightarrow> (nat \<Rightarrow> go_error + 'g) \<Rightarrow> nat \<Rightarrow> nat \<Rightarrow> 'g wasm_dispatcher
     \<Rightarrow> go_error option \<times> 'g wasm_dispatcher" where
  "start_instances M inst i 0 d = (None, d)"
| "start_instances M inst i (Suc n) d =
     (case wasmSupervisor_Start M (inst i) newWasmSupervisor of
        (Some err, _) \<Rightarrow> (Some (Wrapped (''wasm: start instance '' @ show_nat i) (Some err)), drainPool d)
      | (None, sv) \<Rightarrow>
          start_instances M inst (Suc i) n
            (d\<lparr> wd_pool := map_option (\<lambda>svs. svs @ [sv]) (wd_pool d) \<rparr>))"

text \<open>
  \<open>Start\<close>: the outcomes of reading the file, setting up the host functions and compiling are
  decided outside.  A closed runtime stays referenced after a failed start.
\<close>

definition Wasm_Start ::
  "'g wasm_module \<Rightarrow> int \<Rightarrow> go_error option \<Rightarrow> go_error option \<Rightarrow> go_error option \<Rightarrow> (nat \<Rightarrow> go_error + 'g)
     \<Rightarrow> 'g wasm_dispatcher \<Rightarrow> go_error option \<times> 'g wasm_dispatcher" where
  "Wasm_Start M numCPU read_err wasi_err compile_err inst d =
     (if wc_ModulePath (wd_cfg d) = []
      then (Some (ErrorString ''wasm: ModulePath must be set (FUNCTION_COMMAND)''), d)
      else let maxInstances = (if wc_MaxInstances (wd_cfg d) \<le> 0 then numCPU else wc_MaxInstances (wd_cfg d))
      in case read_err of
        Some err \<Rightarrow> (Some (Wrapped (''wasm: read module file '' @ [CHR 0x22] @ wc_ModulePath (wd_cfg d) @ [CHR 0x22]) (Some err)), d)
      | None \<Rightarrow>
         (let d1 = d\<lparr> wd_rt := True \<rparr> in
          case wasi_err of
            Some err \<Rightarrow> (Some (Wrapped ''wasm: instantiate wasi'' (Some err)), d1)
          | None \<Rightarrow>
             (case compile_err of
                Some err \<Rightarrow> (Some (Wrapped ''wasm: compile module'' (Some err)), d1)
              | None \<Rightarrow> start_instances M inst 0 (nat maxInstances)
                          (d1\<lparr> wd_pool := Some [], wd_capacity := nat maxInstances \<rparr>))))"

text \<open>
  \<open>Send\<close> when no other call is under way.  With an empty pool it blocks until the context ends
  (\<open>ctx_err\<close> is its error).
\<close>

definition Wasm_Send ::
  "(json \<Rightarrow> string) \<Rightarrow> (string \<Rightarrow> body) \<Rightarrow> 'g wasm_module \<Rightarrow> go_error \<Rightarrow> string \<Rightarrow> gomap \<Rightarrow> 'g wasm_dispatcher
     \<Rightarrow> (go_error + gomap) go \<times> 'g wasm_dispatcher" where
  "Wasm_Send encode parse M ctx_err method data d =
     (case wd_pool d of
        Some (sv # svs) \<Rightarrow>
          (case wasmSupervisor_Send encode parse M method data sv of
             (Panic p, _) \<Rightarrow> (Panic p, d\<lparr> wd_pool := Some svs \<rparr>)
           | (Ret r, sv') \<Rightarrow>
               (Ret (case r of Inl err \<Rightarrow> Inl (Wrapped ''wasm: send'' (Some err)) | Inr m \<Rightarrow> Inr m),
                d\<lparr> wd_pool := Some (svs @ [sv']) \<rparr>))
      | _ \<Rightarrow> (Ret (Inl (Wrapped ''wasm: acquire instance'' (Some ctx_err))), d))"

definition Wasm_Shutdown :: "go_error option \<Rightarrow> 'g wasm_dispatcher \<Rightarrow> go_error option \<times> 'g wasm_dispatcher" where
  "Wasm_Shutdown close d =
     (let d1 = drainPool d
      in if \<not> wd_rt d1 then (None, d1)
         else case close of
           Some err \<Rightarrow> (Some (Wrapped ''wasm: close runtime'' (Some err)), d1)
         | None \<Rightarrow> (None, d1\<lparr> wd_rt := False \<rparr>))"

section \<open>Concurrent sends\<close>

text \<open>
  The calls of \<open>Send\<close> in progress and the pool: an instance is in the channel, in use by a call,
  or lost to a call that panicked.
\<close>

record pool_state =
  ps_pool :: "nat list"
  ps_busy :: "nat list"
  ps_lost :: "nat list"

definition pool_start :: "nat \<Rightarrow> pool_state \<Rightarrow> bool" where
  "pool_start n s \<longleftrightarrow> ps_pool s = [0..<n] \<and> ps_busy s = [] \<and> ps_lost s = []"

inductive pool_step :: "nat \<Rightarrow> pool_state \<Rightarrow> pool_state \<Rightarrow> bool" for capacity :: nat where
  acquire: "ps_pool s = i # rest \<Longrightarrow> pool_step capacity s (s\<lparr> ps_pool := rest, ps_busy := i # ps_busy s \<rparr>)"
| put_back: "i \<in> set (ps_busy s) \<Longrightarrow> length (ps_pool s) < capacity \<Longrightarrow>
    pool_step capacity s (s\<lparr> ps_pool := ps_pool s @ [i], ps_busy := remove1 i (ps_busy s) \<rparr>)"
| panicked: "i \<in> set (ps_busy s) \<Longrightarrow>
    pool_step capacity s (s\<lparr> ps_busy := remove1 i (ps_busy s), ps_lost := i # ps_lost s \<rparr>)"

end
