(* ===== verification/Wasm_Contract.thy ===== *)
theory Wasm_Contract
  imports Wasm Handler_Facts "HOL-Library.Multiset"
begin

text \<open>
  What the wasm backend promises: the guest calling convention carries a request and a response,
  the memory is restored after every evaluation, and the instances of the pool are conserved.
\<close>

section \<open>What the code relies on\<close>

text \<open>
  The documented behaviour of the runtime's linear memory, for its contents as bytes and the rest
  of the guest state (globals, tables): reads and writes are bounds-checked, and a write
  changes only the bytes written.
\<close>

definition memory_conforms :: "'g wasm_module \<Rightarrow> ('g \<Rightarrow> string) \<Rightarrow> ('g \<Rightarrow> 'x) \<Rightarrow> bool" where
  "memory_conforms M contents rest \<longleftrightarrow>
     (\<forall>g. wm_has_memory M g \<and> length (contents g) < 2 ^ 32 \<and> wm_Size M g = word_of_nat (length (contents g))) \<and>
     (\<forall>g p n. wm_Read M p n g =
        (if unat p + unat n \<le> length (contents g) then Some (take (unat n) (drop (unat p) (contents g))) else None)) \<and>
     (\<forall>g p v. if unat p + length v \<le> length (contents g)
        then (\<exists>g'. wm_Write M p v g = Some g' \<and> rest g' = rest g \<and>
                contents g' = take (unat p) (contents g) @ v @ drop (unat p + length v) (contents g))
        else wm_Write M p v g = None)"

text \<open>Linear memory never shrinks, and a call has a result.\<close>

definition guest_conforms :: "'g wasm_module \<Rightarrow> ('g \<Rightarrow> string) \<Rightarrow> bool" where
  "guest_conforms M contents \<longleftrightarrow>
     (\<forall>al n g r g'. wm_alloc M = Some al \<longrightarrow> al n g = (r, g') \<longrightarrow>
        length (contents g) \<le> length (contents g') \<and> r \<noteq> Inr []) \<and>
     (\<forall>ev p n g r g'. wm_evaluate M = Some ev \<longrightarrow> ev p n g = (r, g') \<longrightarrow>
        length (contents g) \<le> length (contents g') \<and> r \<noteq> Inr [])"

lemma memory_write:
  assumes "memory_conforms M contents rest" and "wm_Write M p v g = Some g'"
  shows "unat p + length v \<le> length (contents g) \<and> rest g' = rest g \<and>
    contents g' = take (unat p) (contents g) @ v @ drop (unat p + length v) (contents g)"
proof -
  have w: "if unat p + length v \<le> length (contents g)
        then (\<exists>g'. wm_Write M p v g = Some g' \<and> rest g' = rest g \<and>
                contents g' = take (unat p) (contents g) @ v @ drop (unat p + length v) (contents g))
        else wm_Write M p v g = None"
    using assms(1) unfolding memory_conforms_def by blast
  with assms(2) show ?thesis by (auto split: if_splits)
qed

lemma memory_write_some:
  assumes "memory_conforms M contents rest" and "unat p + length v \<le> length (contents g)"
  shows "\<exists>g'. wm_Write M p v g = Some g' \<and> rest g' = rest g \<and>
    contents g' = take (unat p) (contents g) @ v @ drop (unat p + length v) (contents g)"
proof -
  have w: "if unat p + length v \<le> length (contents g)
        then (\<exists>g'. wm_Write M p v g = Some g' \<and> rest g' = rest g \<and>
                contents g' = take (unat p) (contents g) @ v @ drop (unat p + length v) (contents g))
        else wm_Write M p v g = None"
    using assms(1) unfolding memory_conforms_def by blast
  with assms(2) show ?thesis by simp
qed

lemma memory_read:
  "memory_conforms M contents rest \<Longrightarrow> wm_Read M p n g =
     (if unat p + unat n \<le> length (contents g) then Some (take (unat n) (drop (unat p) (contents g))) else None)"
  unfolding memory_conforms_def by blast

lemma memory_size:
  "memory_conforms M contents rest \<Longrightarrow>
     wm_has_memory M g \<and> length (contents g) < 2 ^ 32 \<and> wm_Size M g = word_of_nat (length (contents g))"
  unfolding memory_conforms_def by blast

section \<open>The calling convention\<close>

definition le_bytes :: "nat \<Rightarrow> string" where
  "le_bytes n = map (\<lambda>k. char_of (n div 256 ^ k mod 256)) [0..<4]"

lemma le_bytes_length [simp]: "length (le_bytes n) = 4"
  by (simp add: le_bytes_def)

lemma nat_digit: "n = n mod 256 + n div 256 * 256" for n :: nat
  by simp

lemma nat_base256:
  fixes n :: nat
  assumes "n < 4294967296"
  shows "n mod 256 + n div 256 mod 256 * 256 + n div 65536 mod 256 * 65536 + n div 16777216 mod 256 * 16777216 = n"
proof -
  have "n div 16777216 mod 256 = n div 16777216" using assms by (simp add: less_mult_imp_div_less)
  moreover have "n div 16777216 = n div 65536 div 256" and "n div 65536 = n div 256 div 256"
    by (simp_all add: div_mult2_eq [symmetric])
  ultimately show ?thesis
    using nat_digit [of n] nat_digit [of "n div 256"] nat_digit [of "n div 65536"] by linarith
qed

lemma le_uint32_bytes:
  assumes "n < 2 ^ 32"
  shows "le_uint32 (le_bytes n) = word_of_nat n"
proof -
  have "le_bytes n = [char_of (n mod 256), char_of (n div 256 mod 256), char_of (n div 65536 mod 256), char_of (n div 16777216 mod 256)]"
    by (simp add: le_bytes_def upt_rec)
  then have "le_uint32 (le_bytes n) =
      word_of_nat (n mod 256 + n div 256 mod 256 * 256 + n div 65536 mod 256 * 65536 + n div 16777216 mod 256 * 16777216)"
    by (simp add: byte_word_def of_char_of)
  with nat_base256 [of n] assms show ?thesis by simp
qed

lemma wasm_send_growth:
  assumes "memory_conforms M contents rest" and "guest_conforms M contents"
    and "wasm_send encode parse M method data g = (r, g')"
  shows "length (contents g) \<le> length (contents g') \<and> returns r"
proof -
  have w: "length (contents g2) = length (contents g1)" if "wm_Write M p v g1 = Some g2" for p v g1 g2
    using memory_write [OF assms(1) that] by auto
  have al: "length (contents g1) \<le> length (contents g2) \<and> r \<noteq> Inr []"
    if "wm_alloc M = Some al" "al n g1 = (r, g2)" for al n g1 r g2
    using assms(2) that unfolding guest_conforms_def by blast
  have ev: "length (contents g1) \<le> length (contents g2) \<and> r \<noteq> Inr []"
    if "wm_evaluate M = Some ev" "ev p n g1 = (r, g2)" for ev p n g1 r g2
    using assms(2) that unfolding guest_conforms_def by blast
  show ?thesis
    using assms(3) unfolding wasm_send_def Let_def
    by (auto split: option.splits prod.splits sum.splits list.splits if_splits
        dest!: w al ev)
qed


text \<open>What the adapter makes of the response bytes.\<close>

definition decode_response :: "(string \<Rightarrow> body) \<Rightarrow> string \<Rightarrow> go_error + gomap" where
  "decode_response parse bytes =
     (case UnmarshalMap (parse bytes) of
        Inl e \<Rightarrow> Inl (Wrapped ''wasm: unmarshal response'' (Some (ErrorString e)))
      | Inr m \<Rightarrow> Inr m)"

text \<open>The bytes of a part of the memory.\<close>

definition region :: "nat \<Rightarrow> nat \<Rightarrow> string \<Rightarrow> string" where
  "region p n mem = take n (drop p mem)"

lemma region_write: "p + length v \<le> length mem \<Longrightarrow> region p (length v) (take p mem @ v @ drop (p + length v) mem) = v"
  by (simp add: region_def)

lemma region_within:
  assumes "length v = n" and "v \<noteq> []" and "region p n mem = v"
  shows "p + n \<le> length mem"
proof -
  have "length v = min (length mem - p) n" using assms(3) by (auto simp: region_def)
  with assms(1,2) show ?thesis by (cases v) (auto simp: min_def split: if_splits)
qed

lemma unat_plus_4:
  fixes p :: "32 word"
  assumes "unat p + 4 < 2 ^ 32"
  shows "unat (p + 4) = unat p + 4"
proof -
  have "unat p + unat (4 :: 32 word) < 2 ^ LENGTH(32)" using assms by simp
  from unat_add_lem [THEN iffD1, OF this] show ?thesis by simp
qed

lemma read_response:
  assumes conf: "memory_conforms M contents rest"
    and resp: "region (unat p) (4 + length resp) (contents g) = le_bytes (length resp) @ resp"
  shows "wm_Read M p 4 g = Some (le_bytes (length resp)) \<and> le_uint32 (le_bytes (length resp)) = word_of_nat (length resp) \<and>
    wm_Read M (p + 4) (word_of_nat (length resp)) g = Some resp"
proof -
  have mem: "unat p + (4 + length resp) \<le> length (contents g)"
    by (rule region_within [OF _ _ resp]) (simp_all add: le_bytes_def)
  moreover have "length (contents g) < 2 ^ 32" using memory_size [OF conf] by blast
  ultimately have small: "length resp < 2 ^ 32" "unat p + 4 < 2 ^ 32" by simp_all
  have lenw: "unat (word_of_nat (length resp) :: 32 word) = length resp"
    using small(1) by (simp add: unat_of_nat take_bit_nat_eq_self)
  have parts: "take 4 (drop (unat p) (contents g)) = le_bytes (length resp)"
    "take (length resp) (drop (4 + unat p) (contents g)) = resp"
    using arg_cong [OF resp, of "take 4"] arg_cong [OF resp, of "drop 4"]
    by (simp_all add: region_def drop_take add.commute)
  have "4 + unat p = unat p + 4" by simp
  with parts mem small show ?thesis
    by (simp add: memory_read [OF conf] le_uint32_bytes unat_plus_4 lenw)
qed


text \<open>The response of a guest that follows the convention is the value of the call.\<close>

lemma wasm_send_run:
  assumes conf: "memory_conforms M contents rest"
    and al: "wm_alloc M = Some al" and ev: "wm_evaluate M = Some ev"
    and req: "req = encode (requestEnvelope mth params)"
    and alloc: "al (word_of_nat (length req)) g = (Inr [ptr], g1)"
    and wr: "wm_Write M (ucast ptr) req g1 = Some g2"
    and eval: "ev ptr (word_of_nat (length req)) g2 = (Inr [res], g3)"
    and resp: "region (unat (ucast res :: 32 word)) (4 + length resp) (contents g3) = le_bytes (length resp) @ resp"
  shows "wasm_send encode parse M mth params g = (Ret (decode_response parse resp), g3)"
  using memory_size [OF conf, of g1] read_response [OF conf resp]
  by (simp add: wasm_send_def Let_def al ev req [symmetric] alloc wr eval decode_response_def)

text \<open>A call that gives a value read it from inside the memory.\<close>

lemma wasm_send_reads:
  assumes conf: "memory_conforms M contents rest"
    and send: "wasm_send encode parse M mth params g = (Ret (Inr m), g3)"
  shows "\<exists>p :: 32 word. unat p + 4 + unat (le_uint32 (region (unat p) 4 (contents g3))) \<le> length (contents g3) \<and>
    UnmarshalMap (parse (region (unat p + 4) (unat (le_uint32 (region (unat p) 4 (contents g3)))) (contents g3))) = Inr m"
proof -
  from send obtain p lenBytes resBytes where
    r1: "wm_Read M p 4 g3 = Some lenBytes" and
    r2: "wm_Read M (p + 4) (le_uint32 lenBytes) g3 = Some resBytes" and
    dec: "UnmarshalMap (parse resBytes) = Inr m"
    unfolding wasm_send_def Let_def
    by (auto split: option.splits prod.splits sum.splits list.splits if_splits)
  have b1: "unat p + 4 \<le> length (contents g3)" "lenBytes = region (unat p) 4 (contents g3)"
    using r1 by (auto simp: memory_read [OF conf] region_def split: if_splits)
  have p4: "unat (p + 4) = unat p + 4"
    by (rule unat_plus_4) (use b1(1) memory_size [OF conf, of g3] in linarith)
  show ?thesis
    by (rule exI [of _ p]) (use r2 dec in \<open>auto simp: memory_read [OF conf] region_def b1(2) p4 split: if_splits\<close>)
qed

section \<open>The memory between requests\<close>

text \<open>A supervisor that runs the instance \<open>g\<close> whose memory was snapshot when it was \<open>g0\<close>.\<close>

definition clean :: "('g \<Rightarrow> string) \<Rightarrow> 'g \<Rightarrow> 'g wasmSupervisor \<Rightarrow> bool" where
  "clean contents g0 s \<longleftrightarrow> (\<exists>g. sv_mod s = Some g \<and> sv_adapter s \<and>
     sv_snapshot s = (if contents g0 = [] then None else Some (contents g0)) \<and>
     length (contents g0) \<le> length (contents g) \<and>
     take (length (contents g0)) (contents g) = contents g0)"

lemma snapshot_of_memory:
  assumes conf: "memory_conforms M contents rest"
  shows "takeSnapshot M g = Inr (if contents g = [] then None else Some (contents g))"
proof -
  have len: "length (contents g) < 2 ^ 32" and "wm_has_memory M g" and sz: "wm_Size M g = word_of_nat (length (contents g))"
    using memory_size [OF conf] by blast+
  then have u: "unat (wm_Size M g) = length (contents g)" by (simp add: unat_of_nat take_bit_nat_eq_self)
  then have "wm_Size M g = 0 \<longleftrightarrow> contents g = []" by (metis length_0_conv unat_0 unat_eq_zero)
  with u show ?thesis
    using \<open>wm_has_memory M g\<close> by (simp add: takeSnapshot_def memory_read [OF conf])
qed

lemma start_clean:
  assumes "memory_conforms M contents rest"
    and "wasmSupervisor_Start M inst newWasmSupervisor = (None, s)"
  shows "\<exists>g0. inst = Inr g0 \<and> sv_mod s = Some g0 \<and> clean contents g0 s"
  using assms(2)
  by (auto simp: wasmSupervisor_Start_def newWasmSupervisor_def snapshot_of_memory [OF assms(1)] clean_def Let_def
      split: sum.splits)

lemma restore_memory:
  assumes conf: "memory_conforms M contents rest"
    and snap: "snap = (if contents g0 = [] then None else Some (contents g0))"
    and len: "length (contents g0) \<le> length (contents g)"
  shows "\<exists>g'. restoreSnapshot M snap g = (None, g') \<and> rest g' = rest g \<and>
    contents g' = contents g0 @ drop (length (contents g0)) (contents g)"
proof (cases "contents g0 = []")
  case True
  with snap show ?thesis by (simp add: restoreSnapshot_def)
next
  case False
  obtain g' where "wm_Write M 0 (contents g0) g = Some g'" "rest g' = rest g"
    "contents g' = contents g0 @ drop (length (contents g0)) (contents g)"
    using memory_write_some [OF conf, of 0 "contents g0" g] len by auto
  with False snap memory_size [OF conf, of g] show ?thesis by (simp add: restoreSnapshot_def)
qed

lemma send_clean:
  assumes conf: "memory_conforms M contents rest" and guest: "guest_conforms M contents"
    and cl: "clean contents g0 s" and run: "wasm_send encode parse M mth params (the (sv_mod s)) = (r, g1)"
  shows "\<exists>g'. wasmSupervisor_Send encode parse M mth params s = (r, s\<lparr> sv_mod := Some g' \<rparr>) \<and> returns r \<and>
    clean contents g0 (s\<lparr> sv_mod := Some g' \<rparr>) \<and> rest g' = rest g1 \<and>
    contents g' = contents g0 @ drop (length (contents g0)) (contents g1)"
proof -
  from cl obtain g where g: "sv_mod s = Some g" "sv_adapter s"
    and snap: "sv_snapshot s = (if contents g0 = [] then None else Some (contents g0))"
    and len: "length (contents g0) \<le> length (contents g)"
    unfolding clean_def by blast
  have grow: "length (contents g) \<le> length (contents g1)" "returns r"
    using wasm_send_growth [OF conf guest] run g(1) by auto
  obtain g' where g': "restoreSnapshot M (sv_snapshot s) g1 = (None, g')" "rest g' = rest g1"
    "contents g' = contents g0 @ drop (length (contents g0)) (contents g1)"
    using restore_memory [OF conf snap] len grow(1) by (meson order_trans)
  from grow(2) obtain x where x: "r = Ret x" by (auto simp: returns_iff)
  have "wasmSupervisor_Send encode parse M mth params s = (r, s\<lparr> sv_mod := Some g' \<rparr>)"
    using g run g'(1) by (simp add: wasmSupervisor_Send_def x)
  moreover have "clean contents g0 (s\<lparr> sv_mod := Some g' \<rparr>)"
    using g snap g'(3) by (simp add: clean_def)
  ultimately show ?thesis using g' grow(2) by blast
qed

text \<open>The answers to a sequence of requests, one after the other.\<close>

fun wasm_serve ::
  "(json \<Rightarrow> string) \<Rightarrow> (string \<Rightarrow> body) \<Rightarrow> 'g wasm_module \<Rightarrow> (string \<times> gomap) list \<Rightarrow> 'g wasmSupervisor
     \<Rightarrow> (go_error + gomap) go list \<times> 'g wasmSupervisor" where
  "wasm_serve encode parse M [] s = ([], s)"
| "wasm_serve encode parse M ((mth, params) # reqs) s =
     (let (r, s1) = wasmSupervisor_Send encode parse M mth params s;
          (rs, s2) = wasm_serve encode parse M reqs s1
      in (r # rs, s2))"

lemma serve_clean:
  assumes "memory_conforms M contents rest" and "guest_conforms M contents"
    and "clean contents g0 s" and "wasm_serve encode parse M reqs s = (rs, s')"
  shows "clean contents g0 s' \<and> length rs = length reqs \<and> (\<forall>r\<in>set rs. returns r)"
  using assms(3,4)
proof (induction reqs arbitrary: s rs)
  case (Cons q reqs)
  obtain mth params where q: "q = (mth, params)" by (cases q)
  obtain r g1 where run: "wasm_send encode parse M mth params (the (sv_mod s)) = (r, g1)" by fastforce
  obtain g' where send: "wasmSupervisor_Send encode parse M mth params s = (r, s\<lparr> sv_mod := Some g' \<rparr>)"
    and ret: "returns r" and cl: "clean contents g0 (s\<lparr> sv_mod := Some g' \<rparr>)"
    using send_clean [OF assms(1,2) Cons.prems(1) run] by blast
  obtain rs' s2 where "wasm_serve encode parse M reqs (s\<lparr> sv_mod := Some g' \<rparr>) = (rs', s2)" by fastforce
  with Cons.IH [OF cl] Cons.prems(2) send ret q show ?case by auto
qed simp

text \<open>
  A guest keeps nothing but its linear memory, at the size it started with: its state is given by
  its memory and what else it has, and neither the size nor the rest changes in a call.
\<close>

definition memory_only :: "'g wasm_module \<Rightarrow> ('g \<Rightarrow> string) \<Rightarrow> ('g \<Rightarrow> 'x) \<Rightarrow> bool" where
  "memory_only M contents rest \<longleftrightarrow>
     (\<forall>g h. contents g = contents h \<longrightarrow> rest g = rest h \<longrightarrow> g = h) \<and>
     (\<forall>al n g r g'. wm_alloc M = Some al \<longrightarrow> al n g = (r, g') \<longrightarrow>
        length (contents g') = length (contents g) \<and> rest g' = rest g) \<and>
     (\<forall>ev p n g r g'. wm_evaluate M = Some ev \<longrightarrow> ev p n g = (r, g') \<longrightarrow>
        length (contents g') = length (contents g) \<and> rest g' = rest g)"

lemma memory_only_send:
  assumes conf: "memory_conforms M contents rest" and mem: "memory_only M contents rest"
    and send: "wasm_send encode parse M mth params g = (r, g')"
  shows "length (contents g') = length (contents g) \<and> rest g' = rest g"
proof -
  have w: "length (contents g2) = length (contents g1) \<and> rest g2 = rest g1" if "wm_Write M p v g1 = Some g2" for p v g1 g2
    using memory_write [OF conf that] by auto
  have al: "length (contents g2) = length (contents g1) \<and> rest g2 = rest g1"
    if "wm_alloc M = Some al" "al n g1 = (r, g2)" for al n g1 r g2
    using mem that unfolding memory_only_def by blast
  have ev: "length (contents g2) = length (contents g1) \<and> rest g2 = rest g1"
    if "wm_evaluate M = Some ev" "ev p n g1 = (r, g2)" for ev p n g1 r g2
    using mem that unfolding memory_only_def by blast
  show ?thesis
    using send unfolding wasm_send_def Let_def
    by (auto split: option.splits prod.splits sum.splits list.splits if_splits dest!: w al ev)
qed

lemma memory_only_serve:
  assumes conf: "memory_conforms M contents rest" and guest: "guest_conforms M contents"
    and mem: "memory_only M contents rest"
    and cl: "clean contents g0 s" and mod: "sv_mod s = Some g0"
  shows "wasm_serve encode parse M reqs s =
    (map (\<lambda>(mth, params). fst (wasm_send encode parse M mth params g0)) reqs, s)"
proof (induction reqs)
  case (Cons q reqs)
  obtain mth params where q: "q = (mth, params)" by (cases q)
  obtain r g1 where run: "wasm_send encode parse M mth params g0 = (r, g1)" by fastforce
  obtain g' where g': "wasmSupervisor_Send encode parse M mth params s = (r, s\<lparr> sv_mod := Some g' \<rparr>)"
    "rest g' = rest g1" "contents g' = contents g0 @ drop (length (contents g0)) (contents g1)"
    using send_clean [OF conf guest cl, of encode parse mth params r g1] run mod by auto
  have "contents g' = contents g0" and "rest g' = rest g0"
    using g'(2,3) memory_only_send [OF conf mem run] by simp_all
  then have "g' = g0" using mem unfolding memory_only_def by blast
  with g'(1) mod have "wasmSupervisor_Send encode parse M mth params s = (r, s)" by simp
  with Cons.IH run show ?case by (simp add: q)
qed simp

section \<open>The pool\<close>

text \<open>Every instance is in the channel, in use or lost, and only once.\<close>

definition pool_inv :: "nat \<Rightarrow> pool_state \<Rightarrow> bool" where
  "pool_inv n s \<longleftrightarrow> mset (ps_pool s) + mset (ps_busy s) + mset (ps_lost s) = mset [0..<n]"

lemma pool_step_total:
  "pool_step n s t \<Longrightarrow>
     mset (ps_pool t) + mset (ps_busy t) + mset (ps_lost t) = mset (ps_pool s) + mset (ps_busy s) + mset (ps_lost s)"
  by (cases rule: pool_step.cases) (auto simp: multiset_eq_iff)

interpretation pool: invariant_system "pool_start n" "pool_step n" "pool_inv n" for n
proof unfold_locales
  show "pool_inv n s" if "pool_start n s" for s
    using that by (simp add: pool_start_def pool_inv_def)
  show "pool_inv n t" if "pool_inv n s" "pool_step n s t" for s t
    using that by (simp only: pool_inv_def pool_step_total)
qed

lemma pool_inv_total: "pool_inv n s \<Longrightarrow> length (ps_pool s) + length (ps_busy s) + length (ps_lost s) = n"
  unfolding pool_inv_def by (drule arg_cong [of _ _ size]) simp

lemma pool_distinct: "pool_inv n s \<Longrightarrow> distinct (ps_pool s @ ps_busy s @ ps_lost s)"
  unfolding pool_inv_def mset_append [symmetric] append_assoc by (drule mset_eq_imp_distinct_iff) simp

inductive_simps pool_step_simps: "pool_step n s t"

lemma pool_lost_grows: "(pool_step n)\<^sup>*\<^sup>* s t \<Longrightarrow> set (ps_lost s) \<subseteq> set (ps_lost t)"
  by (induction rule: rtranclp_induct) (auto simp: pool_step_simps)

section \<open>Starting\<close>

lemma start_instances_ok:
  assumes "start_instances M inst i n d = (None, d')" and "wd_pool d = Some svs"
  shows "\<exists>new. wd_pool d' = Some (svs @ new) \<and> length new = n \<and> wd_closed d' = wd_closed d \<and>
    (\<forall>k < n. wasmSupervisor_Start M (inst (i + k)) newWasmSupervisor = (None, new ! k))"
  using assms
proof (induction n arbitrary: i d svs)
  case (Suc n)
  obtain sv where sv: "wasmSupervisor_Start M (inst i) newWasmSupervisor = (None, sv)"
    and rec: "start_instances M inst (Suc i) n (d\<lparr> wd_pool := Some (svs @ [sv]) \<rparr>) = (None, d')"
    using Suc.prems by (auto split: prod.splits option.splits)
  obtain new where new: "wd_pool d' = Some ((svs @ [sv]) @ new)" "length new = n" "wd_closed d' = wd_closed d"
    "\<forall>k < n. wasmSupervisor_Start M (inst (Suc i + k)) newWasmSupervisor = (None, new ! k)"
    using Suc.IH [OF rec] by auto
  have "\<forall>k < Suc n. wasmSupervisor_Start M (inst (i + k)) newWasmSupervisor = (None, (sv # new) ! k)"
    using new(4) sv by (auto simp: less_Suc_eq_0_disj)
  with new(1-3) show ?case by (intro exI [of _ "sv # new"]) simp
qed simp

lemma start_instances_failed:
  assumes "start_instances M inst i n d = (Some err, d')" and "wd_pool d = Some svs"
  shows "\<exists>new k. k < n \<and> length new = k \<and>
    (\<forall>j < k. wasmSupervisor_Start M (inst (i + j)) newWasmSupervisor = (None, new ! j)) \<and>
    fst (wasmSupervisor_Start M (inst (i + k)) newWasmSupervisor) \<noteq> None \<and>
    wd_pool d' = Some [] \<and>
    wd_closed d' = wd_closed d @ map (snd \<circ> wasmSupervisor_Shutdown None) (svs @ new)"
  using assms
proof (induction n arbitrary: i d svs)
  case (Suc n)
  obtain e sv where sv: "wasmSupervisor_Start M (inst i) newWasmSupervisor = (e, sv)" by fastforce
  show ?case
  proof (cases e)
    case (Some a)
    with Suc.prems sv show ?thesis
      by (intro exI [of _ "[]"] exI [of _ 0]) (auto simp: drainPool_def)
  next
    case None
    then have rec: "start_instances M inst (Suc i) n (d\<lparr> wd_pool := Some (svs @ [sv]) \<rparr>) = (Some err, d')"
      using Suc.prems sv by simp
    obtain new k where new: "k < n" "length new = k"
      "\<forall>j < k. wasmSupervisor_Start M (inst (Suc i + j)) newWasmSupervisor = (None, new ! j)"
      "fst (wasmSupervisor_Start M (inst (Suc i + k)) newWasmSupervisor) \<noteq> None"
      "wd_pool d' = Some []"
      "wd_closed d' = wd_closed d @ map (snd \<circ> wasmSupervisor_Shutdown None) ((svs @ [sv]) @ new)"
      using Suc.IH [OF rec] by auto
    have "\<forall>j < Suc k. wasmSupervisor_Start M (inst (i + j)) newWasmSupervisor = (None, (sv # new) ! j)"
      using new(3) sv None by (auto simp: less_Suc_eq_0_disj)
    with new show ?thesis by (intro exI [of _ "sv # new"] exI [of _ "Suc k"]) simp
  qed
qed simp

section \<open>A guest\<close>

text \<open>
  A guest with 64 bytes of memory and one global: requests are put at 0, the response at 32.  With
  \<open>counting\<close> it counts its evaluations in the global and answers by the count.
\<close>

type_synonym small_guest = "(6 word \<Rightarrow> char) \<times> nat"

definition guest_bytes :: "small_guest \<Rightarrow> string" where
  "guest_bytes g = map (\<lambda>n. fst g (word_of_nat n)) [0..<64]"

definition guest_of :: "string \<Rightarrow> 6 word \<Rightarrow> char" where
  "guest_of bytes = (\<lambda>i. bytes ! unat i)"

definition guest_answer :: "bool \<Rightarrow> nat \<Rightarrow> string" where
  "guest_answer counting k = (if counting \<and> 0 < k then ''again'' else ''first'')"

definition small_module :: "bool \<Rightarrow> small_guest wasm_module" where
  "small_module counting = \<lparr>
     wm_alloc = Some (\<lambda>n g. (Inr [0], g)),
     wm_evaluate = Some (\<lambda>p n g.
       (Inr [32], (guest_of (take 32 (guest_bytes g) @ le_bytes 5 @ guest_answer counting (snd g) @ drop 41 (guest_bytes g)),
                   if counting then Suc (snd g) else snd g))),
     wm_has_memory = (\<lambda>g. True),
     wm_Size = (\<lambda>g. 64),
     wm_Read = (\<lambda>p n g. if unat p + unat n \<le> 64 then Some (take (unat n) (drop (unat p) (guest_bytes g))) else None),
     wm_Write = (\<lambda>p v g. if unat p + length v \<le> 64
        then Some (guest_of (take (unat p) (guest_bytes g) @ v @ drop (unat p + length v) (guest_bytes g)), snd g)
        else None) \<rparr>"

lemma guest_bytes_length [simp]: "length (guest_bytes g) = 64"
  by (simp add: guest_bytes_def)

lemma guest_bytes_of:
  assumes "length bytes = 64"
  shows "guest_bytes (guest_of bytes, k) = bytes"
proof (rule nth_equalityI)
  fix i
  assume "i < length (guest_bytes (guest_of bytes, k))"
  then have "i < 64" by simp
  then have "unat (word_of_nat i :: 6 word) = i" by (simp add: unat_of_nat take_bit_nat_eq_self)
  with \<open>i < 64\<close> show "guest_bytes (guest_of bytes, k) ! i = bytes ! i"
    by (simp add: guest_bytes_def guest_of_def)
qed (simp add: assms)

lemma guest_bytes_inj:
  assumes "guest_bytes g = guest_bytes h" and "snd g = snd h"
  shows "g = h"
proof -
  have "fst g i = fst h i" for i
  proof -
    have "unat i < 2 ^ LENGTH(6)" by (rule unsigned_less)
    then have u: "unat i < 64" by simp
    have at: "guest_bytes x ! unat i = fst x i" for x using u by (simp add: guest_bytes_def)
    show ?thesis using arg_cong [OF assms(1), of "\<lambda>b. b ! unat i"] by (simp only: at)
  qed
  with assms(2) show ?thesis by (simp add: prod_eq_iff fun_eq_iff)
qed

lemma guest_answer_length [simp]: "length (guest_answer counting k) = 5"
  by (simp add: guest_answer_def)

lemma small_memory: "memory_conforms (small_module counting) guest_bytes snd"
  by (simp add: memory_conforms_def small_module_def guest_bytes_of)

lemma small_conforms: "guest_conforms (small_module counting) guest_bytes"
  by (auto simp: guest_conforms_def small_module_def)

lemma small_memory_only: "memory_only (small_module False) guest_bytes snd"
  using guest_bytes_inj by (auto simp: memory_only_def small_module_def)

definition small_start :: small_guest where
  "small_start = (\<lambda>i. CHR ''-'', 0)"

text \<open>An encoder and a decoder of documents.\<close>

definition small_encode :: "json \<Rightarrow> string" where
  "small_encode j = (case j of JObj kvs \<Rightarrow> concat (map fst kvs) | _ \<Rightarrow> ''null'')"

definition small_parse :: "string \<Rightarrow> body" where
  "small_parse s = Doc (JObj [(''result'', JStr s)])"

definition small_supervisor :: "bool \<Rightarrow> small_guest wasmSupervisor" where
  "small_supervisor counting = snd (wasmSupervisor_Start (small_module counting) (Inr small_start) newWasmSupervisor)"

lemma small_supervisor_start:
  "wasmSupervisor_Start (small_module counting) (Inr small_start) newWasmSupervisor = (None, small_supervisor counting)"
  by (simp add: small_supervisor_def wasmSupervisor_Start_def newWasmSupervisor_def snapshot_of_memory [OF small_memory] Let_def)

definition small_request :: string where
  "small_request = ''methodparams''"

lemma small_request_length [simp]: "length small_request = 12"
  by (simp add: small_request_def)

lemma small_request_encoded: "small_encode (requestEnvelope ''eval'' params) = small_request"
  by (simp add: small_encode_def requestEnvelope_def small_request_def)

text \<open>The guest after an evaluation.\<close>

definition small_after :: "bool \<Rightarrow> small_guest \<Rightarrow> small_guest" where
  "small_after counting g =
     (guest_of (small_request @ take 20 (drop 12 (guest_bytes g)) @ le_bytes 5 @ guest_answer counting (snd g) @ drop 41 (guest_bytes g)),
      if counting then Suc (snd g) else snd g)"

lemma small_send:
  "wasm_send small_encode small_parse (small_module counting) ''eval'' params g =
     (Ret (Inr (Some (fmap_of_list [(''result'', GStr (guest_answer counting (snd g)))]))), small_after counting g)"
proof -
  have "le_uint32 (le_bytes 5) = 5" using le_uint32_bytes [of 5] by simp
  then show ?thesis
    by (simp add: wasm_send_def small_request_encoded small_parse_def Let_def small_module_def guest_bytes_of small_after_def)
qed

lemma small_supervisor_fields:
  "sv_mod (small_supervisor counting) = Some small_start" "sv_adapter (small_supervisor counting)"
  "sv_snapshot (small_supervisor counting) = Some (guest_bytes small_start)"
  using guest_bytes_length [of small_start]
  by (auto simp: small_supervisor_def wasmSupervisor_Start_def newWasmSupervisor_def Let_def
      snapshot_of_memory [OF small_memory] simp del: guest_bytes_length)

lemma small_serve_one:
  "wasm_serve small_encode small_parse (small_module counting) [(''eval'', params)] (small_supervisor counting) =
    ([Ret (Inr (Some (fmap_of_list [(''result'', GStr ''first'')])))],
     (small_supervisor counting)\<lparr> sv_mod := Some (guest_of (guest_bytes small_start), if counting then 1 else 0) \<rparr>)"
  by (simp add: wasmSupervisor_Send_def small_send small_supervisor_fields restoreSnapshot_def)
     (simp add: small_module_def small_after_def guest_answer_def small_start_def)

section \<open>Lost instances\<close>

text \<open>The answers of the dispatcher to requests made one after the other.\<close>

fun wasm_dispatch ::
  "(json \<Rightarrow> string) \<Rightarrow> (string \<Rightarrow> body) \<Rightarrow> 'g wasm_module \<Rightarrow> go_error \<Rightarrow> (string \<times> gomap) list \<Rightarrow> 'g wasm_dispatcher
     \<Rightarrow> (go_error + gomap) go list \<times> 'g wasm_dispatcher" where
  "wasm_dispatch encode parse M ctx_err [] d = ([], d)"
| "wasm_dispatch encode parse M ctx_err ((mth, params) # reqs) d =
     (let (r, d1) = Wasm_Send encode parse M ctx_err mth params d;
          (rs, d2) = wasm_dispatch encode parse M ctx_err reqs d1
      in (r # rs, d2))"

definition panics :: "'a go list \<Rightarrow> nat" where
  "panics rs = length (filter (\<lambda>r. \<not> returns r) rs)"

lemma wasm_send_pool:
  assumes "wd_pool d = Some svs" and "Wasm_Send encode parse M ctx_err mth params d = (r, d')"
  shows "\<exists>svs'. wd_pool d' = Some svs' \<and> length svs' + panics [r] = length svs"
  using assms by (cases svs) (auto simp: Wasm_Send_def panics_def split: prod.splits go.splits)

lemma wasm_dispatch_pool:
  assumes "wd_pool d = Some svs" and "wasm_dispatch encode parse M ctx_err reqs d = (rs, d')"
  shows "\<exists>svs'. wd_pool d' = Some svs' \<and> length svs' + panics rs = length svs"
  using assms
proof (induction reqs arbitrary: d svs rs)
  case Nil
  then show ?case by (auto simp: panics_def)
next
  case (Cons q reqs)
  obtain mth params where q: "q = (mth, params)" by (cases q)
  obtain r d1 where send: "Wasm_Send encode parse M ctx_err mth params d = (r, d1)" by fastforce
  obtain rs1 where rec: "wasm_dispatch encode parse M ctx_err reqs d1 = (rs1, d')" and rs: "rs = r # rs1"
    using Cons.prems(2) send q by (auto split: prod.splits)
  obtain svs1 where s1: "wd_pool d1 = Some svs1" "length svs1 + panics [r] = length svs"
    using wasm_send_pool [OF Cons.prems(1) send] by blast
  obtain svs' where "wd_pool d' = Some svs'" "length svs' + panics rs1 = length svs1"
    using Cons.IH [OF s1(1) rec] by blast
  with s1(2) show ?case by (auto simp: rs panics_def)
qed

lemma start_of_instance:
  assumes "memory_conforms M contents rest"
  shows "fst (wasmSupervisor_Start M i newWasmSupervisor) = None \<longleftrightarrow> (\<exists>g0. i = Inr g0)"
  by (auto simp: wasmSupervisor_Start_def newWasmSupervisor_def snapshot_of_memory [OF assms] Let_def split: sum.splits)

lemma shutdown_clears: "snd (wasmSupervisor_Shutdown None s) = newWasmSupervisor \<or> sv_mod s = None"
  by (simp add: wasmSupervisor_Shutdown_def newWasmSupervisor_def)

lemma shutdown_started:
  assumes "memory_conforms M contents rest" and "wasmSupervisor_Start M i newWasmSupervisor = (None, sv)"
  shows "snd (wasmSupervisor_Shutdown None sv) = newWasmSupervisor"
  using start_clean [OF assms] shutdown_clears [of sv] by auto

lemma start_instances_cfg: "start_instances M inst i n d = (e, d') \<Longrightarrow> wd_cfg d' = wd_cfg d"
  by (induction n arbitrary: i d) (auto simp: drainPool_def split: prod.splits option.splits)

lemma start_instances_capacity:
  "start_instances M inst i n d = (e, d') \<Longrightarrow> wd_capacity d' = wd_capacity d"
  by (induction n arbitrary: i d) (auto simp: drainPool_def split: prod.splits option.splits)

section \<open>Properties\<close>

text \<open>
  C10: a guest that keeps nothing but its linear memory, at its first size, answers every request of
  a sequence as if it were the first one after the start, whatever the requests before it did, and
  leaves the supervisor as it was.
\<close>

theorem wasm_answers_independent:
  assumes "memory_conforms M contents rest" and "guest_conforms M contents" and "memory_only M contents rest"
    and "wasmSupervisor_Start M (Inr g0) newWasmSupervisor = (None, s)"
  shows "wasm_serve encode parse M reqs s =
    (map (\<lambda>(mth, params). fst (wasm_send encode parse M mth params g0)) reqs, s)"
  using start_clean [OF assms(1,4)] by (auto intro: memory_only_serve [OF assms(1-3)])

theorem wasm_answers_independent_witness:
  "fst (wasm_serve small_encode small_parse (small_module False) [(''eval'', None), (''eval'', None)] (small_supervisor False))
     = replicate 2 (Ret (Inr (Some (fmap_of_list [(''result'', GStr ''first'')]))))"
  by (subst wasm_answers_independent [OF small_memory small_conforms small_memory_only small_supervisor_start])
    (simp add: small_send guest_answer_def small_start_def numeral_2_eq_2)

text \<open>
  C24: through any sequence of requests the memory a started instance began with is restored after
  each of them, no request panics; what else the evaluation left, the pages it grew and the rest
  of the guest's state (globals, tables), is kept for the next request.
\<close>

theorem wasm_memory_restored:
  assumes "memory_conforms M contents rest" and "guest_conforms M contents"
    and "wasmSupervisor_Start M (Inr g0) newWasmSupervisor = (None, s0)"
    and "wasm_serve encode parse M reqs s0 = (rs, s)"
    and "wasm_send encode parse M mth params (the (sv_mod s)) = (r, g1)"
  shows "(\<forall>x\<in>set rs. returns x) \<and> returns r \<and> (\<exists>g2.
    wasmSupervisor_Send encode parse M mth params s = (r, s\<lparr> sv_mod := Some g2 \<rparr>) \<and>
    contents g2 = contents g0 @ drop (length (contents g0)) (contents g1) \<and> rest g2 = rest g1)"
proof -
  have cl: "clean contents g0 s0" using start_clean [OF assms(1,3)] by auto
  note served = serve_clean [OF assms(1,2) cl assms(4)]
  show ?thesis using served send_clean [OF assms(1,2) conjunct1 [OF served] assms(5)] by blast
qed

theorem wasm_memory_restored_witness:
  "let s = snd (wasm_serve small_encode small_parse (small_module True) [(''eval'', None)] (small_supervisor True));
       (r, s') = wasmSupervisor_Send small_encode small_parse (small_module True) ''eval'' None s
   in r = Ret (Inr (Some (fmap_of_list [(''result'', GStr ''again'')]))) \<and>
      map_option guest_bytes (sv_mod s') = Some (replicate 64 (CHR ''-'')) \<and> map_option snd (sv_mod s') = Some 2"
proof -
  note one = small_serve_one [of True None, unfolded if_True]
  obtain g2 where "wasmSupervisor_Send small_encode small_parse (small_module True) ''eval'' None
        ((small_supervisor True)\<lparr> sv_mod := Some (guest_of (guest_bytes small_start), 1) \<rparr>)
      = (Ret (Inr (Some (fmap_of_list [(''result'', GStr ''again'')]))), (small_supervisor True)\<lparr> sv_mod := Some g2 \<rparr>)"
    "guest_bytes g2 = guest_bytes small_start" "snd g2 = Suc (Suc 0)"
    using wasm_memory_restored [OF small_memory small_conforms small_supervisor_start one small_send, of None]
    by (auto simp: guest_answer_def small_after_def)
  moreover have "guest_bytes small_start = replicate 64 (CHR ''-'')" by code_simp
  ultimately show ?thesis unfolding one by (cases g2) (simp add: numeral_2_eq_2)
qed

text \<open>
  C25: the guest calling convention carries a request and a response.  Where the guest's allocator
  gives a place inside the memory, the request's bytes are exactly there when the guest is
  called, and when it returns a pointer to a length of four bytes, lowest first, and as many
  bytes of response, the call's value is the decoded response.
\<close>

theorem wasm_calling_convention:
  assumes conf: "memory_conforms M contents rest"
    and exports: "wm_alloc M = Some al" "wm_evaluate M = Some ev"
    and req: "req = encode (requestEnvelope mth params)"
    and alloc: "al (word_of_nat (length req)) g = (Inr [ptr], g1)"
    and place: "unat (ucast ptr :: 32 word) + length req \<le> length (contents g1)"
  shows "\<exists>g2. region (unat (ucast ptr :: 32 word)) (length req) (contents g2) = req \<and> rest g2 = rest g1 \<and>
    (\<forall>res g3 resp. ev ptr (word_of_nat (length req)) g2 = (Inr [res], g3) \<longrightarrow>
       region (unat (ucast res :: 32 word)) (4 + length resp) (contents g3) = le_bytes (length resp) @ resp \<longrightarrow>
       wasm_send encode parse M mth params g = (Ret (decode_response parse resp), g3))"
proof -
  obtain g2 where g2: "wm_Write M (ucast ptr) req g1 = Some g2" "rest g2 = rest g1"
    "contents g2 = take (unat (ucast ptr :: 32 word)) (contents g1) @ req @
       drop (unat (ucast ptr :: 32 word) + length req) (contents g1)"
    using memory_write_some [OF conf place] by blast
  have "region (unat (ucast ptr :: 32 word)) (length req) (contents g2) = req"
    unfolding g2(3) by (rule region_write [OF place])
  with g2(2) show ?thesis
    by (intro exI [of _ g2]) (auto intro: wasm_send_run [where encode = encode and mth = mth, OF conf exports req alloc g2(1)])
qed

theorem wasm_calling_convention_witness:
  "fst (wasm_send small_encode small_parse (small_module False) ''eval'' None small_start)
     = Ret (Inr (Some (fmap_of_list [(''result'', GStr ''first'')])))"
proof -
  let ?ev = "the (wm_evaluate (small_module False))"
  have len: "length ''first'' = 5" by simp
  obtain g2 where g2: "\<forall>res g3 resp. ?ev 0 (word_of_nat (length small_request)) g2 = (Inr [res], g3) \<longrightarrow>
       region (unat (ucast res :: 32 word)) (4 + length resp) (guest_bytes g3) = le_bytes (length resp) @ resp \<longrightarrow>
       wasm_send small_encode small_parse (small_module False) ''eval'' None small_start = (Ret (decode_response small_parse resp), g3)"
    using wasm_calling_convention [OF small_memory, of False "\<lambda>n g. (Inr [0], g)" ?ev small_request small_encode "''eval''" None small_start 0 small_start small_parse]
    by (auto simp: small_module_def small_request_encoded)
  have "?ev 0 (word_of_nat (length small_request)) g2 = (Inr [32], snd (?ev 0 (word_of_nat (length small_request)) g2))"
    by (simp add: small_module_def)
  moreover have "region (unat (ucast (32 :: 64 word) :: 32 word)) (4 + length ''first'')
      (guest_bytes (snd (?ev 0 (word_of_nat (length small_request)) g2))) = le_bytes (length ''first'') @ ''first''"
    unfolding len by (simp add: small_module_def guest_bytes_of region_def guest_answer_def)
  ultimately have "fst (wasm_send small_encode small_parse (small_module False) ''eval'' None small_start)
      = Ret (decode_response small_parse ''first'')" using g2 by (metis fst_conv)
  moreover have "decode_response small_parse ''first'' = Inr (Some (fmap_of_list [(''result'', GStr ''first'')]))"
    by (simp add: decode_response_def small_parse_def)
  ultimately show ?thesis by simp
qed

text \<open>
  C35: a call that gives a value has read it from inside the memory: the four bytes of the length
  and the response after them lie within it, and the value is the decoding of those bytes.
\<close>

theorem wasm_response_in_bounds:
  assumes "memory_conforms M contents rest"
    and "wasmSupervisor_Send encode parse M mth params s = (Ret (Inr m), s')"
  shows "\<exists>g3 p. wasm_send encode parse M mth params (the (sv_mod s)) = (Ret (Inr m), g3) \<and>
    unat (p :: 32 word) + 4 + unat (le_uint32 (region (unat p) 4 (contents g3))) \<le> length (contents g3) \<and>
    UnmarshalMap (parse (region (unat p + 4) (unat (le_uint32 (region (unat p) 4 (contents g3)))) (contents g3))) = Inr m"
proof -
  obtain g g3 where "sv_mod s = Some g" and "wasm_send encode parse M mth params g = (Ret (Inr m), g3)"
    using assms(2) by (auto simp: wasmSupervisor_Send_def split: option.splits prod.splits go.splits if_splits)
  with wasm_send_reads [OF assms(1) this(2)] show ?thesis by auto
qed

theorem wasm_response_in_bounds_witness:
  "\<exists>p :: 32 word. unat p + 4 + unat (le_uint32 (region (unat p) 4 (guest_bytes (small_after False small_start)))) \<le> 64"
proof -
  have send: "wasmSupervisor_Send small_encode small_parse (small_module False) ''eval'' None (small_supervisor False) =
      (Ret (Inr (Some (fmap_of_list [(''result'', GStr ''first'')]))),
       snd (wasmSupervisor_Send small_encode small_parse (small_module False) ''eval'' None (small_supervisor False)))"
    using small_serve_one [of False None] by (auto simp: Let_def split: prod.splits)
  show ?thesis using wasm_response_in_bounds [OF small_memory send] by (auto simp: small_supervisor_fields small_send)
qed

text \<open>
  C26: whatever calls of Send are in progress, each instance is in the pool, in use by one of them
  or lost to one that panicked; a call that gives its instance back never finds the channel full,
  and once every instance is lost no call gets one.
\<close>

theorem wasm_pool_conserved:
  assumes "reachable (pool_start n) (pool_step n) s"
  shows "mset (ps_pool s @ ps_busy s @ ps_lost s) = mset [0..<n] \<and>
    distinct (ps_pool s @ ps_busy s @ ps_lost s) \<and>
    (\<forall>i\<in>set (ps_busy s). pool_step n s (s\<lparr> ps_pool := ps_pool s @ [i], ps_busy := remove1 i (ps_busy s) \<rparr>)) \<and>
    (length (ps_lost s) = n \<longrightarrow> (\<forall>t. (pool_step n)\<^sup>*\<^sup>* s t \<longrightarrow> t = s))"
proof -
  have inv: "pool_inv n s" by (rule pool.reachable_inv [OF assms])
  have stuck: "t = s" if "(pool_step n)\<^sup>*\<^sup>* s t" "length (ps_lost s) = n" for t
    using that(1) by (induction rule: rtranclp_induct) (use pool_inv_total [OF inv] that(2) in \<open>auto simp: pool_step_simps\<close>)
  have "length (ps_pool s) < n" if "i \<in> set (ps_busy s)" for i
    using pool_inv_total [OF inv] length_pos_if_in_set [OF that] by linarith
  then show ?thesis
    using inv pool_distinct [OF inv] stuck by (auto simp: pool_inv_def add.assoc intro: pool_step.put_back simp del: mset_upt distinct_append)
qed

theorem wasm_pool_conserved_witness:
  "let s = \<lparr> ps_pool = [], ps_busy = [], ps_lost = [1, 0] \<rparr>
   in reachable (pool_start 2) (pool_step 2) s \<and> (\<forall>t. (pool_step 2)\<^sup>*\<^sup>* s t \<longrightarrow> t = s)"
proof -
  let ?s0 = "\<lparr> ps_pool = [0, 1], ps_busy = [], ps_lost = [] \<rparr>"
  let ?s1 = "\<lparr> ps_pool = [1], ps_busy = [0], ps_lost = [] \<rparr>"
  let ?s2 = "\<lparr> ps_pool = [1], ps_busy = [], ps_lost = [0] \<rparr>"
  let ?s3 = "\<lparr> ps_pool = [], ps_busy = [1], ps_lost = [0] \<rparr>"
  let ?s4 = "\<lparr> ps_pool = [], ps_busy = [], ps_lost = [1, 0] \<rparr>"
  have "reachable (pool_start 2) (pool_step 2) ?s0"
    by (rule reachable_start) (simp add: pool_start_def upt_rec)
  then have "reachable (pool_start 2) (pool_step 2) ?s1"
    by (rule reachable_step) (simp add: pool_step_simps)
  then have "reachable (pool_start 2) (pool_step 2) ?s2"
    by (rule reachable_step) (simp add: pool_step_simps)
  then have "reachable (pool_start 2) (pool_step 2) ?s3"
    by (rule reachable_step) (simp add: pool_step_simps)
  then have r: "reachable (pool_start 2) (pool_step 2) ?s4"
    by (rule reachable_step) (simp add: pool_step_simps)
  with wasm_pool_conserved [OF r] show ?thesis by simp
qed



text \<open>
  C36: every evaluation that panics takes its instance out of the pool for good: after any sequence
  of requests the pool holds its instances less the panics, and with as many panics as instances
  every later request waits until its context ends.
\<close>

theorem wasm_panics_drain_pool:
  assumes "wd_pool d = Some svs" and "wasm_dispatch encode parse M ctx_err reqs d = (rs, d')"
  shows "(\<exists>svs'. wd_pool d' = Some svs' \<and> length svs' + panics rs = length svs) \<and>
    (panics rs = length svs \<longrightarrow>
       Wasm_Send encode parse M ctx_err mth params d' = (Ret (Inl (Wrapped ''wasm: acquire instance'' (Some ctx_err))), d'))"
  using wasm_dispatch_pool [OF assms] by (auto simp: Wasm_Send_def)

theorem wasm_panics_drain_pool_witness:
  "let M = (small_module True)\<lparr> wm_alloc := Some (\<lambda>n g. (Inr [], g)) \<rparr>;
       d = (NewWasmDispatcher \<lparr> wc_ModulePath = ''f.wasm'', wc_MaxInstances = 1 \<rparr>)\<lparr> wd_pool := Some [small_supervisor True] \<rparr>;
       d' = snd (wasm_dispatch small_encode small_parse M (ErrorString ''deadline'') [(''eval'', None)] d)
   in fst (Wasm_Send small_encode small_parse M (ErrorString ''deadline'') ''eval'' None d')
        = Ret (Inl (Wrapped ''wasm: acquire instance'' (Some (ErrorString ''deadline''))))"
proof -
  let ?M = "(small_module True)\<lparr> wm_alloc := Some (\<lambda>n g. (Inr [], g)) \<rparr>"
  let ?d = "(NewWasmDispatcher \<lparr> wc_ModulePath = ''f.wasm'', wc_MaxInstances = 1 \<rparr>)\<lparr> wd_pool := Some [small_supervisor True] \<rparr>"
  let ?run = "wasm_dispatch small_encode small_parse ?M (ErrorString ''deadline'') [(''eval'', None)] ?d"
  have p: "panics (fst ?run) = length [small_supervisor True]"
    by (simp add: Wasm_Send_def wasmSupervisor_Send_def small_supervisor_fields wasm_send_def Let_def panics_def)
  have "wd_pool ?d = Some [small_supervisor True]" by simp
  from conjunct2 [OF wasm_panics_drain_pool [OF this surjective_pairing], rule_format, OF p]
  show ?thesis unfolding Let_def by (simp only: fst_conv)
qed

end
