(* ===== verification/Evaluation_Runtime.thy ===== *)
theory Evaluation_Runtime
  imports Dispatchers Wasm_Contract Runtime_Models
begin

text \<open>
  \<^verbatim>\<open>runtime/runtime.go\<close>: the runtime is a dispatcher, chosen by \<^verbatim>\<open>internal/execution/dispatcher.go\<close>,
  which the application starts and shuts down with it.  The wasm backend is the one that the
  choice already starts.
\<close>

section \<open>The runtime\<close>

text \<open>
  The operations of a dispatcher over the state \<open>'d\<close> of everything behind it; \<open>'o\<close> is the outcome of a
  start or a shutdown and \<open>'m\<close> that of a send (for a dispatcher that may wait forever, options).
\<close>

record ('d, 'o, 'm) Dispatcher =
  dp_Start :: "'d \<Rightarrow> 'o"
  dp_Send :: "string \<Rightarrow> gomap \<Rightarrow> 'd \<Rightarrow> 'm"
  dp_Shutdown :: "'d \<Rightarrow> 'o"

record ('d, 'o, 'm) EvaluationRuntime =
  rt_dispatcher :: "('d, 'o, 'm) Dispatcher"

definition Runtime_Start :: "('d, 'o, 'm) EvaluationRuntime \<Rightarrow> 'd \<Rightarrow> 'o" where
  "Runtime_Start r = dp_Start (rt_dispatcher r)"

definition Runtime_Handle :: "('d, 'o, 'm) EvaluationRuntime \<Rightarrow> EvaluationRequest \<Rightarrow> 'd \<Rightarrow> 'm" where
  "Runtime_Handle r message = dp_Send (rt_dispatcher r) (er_Command message) (er_Data message)"

definition Runtime_Shutdown :: "('d, 'o, 'm) EvaluationRuntime \<Rightarrow> 'd \<Rightarrow> 'o" where
  "Runtime_Shutdown r = dp_Shutdown (rt_dispatcher r)"

text \<open>\<open>NewLifecycleRuntime\<close>: the application calls the first hook when it starts and the second when it stops.\<close>

definition lifecycle_OnStart :: "('d, 'o, 'm) EvaluationRuntime \<Rightarrow> 'd \<Rightarrow> 'o" where
  "lifecycle_OnStart r w = Runtime_Start r w"

definition lifecycle_OnStop :: "('d, 'o, 'm) EvaluationRuntime \<Rightarrow> 'd \<Rightarrow> 'o" where
  "lifecycle_OnStop r w = Runtime_Shutdown r w"

section \<open>The wasm runtime\<close>

text \<open>
  The environment of the backend: the module, the number of processors, the codecs, the error of a
  context that ends, and the outcomes of reading and compiling the module and of each
  instantiation, by the number of the start.
\<close>

record 'g wasm_env =
  we_module :: "'g wasm_module"
  we_numCPU :: int
  we_encode :: "json \<Rightarrow> string"
  we_parse :: "string \<Rightarrow> body"
  we_ctx_err :: go_error
  we_read :: "go_error option"
  we_wasi :: "go_error option"
  we_compile :: "go_error option"
  we_inst :: "nat \<Rightarrow> nat \<Rightarrow> go_error + 'g"
  we_close :: "go_error option"

text \<open>The world: the dispatcher, and the number of starts so far.\<close>

type_synonym 'g wasm_world = "'g wasm_dispatcher \<times> nat"

definition wasm_start_world :: "'g wasm_env \<Rightarrow> 'g wasm_world \<Rightarrow> go_error option \<times> 'g wasm_world" where
  "wasm_start_world env w =
     (let (err, d) = Wasm_Start (we_module env) (we_numCPU env) (we_read env) (we_wasi env) (we_compile env)
                       (we_inst env (snd w)) (fst w)
      in (err, d, Suc (snd w)))"

type_synonym 'g wasm_runtime_type =
  "('g wasm_world, go_error option \<times> 'g wasm_world, (go_error + gomap) go \<times> 'g wasm_world) EvaluationRuntime"

definition wasm_backend ::
  "'g wasm_env \<Rightarrow> ('g wasm_world, go_error option \<times> 'g wasm_world, (go_error + gomap) go \<times> 'g wasm_world) Dispatcher" where
  "wasm_backend env =
     \<lparr> dp_Start = wasm_start_world env,
       dp_Send = (\<lambda>mth params w.
         let (r, d) = Wasm_Send (we_encode env) (we_parse env) (we_module env) (we_ctx_err env) mth params (fst w)
         in (r, d, snd w)),
       dp_Shutdown = (\<lambda>w. let (err, d) = Wasm_Shutdown (we_close env) (fst w) in (err, d, snd w)) \<rparr>"

text \<open>
  \<open>NewRuntime\<close> with the wasm interface: the dispatcher is made and started by \<open>NewDispatcher\<close>.
\<close>

definition NewRuntime_wasm ::
  "'g wasm_env \<Rightarrow> WasmConfig
     \<Rightarrow> go_error + 'g wasm_runtime_type \<times> 'g wasm_world" where
  "NewRuntime_wasm env cfg =
     (case wasm_start_world env (NewWasmDispatcher cfg, 0) of
        (Some err, _) \<Rightarrow> Inl err
      | (None, w) \<Rightarrow> Inr (\<lparr> rt_dispatcher = wasm_backend env \<rparr>, w))"

section \<open>Starting twice\<close>

definition instances :: "'g wasm_env \<Rightarrow> WasmConfig \<Rightarrow> nat" where
  "instances env cfg = nat (if wc_MaxInstances cfg \<le> 0 then we_numCPU env else wc_MaxInstances cfg)"

text \<open>A start that succeeds, from any state of the dispatcher: the pool before it is dropped.\<close>

lemma start_succeeds:
  assumes "wasm_start_world env (d, n) = (None, (d', n'))"
  shows "\<exists>svs. wd_pool d' = Some svs \<and> length svs = instances env (wd_cfg d) \<and> wd_closed d' = wd_closed d \<and>
    wd_cfg d' = wd_cfg d \<and> n' = Suc n \<and>
    (\<forall>k < length svs. wasmSupervisor_Start (we_module env) (we_inst env n k) newWasmSupervisor = (None, svs ! k))"
proof -
  let ?d1 = "d\<lparr> wd_rt := True, wd_pool := Some [], wd_capacity := instances env (wd_cfg d) \<rparr>"
  have run: "start_instances (we_module env) (we_inst env n) 0 (instances env (wd_cfg d)) ?d1 = (None, d')" and n: "n' = Suc n"
    using assms by (auto simp: wasm_start_world_def Wasm_Start_def instances_def Let_def
        split: prod.splits if_splits option.splits)
  have cfg: "wd_cfg d' = wd_cfg ?d1" by (rule start_instances_cfg [OF run])
  show ?thesis using start_instances_ok [OF run, of "[]"] n cfg by auto
qed

lemma shutdown_closes:
  assumes "Wasm_Shutdown close d = (e, d')" and "wd_pool d = Some svs"
  shows "wd_closed d' = wd_closed d @ map (snd \<circ> wasmSupervisor_Shutdown None) svs \<and> wd_pool d' = Some []"
  using assms by (auto simp: Wasm_Shutdown_def drainPool_def Let_def split: if_splits option.splits)

text \<open>
  C38: with the wasm interface the application starts the backend twice, in the choice of the
  dispatcher and in the hook of the runtime: both starts instantiate a full pool, the second
  pool replaces the first, and the shutdown closes the instances of the second only.
\<close>

theorem wasm_started_twice:
  assumes "NewRuntime_wasm env cfg = Inr (r, w0)"
    and "lifecycle_OnStart r w0 = (None, w1)" and "lifecycle_OnStop r w1 = (e, w2)"
  shows "\<exists>first second. wd_pool (fst w0) = Some first \<and> wd_pool (fst w1) = Some second \<and>
    length first = instances env cfg \<and> length second = instances env cfg \<and>
    (\<forall>k < instances env cfg.
       wasmSupervisor_Start (we_module env) (we_inst env 0 k) newWasmSupervisor = (None, first ! k) \<and>
       wasmSupervisor_Start (we_module env) (we_inst env 1 k) newWasmSupervisor = (None, second ! k)) \<and>
    wd_pool (fst w2) = Some [] \<and> wd_closed (fst w2) = map (snd \<circ> wasmSupervisor_Shutdown None) second"
proof -
  obtain d0 n0 d1 n1 d2 n2 where w: "w0 = (d0, n0)" "w1 = (d1, n1)" "w2 = (d2, n2)"
    by (cases w0, cases w1, cases w2)
  have r: "r = \<lparr> rt_dispatcher = wasm_backend env \<rparr>"
    and s0: "wasm_start_world env (NewWasmDispatcher cfg, 0) = (None, (d0, n0))"
    using assms(1) by (auto simp: NewRuntime_wasm_def w split: prod.splits option.splits)
  have s1: "wasm_start_world env (d0, n0) = (None, (d1, n1))"
    using assms(2) by (simp add: lifecycle_OnStart_def Runtime_Start_def r wasm_backend_def w)
  have s2: "Wasm_Shutdown (we_close env) d1 = (e, d2)"
    using assms(3) by (auto simp: lifecycle_OnStop_def Runtime_Shutdown_def r wasm_backend_def w Let_def split: prod.splits)
  have cfg: "wd_cfg (NewWasmDispatcher cfg) = cfg" "wd_closed (NewWasmDispatcher cfg) = []"
    by (simp_all add: NewWasmDispatcher_def)
  obtain first where f: "wd_pool d0 = Some first" "length first = instances env cfg" "wd_closed d0 = []" "wd_cfg d0 = cfg" "n0 = 1"
    "\<forall>k < length first. wasmSupervisor_Start (we_module env) (we_inst env 0 k) newWasmSupervisor = (None, first ! k)"
    using start_succeeds [OF s0] cfg by auto
  obtain second where g: "wd_pool d1 = Some second" "length second = instances env cfg" "wd_closed d1 = []"
    "\<forall>k < length second. wasmSupervisor_Start (we_module env) (we_inst env 1 k) newWasmSupervisor = (None, second ! k)"
    using start_succeeds [OF s1] f by auto
  show ?thesis using shutdown_closes [OF s2 g(1)] f g w by auto
qed

text \<open>A backend of two small guests.\<close>

definition small_env :: "small_guest wasm_env" where
  "small_env = \<lparr> we_module = small_module False, we_numCPU = 4, we_encode = small_encode, we_parse = small_parse,
     we_ctx_err = CtxDeadlineExceeded, we_read = None, we_wasi = None, we_compile = None,
     we_inst = (\<lambda>n k. Inr small_start), we_close = None \<rparr>"

definition small_config :: WasmConfig where
  "small_config = \<lparr> wc_ModulePath = ''f.wasm'', wc_MaxInstances = 2 \<rparr>"

lemma small_starts:
  "wd_cfg d = small_config \<Longrightarrow> wasm_start_world small_env (d, n) =
     (None, d\<lparr> wd_rt := True, wd_pool := Some [small_supervisor False, small_supervisor False], wd_capacity := 2 \<rparr>, Suc n)"
  by (simp add: wasm_start_world_def Wasm_Start_def small_env_def small_config_def small_supervisor_start numeral_2_eq_2)

theorem wasm_started_twice_witness:
  "\<exists>r w0 w1 w2 first. NewRuntime_wasm small_env small_config = Inr (r, w0) \<and> wd_pool (fst w0) = Some first \<and>
     length first = 2 \<and> lifecycle_OnStart r w0 = (None, w1) \<and> lifecycle_OnStop r w1 = (None, w2) \<and>
     length (wd_closed (fst w2)) = 2"
proof -
  let ?d0 = "(NewWasmDispatcher small_config)\<lparr> wd_rt := True,
     wd_pool := Some [small_supervisor False, small_supervisor False], wd_capacity := 2 \<rparr>"
  let ?r = "\<lparr> rt_dispatcher = wasm_backend small_env \<rparr>"
  have new: "NewRuntime_wasm small_env small_config = Inr (?r, (?d0, 1))"
    by (simp add: NewRuntime_wasm_def small_starts NewWasmDispatcher_def)
  have start: "lifecycle_OnStart ?r (?d0, 1) = (None, (?d0, 2))"
    by (simp add: lifecycle_OnStart_def Runtime_Start_def wasm_backend_def small_starts NewWasmDispatcher_def)
  obtain w2 where stop: "lifecycle_OnStop ?r (?d0, 2) = (None, w2)"
    by (simp add: lifecycle_OnStop_def Runtime_Shutdown_def wasm_backend_def Wasm_Shutdown_def drainPool_def small_env_def Let_def)
  have "instances small_env small_config = 2" by (simp add: instances_def small_config_def)
  with wasm_started_twice [OF new start stop] have "length (wd_closed (fst w2)) = 2" by auto
  then show ?thesis
    using new start stop by (intro exI conjI) (assumption | simp add: NewWasmDispatcher_def)+
qed

end
