(* ===== verification/Service.thy ===== *)
theory Service
  imports Http_Contract Evaluation_Runtime
begin

text \<open>
  The program as a whole over a runtime: a locale states what the HTTP layer asks of a runtime (a
  call returns and keeps an invariant), every request is then answered, and the wasm backend is
  such a runtime.
\<close>

section \<open>Handlers that agree\<close>

text \<open>
  Two handlers with the same schemas whose runtimes do the same in the worlds of an invariant, which
  the runtime keeps.
\<close>

definition agrees :: "('w \<Rightarrow> bool) \<Rightarrow> ('s, 'w) RuntimeHandler \<Rightarrow> ('s, 'w) RuntimeHandler \<Rightarrow> bool" where
  "agrees good h h' \<longleftrightarrow> rh_schemas h = rh_schemas h' \<and> rh_validator h = rh_validator h' \<and>
     (\<forall>msg w. good w \<longrightarrow> rh_runtime h msg w = rh_runtime h' msg w \<and> good (snd (rh_runtime h msg w)))"

lemma SendCommand_good: "agrees good h h' \<Longrightarrow> good w \<Longrightarrow> good (snd (SendCommand req c h w))"
  using SendCommand_world [of req c h w] unfolding agrees_def by metis

lemma SendCommand_agrees:
  assumes "agrees good h h'" and "good w"
  shows "SendCommand req c h w = SendCommand req c h' w"
proof -
  have f: "rh_schemas h = rh_schemas h'" "rh_validator h = rh_validator h'"
    and rt: "rh_runtime h msg w = rh_runtime h' msg w" for msg
    using assms unfolding agrees_def by blast+
  have v: "validate h t cmd d = validate h' t cmd d" for t cmd d unfolding validate_def f by (rule refl)
  show ?thesis unfolding SendCommand_def v rt by (rule refl)
qed

lemma try_case_agrees:
  assumes "agrees good h h'" and "good w"
  shows "try_case cp cd i req c h w = try_case cp cd i req c h' w"
  unfolding try_case_def SendCommand_agrees [OF assms] by (rule refl)

lemma EvaluateCase_agrees:
  assumes "agrees good h h'" and "good w"
  shows "EvaluateCase params cd i req c h w = EvaluateCase params cd i req c h' w \<and>
    good (snd (EvaluateCase params cd i req c h' w))"
proof
  show "EvaluateCase params cd i req c h w = EvaluateCase params cd i req c h' w"
    unfolding EvaluateCase_def try_case_agrees [OF assms] by (rule refl)
  show "good (snd (EvaluateCase params cd i req c h' w))"
    using EvaluateCase_world [of params cd i req c h' w] assms unfolding agrees_def by metis
qed

lemma find_loop_agrees:
  assumes "agrees good h h'"
  shows "good w \<Longrightarrow> find_loop req c h params todo cs i ms fb ws w = find_loop req c h' params todo cs i ms fb ws w \<and>
    good (snd (find_loop req c h' params todo cs i ms fb ws w))"
proof (induction todo arbitrary: cs i ms fb ws w)
  case (Cons x rest)
  show ?case
  proof (cases "as_map x")
    case (Some cd)
    note e = EvaluateCase_agrees [OF assms Cons.prems, of "with_cases params cs" cd i req c]
    obtain o1 w1 where run': "EvaluateCase (with_cases params cs) cd i req c h' w = (o1, w1)" by fastforce
    with e have run: "EvaluateCase (with_cases params cs) cd i req c h w = (o1, w1)" and g: "good w1" by simp_all
    show ?thesis
      using Cons.IH [OF g] Some run run' g by (cases o1) (auto simp: Let_def split: prod.splits)
  qed (use Cons.prems in simp)
qed simp

lemma ProcessEval_agrees:
  assumes "agrees good h h'" and "good w"
  shows "ProcessEval rb r req c h w = ProcessEval rb r req c h' w \<and> good (snd (ProcessEval rb r req c h' w))"
proof -
  have f: "FindFirstMatchingCase params cs req c h w = FindFirstMatchingCase params cs req c h' w"
    "good (snd (FindFirstMatchingCase params cs req c h' w))" for params cs
    using find_loop_agrees [OF assms] by (simp_all add: FindFirstMatchingCase_def)
  have g: "GetCaseFeedback params cs req c h w = GetCaseFeedback params cs req c h' w \<and>
    good (snd (GetCaseFeedback params cs req c h' w))" for params cs
    using f [of params cs] by (cases "FindFirstMatchingCase params cs req c h' w")
      (auto simp: GetCaseFeedback_def split: go.splits prod.splits list.splits option.splits)
  show ?thesis
  proof
    show "ProcessEval rb r req c h w = ProcessEval rb r req c h' w"
      unfolding ProcessEval_def conjunct1 [OF g] by (rule refl)
    show "good (snd (ProcessEval rb r req c h' w))"
      using g assms(2) unfolding ProcessEval_def Let_def
      by (auto split: option.splits go.splits prod.splits if_splits) (metis snd_conv)+
  qed
qed

lemma finish_handle_agrees:
  assumes "agrees good h h'" and "good w"
  shows "finish_handle req c h b w = finish_handle req c h' b w \<and> good (snd (finish_handle req c h' b w))"
proof
  note p = ProcessEval_agrees [OF assms]
  show "finish_handle req c h b w = finish_handle req c h' b w"
    unfolding finish_handle_def conjunct1 [OF p] by (rule refl)
  show "good (snd (finish_handle req c h' b w))"
    using p assms(2) unfolding finish_handle_def
    by (auto split: sum.splits option.splits go.splits prod.splits if_splits) (metis snd_conv)+
qed

lemma Handle_agrees:
  assumes "agrees good h h'" and "good w"
  shows "Handle h req w = Handle h' req w \<and> good (snd (Handle h' req w))"
proof -
  have "handle h req w = handle h' req w \<and> good (snd (handle h' req w))"
  proof (cases "getCommand req")
    case (Some p)
    show ?thesis
    proof (cases "ParseCommand p")
      case c: (Some c)
      obtain o1 w1 where s: "SendCommand req c h w = (o1, w1)" by fastforce
      then have s': "SendCommand req c h' w = (o1, w1)" and g: "good w1"
        using SendCommand_agrees [OF assms, of req c] SendCommand_good [OF assms, of req c] by simp_all
      show ?thesis
        using Some c s s' g finish_handle_agrees [OF assms(1) g] assms(2)
        by (auto simp: handle_def split: go.splits sum.splits)
    qed (use Some assms in \<open>simp add: handle_def\<close>)
  qed (use assms in \<open>simp add: handle_def\<close>)
  then show ?thesis by (auto simp: Handle_def split: go.splits sum.splits prod.splits)
qed

section \<open>The service a runtime gives\<close>

text \<open>
  What the HTTP layer asks of a runtime: in the worlds of an invariant a call returns, and keeps the
  invariant.  Inside, every request whose cases are well formed is answered.
\<close>

definition guarded :: "'w runtime \<Rightarrow> ('w \<Rightarrow> bool) \<Rightarrow> 'w runtime" where
  "guarded rt good msg w = (if good w then rt msg w else (Ret (Inr None), w))"

definition safe_body :: "body \<Rightarrow> bool" where
  "safe_body b \<longleftrightarrow> (\<forall>req. req_Body req = b \<longrightarrow> list_all safe_case (request_cases req))"

definition safe_http :: "http_request \<Rightarrow> bool" where
  "safe_http r \<longleftrightarrow> (\<forall>b. hq_Body r = Inr b \<longrightarrow> safe_body b \<and>
     (\<forall>m legacy. decode_request b = Some m \<longrightarrow>
        MuEdBuildLegacyPreviewRequest m = Inr legacy \<or> MuEdBuildLegacyEvaluateRequest m = Inr legacy \<longrightarrow>
        safe_body (Doc (to_json (GMap legacy)))))"

fun http_serve :: "'w http_handler \<Rightarrow> http_request list \<Rightarrow> 'w \<Rightarrow> http_response go list \<times> 'w" where
  "http_serve handler [] w = ([], w)"
| "http_serve handler (r # rs) w =
     (let (resp, w1) = handler r w; (resps, w2) = http_serve handler rs w1 in (resp # resps, w2))"

locale runtime_service =
  fixes rt :: "'w runtime" and good :: "'w \<Rightarrow> bool"
  assumes rt_returns: "good w \<Longrightarrow> returns (fst (rt msg w))"
    and rt_good: "good w \<Longrightarrow> good (snd (rt msg w))"
begin

lemma handler_serves:
  assumes "NewRuntimeHandler compile gjs rt = Inr h" and "list_all safe_case (request_cases req)" and "good w"
  shows "\<exists>res w'. Handle h req w = (Ret res, w') \<and> good w'"
proof -
  let ?h = "h\<lparr> rh_runtime := guarded rt good \<rparr>"
  have new: "NewRuntimeHandler compile gjs (guarded rt good) = Inr ?h"
    using assms(1) by (auto simp: NewRuntimeHandler_def split: sum.splits)
  have rt: "rh_runtime h = rt" by (rule NewRuntimeHandler_fields(1) [OF assms(1)])
  have "returns (fst (guarded rt good msg v))" for msg v by (simp add: guarded_def rt_returns)
  then obtain res w' where run: "Handle ?h req w = (Ret res, w')"
    using Handle_never_panics [OF new _ assms(2)] by blast
  have "agrees good h ?h" using rt rt_good by (simp add: agrees_def guarded_def)
  from Handle_agrees [OF this assms(3), of req] run show ?thesis by auto
qed

lemma body_serves:
  assumes new: "NewRuntimeHandler compile gjs rt = Inr h" and w: "good w" and "safe_body (req_Body req)"
  shows "\<exists>res w'. Handle h req w = (Ret res, w') \<and> good w'"
  by (rule handler_serves [OF new _ w]) (use assms(3) in \<open>simp add: safe_body_def\<close>)

lemma legacy_serves:
  assumes new: "NewRuntimeHandler compile gjs rt = Inr h" and safe: "safe_http r" and w: "good w" and q: "hq_Body q = hq_Body r"
  shows "\<exists>resp w'. CommandHandler_ServeHTTP (NewCommandHandler h key) q w = (Ret resp, w') \<and> good w'"
proof (cases "hq_Body r")
  case (Inr b)
  let ?req = "\<lparr> req_Path = hq_Path q, req_Method = hq_Method q, req_Body = b, req_Header = hq_Header q \<rparr>"
  obtain res w' where "Handle h ?req w = (Ret res, w')" "good w'"
    using body_serves [OF new w, of ?req] safe Inr by (auto simp: safe_http_def)
  with Inr q w show ?thesis by (simp add: CommandHandler_ServeHTTP_def NewCommandHandler_def)
qed (use q w in \<open>simp add: CommandHandler_ServeHTTP_def NewCommandHandler_def\<close>)

lemma mued_health_serves:
  assumes w: "good w"
  shows "\<exists>resp w'. ServeHealth (NewMuEdHandler h rt key) q w = (Ret resp, w') \<and> good w'"
  using rt_returns [OF w, of "\<lparr> er_Command = CommandHealth, er_Data = Some fmempty \<rparr>"]
    rt_good [OF w, of "\<lparr> er_Command = CommandHealth, er_Data = Some fmempty \<rparr>"] w
  by (cases "rt \<lparr> er_Command = CommandHealth, er_Data = Some fmempty \<rparr> w")
    (auto simp: ServeHealth_def NewMuEdHandler_def returns_iff split: option.splits sum.splits)

lemma mued_serves:
  assumes new: "NewRuntimeHandler compile gjs rt = Inr h" and safe: "safe_http r" and w: "good w" and q: "hq_Body q = hq_Body r"
  shows "\<exists>resp w'. ServeEvaluate (NewMuEdHandler h rt key) q w = (Ret resp, w') \<and> good w'"
proof (cases "\<exists>req legacy. mued_valid (NewMuEdHandler h rt key) q req legacy")
  case True
  then obtain req legacy where v: "mued_valid (NewMuEdHandler h rt key) q req legacy" by blast
  then have "safe_body (Doc (to_json (GMap legacy)))"
    using safe q by (auto simp: mued_valid_def safe_http_def split: if_splits)
  then obtain res w' where "Handle h (mued_request q (is_preview req) (Doc (to_json (GMap legacy)))) w = (Ret res, w')" "good w'"
    using body_serves [OF new w, of "mued_request q (is_preview req) (Doc (to_json (GMap legacy)))"]
    by (auto simp: mued_request_def)
  then show ?thesis unfolding ServeEvaluate_valid [OF v] by (simp add: NewMuEdHandler_def)
next
  case False
  from ServeEvaluate_invalid [OF this, of w] w show ?thesis by blast
qed

lemma http_serves:
  assumes new: "NewRuntimeHandler compile gjs rt = Inr h" and safe: "safe_http r" and w: "good w"
  shows "\<exists>resp w'. NormalizePath (mux_ServeHTTP (handler_Module h rt key)) r w = (Ret resp, w') \<and> good w'"
proof -
  note legacy = legacy_serves [OF new safe w, where key = key] and mued = mued_serves [OF new safe w, where key = key]
    and health = mued_health_serves [OF w, where key = key and h = h]
  have route: "\<exists>resp w'. mux_ServeHTTP (handler_Module h rt key) q w = (Ret resp, w') \<and> good w'" if "hq_Body q = hq_Body r" for q
  proof -
    consider "hq_Path q = ''/health''" | "hq_Path q = ''/evaluate''" | "hq_Path q = ''/evaluate/health''"
      | "cleanPath (hq_Path q) \<noteq> hq_Path q"
      | "hq_Path q \<notin> {''/health'', ''/evaluate'', ''/evaluate/health''}" "cleanPath (hq_Path q) = hq_Path q"
      by blast
    then show ?thesis
      by cases (use legacy [OF that] health [of q] mued [OF that] w in \<open>simp_all add: mux_routes HealthHandler_def\<close>)
  qed
  show ?thesis unfolding NormalizePath_def by (rule route) simp
qed

lemma http_serves_all:
  assumes "NewRuntimeHandler compile gjs rt = Inr h"
  shows "list_all safe_http reqs \<Longrightarrow> good w \<Longrightarrow>
    http_serve (NormalizePath (mux_ServeHTTP (handler_Module h rt key))) reqs w = (resps, w') \<Longrightarrow>
    length resps = length reqs \<and> (\<forall>x \<in> set resps. returns x) \<and> good w'"
proof (induction reqs arbitrary: w resps)
  case (Cons r rs)
  obtain resp w1 where r: "NormalizePath (mux_ServeHTTP (handler_Module h rt key)) r w = (Ret resp, w1)" "good w1"
    using http_serves [OF assms _ Cons.prems(2)] Cons.prems(1) by fastforce
  obtain resps1 where rs: "http_serve (NormalizePath (mux_ServeHTTP (handler_Module h rt key))) rs w1 = (resps1, w')"
    "resps = Ret resp # resps1"
    using Cons.prems(3) r(1) by (auto split: prod.splits)
  with Cons.IH [OF _ r(2) rs(1)] Cons.prems(1) show ?case by auto
qed simp

end

section \<open>The wasm backend\<close>

text \<open>
  The worlds in which the backend serves: the module behaves, and the pool holds \<open>n\<close> instances, each
  with the memory it began with.
\<close>

definition wasm_ready ::
  "'g wasm_env \<Rightarrow> ('g \<Rightarrow> string) \<Rightarrow> ('g \<Rightarrow> 'x) \<Rightarrow> nat \<Rightarrow> 'g wasm_world \<Rightarrow> bool" where
  "wasm_ready env contents rest n w \<longleftrightarrow>
     memory_conforms (we_module env) contents rest \<and> guest_conforms (we_module env) contents \<and>
     (\<exists>svs. wd_pool (fst w) = Some svs \<and> length svs = n \<and> (\<forall>sv \<in> set svs. \<exists>g0. clean contents g0 sv))"

definition wasm_runtime :: "'g wasm_env \<Rightarrow> 'g wasm_world runtime" where
  "wasm_runtime env = Runtime_Handle \<lparr> rt_dispatcher = wasm_backend env \<rparr>"

lemma wasm_runtime_send:
  "wasm_runtime env msg w =
     (let (r, d) = Wasm_Send (we_encode env) (we_parse env) (we_module env) (we_ctx_err env) (er_Command msg) (er_Data msg) (fst w)
      in (r, d, snd w))"
  by (simp add: wasm_runtime_def Runtime_Handle_def wasm_backend_def)

lemma wasm_ready_send:
  assumes "wasm_ready env contents rest n w"
  shows "returns (fst (wasm_runtime env msg w)) \<and> wasm_ready env contents rest n (snd (wasm_runtime env msg w))"
proof -
  obtain svs where conf: "memory_conforms (we_module env) contents rest" and guest: "guest_conforms (we_module env) contents"
    and svs: "wd_pool (fst w) = Some svs" "length svs = n" "\<forall>sv \<in> set svs. \<exists>g0. clean contents g0 sv"
    using assms unfolding wasm_ready_def by blast
  show ?thesis
  proof (cases svs)
    case Nil
    with assms svs show ?thesis by (simp add: wasm_runtime_send Wasm_Send_def wasm_ready_def)
  next
    case (Cons sv rest_svs)
    then obtain g0 where cl: "clean contents g0 sv" using svs(3) by auto
    obtain r g1 where run: "wasm_send (we_encode env) (we_parse env) (we_module env) (er_Command msg) (er_Data msg) (the (sv_mod sv)) = (r, g1)"
      by fastforce
    obtain g' where send: "wasmSupervisor_Send (we_encode env) (we_parse env) (we_module env) (er_Command msg) (er_Data msg) sv
        = (r, sv\<lparr> sv_mod := Some g' \<rparr>)" "returns r" "clean contents g0 (sv\<lparr> sv_mod := Some g' \<rparr>)"
      using send_clean [OF conf guest cl run] by blast
    from send(2) obtain x where "r = Ret x" by (auto simp: returns_iff)
    with Cons svs send conf guest show ?thesis
      by (auto simp: wasm_runtime_send Wasm_Send_def wasm_ready_def)
  qed
qed

interpretation wasm_service: runtime_service "wasm_runtime env" "wasm_ready env contents rest n" for env contents rest n
  by unfold_locales (use wasm_ready_send in blast)+

lemma started_ready:
  assumes conf: "memory_conforms (we_module env) contents rest" "guest_conforms (we_module env) contents"
    and start: "wasm_start_world env (d, k) = (None, w)"
  shows "wasm_ready env contents rest (instances env (wd_cfg d)) w"
proof -
  obtain d' k' where w: "w = (d', k')" by (cases w)
  obtain svs where svs: "wd_pool d' = Some svs" "length svs = instances env (wd_cfg d)"
    "\<forall>j < length svs. wasmSupervisor_Start (we_module env) (we_inst env k j) newWasmSupervisor = (None, svs ! j)"
    using start_succeeds [OF start [unfolded w]] by blast
  have "\<exists>g0. clean contents g0 sv" if "sv \<in> set svs" for sv
    using that svs(3) start_clean [OF conf(1)] by (metis in_set_conv_nth)
  with conf svs w show ?thesis by (auto simp: wasm_ready_def)
qed

section \<open>Properties\<close>


text \<open>A handler over the small guests, and requests on three routes.\<close>

definition small_handler :: "(jschema, small_guest wasm_world) RuntimeHandler" where
  "small_handler = \<lparr> rh_runtime = wasm_runtime small_env, rh_schemas = rh_schemas sample_handler, rh_validator = plain_validator \<rparr>"

lemma small_handler_new: "NewRuntimeHandler plain_compile plain_validator (wasm_runtime small_env) = Inr small_handler"
  by (simp add: NewRuntimeHandler_def NewRequestSchema_def NewResponseSchema_def plain_compile_def
      small_handler_def sample_handler_def)

definition small_requests :: "http_request list" where
  "small_requests = [sample_http ''GET'' ''/health'' [] (sample_mued ''yes''),
     sample_http ''POST'' ''/fn/evaluate'' [] (sample_mued ''yes''), sample_http ''POST'' ''/'' [] (sample_mued ''yes'')]"

lemma safe_bodyI:
  assumes "request_cases \<lparr> req_Path = [], req_Method = [], req_Body = b, req_Header = fmempty \<rparr> = []"
  shows "safe_body b"
proof -
  have "request_cases req = []" if "req_Body req = b" for req
    using that assms by (simp add: request_cases_def request_params_def)
  then show ?thesis by (simp add: safe_body_def)
qed

lemma small_requests_safe: "list_all safe_http small_requests"
proof -
  let ?m = "the (decode_request (sample_mued ''yes''))"
  have d: "decode_request (sample_mued ''yes'') = Some ?m" by code_simp
  have b: "safe_body (sample_mued ''yes'')" by (rule safe_bodyI) code_simp
  have p: "\<exists>l. MuEdBuildLegacyPreviewRequest ?m = Inr l \<and> safe_body (Doc (to_json (GMap l)))"
  proof (intro exI conjI)
    show "MuEdBuildLegacyPreviewRequest ?m = Inr (projr (MuEdBuildLegacyPreviewRequest ?m))" by code_simp
    show "safe_body (Doc (to_json (GMap (projr (MuEdBuildLegacyPreviewRequest ?m)))))" by (rule safe_bodyI) code_simp
  qed
  have e: "\<exists>l. MuEdBuildLegacyEvaluateRequest ?m = Inr l \<and> safe_body (Doc (to_json (GMap l)))"
  proof (intro exI conjI)
    show "MuEdBuildLegacyEvaluateRequest ?m = Inr (projr (MuEdBuildLegacyEvaluateRequest ?m))" by code_simp
    show "safe_body (Doc (to_json (GMap (projr (MuEdBuildLegacyEvaluateRequest ?m)))))" by (rule safe_bodyI) code_simp
  qed
  have s: "safe_body (Doc (to_json (GMap l)))"
    if "MuEdBuildLegacyPreviewRequest ?m = Inr l \<or> MuEdBuildLegacyEvaluateRequest ?m = Inr l" for l
    using that p e by (metis sum.inject(2))
  have "safe_http r" if "hq_Body r = Inr (sample_mued ''yes'')" for r
    unfolding safe_http_def that using b s d by (metis option.inject sum.inject(2))
  then have "safe_http (sample_http mth path key (sample_mued ''yes''))" for mth path key
    by (simp add: sample_http_def)
  then show ?thesis by (simp add: small_requests_def)
qed


end
