(* ===== verification/Rpc_Service.thy ===== *)
theory Rpc_Service
  imports Service Dispatcher_Contract
begin

text \<open>
  The program as a whole over the RPC interface: the runtime on the dedicated dispatcher, from its
  start through any requests to its shutdown.
\<close>

section \<open>The runtime on the dedicated dispatcher\<close>

text \<open>
  The world: the dispatcher and what is behind it.  A call may wait forever (\<open>None\<close>).  \<open>late\<close> says
  whether the stop timeout fires before the worker ends.
\<close>

type_synonym 'c rpc_world = "nat DedicatedDispatcher \<times> 'c adapter_world"

type_synonym 'c rpc_runtime =
  "('c rpc_world, (go_error option \<times> 'c rpc_world) option, ((go_error + gomap) go \<times> 'c rpc_world) option) EvaluationRuntime"

definition dedicated_backend ::
  "'c outside \<Rightarrow> bool \<Rightarrow> ('c rpc_world, (go_error option \<times> 'c rpc_world) option,
     ((go_error + gomap) go \<times> 'c rpc_world) option) Dispatcher" where
  "dedicated_backend E late =
     \<lparr> dp_Start = (\<lambda>(d, w). Dedicated_Start (adapters E) d w),
       dp_Send = (\<lambda>mth data (d, w). Dedicated_Send (adapters E) late mth data d w),
       dp_Shutdown = (\<lambda>(d, w). Dedicated_Shutdown (adapters E) late d w) \<rparr>"

text \<open>\<open>NewRuntime\<close> with the RPC interface.\<close>

definition NewRuntime_rpc ::
  "'c outside \<Rightarrow> bool \<Rightarrow> SupervisorConfig \<Rightarrow> go_error + 'c rpc_runtime \<times> nat DedicatedDispatcher" where
  "NewRuntime_rpc E late config =
     (case NewDedicatedDispatcher None config of
        Inl err \<Rightarrow> Inl err
      | Inr d \<Rightarrow> Inr (\<lparr> rt_dispatcher = dedicated_backend E late \<rparr>, d))"

section \<open>A started RPC runtime\<close>

text \<open>
  The dispatcher holds the worker \<open>a\<close>, an RPC adapter; the adapters and the contexts do not change.
\<close>

definition rpc_ready :: "nat DedicatedDispatcher \<Rightarrow> nat \<Rightarrow> (nat, 'c adapter) fmap \<Rightarrow> nat set \<Rightarrow> 'c rpc_world \<Rightarrow> bool" where
  "rpc_ready d a as live dw \<longleftrightarrow> fst dw = d \<and> ws_persistent (dd_supervisor d) \<and> ws_workerRef (dd_supervisor d) = Some a \<and>
     contexts_ok (snd dw) \<and> live_contexts (snd dw) = live \<and> aw_adapters (snd dw) = as \<and>
     (\<exists>r. fmlookup as a = Some (RpcAdapter r))"

lemma rpc_ready_send:
  assumes "rpc_ready d a as live dw"
  shows "\<exists>r dw'. Runtime_Handle \<lparr> rt_dispatcher = dedicated_backend E late \<rparr> msg dw = Some (Ret r, dw') \<and> rpc_ready d a as live dw'"
proof -
  obtain w r where dw: "dw = (d, w)" and h: "ws_persistent (dd_supervisor d)" "ws_workerRef (dd_supervisor d) = Some a"
    and a: "fmlookup (aw_adapters w) a = Some (RpcAdapter r)"
    using assms unfolding rpc_ready_def by (cases dw) auto
  let ?res = "rpcAdapter_Send (ou_call E (aw_clock w)) (er_Command msg) (er_Data msg) r"
  have sd: "Supervisor_Send (adapters E) (er_Command msg) (er_Data msg) (dd_supervisor d) w =
      Some (\<lparr> so_result = Some (case ?res of Inl _ \<Rightarrow> None | Inr m \<Rightarrow> m, NoopRelease),
              so_err = (case ?res of Inl err \<Rightarrow> Some err | Inr _ \<Rightarrow> None) \<rparr>, dd_supervisor d, tick w)"
    using h a by (simp add: Supervisor_Send_def acquireWorker_def releaseWorker_def adapters_def adapter_Send_def)
  have "\<exists>x. Dedicated_Send (adapters E) late (er_Command msg) (er_Data msg) d w = Some (Ret x, d, tick w)"
    using sd by (cases ?res) (simp_all add: Dedicated_Send_def run_release_def)
  moreover have "rpc_ready d a as live (d, tick w)"
    using assms by (simp add: rpc_ready_def dw tick_def contexts_ok_def live_contexts_def)
  ultimately show ?thesis by (auto simp: Runtime_Handle_def dedicated_backend_def dw)
qed

text \<open>
  The HTTP layer acts on a runtime whose calls return; any extension of the RPC runtime to one is the
  RPC runtime in the worlds that are ready.
\<close>

definition extends_runtime :: "'w runtime \<Rightarrow> ('w, 'o, ((go_error + gomap) go \<times> 'w) option) EvaluationRuntime \<Rightarrow> bool" where
  "extends_runtime rt r \<longleftrightarrow> (\<forall>msg w out. Runtime_Handle r msg w = Some out \<longrightarrow> rt msg w = out)"

definition rpc_extension :: "'c outside \<Rightarrow> bool \<Rightarrow> 'c rpc_world runtime" where
  "rpc_extension E late msg w =
     (case Runtime_Handle \<lparr> rt_dispatcher = dedicated_backend E late \<rparr> msg w of
        Some out \<Rightarrow> out | None \<Rightarrow> (Ret (Inr None), w))"

lemma rpc_extension_extends: "extends_runtime (rpc_extension E late) \<lparr> rt_dispatcher = dedicated_backend E late \<rparr>"
  by (simp add: extends_runtime_def rpc_extension_def)

lemma ready_service:
  assumes "extends_runtime rt \<lparr> rt_dispatcher = dedicated_backend E late \<rparr>"
  shows "runtime_service rt (rpc_ready d a as live)"
proof
  fix dw msg
  assume "rpc_ready d a as live dw"
  from rpc_ready_send [OF this, of E late msg] assms
  show "returns (fst (rt msg dw))" and "rpc_ready d a as live (snd (rt msg dw))"
    unfolding extends_runtime_def by fastforce+
qed

lemma dedicated_started:
  assumes ok: "contexts_ok w0" and rpc: "io_Interface (cfg_IO config) = RpcIO"
    and start: "Dedicated_Start (adapters E) \<lparr> dd_supervisor = New config \<rparr> w0 = Some (None, d1, w1)"
  shows "aw_next w0 \<notin> live_contexts w0 \<and>
    rpc_ready d1 (aw_next w0) (aw_adapters w1) (insert (aw_next w0) (live_contexts w0)) (d1, w1)"
proof -
  let ?s0 = "New config :: nat WorkerSupervisor"
  have p: "ws_persistent ?s0" "ws_workerRef ?s0 = None" "ws_config ?s0 = config" using rpc by (simp_all add: New_def)
  from start obtain s1 where ss: "Supervisor_Start (adapters E) ?s0 w0 = Some (None, s1, w1)" and d1: "d1 = \<lparr> dd_supervisor = s1 \<rparr>"
    by (auto simp: Dedicated_Start_def bind_eq_Some_conv)
  from persistent_start [OF p(1) ss] obtain r where "acquireWorker (adapters E) ?s0 w0 = Some (r, s1, w1)"
    "None = (case r of Inl err \<Rightarrow> Some (Wrapped ''failed to start worker'' (Some err)) | Inr _ \<Rightarrow> None)" by blast
  then obtain a where aq: "acquireWorker (adapters E) ?s0 w0 = Some (Inr a, s1, w1)" by (cases r) auto
  have l: "contexts_ok w1" "ws_persistent s1" "ws_workerRef s1 = Some a" "a \<notin> live_contexts w0"
      "live_contexts w1 = insert a (live_contexts w0)"
    using adapters.acquire_live [OF ok aq] p by simp_all
  have "a = aw_next w0 \<and> (\<exists>r. fmlookup (aw_adapters w1) a = Some (RpcAdapter r))"
    using aq p rpc
    by (auto simp: acquireWorker_def bootWorker_def createWorker_def adapter_op_defs Let_def io_defs
        defaultAdapterFactory_def bind_eq_Some_conv split: option.splits)
  with l d1 show ?thesis by (auto simp: rpc_ready_def)
qed

section \<open>Properties\<close>


text \<open>An RPC worker that answers with the data it gets, and requests on three routes.\<close>

definition echo_handler :: "(jschema, unit rpc_world) RuntimeHandler" where
  "echo_handler = \<lparr> rh_runtime = rpc_extension (sample_outside False) False, rh_schemas = rh_schemas sample_handler,
     rh_validator = plain_validator \<rparr>"

lemma echo_handler_new:
  "NewRuntimeHandler plain_compile plain_validator (rpc_extension (sample_outside False) False) = Inr echo_handler"
  by (simp add: NewRuntimeHandler_def NewRequestSchema_def NewResponseSchema_def plain_compile_def
      echo_handler_def sample_handler_def)

lemma rpc_started_dedicated:
  "\<exists>d1 w1. Dedicated_Start (adapters (sample_outside False)) \<lparr> dd_supervisor = rpc_supervisor \<rparr> empty_world = Some (None, d1, w1) \<and>
     d1 = \<lparr> dd_supervisor = fst rpc_started \<rparr> \<and> w1 = snd rpc_started"
  by (simp add: Dedicated_Start_def Supervisor_Start_def rpc_started_def rpc_supervisor_def sample_run_simps rpcAdapter_Start_def
      Start_def NewProcessWorker_def pipe_check_def dialRpc_def dial_at_once)


end
