(* ===== verification/Config.thy ===== *)
theory Config
  imports Go_Errors Supervisor
begin

text \<open>
  Configuration: \<^verbatim>\<open>util/conf\<close> (the layers and their order), \<^verbatim>\<open>util/cliflags\<close> (the layer of the
  command line flags), \<^verbatim>\<open>config/config.go\<close> and the flags of \<^verbatim>\<open>cmd/root.go\<close>.  The koanf library is a
  parameter: loading a layer into a configuration, and looking up a dotted key.
\<close>

section \<open>Flags\<close>

datatype flag_kind =
    StringFlag | StringSliceFlag | PathFlag | IntFlag | IntSliceFlag | Int64Flag | Int64SliceFlag
  | BoolFlag | Float64Flag | Float64SliceFlag | DurationFlag | OtherFlag string

datatype conf_value =
    VString string
  | VStrings "string list"
  | VInt int
  | VInts "int list"
  | VBool bool
  | VFloat rat
  | VFloats "rat list"
  | VDuration int

text \<open>
  A flag as the cli package holds it.  \<open>fl_Value\<close> is the field \<^verbatim>\<open>Value\<close>: the default, or the value of
  the environment variable; the command line does not change it.
\<close>

record cli_flag =
  fl_Names :: "string list"
  fl_Kind :: flag_kind
  fl_Value :: conf_value

text \<open>
  A context of the cli package: the flags of the app and of the command, and the values its typed
  accessors give for a name (from the command line, else the environment, else the default).
\<close>

record cli_context =
  cx_app_flags :: "cli_flag list"
  cx_command_flags :: "cli_flag list"
  cx_String :: "string \<Rightarrow> string"
  cx_StringSlice :: "string \<Rightarrow> string list"
  cx_Path :: "string \<Rightarrow> string"
  cx_Int :: "string \<Rightarrow> int"
  cx_IntSlice :: "string \<Rightarrow> int list"
  cx_Int64 :: "string \<Rightarrow> int"
  cx_Int64Slice :: "string \<Rightarrow> int list"
  cx_Bool :: "string \<Rightarrow> bool"
  cx_Float64 :: "string \<Rightarrow> rat"
  cx_Float64Slice :: "string \<Rightarrow> rat list"

definition flag_name :: "cli_flag \<Rightarrow> string" where
  "flag_name f = fl_Names f ! 0"

definition getFlagValue :: "cli_context \<Rightarrow> cli_flag \<Rightarrow> go_error + conf_value" where
  "getFlagValue ctx flag =
     (let name = flag_name flag
      in case fl_Kind flag of
           StringFlag \<Rightarrow> Inr (VString (cx_String ctx name))
         | StringSliceFlag \<Rightarrow> Inr (VStrings (cx_StringSlice ctx name))
         | PathFlag \<Rightarrow> Inr (VString (cx_Path ctx name))
         | IntFlag \<Rightarrow> Inr (VInt (cx_Int ctx name))
         | IntSliceFlag \<Rightarrow> Inr (VInts (cx_IntSlice ctx name))
         | Int64Flag \<Rightarrow> Inr (VInt (cx_Int64 ctx name))
         | Int64SliceFlag \<Rightarrow> Inr (VInts (cx_Int64Slice ctx name))
         | BoolFlag \<Rightarrow> Inr (VBool (cx_Bool ctx name))
         | Float64Flag \<Rightarrow> Inr (VFloat (cx_Float64 ctx name))
         | Float64SliceFlag \<Rightarrow> Inr (VFloats (cx_Float64Slice ctx name))
         | DurationFlag \<Rightarrow> Inr (fl_Value flag)
         | OtherFlag ty \<Rightarrow> Inl (ErrorString (''unsupported flag type '' @ ty)))"

text \<open>The flags by name: those of the command replace those of the app.\<close>

definition flag_table :: "cli_context \<Rightarrow> (string, cli_flag) fmap" where
  "flag_table ctx =
     fold (\<lambda>f. fmupd (flag_name f) f) (cx_command_flags ctx)
       (fold (\<lambda>f. fmupd (flag_name f) f) (cx_app_flags ctx) fmempty)"

text \<open>
  The layer of the flags, by dotted key.  The code ranges over a map in any order; where two flags
  have the same key the last one visited would count, here the last in the order of the names.
\<close>

definition cliflags_Provider :: "cli_context \<Rightarrow> (string \<Rightarrow> string) \<Rightarrow> (string, conf_value) fmap" where
  "cliflags_Provider ctx cb =
     fold (\<lambda>(name, flag). case getFlagValue ctx flag of Inl _ \<Rightarrow> id | Inr v \<Rightarrow> fmupd (cb name) v)
       (sorted_members (flag_table ctx)) fmempty"

section \<open>Layers\<close>

definition MergeDefaults :: "string \<Rightarrow> (string, 'v) fmap list \<Rightarrow> (string, 'v) fmap" where
  "MergeDefaults ns maps =
     fold (\<lambda>m merged. fold (\<lambda>(key, val). fmupd (ns @ ''.'' @ key) val) (sorted_members m) merged) maps fmempty"

definition transformEnv :: "string \<Rightarrow> string \<Rightarrow> string" where
  "transformEnv s pre =
     (let normalized = ReplaceAll (ToLower s) ''__'' ''.'';
          parts = Split normalized (CHR ''.'')
      in Join (if pre \<noteq> [] then tl parts else parts) ''.'')"

text \<open>
  The environment provider: the variables with the prefix, by transformed name; a name that
  becomes empty is left out.
\<close>

definition env_layer :: "string \<Rightarrow> (string \<times> string) list \<Rightarrow> (string, conf_value) fmap" where
  "env_layer pre environ =
     fold (\<lambda>(k, v). if HasPrefix k pre \<and> transformEnv k pre \<noteq> [] then fmupd (transformEnv k pre) (VString v) else id)
       environ fmempty"

definition transformFlag :: "(string, string) fmap option \<Rightarrow> string \<Rightarrow> string" where
  "transformFlag cliMap s =
     (case Option.bind cliMap (\<lambda>m. fmlookup m s) of
        Some name \<Rightarrow> name
      | None \<Rightarrow> ReplaceAll (ToLower s) ''-'' ''_'')"

record ParseOptions =
  pa_Cli :: "cli_context option"
  pa_CliMap :: "(string, string) fmap option"
  pa_Defaults :: "(string, conf_value) fmap option"
  pa_EnvPrefix :: string
  pa_FileName :: string

text \<open>
  The koanf library: the empty configuration, loading a layer, and the result of unmarshalling.
  The outcome of reading the configuration file is an argument.
\<close>

record ('k, 'c) koanf =
  ko_New :: 'k
  ko_Load :: "(string, conf_value) fmap \<Rightarrow> 'k \<Rightarrow> 'k"
  ko_Get :: "'k \<Rightarrow> string \<Rightarrow> conf_value option"
  ko_Unmarshal :: "'k \<Rightarrow> go_error + 'c"

definition load_layers ::
  "('k, 'c) koanf \<Rightarrow> (string, conf_value) fmap \<Rightarrow> (string \<times> string) list \<Rightarrow> ParseOptions \<Rightarrow> 'k" where
  "load_layers K file_conf environ opt =
     (let k1 = (case pa_Defaults opt of None \<Rightarrow> ko_New K | Some d \<Rightarrow> ko_Load K d (ko_New K));
          k2 = (if pa_FileName opt \<noteq> [] then ko_Load K file_conf k1 else k1);
          k3 = ko_Load K (env_layer (pa_EnvPrefix opt) environ) k2
      in case pa_Cli opt of
           None \<Rightarrow> k3
         | Some ctx \<Rightarrow> ko_Load K (cliflags_Provider ctx (transformFlag (pa_CliMap opt))) k3)"

definition Parse ::
  "('k, 'c) koanf \<Rightarrow> go_error + (string, conf_value) fmap \<Rightarrow> (string \<times> string) list \<Rightarrow> ParseOptions \<Rightarrow> go_error + 'c" where
  "Parse K file_read environ opt =
     (case (if pa_FileName opt = [] then Inr fmempty else file_read) of
        Inl err \<Rightarrow> Inl (Wrapped (''error parsing file '' @ [CHR 0x27] @ pa_FileName opt @ [CHR 0x27]) (Some err))
      | Inr file_conf \<Rightarrow>
         (case ko_Unmarshal K (load_layers K file_conf environ opt) of
            Inl err \<Rightarrow> Inl (Wrapped ''error unmarshalling config'' (Some err))
          | Inr config \<Rightarrow> Inr config))"

section \<open>The configuration of the application\<close>

record ExecutionConfig =
  ec_MaxWorkers :: int
  ec_Supervisor :: SupervisorConfig

record AuthConfig =
  ac_Key :: string

record AppConfig =
  ap_LogLevel :: string
  ap_LogFormat :: string
  ap_Runtime :: ExecutionConfig
  ap_Auth :: AuthConfig

definition root_cliMap :: "(string \<times> string) list" where
  "root_cliMap =
     [(''auth-key'', ''auth.key''), (''max-workers'', ''runtime.max_workers''), (''command'', ''runtime.cmd''),
      (''cwd'', ''runtime.cwd''), (''arg'', ''runtime.arg''), (''env'', ''runtime.env''),
      (''interface'', ''runtime.io.interface''), (''rpc-transport'', ''runtime.io.rpc.transport''),
      (''rpc-transport-ipc-endpoint'', ''runtime.io.rpc.ipc.endpoint''),
      (''rpc-transport-http-url'', ''runtime.io.rpc.http.url''),
      (''rpc-transport-ws-url'', ''runtime.io.rpc.ws.url''),
      (''rpc-transport-tcp-address'', ''runtime.io.rpc.tcp.address''),
      (''worker-send-timeout'', ''runtime.send.timeout''), (''worker-stop-timeout'', ''runtime.stop.timeout'')]"

definition root_options :: "cli_context \<Rightarrow> ParseOptions" where
  "root_options ctx =
     \<lparr> pa_Cli = Some ctx, pa_CliMap = Some (fmap_of_list root_cliMap), pa_Defaults = None, pa_EnvPrefix = [],
       pa_FileName = [] \<rparr>"

definition parseRootConfig ::
  "('k, AppConfig) koanf \<Rightarrow> (string \<times> string) list \<Rightarrow> cli_context \<Rightarrow> go_error + AppConfig" where
  "parseRootConfig K environ ctx = Parse K (Inr fmempty) environ (root_options ctx)"

text \<open>The flags of the root command that carry configuration, with the default of each.\<close>

definition second :: int where "second = 1000000000"

definition root_flags :: "cli_flag list" where
  "root_flags = map (\<lambda>(ns, kind, v). \<lparr> fl_Names = ns, fl_Kind = kind, fl_Value = v \<rparr>)
     [([''log-level''], StringFlag, VString []),
      ([''log-format''], StringFlag, VString []),
      ([''auth-key''], StringFlag, VString []),
      ([''interface'', ''i''], StringFlag, VString ''rpc''),
      ([''command'', ''c''], StringFlag, VString []),
      ([''cwd'', ''d''], StringFlag, VString []),
      ([''arg'', ''a''], StringSliceFlag, VStrings []),
      ([''env'', ''e''], StringSliceFlag, VStrings []),
      ([''max-workers'', ''n''], IntFlag, VInt 0),
      ([''worker-stop-timeout''], DurationFlag, VDuration (5 * second)),
      ([''worker-send-timeout''], DurationFlag, VDuration (30 * second)),
      ([''rpc-transport'', ''t''], StringFlag, VString ''stdio''),
      ([''rpc-transport-ipc-endpoint''], StringFlag, VString []),
      ([''rpc-transport-http-url''], StringFlag, VString ''http://127.0.0.1:7321''),
      ([''rpc-transport-ws-url''], StringFlag, VString ''ws://127.0.0.1:7321''),
      ([''rpc-transport-tcp-address''], StringFlag, VString ''127.0.0.1:7321'')]"

definition serve_flags :: "cli_flag list" where
  "serve_flags = map (\<lambda>(ns, kind, v). \<lparr> fl_Names = ns, fl_Kind = kind, fl_Value = v \<rparr>)
     [([''host'', ''H''], StringFlag, VString ''0.0.0.0''), ([''port'', ''P''], IntFlag, VInt 8080),
      ([''h2c''], BoolFlag, VBool False)]"

definition lambda_flags :: "cli_flag list" where
  "lambda_flags = [\<lparr> fl_Names = [''lambda-proxy-source''], fl_Kind = StringFlag, fl_Value = VString ''API_GW_V2'' \<rparr>]"

text \<open>The flags of the cli package: its help flag, and the version flag the program replaces.\<close>

definition library_flags :: "cli_flag list" where
  "library_flags = [\<lparr> fl_Names = [''help'', ''h''], fl_Kind = BoolFlag, fl_Value = VBool False \<rparr>,
     \<lparr> fl_Names = [''version''], fl_Kind = BoolFlag, fl_Value = VBool False \<rparr>]"

end
