(* ===== verification/Config_Contract.thy ===== *)
theory Config_Contract
  imports Config
begin

text \<open>
  What the configuration is made of: for the flags of this program the layer of the command line
  decides every key it has, over the environment and the file.
\<close>

section \<open>Folding updates\<close>

definition put :: "('x \<Rightarrow> ('k \<times> 'v) option) \<Rightarrow> 'x \<Rightarrow> ('k, 'v) fmap \<Rightarrow> ('k, 'v) fmap" where
  "put g x m = (case g x of None \<Rightarrow> m | Some (k, v) \<Rightarrow> fmupd k v m)"

lemma fold_put_other:
  "\<forall>x \<in> set xs. \<forall>v. g x \<noteq> Some (p, v) \<Longrightarrow> fmlookup (fold (put g) xs m) p = fmlookup m p"
  by (induction xs arbitrary: m) (auto simp: put_def split: option.splits)

lemma fold_put_some:
  assumes "\<exists>x \<in> set xs. g x = Some (p, v)" and "\<And>y w. y \<in> set xs \<Longrightarrow> g y = Some (p, w) \<Longrightarrow> w = v"
  shows "fmlookup (fold (put g) xs m) p = Some v"
  using assms
proof (induction xs arbitrary: m)
  case (Cons y xs)
  show ?case
  proof (cases "\<exists>z \<in> set xs. g z = Some (p, v)")
    case True
    have "fmlookup (fold (put g) xs (put g y m)) p = Some v"
      by (rule Cons.IH [OF True]) (use Cons.prems(2) in auto)
    then show ?thesis by simp
  next
    case False
    with Cons.prems have "g y = Some (p, v)" and "\<forall>z \<in> set xs. \<forall>w. g z \<noteq> Some (p, w)" by auto
    moreover from this have "put g y m = fmupd p v m" by (simp add: put_def)
    ultimately show ?thesis by (simp add: fold_put_other)
  qed
qed simp

section \<open>The layer of the flags\<close>

lemma flag_table_put:
  "flag_table ctx = fold (put (\<lambda>f. Some (flag_name f, f))) (cx_app_flags ctx @ cx_command_flags ctx) fmempty"
proof -
  have "put (\<lambda>f. Some (flag_name f, f)) = (\<lambda>f. fmupd (flag_name f) f)"
    by (simp add: put_def fun_eq_iff)
  then show ?thesis by (simp add: flag_table_def)
qed

lemma flag_table_names:
  assumes "fmlookup (flag_table ctx) n = Some f"
  shows "n \<in> flag_name ` set (cx_app_flags ctx @ cx_command_flags ctx)"
proof (rule ccontr)
  assume "n \<notin> flag_name ` set (cx_app_flags ctx @ cx_command_flags ctx)"
  then have "fmlookup (flag_table ctx) n = fmlookup fmempty n"
    unfolding flag_table_put by (intro fold_put_other) auto
  with assms show False by simp
qed

definition flag_entry :: "cli_context \<Rightarrow> (string \<Rightarrow> string) \<Rightarrow> string \<times> cli_flag \<Rightarrow> (string \<times> conf_value) option" where
  "flag_entry ctx cb = (\<lambda>(n, f). case getFlagValue ctx f of Inl _ \<Rightarrow> None | Inr v \<Rightarrow> Some (cb n, v))"

lemma provider_put:
  "cliflags_Provider ctx cb = fold (put (flag_entry ctx cb)) (sorted_members (flag_table ctx)) fmempty"
  unfolding cliflags_Provider_def
  by (rule fold_cong) (auto simp: put_def flag_entry_def fun_eq_iff split: sum.splits)

lemma in_sorted_members: "(k, v) \<in> set (sorted_members m) \<longleftrightarrow> fmlookup m k = Some v"
  using map_of_sorted_members [of m] distinct_sorted_members [of m] by (metis map_of_eq_Some_iff)

lemma provider_lookup:
  assumes "fmlookup (flag_table ctx) n = Some f" and "getFlagValue ctx f = Inr v"
    and "inj_on cb (fmdom' (flag_table ctx))"
  shows "fmlookup (cliflags_Provider ctx cb) (cb n) = Some v"
  unfolding provider_put
proof (rule fold_put_some)
  show "\<exists>x \<in> set (sorted_members (flag_table ctx)). flag_entry ctx cb x = Some (cb n, v)"
    using assms(1,2) by (intro bexI [of _ "(n, f)"]) (simp_all add: flag_entry_def in_sorted_members)
  show "w = v" if "y \<in> set (sorted_members (flag_table ctx))" "flag_entry ctx cb y = Some (cb n, w)" for y w
  proof -
    obtain n' f' where y: "y = (n', f')" by (cases y)
    with that have "fmlookup (flag_table ctx) n' = Some f'" "getFlagValue ctx f' = Inr w" "cb n' = cb n"
      by (auto simp: in_sorted_members flag_entry_def split: sum.splits)
    with assms show "w = v" by (metis fmdom'I inj_onD option.inject sum.inject(2))
  qed
qed

lemma provider_keys: "fmdom' (cliflags_Provider ctx cb) \<subseteq> cb ` fmdom' (flag_table ctx)"
proof
  fix p
  assume p: "p \<in> fmdom' (cliflags_Provider ctx cb)"
  show "p \<in> cb ` fmdom' (flag_table ctx)"
  proof (rule ccontr)
    assume "p \<notin> cb ` fmdom' (flag_table ctx)"
    then have "fmlookup (cliflags_Provider ctx cb) p = fmlookup fmempty p"
      unfolding provider_put
      by (intro fold_put_other) (auto simp: flag_entry_def in_sorted_members split: sum.splits dest!: fmdom'I)
    with p show False by (simp add: fmlookup_dom'_iff)
  qed
qed

section \<open>The library\<close>

text \<open>Two dotted keys clash when they are equal or one is a part of the other's path.\<close>

definition clash :: "string \<Rightarrow> string \<Rightarrow> bool" where
  "clash p q \<longleftrightarrow> p = q \<or> HasPrefix q (p @ ''.'') \<or> HasPrefix p (q @ ''.'')"

text \<open>
  The documented order of koanf: a key the layer gives has the layer's value, and a key that
  clashes with none of the layer's is as before.
\<close>

definition koanf_conforms :: "('k, 'c) koanf \<Rightarrow> bool" where
  "koanf_conforms K \<longleftrightarrow>
     (\<forall>l k p v. fmlookup l p = Some v \<longrightarrow> (\<forall>q \<in> fmdom' l. q \<noteq> p \<longrightarrow> \<not> clash p q) \<longrightarrow> ko_Get K (ko_Load K l k) p = Some v) \<and>
     (\<forall>l k p. (\<forall>q \<in> fmdom' l. \<not> clash p q) \<longrightarrow> ko_Get K (ko_Load K l k) p = ko_Get K k p)"

definition no_clash :: "string list \<Rightarrow> bool" where
  "no_clash ps \<longleftrightarrow> (\<forall>p \<in> set ps. \<forall>q \<in> set ps. clash p q \<longrightarrow> p = q)"

lemma flags_decide:
  assumes "koanf_conforms K" and "pa_Cli opt = Some ctx"
    and f: "fmlookup (flag_table ctx) n = Some f" and v: "getFlagValue ctx f = Inr v"
    and names: "fmdom' (flag_table ctx) \<subseteq> set ns"
    and keys: "distinct (map (transformFlag (pa_CliMap opt)) ns)" and apart: "no_clash (map (transformFlag (pa_CliMap opt)) ns)"
  shows "ko_Get K (load_layers K file_conf environ opt) (transformFlag (pa_CliMap opt) n) = Some v"
proof -
  let ?cb = "transformFlag (pa_CliMap opt)"
  have inj: "inj_on ?cb (fmdom' (flag_table ctx))"
    using keys names unfolding distinct_map by (blast intro: inj_on_subset)
  have val: "fmlookup (cliflags_Provider ctx ?cb) (?cb n) = Some v"
    by (rule provider_lookup [OF f v inj])
  have n: "?cb n \<in> set (map ?cb ns)" using fmdom'I [OF f] names by auto
  have "\<not> clash (?cb n) q" if "q \<in> fmdom' (cliflags_Provider ctx ?cb)" "q \<noteq> ?cb n" for q
  proof -
    have "q \<in> set (map ?cb ns)" using that(1) provider_keys [of ctx ?cb] names by auto
    with apart n that(2) show ?thesis unfolding no_clash_def by blast
  qed
  with val assms(1) have "ko_Get K (ko_Load K (cliflags_Provider ctx ?cb) k) (?cb n) = Some v" for k
    unfolding koanf_conforms_def by blast
  then show ?thesis by (simp add: load_layers_def assms(2) Let_def)
qed

section \<open>Properties\<close>

text \<open>The shape of a list of flags: names and kinds, without the values.\<close>

definition flag_shape :: "cli_flag list \<Rightarrow> (string list \<times> flag_kind) list" where
  "flag_shape fs = map (\<lambda>f. (fl_Names f, fl_Kind f)) fs"

text \<open>
  The flags of the program: those of the root command and of its commands, and the two the cli
  package adds.  The flags of a context are some of them; the hook \<open>Before\<close> runs with the root
  command as its command, so there the flags of the app occur twice.
\<close>

definition program_flags :: "cli_flag list" where
  "program_flags = root_flags @ serve_flags @ lambda_flags @ library_flags"

lemma shape_member:
  assumes "set (flag_shape fs) \<subseteq> set (flag_shape gs)" and "f \<in> set fs"
  shows "\<exists>g \<in> set gs. flag_name g = flag_name f \<and> fl_Kind g = fl_Kind f"
proof -
  have "(fl_Names f, fl_Kind f) \<in> set (flag_shape gs)" using assms by (auto simp: flag_shape_def)
  then show ?thesis by (auto simp: flag_shape_def flag_name_def)
qed

lemma flag_table_in:
  assumes "fmlookup (flag_table ctx) n = Some f"
  shows "f \<in> set (cx_app_flags ctx @ cx_command_flags ctx) \<and> flag_name f = n"
proof -
  have "\<forall>k v. fmlookup (fold (put (\<lambda>f. Some (flag_name f, f))) fs m) k = Some v \<longrightarrow>
      v \<in> set fs \<and> flag_name v = k \<or> fmlookup m k = Some v" for fs m
    by (induction fs arbitrary: m) (fastforce simp: put_def split: if_splits)+
  with assms show ?thesis unfolding flag_table_put by fastforce
qed

text \<open>
  Every configuration key that has a flag gets the flag's value, whatever the environment's
  nested variables say and whether the flag was given or not; and a duration flag contributes
  its default or environment value, never what the command line gave.
\<close>

theorem flags_decide_config:
  assumes "koanf_conforms K"
    and "set (flag_shape (cx_app_flags ctx @ cx_command_flags ctx)) \<subseteq> set (flag_shape program_flags)"
    and "fmlookup (flag_table ctx) name = Some f"
  shows "\<exists>v. getFlagValue ctx f = Inr v \<and> (fl_Kind f = DurationFlag \<longrightarrow> v = fl_Value f) \<and>
    ko_Get K (load_layers K file_conf environ (root_options ctx))
      (transformFlag (pa_CliMap (root_options ctx)) name) = Some v"
proof -
  let ?ns = "map flag_name program_flags"
  let ?cb = "transformFlag (Some (fmap_of_list root_cliMap))"
  have c: "distinct (map ?cb ?ns)" "no_clash (map ?cb ?ns)"
    "list_all (\<lambda>g. case fl_Kind g of OtherFlag t \<Rightarrow> False | _ \<Rightarrow> True) program_flags"
    unfolding no_clash_def by code_simp+
  have names: "fmdom' (flag_table ctx) \<subseteq> set ?ns"
    using shape_member [OF assms(2)] flag_table_in [of ctx] by (fastforce simp: fmlookup_dom'_iff)
  have "fl_Kind f \<noteq> OtherFlag t" for t
    using shape_member [OF assms(2), of f] flag_table_in [OF assms(3)] c(3) by (fastforce simp: list_all_iff)
  then obtain v where v: "getFlagValue ctx f = Inr v" "fl_Kind f = DurationFlag \<longrightarrow> v = fl_Value f"
    by (cases "fl_Kind f") (auto simp: getFlagValue_def Let_def)
  have "ko_Get K (load_layers K file_conf environ (root_options ctx))
      (transformFlag (pa_CliMap (root_options ctx)) name) = Some v"
    by (rule flags_decide [OF assms(1) _ assms(3) v(1) names])
      (use c in \<open>simp_all only: root_options_def ParseOptions.simps\<close>)
  with v show ?thesis by blast
qed

text \<open>A library of nested layers over dotted keys, and the flags of \<^verbatim>\<open>serve\<close> with their defaults.\<close>

definition plain_koanf :: "(string \<Rightarrow> conf_value option, unit) koanf" where
  "plain_koanf = \<lparr> ko_New = (\<lambda>p. None),
     ko_Load = (\<lambda>l k p. case fmlookup l p of Some v \<Rightarrow> Some v | None \<Rightarrow> if \<exists>q \<in> fmdom' l. clash p q then None else k p),
     ko_Get = (\<lambda>k p. k p), ko_Unmarshal = (\<lambda>k. Inr ()) \<rparr>"

lemma plain_koanf_conforms: "koanf_conforms plain_koanf"
  unfolding koanf_conforms_def
proof (intro conjI allI impI)
  show "ko_Get plain_koanf (ko_Load plain_koanf l k) p = ko_Get plain_koanf k p"
    if "\<forall>q \<in> fmdom' l. \<not> clash p q" for l k p
  proof -
    have "clash p p" by (simp add: clash_def)
    with that have "fmlookup l p = None" by (meson fmdom'_notD)
    with that show ?thesis by (simp add: plain_koanf_def)
  qed
qed (simp add: plain_koanf_def)

definition plain_context :: cli_context where
  "plain_context = \<lparr> cx_app_flags = root_flags @ library_flags, cx_command_flags = root_flags @ library_flags,
     cx_String = (\<lambda>n. if n = ''command'' then ''python'' else []), cx_StringSlice = (\<lambda>n. []), cx_Path = (\<lambda>n. []),
     cx_Int = (\<lambda>n. 0), cx_IntSlice = (\<lambda>n. []), cx_Int64 = (\<lambda>n. 0), cx_Int64Slice = (\<lambda>n. []),
     cx_Bool = (\<lambda>n. False), cx_Float64 = (\<lambda>n. 0), cx_Float64Slice = (\<lambda>n. []) \<rparr>"

theorem flags_decide_config_witness:
  "ko_Get plain_koanf (load_layers plain_koanf fmempty [(''RUNTIME__SEND__TIMEOUT'', ''10s'')] (root_options plain_context))
     ''runtime.send.timeout'' = Some (VDuration 30000000000)"
proof -
  let ?f = "\<lparr> fl_Names = [''worker-send-timeout''], fl_Kind = DurationFlag, fl_Value = VDuration (30 * second) \<rparr>"
  have f: "fmlookup (flag_table plain_context) ''worker-send-timeout'' = Some ?f" by code_simp
  have s: "set (flag_shape (cx_app_flags plain_context @ cx_command_flags plain_context)) \<subseteq> set (flag_shape program_flags)"
    by (auto simp: plain_context_def program_flags_def flag_shape_def)
  have k: "transformFlag (pa_CliMap (root_options plain_context)) ''worker-send-timeout'' = ''runtime.send.timeout''" by code_simp
  show ?thesis
    using flags_decide_config [OF plain_koanf_conforms s f, of fmempty "[(''RUNTIME__SEND__TIMEOUT'', ''10s'')]"]
    unfolding k by (simp add: second_def)
qed

end
