(* ===== verification/Command.thy ===== *)
theory Command
  imports Config Http
begin

text \<open>
  The command line program: the actions of \<^verbatim>\<open>cmd\<close>, the application of \<^verbatim>\<open>app\<close>, the shell that runs it
  (\<^verbatim>\<open>internal/shell\<close>), the logger and the configuration in the context (\<^verbatim>\<open>util/logging\<close>,
  \<^verbatim>\<open>util/conf\<close>), and \<^verbatim>\<open>main.go\<close>.  The dependency injection library fx is a parameter.
\<close>

section \<open>The context\<close>

text \<open>The values the program puts in its context.\<close>

record ('log, 'c) cli_values =
  cv_logger :: "'log option"
  cv_config :: "'c option"

definition LoggerFromContext :: "('log, 'c) cli_values \<Rightarrow> go_error + 'log" where
  "LoggerFromContext ctx = (case cv_logger ctx of
       Some logger \<Rightarrow> Inr logger
     | None \<Rightarrow> Inl (ErrorString ''no logger in context''))"

definition ContextWithLogger :: "('log, 'c) cli_values \<Rightarrow> 'log \<Rightarrow> ('log, 'c) cli_values" where
  "ContextWithLogger ctx logger = ctx\<lparr> cv_logger := Some logger \<rparr>"

text \<open>The program stores one type of configuration, so the assertion on the stored value holds.\<close>

definition GetConfigFromContext :: "('log, 'c) cli_values \<Rightarrow> go_error + 'c" where
  "GetConfigFromContext ctx = (case cv_config ctx of
       None \<Rightarrow> Inl (ErrorString ''config not found in context'')
     | Some config \<Rightarrow> Inr config)"

definition ContextWithConfig :: "('log, 'c) cli_values \<Rightarrow> 'c \<Rightarrow> ('log, 'c) cli_values" where
  "ContextWithConfig ctx config = ctx\<lparr> cv_config := Some config \<rparr>"

section \<open>The shell\<close>

text \<open>The error a run of the shell ends with: \<open>ShellExit\<close> for an \<open>ExitError\<close>.\<close>

datatype run_error = ShellExit int | RunError go_error

definition ExitError_Error :: "int \<Rightarrow> string" where
  "ExitError_Error code = ''shell exited with '' @ show_int code"

fun IsExitError :: "run_error option \<Rightarrow> bool" where
  "IsExitError None = False"
| "IsExitError (Some (ShellExit c)) = True"
| "IsExitError (Some (RunError e)) = False"

text \<open>
  The fx library: starting an application, waiting for the signal that ends it (with an exit code, 0
  for a signal of the operating system), and stopping it, on a world of type \<open>'w\<close>.
\<close>

record ('a, 'w) fx_ops =
  fx_Start :: "'a \<Rightarrow> 'w \<Rightarrow> go_error option \<times> 'w"
  fx_Wait :: "'a \<Rightarrow> 'w \<Rightarrow> int \<times> 'w"
  fx_Stop :: "'a \<Rightarrow> 'w \<Rightarrow> go_error option \<times> 'w"

text \<open>\<open>Run\<close> always returns an error.\<close>

definition Shell_Run :: "('a, 'w) fx_ops \<Rightarrow> 'a \<Rightarrow> 'w \<Rightarrow> run_error option \<times> 'w" where
  "Shell_Run fx fxApp w =
     (case fx_Start fx fxApp w of
        (Some err, w1) \<Rightarrow> (Some (ShellExit 1), w1)
      | (None, w1) \<Rightarrow>
         (let (exitCode, w2) = fx_Wait fx fxApp w1
          in case fx_Stop fx fxApp w2 of
               (Some err, w3) \<Rightarrow> (Some (ShellExit 1), w3)
             | (None, w3) \<Rightarrow> (Some (ShellExit exitCode), w3)))"

section \<open>The actions\<close>

text \<open>
  \<open>app.New\<close> needs the logger and the configuration; the application it gives is run with the module
  of the command.
\<close>

datatype 'c app_module = StandaloneModule HttpConfig 'c | LambdaModule string 'c

definition app_New :: "('log, 'c) cli_values \<Rightarrow> go_error + 'log \<times> 'c" where
  "app_New ctx = (case LoggerFromContext ctx of
       Inl err \<Rightarrow> Inl err
     | Inr lg \<Rightarrow> (case GetConfigFromContext ctx of Inl err \<Rightarrow> Inl err | Inr config \<Rightarrow> Inr (lg, config)))"

text \<open>
  \<open>run_app\<close> is the run of the shell on a module.  \<open>parsed\<close> is the outcome of parsing the command's
  own configuration.
\<close>

definition serveAction ::
  "('c app_module \<Rightarrow> run_error option) \<Rightarrow> go_error + HttpConfig \<Rightarrow> ('log, 'c) cli_values \<Rightarrow> run_error option" where
  "serveAction run_app parsed ctx =
     (case LoggerFromContext ctx of Inl err \<Rightarrow> Some (RunError err) | Inr lg \<Rightarrow>
     (case app_New ctx of Inl err \<Rightarrow> Some (RunError err) | Inr (_, config) \<Rightarrow>
     (case parsed of Inl err \<Rightarrow> Some (RunError err) | Inr cfg \<Rightarrow> run_app (StandaloneModule cfg config))))"

definition lambdaAction ::
  "('c app_module \<Rightarrow> run_error option) \<Rightarrow> go_error + string \<Rightarrow> ('log, 'c) cli_values \<Rightarrow> run_error option" where
  "lambdaAction run_app parsed ctx =
     (case LoggerFromContext ctx of Inl err \<Rightarrow> Some (RunError err) | Inr lg \<Rightarrow>
     (case app_New ctx of Inl err \<Rightarrow> Some (RunError err) | Inr (_, config) \<Rightarrow>
     (case parsed of Inl err \<Rightarrow> Some (RunError err) | Inr source \<Rightarrow> run_app (LambdaModule source config))))"

definition LookupEnv :: "(string \<times> string) list \<Rightarrow> string \<Rightarrow> string option" where
  "LookupEnv environ name = map_of environ name"

definition isAWSLambda :: "(string \<times> string) list \<Rightarrow> bool" where
  "isAWSLambda environ = (case LookupEnv environ ''AWS_LAMBDA_RUNTIME_API'' of Some env \<Rightarrow> env \<noteq> [] | None \<Rightarrow> False)"

definition runAction ::
  "('c app_module \<Rightarrow> run_error option) \<Rightarrow> (string \<times> string) list \<Rightarrow> go_error + HttpConfig \<Rightarrow> go_error + string
     \<Rightarrow> ('log, 'c) cli_values \<Rightarrow> run_error option" where
  "runAction run_app environ http source ctx =
     (case LoggerFromContext ctx of Inl err \<Rightarrow> Some (RunError err) | Inr lg \<Rightarrow>
      if isAWSLambda environ then lambdaAction run_app source ctx else serveAction run_app http ctx)"

section \<open>The root command\<close>

text \<open>
  The logger: the level and the format as chosen; building it is the library's, with an outcome
  given for each choice.
\<close>

datatype log_format = Production | Development

definition getLogFormatFromCLI :: "cli_context \<Rightarrow> string" where
  "getLogFormatFromCLI ctx = (if cx_String ctx ''log-format'' \<noteq> [] then cx_String ctx ''log-format'' else ''development'')"

definition getLogLevelFromCLI :: "(string \<Rightarrow> 'level option) \<Rightarrow> 'level \<Rightarrow> cli_context \<Rightarrow> 'level" where
  "getLogLevelFromCLI parse_level info ctx = (case parse_level (cx_String ctx ''log-level'') of Some l \<Rightarrow> l | None \<Rightarrow> info)"

definition createLogger ::
  "(string \<Rightarrow> 'level option) \<Rightarrow> 'level \<Rightarrow> (log_format \<Rightarrow> 'level \<Rightarrow> go_error + 'log) \<Rightarrow> cli_context \<Rightarrow> go_error + 'log" where
  "createLogger parse_level info build ctx =
     (let level = getLogLevelFromCLI parse_level info ctx;
          format = getLogFormatFromCLI ctx
      in if format = ''production'' then build Production level
         else if format = ''development'' then build Development level
         else Inl (ErrorString (''invalid log format: '' @ format)))"

text \<open>The hook \<open>Before\<close> of the root command: \<open>logger\<close> and \<open>config\<close> are the outcomes of the two calls.\<close>

definition root_Before ::
  "go_error + 'log \<Rightarrow> go_error + 'c \<Rightarrow> ('log, 'c) cli_values \<Rightarrow> go_error option \<times> ('log, 'c) cli_values" where
  "root_Before logger config ctx =
     (case logger of
        Inl err \<Rightarrow> (Some err, ctx)
      | Inr lg \<Rightarrow>
         (let ctx1 = ContextWithLogger ctx lg
          in case config of
               Inl err \<Rightarrow> (Some err, ctx1)
             | Inr cfg \<Rightarrow> (None, ContextWithConfig ctx1 cfg)))"

text \<open>
  \<open>run\<close>: the cli package calls \<open>Before\<close> and then the action; the status the process ends with.
  A return of \<open>run\<close> ends the process with status 0.
\<close>

datatype sub_command = RunCommand | ServeCommand | LambdaCommand

definition RunContext ::
  "sub_command \<Rightarrow> ('c app_module \<Rightarrow> run_error option) \<Rightarrow> (string \<times> string) list \<Rightarrow> go_error + HttpConfig \<Rightarrow> go_error + string
     \<Rightarrow> go_error + 'log \<Rightarrow> go_error + 'c \<Rightarrow> run_error option" where
  "RunContext cmd run_app environ http source logger config =
     (case root_Before logger config \<lparr> cv_logger = None, cv_config = None \<rparr> of
        (Some err, _) \<Rightarrow> Some (RunError err)
      | (None, ctx) \<Rightarrow>
         (case cmd of
            RunCommand \<Rightarrow> runAction run_app environ http source ctx
          | ServeCommand \<Rightarrow> serveAction run_app http ctx
          | LambdaCommand \<Rightarrow> lambdaAction run_app source ctx))"

definition cmd_run :: "run_error option \<Rightarrow> int" where
  "cmd_run err = (if err = None then 0 else 1)"

section \<open>The commands of the program\<close>

text \<open>A command and the application as the cli package holds them.\<close>

record cli_command =
  cc_Name :: string
  cc_Flags :: "cli_flag list"
  cc_Action :: sub_command

record cli_app =
  ca_Name :: string
  ca_HideHelpCommand :: bool
  ca_Args :: bool
  ca_DefaultCommand :: string
  ca_Flags :: "cli_flag list"
  ca_Commands :: "cli_command list"
  ca_Version :: string
  ca_Compiled :: int

definition rootApp :: cli_app where
  "rootApp = \<lparr> ca_Name = ''shimmy'', ca_HideHelpCommand = True, ca_Args = True, ca_DefaultCommand = ''run'',
     ca_Flags = root_flags, ca_Commands = [], ca_Version = [], ca_Compiled = 0 \<rparr>"

definition serveCmd :: cli_command where
  "serveCmd = \<lparr> cc_Name = ''serve'', cc_Flags = serve_flags, cc_Action = ServeCommand \<rparr>"

definition lambdaCmd :: cli_command where
  "lambdaCmd = \<lparr> cc_Name = ''lambda'', cc_Flags = lambda_flags, cc_Action = LambdaCommand \<rparr>"

definition runCmd :: cli_command where
  "runCmd = \<lparr> cc_Name = ''run'', cc_Flags = [], cc_Action = RunCommand \<rparr>"

text \<open>
  The functions \<open>init\<close> of the package, which Go runs in the order of the files' names.
\<close>

definition init_lambda :: "cli_app \<Rightarrow> cli_app" where
  "init_lambda app = app\<lparr> ca_Commands := ca_Commands app @ [lambdaCmd] \<rparr>"

definition init_run :: "cli_app \<Rightarrow> cli_app" where
  "init_run app =
     (let cmd = runCmd\<lparr> cc_Flags := cc_Flags runCmd @ cc_Flags serveCmd \<rparr>;
          cmd = cmd\<lparr> cc_Flags := cc_Flags cmd @ cc_Flags lambdaCmd \<rparr>
      in app\<lparr> ca_Commands := ca_Commands app @ [cmd] \<rparr>)"

definition init_serve :: "cli_app \<Rightarrow> cli_app" where
  "init_serve app = app\<lparr> ca_Commands := ca_Commands app @ [serveCmd] \<rparr>"

record ExecuteParams =
  ep_Version :: string
  ep_Compiled :: int

text \<open>The application that \<open>Execute\<close> runs.\<close>

definition Execute :: "ExecuteParams \<Rightarrow> cli_app" where
  "Execute params =
     (init_serve (init_run (init_lambda rootApp)))\<lparr> ca_Version := ep_Version params, ca_Compiled := ep_Compiled params \<rparr>"

text \<open>
  Names of loggers: the library joins the name of a logger and that of its child with a dot.
\<close>

definition NamedLogger :: "string \<Rightarrow> string \<Rightarrow> string" where
  "NamedLogger name parent = (if name = [] then parent else if parent = [] then name else parent @ ''.'' @ name)"

section \<open>Error reporting in main\<close>

text \<open>
  \<open>setupSentry\<close>: \<open>None\<close> when nothing is set up, else the options the library is initialised with.
\<close>

record sentry_options =
  so_Dsn :: string
  so_Debug :: bool
  so_Environment :: string

definition Getenv :: "(string \<times> string) list \<Rightarrow> string \<Rightarrow> string" where
  "Getenv environ name = (case LookupEnv environ name of Some v \<Rightarrow> v | None \<Rightarrow> [])"

definition setupSentry ::
  "(sentry_options \<Rightarrow> go_error option) \<Rightarrow> (string \<times> string) list \<Rightarrow> go_error option \<times> sentry_options option" where
  "setupSentry init environ =
     (let dsn = Getenv environ ''SENTRY_DSN''
      in if dsn = [] then (None, None)
         else let environment = Getenv environ ''SENTRY_ENVIRONMENT'';
                  options = \<lparr> so_Dsn = dsn, so_Debug = Truthy (ToLower (Getenv environ ''SENTRY_DEBUG'')),
                    so_Environment = (if environment = [] then ''local'' else environment) \<rparr>
              in (init options, Some options))"

text \<open>
  \<open>main\<close> up to the run of the command line: \<open>None\<close> where the process ends with status 1 because error
  reporting could not be set up, else the version the program gives itself.
\<close>

definition main_version :: "go_error option \<Rightarrow> string \<Rightarrow> string option" where
  "main_version sentry Version =
     (if sentry \<noteq> None then None else Some (if Version \<noteq> [] then Version else ''local''))"

text \<open>
  \<open>main\<close>: the application the program runs, where it runs one.  \<open>parse_time\<close> is \<^verbatim>\<open>time.Parse\<close>, which gives a
  time also with an error, and the error is not looked at.
\<close>

definition main_app ::
  "(sentry_options \<Rightarrow> go_error option) \<Rightarrow> (string \<Rightarrow> int \<times> go_error option) \<Rightarrow> (string \<times> string) list \<Rightarrow> string \<Rightarrow> string
     \<Rightarrow> cli_app option" where
  "main_app init parse_time environ Version Buildtime =
     (case main_version (fst (setupSentry init environ)) Version of
        None \<Rightarrow> None
      | Some appVersion \<Rightarrow>
         (let (appBuildtime, _) = parse_time Buildtime
          in Some (Execute \<lparr> ep_Version = appVersion, ep_Compiled = appBuildtime \<rparr>)))"

text \<open>
  \<open>Must\<close> of \<^verbatim>\<open>util/must.go\<close>, and \<open>IsProcessAlive\<close> of \<^verbatim>\<open>util/proc.go\<close> on the outcome of \<^verbatim>\<open>ps\<close>: \<open>Inr\<close>
  an exit code, \<open>Inl\<close> another error of running it.
\<close>

definition Must :: "go_error + 'v \<Rightarrow> 'v go" where
  "Must r = (case r of Inl err \<Rightarrow> Panic (''util.Must: '' @ err_text err) | Inr v \<Rightarrow> Ret v)"

definition IsProcessAlive :: "go_error + int \<Rightarrow> bool" where
  "IsProcessAlive ps = (case ps of Inl err \<Rightarrow> False | Inr code \<Rightarrow> code = 0)"

end
