(* ===== verification/Command_Contract.thy ===== *)
theory Command_Contract
  imports Command
begin

text \<open>
  What the program does with its environment and with the outcome of a run.
\<close>

lemma Shell_Run_error: "\<exists>code. fst (Shell_Run fx app w) = Some (ShellExit code)"
  by (auto simp: Shell_Run_def Let_def split: prod.splits option.splits)

lemma actions_fail:
  assumes "\<And>m. run_app m \<noteq> None"
  shows "serveAction run_app http ctx \<noteq> None" and "lambdaAction run_app source ctx \<noteq> None"
    and "runAction run_app environ http source ctx \<noteq> None"
  using assms by (auto simp: serveAction_def lambdaAction_def runAction_def split: sum.splits)

lemma actions_run:
  assumes "cv_logger ctx = Some l" and "cv_config ctx = Some config"
  shows "serveAction run_app (Inr http) ctx = run_app (StandaloneModule http config)"
    and "lambdaAction run_app (Inr source) ctx = run_app (LambdaModule source config)"
  using assms by (simp_all add: serveAction_def lambdaAction_def app_New_def LoggerFromContext_def GetConfigFromContext_def)

lemma Before_ok:
  "root_Before (Inr l) (Inr c) ctx = (None, ctx\<lparr> cv_logger := Some l, cv_config := Some c \<rparr>)"
  by (simp add: root_Before_def ContextWithLogger_def ContextWithConfig_def Let_def)

text \<open>The commands the program registers.\<close>

lemma command_table:
  "ca_Commands (Execute params) = [lambdaCmd, runCmd\<lparr> cc_Flags := serve_flags @ lambda_flags \<rparr>, serveCmd]"
  "ca_DefaultCommand (Execute params) = ''run''" "ca_Flags (Execute params) = root_flags"
  "cc_Name lambdaCmd = ''lambda''" "cc_Name runCmd = ''run''" "cc_Name serveCmd = ''serve''"
  "cc_Action lambdaCmd = LambdaCommand" "cc_Action runCmd = RunCommand" "cc_Action serveCmd = ServeCommand"
  "list_all (\<lambda>c. distinct (concat (map fl_Names (root_flags @ cc_Flags c @ library_flags))))
     [lambdaCmd, runCmd\<lparr> cc_Flags := serve_flags @ lambda_flags \<rparr>, serveCmd]"
proof -
  show "list_all (\<lambda>c. distinct (concat (map fl_Names (root_flags @ cc_Flags c @ library_flags))))
     [lambdaCmd, runCmd\<lparr> cc_Flags := serve_flags @ lambda_flags \<rparr>, serveCmd]" by code_simp
qed (simp_all add: Execute_def init_serve_def init_run_def init_lambda_def rootApp_def serveCmd_def lambdaCmd_def runCmd_def Let_def)

section \<open>Properties\<close>

text \<open>
  C39: no run of a command the program registers ends with status 0 (help and version, which the cli
  package answers itself, aside): whatever its configuration and the outcome of starting, waiting
  for and stopping the application, a run ends with an error and status 1; a started program
  also cannot pass on the exit code of its signal.  The commands are \<^verbatim>\<open>lambda\<close>, \<^verbatim>\<open>run\<close> and \<^verbatim>\<open>serve\<close>,
  their flags clash neither with each other nor with those of the root command or the library, in
  any name or alias, and the default one is \<^verbatim>\<open>run\<close>.  With a configuration in place \<^verbatim>\<open>run\<close> is
  \<^verbatim>\<open>lambda\<close> where the runtime API variable is set and not empty, and \<^verbatim>\<open>serve\<close> otherwise.
\<close>

theorem exit_status_always_one:
  fixes app :: "'c app_module \<Rightarrow> 'a"
  shows "list_all (\<lambda>c. cmd_run (RunContext (cc_Action c) (\<lambda>m. fst (Shell_Run fx (app m) w)) environ http source logger config) = 1 \<and>
        distinct (concat (map fl_Names (ca_Flags (Execute params) @ cc_Flags c @ library_flags)))) (ca_Commands (Execute params)) \<and>
    map cc_Name (ca_Commands (Execute params)) = [''lambda'', ''run'', ''serve''] \<and>
    map_of (map (\<lambda>c. (cc_Name c, cc_Action c)) (ca_Commands (Execute params))) (ca_DefaultCommand (Execute params)) = Some RunCommand \<and>
    RunContext RunCommand run_app environ (Inr cfg) (Inr src) (Inr l) (Inr c) =
      run_app (if \<exists>v. map_of environ ''AWS_LAMBDA_RUNTIME_API'' = Some v \<and> v \<noteq> [] then LambdaModule src c
               else StandaloneModule cfg c)"
proof -
  let ?run = "\<lambda>m. fst (Shell_Run fx (app m) w)"
  have run: "?run m \<noteq> None" for m using Shell_Run_error [of fx "app m" w] by auto
  have "RunContext cmd ?run environ http source logger config \<noteq> None" for cmd
  proof (cases "root_Before logger config \<lparr> cv_logger = None, cv_config = None \<rparr>")
    case (Pair e ctx)
    then show ?thesis
      using actions_fail [of ?run] run
      by (cases e; cases cmd) (simp_all add: RunContext_def)
  qed
  moreover have "RunContext RunCommand run_app environ (Inr cfg) (Inr src) (Inr l) (Inr c) =
      run_app (if \<exists>v. map_of environ ''AWS_LAMBDA_RUNTIME_API'' = Some v \<and> v \<noteq> [] then LambdaModule src c
               else StandaloneModule cfg c)"
    by (auto simp: RunContext_def Before_ok runAction_def LoggerFromContext_def isAWSLambda_def LookupEnv_def
        actions_run split: option.splits)
  ultimately show ?thesis using command_table by (simp add: cmd_run_def)
qed

end
