(* ===== verification/Application.thy ===== *)
theory Application
  imports Command_Contract Evaluation_Runtime "HOL-Library.Sublist"
begin

text \<open>
  The application the shell runs: what the constructors of \<^verbatim>\<open>runtime\<close>, \<^verbatim>\<open>internal/server\<close> and \<^verbatim>\<open>app/lambda\<close>
  put on the life cycle of fx, in the order in which fx calls them (a constructor after those of
  its dependencies), and what a run makes of it.  fx itself is a parameter with its documented
  behaviour.
\<close>

section \<open>Hooks\<close>

record 'w hook =
  hk_OnStart :: "'w \<Rightarrow> go_error option \<times> 'w"
  hk_OnStop :: "'w \<Rightarrow> go_error option \<times> 'w"

text \<open>
  The world: the runtime's state, the Lambda handler where there is one, and the calls of hooks so
  far, those of the runtime and those of the front end.
\<close>

datatype app_call = RuntimeStart | FrontStart | FrontStop | RuntimeStop

record 'd app_world =
  an_runtime :: 'd
  an_lambda :: "'d LambdaHandler option"
  an_calls :: "app_call list"

definition called :: "app_call \<Rightarrow> 'd app_world \<Rightarrow> 'd app_world" where
  "called c w = w\<lparr> an_calls := an_calls w @ [c] \<rparr>"

definition NewRuntime ::
  "go_error + ('d, 'o, 'm) Dispatcher \<Rightarrow> go_error + ('d, 'o, 'm) EvaluationRuntime" where
  "NewRuntime dispatcher = (case dispatcher of Inl err \<Rightarrow> Inl err | Inr d \<Rightarrow> Inr \<lparr> rt_dispatcher = d \<rparr>)"

definition runtime_hook :: "('d, go_error option \<times> 'd, 'm) EvaluationRuntime \<Rightarrow> 'd app_world hook" where
  "runtime_hook r =
     \<lparr> hk_OnStart = (\<lambda>w. let (err, d) = lifecycle_OnStart r (an_runtime w) in (err, called RuntimeStart (w\<lparr> an_runtime := d \<rparr>))),
       hk_OnStop = (\<lambda>w. let (err, d) = lifecycle_OnStop r (an_runtime w) in (err, called RuntimeStop (w\<lparr> an_runtime := d \<rparr>))) \<rparr>"

definition NewLifecycleRuntime ::
  "go_error + ('d, go_error option \<times> 'd, 'm) Dispatcher \<Rightarrow> 'd app_world hook list
     \<Rightarrow> go_error + ('d, go_error option \<times> 'd, 'm) EvaluationRuntime \<times> 'd app_world hook list" where
  "NewLifecycleRuntime dispatcher lc =
     (case NewRuntime dispatcher of Inl err \<Rightarrow> Inl err | Inr r \<Rightarrow> Inr (r, lc @ [runtime_hook r]))"

text \<open>
  The server is started in a goroutine of its own, so its hook cannot fail; \<open>shutdown\<close> is the outcome
  of the shutdown of \<^verbatim>\<open>net/http\<close>.
\<close>

definition server_hook :: "('d app_world \<Rightarrow> go_error option) \<Rightarrow> 'd app_world hook" where
  "server_hook shutdown =
     \<lparr> hk_OnStart = (\<lambda>w. (None, called FrontStart w)),
       hk_OnStop = (\<lambda>w. (Server_Shutdown (shutdown w), called FrontStop w)) \<rparr>"

definition NewLifecycleServer ::
  "('d http_handler \<Rightarrow> 'd http_handler) \<Rightarrow> ('d app_world \<Rightarrow> go_error option) \<Rightarrow> HttpConfig \<Rightarrow> 'd HttpHandler list
     \<Rightarrow> 'd app_world hook list \<Rightarrow> 'd HttpServer \<times> 'd app_world hook list" where
  "NewLifecycleServer h2c shutdown config handlers lc =
     (NewHttpServer h2c config handlers, lc @ [server_hook shutdown])"

text \<open>The hooks of the Lambda handler act on the handler the constructor made, which is in the world.\<close>

definition lambda_hook :: "'d app_world hook" where
  "lambda_hook =
     \<lparr> hk_OnStart = (\<lambda>w. case an_lambda w of
          None \<Rightarrow> (None, called FrontStart w)
        | Some h \<Rightarrow> (let (err, h') = Lambda_Start h in (err, called FrontStart (w\<lparr> an_lambda := Some h' \<rparr>)))),
       hk_OnStop = (\<lambda>w. (None, called FrontStop (w\<lparr> an_lambda := map_option Lambda_Shutdown (an_lambda w) \<rparr>))) \<rparr>"

definition NewLifecycleHandler ::
  "string \<Rightarrow> 'd HttpHandler list \<Rightarrow> 'd app_world hook list \<Rightarrow> 'd LambdaHandler \<times> 'd app_world hook list" where
  "NewLifecycleHandler source handlers lc = (NewLambdaHandler source handlers, lc @ [lambda_hook])"

section \<open>The application\<close>

text \<open>
  What \<^verbatim>\<open>fx.New\<close> makes of the modules: the error of a constructor, or the hooks in the order of the
  constructors.  The front end of the module needs the handlers, these the runtime handler, and it
  the runtime.
\<close>

datatype 'w fx_app = Failed go_error | Built "'w hook list"

definition build_app ::
  "go_error + ('d, go_error option \<times> 'd, (go_error + gomap) go \<times> 'd) Dispatcher \<Rightarrow> (jschema \<Rightarrow> go_error + 's) \<Rightarrow> 's validator
     \<Rightarrow> ('d http_handler \<Rightarrow> 'd http_handler) \<Rightarrow> ('d app_world \<Rightarrow> go_error option) \<Rightarrow> AppConfig app_module \<Rightarrow> 'd app_world
     \<Rightarrow> 'd app_world fx_app \<times> 'd app_world" where
  "build_app dispatcher compile gjs h2c shutdown m w =
     (case NewLifecycleRuntime dispatcher [] of
        Inl err \<Rightarrow> (Failed err, w)
      | Inr (r, lc) \<Rightarrow>
         (case NewRuntimeHandler compile gjs (Runtime_Handle r) of
            Inl err \<Rightarrow> (Failed err, w)
          | Inr h \<Rightarrow>
             (case m of
                StandaloneModule http config \<Rightarrow>
                  (Built (snd (NewLifecycleServer h2c shutdown http
                     (handler_Module h (Runtime_Handle r) (ac_Key (ap_Auth config))) lc)), w)
              | LambdaModule source config \<Rightarrow>
                  (let (l, lc') = NewLifecycleHandler source
                                    (handler_Module h (Runtime_Handle r) (ac_Key (ap_Auth config))) lc
                   in (Built lc', w\<lparr> an_lambda := Some l \<rparr>)))))"

text \<open>A run of the shell on a module.\<close>

definition run_module ::
  "('d app_world fx_app, 'd app_world) fx_ops \<Rightarrow> go_error + ('d, go_error option \<times> 'd, (go_error + gomap) go \<times> 'd) Dispatcher
     \<Rightarrow> (jschema \<Rightarrow> go_error + 's) \<Rightarrow> 's validator \<Rightarrow> ('d http_handler \<Rightarrow> 'd http_handler) \<Rightarrow> ('d app_world \<Rightarrow> go_error option)
     \<Rightarrow> 'd app_world \<Rightarrow> AppConfig app_module \<Rightarrow> run_error option \<times> 'd app_world" where
  "run_module fx dispatcher compile gjs h2c shutdown w m =
     (let (app, w1) = build_app dispatcher compile gjs h2c shutdown m w in Shell_Run fx app w1)"

section \<open>The documented behaviour of fx\<close>

text \<open>\<open>starts hooks w w'\<close>: the start hooks run in order, without an error, and take \<open>w\<close> to \<open>w'\<close>.\<close>

fun starts :: "'w hook list \<Rightarrow> 'w \<Rightarrow> 'w \<Rightarrow> bool" where
  "starts [] w w' \<longleftrightarrow> w' = w"
| "starts (h # hs) w w' \<longleftrightarrow> (case hk_OnStart h w of (None, w1) \<Rightarrow> starts hs w1 w' | (Some err, _) \<Rightarrow> False)"

text \<open>The stop hooks run one after the other, also after an error.\<close>

definition run_stops :: "'w hook list \<Rightarrow> 'w \<Rightarrow> 'w" where
  "run_stops hs w = fold (\<lambda>h w. snd (hk_OnStop h w)) hs w"

text \<open>
  A start that fails: some hooks started, then the time was up or the next hook failed, and the stop
  hooks of those that started run in the opposite order, as many as there is time for; the stop
  hook of one that failed may run as well.
\<close>

definition start_fails :: "'w hook list \<Rightarrow> 'w \<Rightarrow> 'w \<Rightarrow> bool" where
  "start_fails hooks w w' \<longleftrightarrow>
     (\<exists>k w1 j. starts (take k hooks) w w1 \<and>
        (w' = run_stops (take j (rev (take k hooks))) w1 \<or>
         (k < length hooks \<and> (\<exists>err w2. hk_OnStart (hooks ! k) w1 = (Some err, w2) \<and>
            (w' = run_stops (take j (rev (take k hooks))) w2 \<or> w' = run_stops (take j (rev (take (Suc k) hooks))) w2)))))"

text \<open>
  Starting returns the error of a constructor at once, and otherwise runs the start hooks; stopping runs
  the stop hooks in the opposite order, all of them unless the time is up, which is an error; and
  hooks are called by starting and stopping only.
\<close>

definition fx_conforms :: "('w fx_app, 'w) fx_ops \<Rightarrow> ('w \<Rightarrow> 'c) \<Rightarrow> bool" where
  "fx_conforms fx calls \<longleftrightarrow>
     (\<forall>err w. fx_Start fx (Failed err) w = (Some err, w)) \<and>
     (\<forall>hooks w w'. fx_Start fx (Built hooks) w = (None, w') \<longrightarrow> starts hooks w w') \<and>
     (\<forall>hooks w err w'. fx_Start fx (Built hooks) w = (Some err, w') \<longrightarrow> start_fails hooks w w') \<and>
     (\<forall>hooks w w'. fx_Stop fx (Built hooks) w = (None, w') \<longrightarrow> w' = run_stops (rev hooks) w) \<and>
     (\<forall>hooks w err w'. fx_Stop fx (Built hooks) w = (Some err, w') \<longrightarrow> (\<exists>j. w' = run_stops (take j (rev hooks)) w)) \<and>
     (\<forall>app w. calls (snd (fx_Wait fx app w)) = calls w)"

section \<open>Applications of two hooks\<close>

abbreviation stop_of :: "'w hook \<Rightarrow> 'w \<Rightarrow> 'w" where
  "stop_of h w \<equiv> snd (hk_OnStop h w)"

lemma take_two: "take k [a, b] = (if k = 0 then [] else if k = 1 then [a] else [a, b])"
  by (cases k; cases "k - 1") simp_all

lemma take_one: "take k [a] = (if k = 0 then [] else [a])"
  by (cases k) simp_all

lemma stops_of_two: "run_stops (take j (rev [a, b])) w \<in> {w, stop_of b w, stop_of a (stop_of b w)}"
  by (simp add: take_two run_stops_def)

lemma stops_of_one: "run_stops (take j (rev [a])) w \<in> {w, stop_of a w}"
  by (simp add: take_one run_stops_def)

text \<open>How far a failing start gets: to the first hook, or past it to the second.\<close>

lemma start_fails_two:
  assumes "start_fails [a, b] w w'"
  shows "w' = w \<or> (\<exists>err w1. hk_OnStart a w = (Some err, w1) \<and> w' \<in> {w1, stop_of a w1}) \<or>
    (\<exists>w1. hk_OnStart a w = (None, w1) \<and> (w' \<in> {w1, stop_of a w1} \<or>
       (\<exists>err w2. hk_OnStart b w1 = (err, w2) \<and> (w' \<in> {w2, stop_of b w2, stop_of a (stop_of b w2)} \<or> err \<noteq> None \<and> w' = stop_of a w2))))"
proof -
  have len: "length [a, b] = 2" by simp
  obtain k w1 j where st: "starts (take k [a, b]) w w1"
    and alt: "w' = run_stops (take j (rev (take k [a, b]))) w1 \<or>
      (k < 2 \<and> (\<exists>err w2. hk_OnStart ([a, b] ! k) w1 = (Some err, w2) \<and>
         (w' = run_stops (take j (rev (take k [a, b]))) w2 \<or> w' = run_stops (take j (rev (take (Suc k) [a, b]))) w2)))"
    using assms unfolding start_fails_def len by blast
  consider "k = 0" | "k = 1" | "2 \<le> k" by linarith
  then show ?thesis
  proof cases
    case 1
    with st alt have "w' = w \<or> (\<exists>err w1. hk_OnStart a w = (Some err, w1) \<and> w' \<in> {w1, stop_of a w1})"
      using stops_of_one [of j a] by (auto simp: run_stops_def)
    then show ?thesis by blast
  next
    case 2
    from st 2 have a: "hk_OnStart a w = (None, w1)" by (auto split: option.splits prod.splits)
    have "w' \<in> {w1, stop_of a w1} \<or> (\<exists>err w2. hk_OnStart b w1 = (Some err, w2) \<and>
        (w' \<in> {w2, stop_of b w2, stop_of a (stop_of b w2)} \<or> w' = stop_of a w2))"
      using alt 2 stops_of_one [of j a] stops_of_two [of j a b] by (auto simp: numeral_2_eq_2)
    with a show ?thesis by blast
  next
    case 3
    then have t: "take k [a, b] = [a, b]" by simp
    from st [unfolded t] obtain w2 where "hk_OnStart a w = (None, w2)" "hk_OnStart b w2 = (None, w1)"
      by (auto split: option.splits prod.splits)
    moreover have "w' \<in> {w1, stop_of b w1, stop_of a (stop_of b w1)}"
      using alt 3 stops_of_two [of j a b w1] unfolding t by auto
    ultimately show ?thesis by blast
  qed
qed

text \<open>Two hooks that record their calls, run by the shell.\<close>

lemma shell_of_two:
  assumes fx: "fx_conforms fx calls" and run: "Shell_Run fx (Built [a, b]) w = (res, w')" and w: "calls w = []"
    and a: "\<And>w. calls (snd (hk_OnStart a w)) = calls w @ [ra]" "\<And>w. calls (stop_of a w) = calls w @ [xa]"
    and b: "\<And>w. calls (snd (hk_OnStart b w)) = calls w @ [rb]" "\<And>w. calls (stop_of b w) = calls w @ [xb]"
  shows "(calls w' \<in> {[], [ra], [ra, xa], [ra, rb], [ra, rb, xb], [ra, rb, xb, xa]} \<or>
      calls w' = [ra, rb, xa] \<and> (\<exists>v err. fst (hk_OnStart b v) = Some err)) \<and>
    (res = Some (ShellExit 1) \<or> calls w' = [ra, rb, xb, xa])"
proof (cases "fx_Start fx (Built [a, b]) w")
  case (Pair e w1)
  have ra: "calls v = calls u @ [ra]" if "hk_OnStart a u = (o1, v)" for o1 u v using a(1) [of u] that by simp
  have rb: "calls v = calls u @ [rb]" if "hk_OnStart b u = (o1, v)" for o1 u v using b(1) [of u] that by simp
  show ?thesis
  proof (cases e)
    case (Some err)
    with Pair run have res: "res = Some (ShellExit 1)" "w' = w1" by (simp_all add: Shell_Run_def)
    have "start_fails [a, b] w w'" using fx Pair Some res(2) unfolding fx_conforms_def by blast
    from start_fails_two [OF this] show ?thesis
      using w a(2) b(2) ra rb res(1) by (elim disjE exE conjE) (auto, (metis fst_conv not_Some_eq)+)
  next
    case None
    then have "starts [a, b] w w1" using fx Pair unfolding fx_conforms_def by blast
    then obtain v where "hk_OnStart a w = (None, v)" "hk_OnStart b v = (None, w1)"
      by (auto split: option.splits prod.splits)
    with ra rb w have c1: "calls w1 = [ra, rb]" by fastforce
    obtain code w2 where w2: "fx_Wait fx (Built [a, b]) w1 = (code, w2)" by fastforce
    then have c2: "calls w2 = [ra, rb]" using fx c1 unfolding fx_conforms_def by (metis snd_conv)
    obtain e2 w3 where w3: "fx_Stop fx (Built [a, b]) w2 = (e2, w3)" by fastforce
    have w': "w' = w3" and res: "res = Some (ShellExit (if e2 = None then code else 1))"
      using run Pair None w2 w3 by (auto simp: Shell_Run_def split: option.splits)
    show ?thesis
    proof (cases e2)
      case None
      then have "w3 = run_stops (rev [a, b]) w2" using fx w3 unfolding fx_conforms_def by blast
      then have "calls w' = [ra, rb, xb, xa]" using c2 a(2) b(2) w' by (simp add: run_stops_def)
      then show ?thesis by simp
    next
      case (Some x)
      then obtain j where "w3 = run_stops (take j (rev [a, b])) w2" using fx w3 unfolding fx_conforms_def by blast
      with stops_of_two [of j a b w2] Some w' res c2 a(2) b(2) show ?thesis by auto
    qed
  qed
qed

lemmas hook_defs = runtime_hook_def server_hook_def lambda_hook_def called_def


lemma build_app_hooks:
  assumes "build_app dispatcher compile gjs h2c shutdown m w = (app, w1)"
  shows "(\<exists>err. app = Failed err \<and> w1 = w) \<or>
    (\<exists>d front. app = Built [runtime_hook \<lparr> rt_dispatcher = d \<rparr>, front] \<and> an_calls w1 = an_calls w \<and> dispatcher = Inr d \<and>
       (case m of StandaloneModule http config \<Rightarrow> front = server_hook shutdown
        | LambdaModule source config \<Rightarrow> front = lambda_hook))"
  using assms
  by (auto simp: build_app_def NewLifecycleRuntime_def NewRuntime_def NewLifecycleServer_def NewLifecycleHandler_def
      split: sum.splits app_module.splits)

section \<open>Properties\<close>

text \<open>
  C13: the life of the application.  In every run of the shell, whatever fails or times out, the hooks are
  called at most once each and in one order: the runtime starts before the front end (the HTTP server
  or the Lambda handler) and the front end stops before the runtime does; the standalone server is
  never served over a runtime that was stopped.  A run that ends with a status other than 1 has
  called all four, and a runtime that cannot be made ends with status 1 and calls none.
\<close>

theorem application_order:
  fixes dispatcher :: "go_error + ('d, go_error option \<times> 'd, (go_error + gomap) go \<times> 'd) Dispatcher"
  assumes "fx_conforms fx an_calls" and "an_calls w = []"
    and "run_module fx dispatcher compile gjs h2c shutdown w m = (res, w')"
  shows "subseq (an_calls w') [RuntimeStart, FrontStart, FrontStop, RuntimeStop] \<and>
    (an_calls w' \<noteq> [] \<longrightarrow> hd (an_calls w') = RuntimeStart) \<and>
    (\<forall>http config. m = StandaloneModule http config \<longrightarrow>
       FrontStart \<in> set (an_calls w') \<and> RuntimeStop \<in> set (an_calls w') \<longrightarrow> FrontStop \<in> set (an_calls w')) \<and>
    (res = Some (ShellExit 1) \<or> an_calls w' = [RuntimeStart, FrontStart, FrontStop, RuntimeStop]) \<and>
    (\<forall>err. dispatcher = Inl err \<longrightarrow> res = Some (ShellExit 1) \<and> an_calls w' = [])"
proof -
  obtain app w1 where b: "build_app dispatcher compile gjs h2c shutdown m w = (app, w1)" by fastforce
  with assms(3) have run: "Shell_Run fx app w1 = (res, w')" by (simp add: run_module_def)
  from build_app_hooks [OF b] show ?thesis
  proof (elim disjE exE conjE)
    fix err assume "app = Failed err" "w1 = w"
    then have "fx_Start fx app w1 = (Some err, w)" using assms(1) unfolding fx_conforms_def by blast
    with run assms(2) show ?thesis by (simp add: Shell_Run_def)
  next
    fix d :: "('d, go_error option \<times> 'd, (go_error + gomap) go \<times> 'd) Dispatcher" and front
    let ?r = "\<lparr> rt_dispatcher = d \<rparr>"
    assume app: "app = Built [runtime_hook ?r, front]" and w1: "an_calls w1 = an_calls w" "dispatcher = Inr d"
      and front: "case m of StandaloneModule http config \<Rightarrow> front = server_hook shutdown | LambdaModule source config \<Rightarrow> front = lambda_hook"
    have calls: "an_calls (snd (hk_OnStart front v)) = an_calls v @ [FrontStart]"
      "an_calls (snd (hk_OnStop front v)) = an_calls v @ [FrontStop]" for v
      using front by (auto simp: hook_defs Let_def split: app_module.splits option.splits prod.splits)
    have rt: "an_calls (snd (hk_OnStart (runtime_hook ?r) v)) = an_calls v @ [RuntimeStart]"
      "an_calls (snd (hk_OnStop (runtime_hook ?r) v)) = an_calls v @ [RuntimeStop]" for v
      by (simp_all add: hook_defs Let_def split: prod.splits)
    have "fst (hk_OnStart front v) = None" if "m = StandaloneModule http config" for v http config
      using front that by (simp add: hook_defs)
    with shell_of_two [OF assms(1) run [unfolded app] _ rt calls] w1 assms(2) show ?thesis by auto
  qed
qed

text \<open>A library that never runs out of time, with an interrupt at once.\<close>

fun plain_start :: "'w hook list \<Rightarrow> 'w hook list \<Rightarrow> 'w \<Rightarrow> go_error option \<times> 'w" where
  "plain_start started [] w = (None, w)"
| "plain_start started (h # hs) w =
     (case hk_OnStart h w of
        (None, w1) \<Rightarrow> plain_start (h # started) hs w1
      | (Some err, w1) \<Rightarrow> (Some err, run_stops started w1))"

definition plain_fx :: "('w fx_app, 'w) fx_ops" where
  "plain_fx =
     \<lparr> fx_Start = (\<lambda>app w. case app of Failed err \<Rightarrow> (Some err, w) | Built hooks \<Rightarrow> plain_start [] hooks w),
       fx_Wait = (\<lambda>app w. (0, w)),
       fx_Stop = (\<lambda>app w. case app of Failed err \<Rightarrow> (None, w) | Built hooks \<Rightarrow> (None, run_stops (rev hooks) w)) \<rparr>"

lemma starts_append: "starts (hs @ hs') w w' \<longleftrightarrow> (\<exists>v. starts hs w v \<and> starts hs' v w')"
  by (induction hs arbitrary: w) (auto split: option.splits prod.splits)

lemma plain_start_outcome:
  assumes "plain_start started todo w = (e, w')" and "starts (rev started) w0 w"
  shows "(e = None \<longrightarrow> starts (rev started @ todo) w0 w') \<and> (e \<noteq> None \<longrightarrow> start_fails (rev started @ todo) w0 w')"
  using assms
proof (induction started todo w rule: plain_start.induct)
  case (2 started h hs w)
  obtain o1 w1 where h: "hk_OnStart h w = (o1, w1)" by fastforce
  show ?case
  proof (cases o1)
    case None
    with 2 h have "starts (rev (h # started)) w0 w1" by (auto simp: starts_append)
    from "2.IH" [OF h [symmetric] None _ this] 2(2) h None show ?thesis by simp
  next
    case (Some err)
    with 2(2) h have e: "e = Some err" "w' = run_stops started w1" by simp_all
    have "start_fails (rev started @ h # hs) w0 w'"
      unfolding start_fails_def using h Some 2(3) e
      by (intro exI [of _ "length started"] exI [of _ w] conjI disjI2 [of _ "_ \<and> _"])
        (auto simp: nth_append intro!: exI [of _ "length started"])
    with e show ?thesis by simp
  qed
qed simp

lemma plain_fx_conforms: "fx_conforms plain_fx calls"
  unfolding fx_conforms_def
proof (intro conjI allI impI)
  show "starts hooks w w'" if "fx_Start plain_fx (Built hooks) w = (None, w')" for hooks and w w' :: 'a
    using plain_start_outcome [of "[]" hooks w None w' w] that by (simp add: plain_fx_def)
  show "start_fails hooks w w'" if "fx_Start plain_fx (Built hooks) w = (Some err, w')" for hooks err and w w' :: 'a
    using plain_start_outcome [of "[]" hooks w "Some err" w' w] that by (simp add: plain_fx_def)
qed (simp_all add: plain_fx_def)

theorem application_order_witness:
  "\<forall>config. \<exists>w'. run_module plain_fx (Inr (wasm_backend small_env)) plain_compile plain_validator id (\<lambda>_. None)
      \<lparr> an_runtime = (NewWasmDispatcher small_config, 0), an_lambda = None, an_calls = [] \<rparr>
      (LambdaModule ''API_GW_V2'' config) = (Some (ShellExit 0), w') \<and>
     an_calls w' = [RuntimeStart, FrontStart, FrontStop, RuntimeStop]"
proof
  fix config :: AppConfig
  let ?w = "\<lparr> an_runtime = (NewWasmDispatcher small_config, 0), an_lambda = None, an_calls = [] \<rparr>"
  obtain res w' where run: "run_module plain_fx (Inr (wasm_backend small_env)) plain_compile plain_validator id (\<lambda>_. None) ?w
      (LambdaModule ''API_GW_V2'' config) = (res, w')" by fastforce
  obtain d where "wasm_start_world small_env (NewWasmDispatcher small_config, 0) = (None, d)"
    by (simp add: small_starts NewWasmDispatcher_def)
  with run have "res = Some (ShellExit 0)"
    by (simp add: run_module_def build_app_def NewLifecycleRuntime_def NewRuntime_def NewLifecycleHandler_def Let_def
        NewRuntimeHandler_def NewRequestSchema_def NewResponseSchema_def plain_compile_def Shell_Run_def plain_fx_def
        runtime_hook_def lambda_hook_def lifecycle_OnStart_def Runtime_Start_def wasm_backend_def
        Lambda_Start_def getProxyFunction_def NewLambdaHandler_def ProxySourceApiGatewayV1_def ProxySourceApiGatewayV2_def called_def)
  with application_order [OF plain_fx_conforms _ run] run
  show "\<exists>w'. run_module plain_fx (Inr (wasm_backend small_env)) plain_compile plain_validator id (\<lambda>_. None) ?w
      (LambdaModule ''API_GW_V2'' config) = (Some (ShellExit 0), w') \<and>
     an_calls w' = [RuntimeStart, FrontStart, FrontStop, RuntimeStop]" by auto
qed

end
