(* ===== verification/Go_Slices.thy ===== *)
theory Go_Slices
  imports Shimmy_Prelude
begin

text \<open>
  Slices of strings over shared arrays.  Elsewhere a slice is the list of its elements; that is the
  program's behaviour as long as no two of them grow into the same array, which is what the theories
  on this one are about.
\<close>

text \<open>
  A store holds the arrays at their addresses.  A slice is a length within an array; all slices of the
  program start at the first element, so the capacity is the length of the array.
\<close>

type_synonym store = "string list list"

record slice =
  sl_array :: nat
  sl_len :: nat

definition slice_cap :: "store \<Rightarrow> slice \<Rightarrow> nat" where
  "slice_cap st s = length (st ! sl_array s)"

definition slice_elems :: "store \<Rightarrow> slice \<Rightarrow> string list" where
  "slice_elems st s = take (sl_len s) (st ! sl_array s)"

definition slice_ok :: "store \<Rightarrow> slice \<Rightarrow> bool" where
  "slice_ok st s \<longleftrightarrow> sl_array s < length st \<and> sl_len s \<le> slice_cap st s"

text \<open>\<^verbatim>\<open>make([]string, n, c)\<close>\<close>

definition make_slice :: "nat \<Rightarrow> nat \<Rightarrow> store \<Rightarrow> slice \<times> store" where
  "make_slice n c st = (\<lparr> sl_array = length st, sl_len = n \<rparr>, st @ [replicate c []])"

text \<open>
  \<^verbatim>\<open>append(s, xs...)\<close>: in place where the array has room, else in a new array.  \<open>spare\<close> is the room the
  run-time system adds to a new array of a given length.
\<close>

definition go_append :: "(nat \<Rightarrow> nat) \<Rightarrow> slice \<Rightarrow> string list \<Rightarrow> store \<Rightarrow> slice \<times> store" where
  "go_append spare s xs st =
     (let n = sl_len s + length xs in
      if n \<le> slice_cap st s
      then (s\<lparr> sl_len := n \<rparr>, st[sl_array s := slice_elems st s @ xs @ drop n (st ! sl_array s)])
      else (\<lparr> sl_array = length st, sl_len = n \<rparr>, st @ [slice_elems st s @ xs @ replicate (spare n) []]))"

lemma slice_elems_length: "slice_ok st s \<Longrightarrow> length (slice_elems st s) = sl_len s"
  by (simp add: slice_elems_def slice_ok_def slice_cap_def)

text \<open>The result of an append: the elements of the slice followed by the new ones.\<close>

lemma append_elems:
  assumes "slice_ok st s" and "go_append spare s xs st = (s', st')"
  shows "slice_elems st' s' = slice_elems st s @ xs" and "slice_ok st' s'"
  using assms slice_elems_length [OF assms(1)]
  by (auto simp: go_append_def Let_def slice_ok_def slice_cap_def slice_elems_def split: if_splits)

text \<open>An append allocates at most one array and keeps every array's length.\<close>

lemma append_lengths:
  assumes "slice_ok st s" and "go_append spare s xs st = (s', st')"
  shows "length st \<le> length st'" and "i < length st \<Longrightarrow> length (st' ! i) = length (st ! i)"
  using assms slice_elems_length [OF assms(1)]
  by (auto simp: go_append_def Let_def slice_ok_def slice_cap_def nth_append nth_list_update split: if_splits)

lemma append_keeps_ok:
  assumes "slice_ok st s" and "go_append spare s xs st = (s', st')" and "slice_ok st t"
  shows "slice_ok st' t" and "slice_cap st' t = slice_cap st t"
  using append_lengths [OF assms(1,2)] assms(3) by (auto simp: slice_ok_def slice_cap_def)

text \<open>Without room an append only adds an array, and with room two appends give the same slice.\<close>

lemma append_no_room:
  "slice_cap st s < sl_len s + length xs \<Longrightarrow> go_append spare s xs st = (s', st') \<Longrightarrow> \<exists>x. st' = st @ [x]"
  by (auto simp: go_append_def Let_def)

lemma append_room:
  "sl_len s + length xs \<le> slice_cap st s \<Longrightarrow> go_append spare s xs st = (s', st') \<Longrightarrow>
     s' = s\<lparr> sl_len := sl_len s + length xs \<rparr>"
  by (simp add: go_append_def Let_def)

text \<open>What later allocations leave alone.\<close>

lemma slice_extend:
  assumes "slice_ok st s"
  shows "slice_ok (st @ ext) s" and "slice_elems (st @ ext) s = slice_elems st s"
    and "slice_cap (st @ ext) s = slice_cap st s"
  using assms by (auto simp: slice_ok_def slice_elems_def slice_cap_def nth_append)

lemma make_append:
  assumes "make_slice 0 (length xs) st = (s, st1)" and "go_append spare s xs st1 = (s', st')"
  shows "\<exists>x. st' = st @ [x]" and "slice_elems st' s' = xs" and "slice_ok st' s'"
  using assms by (auto simp: make_slice_def go_append_def Let_def slice_cap_def slice_elems_def slice_ok_def)

end
