(* ===== verification/File_Arguments.thy ===== *)
theory File_Arguments
  imports Adapter_Contract Go_Slices
begin

text \<open>
  The arguments and the environment of the workers of several file adapters.  The adapters of a pool
  hold copies of one \<open>StartConfig\<close>, whose slices share their arrays; \<open>Send\<close> appends the names of its
  files to them, and the worker factory copies the result.  Sends of different adapters interleave.
\<close>

section \<open>The configuration with its arrays\<close>

record SliceConfig =
  sx_Cmd :: string
  sx_Cwd :: string
  sx_Args :: slice
  sx_Env :: "slice option"

definition config_ok :: "store \<Rightarrow> SliceConfig \<Rightarrow> bool" where
  "config_ok st c \<longleftrightarrow> slice_ok st (sx_Args c) \<and> (\<forall>e \<in> set_option (sx_Env c). slice_ok st e)"

text \<open>The configuration as a value, which the other theories work with.\<close>

definition config_value :: "store \<Rightarrow> SliceConfig \<Rightarrow> StartConfig" where
  "config_value st c =
     \<lparr> sc_Cmd = sx_Cmd c, sc_Cwd = sx_Cwd c, sc_Args = slice_elems st (sx_Args c),
       sc_Env = map_option (slice_elems st) (sx_Env c) \<rparr>"

text \<open>The two appends of \<open>Send\<close>; \<open>p\<close> has the names of the request and the response file.\<close>

definition append_args :: "(nat \<Rightarrow> nat) \<Rightarrow> string \<times> string \<Rightarrow> SliceConfig \<Rightarrow> store \<Rightarrow> SliceConfig \<times> store" where
  "append_args spare p c st =
     (let (a, st1) = go_append spare (sx_Args c) [fst p, snd p] st in (c\<lparr> sx_Args := a \<rparr>, st1))"

definition file_env_entries :: "string \<times> string \<Rightarrow> string list" where
  "file_env_entries p =
     [''EVAL_IO=FILE'', ''EVAL_FILE_NAME_REQUEST='' @ fst p, ''EVAL_FILE_NAME_RESPONSE='' @ snd p]"

definition append_env :: "(nat \<Rightarrow> nat) \<Rightarrow> string \<times> string \<Rightarrow> SliceConfig \<Rightarrow> store \<Rightarrow> SliceConfig \<times> store" where
  "append_env spare p c st =
     (let (e, st1) = (case sx_Env c of None \<Rightarrow> make_slice 0 3 st | Some e \<Rightarrow> (e, st));
          (e', st2) = go_append spare e (file_env_entries p) st1
      in (c\<lparr> sx_Env := Some e' \<rparr>, st2))"

section \<open>The steps of several sends\<close>

text \<open>How far a send has come; the factory's command holds copies of the two slices.\<close>

datatype send_phase = Ready | WithArgs SliceConfig | WithEnv SliceConfig | Created Cmd

record args_state =
  as_store :: store
  as_phase :: "nat \<Rightarrow> send_phase"

inductive args_step ::
  "(nat \<Rightarrow> nat) \<Rightarrow> string list \<Rightarrow> SliceConfig \<Rightarrow> (nat \<Rightarrow> string \<times> string) \<Rightarrow> args_state \<Rightarrow> args_state \<Rightarrow> bool"
  for spare environ c files where
  step_args: "as_phase u i = Ready \<Longrightarrow> append_args spare (files i) c (as_store u) = (c', st) \<Longrightarrow>
    args_step spare environ c files u (u\<lparr> as_store := st, as_phase := (as_phase u)(i := WithArgs c') \<rparr>)"
| step_env: "as_phase u i = WithArgs c' \<Longrightarrow> append_env spare (files i) c' (as_store u) = (c'', st) \<Longrightarrow>
    args_step spare environ c files u (u\<lparr> as_store := st, as_phase := (as_phase u)(i := WithEnv c'') \<rparr>)"
| step_create: "as_phase u i = WithEnv c' \<Longrightarrow>
    args_step spare environ c files u
      (u\<lparr> as_phase := (as_phase u)(i := Created (createCmd environ (config_value (as_store u) c'))) \<rparr>)"

definition args_start :: "store \<Rightarrow> args_state \<Rightarrow> bool" where
  "args_start st u \<longleftrightarrow> u = \<lparr> as_store = st, as_phase = (\<lambda>_. Ready) \<rparr>"

text \<open>The command a send asks for, as the adapter on values has it.\<close>

definition own_command :: "string list \<Rightarrow> store \<Rightarrow> SliceConfig \<Rightarrow> string \<times> string \<Rightarrow> Cmd" where
  "own_command environ st c p = createCmd environ (file_params (config_value st c) (fst p) (snd p))"

text \<open>No append finds room behind the shared slices.\<close>

definition no_spare :: "store \<Rightarrow> SliceConfig \<Rightarrow> bool" where
  "no_spare st c \<longleftrightarrow> slice_cap st (sx_Args c) < sl_len (sx_Args c) + 2 \<and>
     (\<forall>e \<in> set_option (sx_Env c). slice_cap st e < sl_len e + 3)"

section \<open>Without spare room the sends do not meet\<close>

lemma config_extend:
  assumes "config_ok st c"
  shows "config_ok (st @ ext) c" and "config_value (st @ ext) c = config_value st c"
    and "no_spare (st @ ext) c \<longleftrightarrow> no_spare st c"
  using assms slice_extend
  by (cases "sx_Env c"; auto simp: config_ok_def config_value_def no_spare_def)+

lemma append_args_alone:
  assumes "config_ok st c" and "no_spare st c" and "append_args spare p c st = (c', st')"
  shows "\<exists>x. st' = st @ [x]" and "config_ok st' c'"
    and "config_value st' c' = (config_value st c)\<lparr> sc_Args := sc_Args (config_value st c) @ [fst p, snd p] \<rparr>"
    and "sx_Env c' = sx_Env c"
proof -
  obtain a where a: "go_append spare (sx_Args c) [fst p, snd p] st = (a, st')" and c': "c' = c\<lparr> sx_Args := a \<rparr>"
    using assms(3) by (auto simp: append_args_def split: prod.splits)
  have ok: "slice_ok st (sx_Args c)" using assms(1) by (simp add: config_ok_def)
  show x: "\<exists>x. st' = st @ [x]"
    using append_no_room [OF _ a] assms(2) by (simp add: no_spare_def)
  then obtain x where "st' = st @ [x]" ..
  with append_elems [OF ok a] config_extend [OF assms(1), of "[x]"] c'
  show "config_ok st' c'" and "sx_Env c' = sx_Env c"
    and "config_value st' c' = (config_value st c)\<lparr> sc_Args := sc_Args (config_value st c) @ [fst p, snd p] \<rparr>"
    by (auto simp: config_ok_def config_value_def)
qed

lemma append_env_alone:
  assumes "config_ok st c" and "\<forall>e \<in> set_option (sx_Env c). slice_cap st e < sl_len e + 3"
    and "append_env spare p c st = (c', st')"
  shows "\<exists>x. st' = st @ [x]" and "config_ok st' c'"
    and "config_value st' c' = (config_value st c)\<lparr> sc_Env :=
      Some ((case sc_Env (config_value st c) of None \<Rightarrow> [] | Some env \<Rightarrow> env) @ file_env_entries p) \<rparr>"
proof -
  obtain e' where c': "c' = c\<lparr> sx_Env := Some e' \<rparr>"
    and x: "\<exists>x. st' = st @ [x]" and ok: "slice_ok st' e'"
    and e': "slice_elems st' e' =
      (case sc_Env (config_value st c) of None \<Rightarrow> [] | Some env \<Rightarrow> env) @ file_env_entries p"
  proof (cases "sx_Env c")
    case None
    obtain e st1 e' where "make_slice 0 (length (file_env_entries p)) st = (e, st1)"
      and "go_append spare e (file_env_entries p) st1 = (e', st')" and "c' = c\<lparr> sx_Env := Some e' \<rparr>"
      using assms(3) None
      by (auto simp: append_env_def file_env_entries_def numeral_3_eq_3 split: prod.splits)
    with make_append [OF this(1,2)] None that show thesis by (simp add: config_value_def)
  next
    case (Some e)
    then obtain e' where a: "go_append spare e (file_env_entries p) st = (e', st')"
      and c': "c' = c\<lparr> sx_Env := Some e' \<rparr>"
      using assms(3) by (auto simp: append_env_def split: prod.splits)
    have "slice_ok st e" using Some assms(1) by (simp add: config_ok_def)
    from append_elems [OF this a] append_no_room [OF _ a] Some assms(2) that c' show thesis
      by (simp add: config_value_def file_env_entries_def)
  qed
  from x show "\<exists>x. st' = st @ [x]" .
  then obtain x where "st' = st @ [x]" ..
  with ok e' c' config_extend [OF assms(1), of "[x]"]
  show "config_ok st' c'" and "config_value st' c' = (config_value st c)\<lparr> sc_Env :=
      Some ((case sc_Env (config_value st c) of None \<Rightarrow> [] | Some env \<Rightarrow> env) @ file_env_entries p) \<rparr>"
    by (auto simp: config_ok_def config_value_def)
qed

fun phase_ok :: "string list \<Rightarrow> store \<Rightarrow> SliceConfig \<Rightarrow> string \<times> string \<Rightarrow> store \<Rightarrow> send_phase \<Rightarrow> bool" where
  "phase_ok environ st c p st' Ready = True"
| "phase_ok environ st c p st' (WithArgs c') \<longleftrightarrow>
     config_ok st' c' \<and> sx_Env c' = sx_Env c \<and>
     config_value st' c' = (config_value st c)\<lparr> sc_Args := sc_Args (config_value st c) @ [fst p, snd p] \<rparr>"
| "phase_ok environ st c p st' (WithEnv c') \<longleftrightarrow>
     config_ok st' c' \<and> config_value st' c' = file_params (config_value st c) (fst p) (snd p)"
| "phase_ok environ st c p st' (Created cmd) \<longleftrightarrow> cmd = own_command environ st c p"

definition args_inv ::
  "string list \<Rightarrow> store \<Rightarrow> SliceConfig \<Rightarrow> (nat \<Rightarrow> string \<times> string) \<Rightarrow> args_state \<Rightarrow> bool" where
  "args_inv environ st c files u \<longleftrightarrow>
     (\<exists>ext. as_store u = st @ ext) \<and> (\<forall>i. phase_ok environ st c (files i) (as_store u) (as_phase u i))"

lemma phase_extend:
  "phase_ok environ st c p st' ph \<Longrightarrow> phase_ok environ st c p (st' @ ext) ph"
  by (cases ph) (auto simp: config_extend)

lemma args_invI:
  assumes "args_inv environ st c files u" and "\<exists>x. st' = as_store u @ [x]"
    and "phase_ok environ st c (files i) st' ph"
  shows "args_inv environ st c files (u\<lparr> as_store := st', as_phase := (as_phase u)(i := ph) \<rparr>)"
proof -
  from assms(2) obtain x where x: "st' = as_store u @ [x]" ..
  show ?thesis
    unfolding args_inv_def
  proof (intro conjI allI)
    show "\<exists>ext. as_store (u\<lparr> as_store := st', as_phase := (as_phase u)(i := ph) \<rparr>) = st @ ext"
      using assms(1) x by (auto simp: args_inv_def)
    show "phase_ok environ st c (files j) (as_store (u\<lparr> as_store := st', as_phase := (as_phase u)(i := ph) \<rparr>))
        (as_phase (u\<lparr> as_store := st', as_phase := (as_phase u)(i := ph) \<rparr>) j)" for j
      using assms(1,3) x phase_extend by (simp add: args_inv_def)
  qed
qed

lemma args_inv_step:
  assumes ok: "config_ok st c" and tight: "no_spare st c"
    and inv: "args_inv environ st c files u" and step: "args_step spare environ c files u v"
  shows "args_inv environ st c files v"
  using step
proof (cases rule: args_step.cases)
  case (step_args i c' st')
  from inv obtain ext where ext: "as_store u = st @ ext" by (auto simp: args_inv_def)
  note now = config_extend [OF ok, of ext, folded ext]
  from append_args_alone [OF now(1) _ step_args(3)] now tight step_args(1) show ?thesis
    by (simp add: args_invI [OF inv])
next
  case (step_env i c' c'' st')
  have ph: "phase_ok environ st c (files i) (as_store u) (WithArgs c')"
    using inv step_env(2) by (simp add: args_inv_def) (metis phase_ok.simps(2))
  from inv obtain ext where ext: "as_store u = st @ ext" by (auto simp: args_inv_def)
  have "\<forall>e \<in> set_option (sx_Env c'). slice_cap (as_store u) e < sl_len e + 3"
    using ph tight config_extend(3) [OF ok, of ext] ext by (simp add: no_spare_def)
  from append_env_alone [OF _ this step_env(3)] ph step_env(1) show ?thesis
    by (simp add: args_invI [OF inv] file_params_def file_env_entries_def)
next
  case (step_create i c')
  have "phase_ok environ st c (files i) (as_store u) (WithEnv c')"
    using inv step_create(2) by (simp add: args_inv_def) (metis phase_ok.simps(3))
  then show ?thesis using inv step_create(1) by (auto simp: args_inv_def own_command_def)
qed

lemma args_inv_start: "args_start st u \<Longrightarrow> args_inv environ st c files u"
  by (simp add: args_start_def args_inv_def)

interpretation args: invariant_system "args_start st" "args_step spare environ c files"
  "\<lambda>u. config_ok st c \<and> no_spare st c \<longrightarrow> args_inv environ st c files u" for st spare environ c files
  by unfold_locales (auto intro: args_inv_start args_inv_step)

section \<open>With spare room they do\<close>

text \<open>Appends keep every slice within its array, and its capacity.\<close>

lemma append_args_keeps:
  assumes "config_ok st c" and "append_args spare p c st = (c', st')" and "slice_ok st t"
  shows "slice_ok st' t \<and> slice_cap st' t = slice_cap st t"
  using assms append_keeps_ok [of st "sx_Args c"]
  by (auto simp: append_args_def config_ok_def split: prod.splits)

lemma append_env_keeps:
  assumes "config_ok st c" and "append_env spare p c st = (c', st')" and "slice_ok st t"
  shows "slice_ok st' t \<and> slice_cap st' t = slice_cap st t"
proof (cases "sx_Env c")
  case None
  obtain e st1 e' where m: "make_slice 0 (length (file_env_entries p)) st = (e, st1)"
    and a: "go_append spare e (file_env_entries p) st1 = (e', st')"
    using assms(2) None by (auto simp: append_env_def file_env_entries_def numeral_3_eq_3 split: prod.splits)
  from make_append(1) [OF m a] slice_extend [OF assms(3)] show ?thesis by auto
next
  case (Some e)
  with assms append_keeps_ok [of st e] show ?thesis
    by (auto simp: append_env_def config_ok_def split: prod.splits)
qed

lemma append_args_ok:
  assumes "config_ok st c" and "append_args spare p c st = (c', st')"
  shows "config_ok st' c'"
proof -
  obtain a where a: "go_append spare (sx_Args c) [fst p, snd p] st = (a, st')" and c': "c' = c\<lparr> sx_Args := a \<rparr>"
    using assms(2) by (auto simp: append_args_def split: prod.splits)
  have "slice_ok st (sx_Args c)" using assms(1) by (simp add: config_ok_def)
  from append_elems(2) [OF this a] append_keeps_ok(1) [OF this a] assms(1) c' show ?thesis
    by (simp add: config_ok_def)
qed

text \<open>Where the shared slice has room, two sends append in the same place and the later one stays.\<close>

lemma append_args_room:
  assumes "config_ok st c" and "sl_len (sx_Args c) + 2 \<le> slice_cap st (sx_Args c)"
    and "append_args spare p c st = (c', st')"
  shows "c' = c\<lparr> sx_Args := (sx_Args c)\<lparr> sl_len := sl_len (sx_Args c) + 2 \<rparr> \<rparr>"
    and "slice_elems st' (sx_Args c') = slice_elems st (sx_Args c) @ [fst p, snd p]" and "config_ok st' c'"
proof -
  obtain a where a: "go_append spare (sx_Args c) [fst p, snd p] st = (a, st')" and c': "c' = c\<lparr> sx_Args := a \<rparr>"
    using assms(3) by (auto simp: append_args_def split: prod.splits)
  have ok: "slice_ok st (sx_Args c)" using assms(1) by (simp add: config_ok_def)
  show "c' = c\<lparr> sx_Args := (sx_Args c)\<lparr> sl_len := sl_len (sx_Args c) + 2 \<rparr> \<rparr>"
    using append_room [OF _ a] assms(2) c' by simp
  show "slice_elems st' (sx_Args c') = slice_elems st (sx_Args c) @ [fst p, snd p]" and "config_ok st' c'"
    using append_elems [OF ok a] append_keeps_ok [OF ok a] assms(1) c' by (auto simp: config_ok_def)
qed

lemma append_env_room:
  assumes "sx_Env c = Some e" and "slice_ok st e" and "sl_len e + 3 \<le> slice_cap st e"
    and "append_env spare p c st = (c', st')"
  shows "c' = c\<lparr> sx_Env := Some (e\<lparr> sl_len := sl_len e + 3 \<rparr>) \<rparr>"
    and "slice_elems st' (e\<lparr> sl_len := sl_len e + 3 \<rparr>) = slice_elems st e @ file_env_entries p"
proof -
  obtain e' where a: "go_append spare e (file_env_entries p) st = (e', st')" and c': "c' = c\<lparr> sx_Env := Some e' \<rparr>"
    using assms(1,4) by (auto simp: append_env_def split: prod.splits)
  have e': "e' = e\<lparr> sl_len := sl_len e + 3 \<rparr>"
    using append_room [OF _ a] assms(3) by (simp add: file_env_entries_def)
  then show "c' = c\<lparr> sx_Env := Some (e\<lparr> sl_len := sl_len e + 3 \<rparr>) \<rparr>" using c' by simp
  show "slice_elems st' (e\<lparr> sl_len := sl_len e + 3 \<rparr>) = slice_elems st e @ file_env_entries p"
    using append_elems(1) [OF assms(2) a] e' by simp
qed

text \<open>Reaching further by one step.\<close>

lemmas args_reach = reachable_step [where step = "args_step spare environ c files" for spare environ c files]

lemma reach_args:
  assumes "reachable S (args_step spare environ c files) u" and "as_phase u i = Ready"
    and "append_args spare (files i) c (as_store u) = (c', st)"
  shows "\<exists>v. reachable S (args_step spare environ c files) v \<and> as_store v = st \<and>
           as_phase v = (as_phase u)(i := WithArgs c')"
  using args_reach [OF assms(1) step_args [where files = files and i = i, OF assms(2,3)]] by (intro exI conjI) auto

lemma reach_env:
  assumes "reachable S (args_step spare environ c files) u" and "as_phase u i = WithArgs c'"
    and "append_env spare (files i) c' (as_store u) = (c'', st)"
  shows "\<exists>v. reachable S (args_step spare environ c files) v \<and> as_store v = st \<and>
           as_phase v = (as_phase u)(i := WithEnv c'')"
  using args_reach [OF assms(1) step_env [where files = files and i = i, OF assms(2,3)]] by (intro exI conjI) auto

lemma reach_create:
  assumes "reachable S (args_step spare environ c files) u" and "as_phase u i = WithEnv c'"
  shows "\<exists>v. reachable S (args_step spare environ c files) v \<and>
           as_phase v i = Created (createCmd environ (config_value (as_store u) c'))"
  using args_reach [OF assms(1) step_create [where files = files and i = i, OF assms(2)]] by (intro exI conjI) auto

text \<open>
  The run in which send \<open>i\<close> appends, send \<open>j\<close> appends after it, and \<open>i\<close> asks for its worker.
\<close>

lemma overlapped_run:
  assumes ij: "i \<noteq> j"
    and ai: "append_args spare (files i) c st = (ci, st1)" and ei: "append_env spare (files i) ci st1 = (di, st2)"
    and aj: "append_args spare (files j) c st2 = (cj, st3)" and ej: "append_env spare (files j) cj st3 = (dj, st4)"
  shows "\<exists>v. reachable (args_start st) (args_step spare environ c files) v \<and>
           as_phase v i = Created (createCmd environ (config_value st4 di))"
proof -
  let ?R = "reachable (args_start st) (args_step spare environ c files)"
  let ?u = "\<lparr> as_store = st, as_phase = (\<lambda>_. Ready) \<rparr>"
  have "?R ?u" by (rule reachable_start) (simp add: args_start_def)
  from reach_args [OF this, of i ci st1] ai obtain u1
    where "?R u1" "as_store u1 = st1" "as_phase u1 = (\<lambda>_. Ready)(i := WithArgs ci)" by auto
  with reach_env [of "args_start st" spare environ c files u1 i ci di st2] ei obtain u2
    where "?R u2" "as_store u2 = st2" "as_phase u2 = (\<lambda>_. Ready)(i := WithEnv di)" by auto
  with reach_args [of "args_start st" spare environ c files u2 j cj st3] aj ij obtain u3
    where "?R u3" "as_store u3 = st3" "as_phase u3 = (\<lambda>_. Ready)(i := WithEnv di, j := WithArgs cj)" by auto
  with reach_env [of "args_start st" spare environ c files u3 j cj dj st4] ej obtain u4
    where "?R u4" "as_store u4 = st4" "as_phase u4 = (\<lambda>_. Ready)(i := WithEnv di, j := WithEnv dj)" by auto
  with reach_create [of "args_start st" spare environ c files u4 i di] ij show ?thesis by simp
qed

lemma overlapped_ok:
  assumes ok: "config_ok st c"
    and ai: "append_args spare p c st = (ci, st1)" and ei: "append_env spare p ci st1 = (di, st2)"
  shows "config_ok st1 ci \<and> config_ok st2 c \<and> (\<forall>t. slice_ok st t \<longrightarrow> slice_cap st2 t = slice_cap st t)"
proof -
  have ok1: "config_ok st1 ci" using append_args_ok [OF ok ai] .
  have "slice_ok st2 t \<and> slice_cap st2 t = slice_cap st t" if "slice_ok st t" for t
    using append_args_keeps [OF ok ai that] append_env_keeps [OF ok1 ei, of t] by simp
  with ok ok1 show ?thesis by (auto simp: config_ok_def)
qed

text \<open>The later append to the environment, or else to the arguments, is the one the command has.\<close>

lemma overlapped_env:
  assumes ok: "config_ok st c" and e: "sx_Env c = Some e" and room: "sl_len e + 3 \<le> slice_cap st e"
    and ai: "append_args spare p c st = (ci, st1)" and ei: "append_env spare p ci st1 = (di, st2)"
    and aj: "append_args spare q c st2 = (cj, st3)" and ej: "append_env spare q cj st3 = (dj, st4)"
  shows "\<exists>xs. sc_Env (config_value st4 di) = Some (xs @ file_env_entries q)"
proof -
  let ?e = "e\<lparr> sl_len := sl_len e + 3 \<rparr>"
  have "slice_ok st e" using ok e by (simp add: config_ok_def)
  from append_args_keeps [OF ok ai this] room
  have e1: "slice_ok st1 e" and r1: "sl_len e + 3 \<le> slice_cap st1 e" by auto
  have "sx_Env ci = Some e" using ai e by (auto simp: append_args_def split: prod.splits)
  from append_env_room(1) [OF this e1 r1 ei] have di: "sx_Env di = Some ?e" by simp
  from overlapped_ok [OF ok ai ei] e1 r1 append_env_keeps [OF _ ei e1]
  have "slice_ok st2 e" and r2: "sl_len e + 3 \<le> slice_cap st2 e" and ok2: "config_ok st2 c" by auto
  from append_args_keeps [OF ok2 aj this(1)] r2
  have e3: "slice_ok st3 e" and r3: "sl_len e + 3 \<le> slice_cap st3 e" by auto
  have "sx_Env cj = Some e" using aj e by (auto simp: append_args_def split: prod.splits)
  from append_env_room(2) [OF this e3 r3 ej] di show ?thesis by (simp add: config_value_def)
qed

lemma overlapped_args:
  assumes ok: "config_ok st c" and room: "sl_len (sx_Args c) + 2 \<le> slice_cap st (sx_Args c)"
    and tight: "\<forall>e \<in> set_option (sx_Env c). slice_cap st e < sl_len e + 3"
    and ai: "append_args spare p c st = (ci, st1)" and ei: "append_env spare p ci st1 = (di, st2)"
    and aj: "append_args spare q c st2 = (cj, st3)" and ej: "append_env spare q cj st3 = (dj, st4)"
  shows "\<exists>xs. sc_Args (config_value st4 di) = xs @ [fst q, snd q]"
proof -
  have args: "slice_ok st (sx_Args c)" using ok by (simp add: config_ok_def)
  have ok2: "config_ok st2 c" and same2: "\<forall>t. slice_ok st t \<longrightarrow> slice_cap st2 t = slice_cap st t"
    using overlapped_ok [OF ok ai ei] by auto
  have room2: "sl_len (sx_Args c) + 2 \<le> slice_cap st2 (sx_Args c)" using room same2 args by simp
  have "sx_Args di = sx_Args ci" using ei by (auto simp: append_env_def Let_def split: prod.splits)
  moreover have "sx_Args ci = sx_Args cj"
    using append_args_room(1) [OF ok room ai] append_args_room(1) [OF ok2 room2 aj] by simp
  moreover note elems = append_args_room(2,3) [OF ok2 room2 aj]
  moreover have "\<forall>e \<in> set_option (sx_Env cj). slice_cap st3 e < sl_len e + 3"
    using tight same2 ok append_args_keeps [OF ok2 aj] ok2 append_args_room(1) [OF ok2 room2 aj]
    by (auto simp: config_ok_def)
  then obtain x where "st4 = st3 @ [x]" using append_env_alone(1) [OF elems(2) _ ej] by blast
  ultimately have "slice_elems st4 (sx_Args di) = slice_elems st2 (sx_Args c) @ [fst q, snd q]"
    using slice_extend(2) [of st3 "sx_Args cj" "[x]"] by (simp add: config_ok_def)
  then show ?thesis by (simp add: config_value_def)
qed

lemma spare_room_mixes:
  assumes ok: "config_ok st c" and room: "\<not> no_spare st c" and ij: "i \<noteq> j" and files: "files i \<noteq> files j"
  shows "\<exists>v cmd. reachable (args_start st) (args_step spare environ c files) v \<and>
           as_phase v i = Created cmd \<and> cmd \<noteq> own_command environ st c (files i)"
proof -
  obtain ci st1 di st2 cj st3 dj st4 where
    ai: "append_args spare (files i) c st = (ci, st1)" and ei: "append_env spare (files i) ci st1 = (di, st2)"
    and aj: "append_args spare (files j) c st2 = (cj, st3)" and ej: "append_env spare (files j) cj st3 = (dj, st4)"
    by (metis (no_types) surj_pair)
  obtain v where v: "reachable (args_start st) (args_step spare environ c files) v"
    and cmd: "as_phase v i = Created (createCmd environ (config_value st4 di))"
    using overlapped_run [OF ij ai ei aj ej] by blast
  have "createCmd environ (config_value st4 di) \<noteq> own_command environ st c (files i)"
  proof (cases "\<forall>e \<in> set_option (sx_Env c). slice_cap st e < sl_len e + 3")
    case True
    with room have "sl_len (sx_Args c) + 2 \<le> slice_cap st (sx_Args c)" by (auto simp: no_spare_def)
    from overlapped_args [OF ok this True ai ei aj ej] files show ?thesis
      by (auto simp: own_command_def createCmd_def file_params_def initCmd_def prod_eq_iff)
  next
    case False
    then obtain e where "sx_Env c = Some e" and "sl_len e + 3 \<le> slice_cap st e" by auto
    from overlapped_env [OF ok this ai ei aj ej] files show ?thesis
      by (auto simp: own_command_def createCmd_def file_params_def initCmd_def file_env_entries_def prod_eq_iff)
  qed
  with v cmd show ?thesis by blast
qed

section \<open>Property\<close>

text \<open>
  C12: the sends of several file adapters share the arrays of the configured arguments and environment.
  Every worker is created with the arguments and the environment of its own send, in every
  interleaving, exactly when the configured slices have no spare room for what \<open>Send\<close> appends: two
  more arguments, three more entries.  With spare room a worker can be given the files of another
  request.
\<close>

theorem file_arguments_own:
  assumes "config_ok st c" and "i \<noteq> j" and "files i \<noteq> files j"
  shows "(\<forall>u k cmd. reachable (args_start st) (args_step spare environ c files) u \<and> as_phase u k = Created cmd \<longrightarrow>
            cmd = own_command environ st c (files k)) \<longleftrightarrow>
         slice_cap st (sx_Args c) < sl_len (sx_Args c) + 2 \<and>
         (case sx_Env c of None \<Rightarrow> True | Some e \<Rightarrow> slice_cap st e < sl_len e + 3)"
proof -
  have tight: "no_spare st c \<longleftrightarrow> slice_cap st (sx_Args c) < sl_len (sx_Args c) + 2 \<and>
         (case sx_Env c of None \<Rightarrow> True | Some e \<Rightarrow> slice_cap st e < sl_len e + 3)"
    by (simp add: no_spare_def split: option.splits)
  have "cmd = own_command environ st c (files k)"
    if "no_spare st c" "reachable (args_start st) (args_step spare environ c files) u" "as_phase u k = Created cmd" for u k cmd
    using args.reachable_inv [OF that(2)] that(1,3) assms(1) by (metis args_inv_def phase_ok.simps(4))
  with spare_room_mixes [OF assms(1) _ assms(2,3)] show ?thesis unfolding tight [symmetric] by blast
qed

text \<open>
  A configuration of five arguments in an array of eight, which is what appending them one by one
  leaves, and the files of two sends.
\<close>

definition roomy_store :: store where
  "roomy_store = [[''-m'', ''eval'', ''-u'', ''-v'', ''-x'', [], [], []]]"

definition roomy_config :: SliceConfig where
  "roomy_config = \<lparr> sx_Cmd = ''python'', sx_Cwd = [], sx_Args = \<lparr> sl_array = 0, sl_len = 5 \<rparr>, sx_Env = None \<rparr>"

definition numbered_files :: "nat \<Rightarrow> string \<times> string" where
  "numbered_files i = (''/tmp/shimmy/request-'' @ show_nat i, ''/tmp/shimmy/response-'' @ show_nat i)"

theorem file_arguments_own_witness:
  "\<exists>u k cmd. reachable (args_start roomy_store) (args_step (\<lambda>n. n) [] roomy_config numbered_files) u \<and>
     as_phase u k = Created cmd \<and> cmd \<noteq> own_command [] roomy_store roomy_config (numbered_files k)"
proof -
  have "config_ok roomy_store roomy_config"
    by (simp add: config_ok_def slice_ok_def slice_cap_def roomy_store_def roomy_config_def)
  moreover have "numbered_files 0 \<noteq> numbered_files 1" by (simp add: numbered_files_def show_nat.simps digit_def)
  moreover have "\<not> slice_cap roomy_store (sx_Args roomy_config) < sl_len (sx_Args roomy_config) + 2"
    by (simp add: slice_cap_def roomy_store_def roomy_config_def)
  ultimately show ?thesis
    using file_arguments_own [of roomy_store roomy_config 0 1 numbered_files "\<lambda>n. n" "[]"] by auto
qed

end
