(* ===== verification/File_Service.thy ===== *)
theory File_Service
  imports Rpc_Service
begin

text \<open>
  The program as a whole over the file interface: the runtime on the pooled dispatcher, from its
  construction through any requests to its shutdown.
\<close>

section \<open>Supervisors beside a pool\<close>

text \<open>The operations of adapters in a world that also holds the state of the pool, which they do not touch.\<close>

definition beside :: "('a, 'r, 'w) adapter_ops \<Rightarrow> ('a, 'r, 'p \<times> 'w) adapter_ops" where
  "beside ops =
     \<lparr> ao_create = (\<lambda>config (p, w). map_option (\<lambda>(r, w'). (r, p, w')) (ao_create ops config w)),
       ao_Start = (\<lambda>a params (p, w). map_option (\<lambda>(r, w'). (r, p, w')) (ao_Start ops a params w)),
       ao_Send = (\<lambda>a mth data t (p, w). map_option (\<lambda>(r, w'). (r, p, w')) (ao_Send ops a mth data t w)),
       ao_Stop = (\<lambda>a (p, w). map_option (\<lambda>(r, w'). (r, p, w')) (ao_Stop ops a w)),
       ao_wait = (\<lambda>h (p, w). map_option (\<lambda>(r, w'). (r, p, w')) (ao_wait ops h w)),
       ao_cancel = (\<lambda>a (p, w). (p, ao_cancel ops a w)) \<rparr>"

lemma beside_boot:
  "bootWorker (beside ops) config (p, w) = map_option (\<lambda>(r, w'). (r, p, w')) (bootWorker ops config w)"
  by (cases "ao_create ops (cfg_IO config) w")
    (auto simp: bootWorker_def createWorker_def beside_def Let_def split: sum.splits option.splits bind_splits)

lemma beside_acquire:
  "acquireWorker (beside ops) s (p, w) = map_option (\<lambda>(r, s', w'). (r, s', p, w')) (acquireWorker ops s w)"
  by (cases "bootWorker ops (ws_config s) w")
    (auto simp: acquireWorker_def beside_boot split: option.splits sum.splits)

lemma beside_release_worker:
  "releaseWorker (beside ops) s (p, w) = map_option (\<lambda>(r, s', w'). (r, s', p, w')) (releaseWorker ops s w)"
proof (cases "ws_workerRef s")
  case (Some a)
  then show ?thesis
    by (cases "ao_Stop ops a w") (auto simp: releaseWorker_def terminateWorker_def beside_def split: sum.splits)
qed (simp add: releaseWorker_def terminateWorker_def)

lemma beside_send:
  "Supervisor_Send (beside ops) mth data s (p, w) =
     map_option (\<lambda>(out, s', w'). (out, s', p, w')) (Supervisor_Send ops mth data s w)"
proof (cases "acquireWorker ops s w")
  case (Some x)
  obtain r s1 w1 where x: "x = (r, s1, w1)" by (cases x)
  show ?thesis
  proof (cases r)
    case (Inr a)
    have "ao_Send (beside ops) a mth data (cfg_SendTimeout (ws_config s1)) (p, w1) =
        map_option (\<lambda>(res, w'). (res, p, w')) (ao_Send ops a mth data (cfg_SendTimeout (ws_config s1)) w1)"
      by (simp add: beside_def)
    with Some x Inr show ?thesis
      by (cases "ao_Send ops a mth data (cfg_SendTimeout (ws_config s1)) w1")
        (auto simp: Supervisor_Send_def beside_acquire beside_release_worker split: option.splits bind_splits)
  qed (simp add: Supervisor_Send_def beside_acquire Some x)
qed (simp add: Supervisor_Send_def beside_acquire)

lemma beside_run_release:
  "run_release (beside ops) late rel (p, w) = map_option (\<lambda>(e, w'). (e, p, w')) (run_release ops late rel w)"
proof (cases rel)
  case (WaitAndCancel h a)
  then show ?thesis
    by (cases "ao_wait ops h w") (auto simp: run_release_def beside_def)
qed (simp_all add: run_release_def)

section \<open>The pool library\<close>

text \<open>
  What a pool holds: its configuration, the idle resources and those in use, and the supervisor of
  each.
\<close>

record ('a, 'res, 'w) pool_view =
  pv_config :: "('a, 'w) pool_config"
  pv_idle :: "'res set"
  pv_busy :: "'res set"
  pv_value :: "'res \<Rightarrow> 'a WorkerSupervisor"

definition has_room :: "('a, 'res, 'w) pool_view \<Rightarrow> bool" where
  "has_room v \<longleftrightarrow> int (card (pv_idle v \<union> pv_busy v)) < sint (pc_MaxSize (pv_config v))"

text \<open>A new resource, made by the constructor.\<close>

definition constructs :: "('a, 'res, 'w) pool_view \<Rightarrow> 'w \<Rightarrow> 'res \<Rightarrow> 'a WorkerSupervisor \<Rightarrow> 'w \<Rightarrow> bool" where
  "constructs v w r s w' \<longleftrightarrow>
     has_room v \<and> r \<notin> pv_idle v \<union> pv_busy v \<and> pc_Constructor (pv_config v) w = Some (Inr s, w')"

text \<open>
  The documented outcomes of \<open>Acquire\<close>: an idle resource, or a new one while there is room; or an error,
  of the context or of the constructor.  When the context ends while the constructor runs, the new
  resource becomes an idle one.
\<close>

definition acquired :: "('a, 'res, 'w) pool_view \<Rightarrow> 'w \<Rightarrow> 'res \<Rightarrow> ('a, 'res, 'w) pool_view \<Rightarrow> 'w \<Rightarrow> bool" where
  "acquired v w r v' w' \<longleftrightarrow>
     (r \<in> pv_idle v \<and> w' = w \<and> v' = v\<lparr> pv_idle := pv_idle v - {r}, pv_busy := insert r (pv_busy v) \<rparr>) \<or>
     (\<exists>s. constructs v w r s w' \<and> v' = v\<lparr> pv_busy := insert r (pv_busy v), pv_value := (pv_value v)(r := s) \<rparr>)"

definition refused :: "('a, 'res, 'w) pool_view \<Rightarrow> 'w \<Rightarrow> ('a, 'res, 'w) pool_view \<Rightarrow> 'w \<Rightarrow> bool" where
  "refused v w v' w' \<longleftrightarrow>
     (v' = v \<and> w' = w) \<or> (v' = v \<and> (\<exists>err. pc_Constructor (pv_config v) w = Some (Inl err, w'))) \<or>
     (\<exists>r s. constructs v w r s w' \<and> v' = v\<lparr> pv_idle := insert r (pv_idle v), pv_value := (pv_value v)(r := s) \<rparr>)"

text \<open>The destructor on some supervisors, one after the other; one that does not end leaves the world.\<close>

definition destructed :: "('a, 'w) pool_config \<Rightarrow> bool \<Rightarrow> 'a WorkerSupervisor \<Rightarrow> 'w \<Rightarrow> 'w" where
  "destructed c late s w = (case pc_Destructor c late s w of Some w' \<Rightarrow> w' | None \<Rightarrow> w)"

text \<open>
  What the dispatcher relies on, for a view of the states of the pool: a new pool is empty and has room for one resource;
  \<open>Acquire\<close> returns when there is an idle resource, or room and a constructor that returns; \<open>Release\<close> and
  \<open>Destroy\<close> dispose of a resource in use; \<open>Close\<close> returns when no resource is in use, and destroys the
  idle ones.
\<close>

definition puddle_conforms ::
  "(('a, 'w) pool_config \<Rightarrow> go_error + 'p) \<Rightarrow> ('a, 'res, 'p \<times> 'w) pool_ops \<Rightarrow> ('p \<Rightarrow> 'p \<times> 'w \<Rightarrow> ('p \<times> 'w) option)
     \<Rightarrow> ('p \<Rightarrow> ('a, 'res, 'w) pool_view) \<Rightarrow> bool" where
  "puddle_conforms newPool pool close view \<longleftrightarrow>
     (\<forall>c p. newPool c = Inr p \<longrightarrow>
        1 \<le> sint (pc_MaxSize c) \<and> pv_config (view p) = c \<and> pv_idle (view p) = {} \<and> pv_busy (view p) = {}) \<and>
     (\<forall>p w r p' w'. po_Acquire pool (p, w) = Some (Inr r, p', w') \<longrightarrow> acquired (view p) w r (view p') w') \<and>
     (\<forall>p w err p' w'. po_Acquire pool (p, w) = Some (Inl err, p', w') \<longrightarrow> refused (view p) w (view p') w') \<and>
     (\<forall>p w. pv_idle (view p) \<noteq> {} \<or> has_room (view p) \<and> pc_Constructor (pv_config (view p)) w \<noteq> None \<longrightarrow>
        po_Acquire pool (p, w) \<noteq> None) \<and>
     (\<forall>p w r. po_Value pool r (p, w) = pv_value (view p) r) \<and>
     (\<forall>p w r s. \<exists>p'. po_store pool r s (p, w) = (p', w) \<and> view p' = (view p)\<lparr> pv_value := (pv_value (view p))(r := s) \<rparr>) \<and>
     (\<forall>p w r. r \<in> pv_busy (view p) \<longrightarrow>
        (\<exists>p'. po_Release pool r (p, w) = (p', w) \<and>
           view p' = (view p)\<lparr> pv_idle := insert r (pv_idle (view p)), pv_busy := pv_busy (view p) - {r} \<rparr>) \<and>
        (\<exists>p' late. po_Destroy pool r (p, w) = (p', destructed (pv_config (view p)) late (pv_value (view p) r) w) \<and>
           view p' = (view p)\<lparr> pv_busy := pv_busy (view p) - {r} \<rparr>)) \<and>
     (\<forall>h p w. pv_busy (view p) = {} \<longrightarrow>
        (\<exists>p' ds. close h (p, w) = Some (p', foldl (\<lambda>w (late, r). destructed (pv_config (view p)) late (pv_value (view p) r) w) w ds) \<and>
           snd ` set ds = pv_idle (view p) \<and> view p' = (view p)\<lparr> pv_idle := {} \<rparr>))"

lemma puddle_laws:
  assumes "puddle_conforms newPool pool close view"
  shows "newPool c = Inr p \<Longrightarrow>
      1 \<le> sint (pc_MaxSize c) \<and> pv_config (view p) = c \<and> pv_idle (view p) = {} \<and> pv_busy (view p) = {}"
    and "po_Acquire pool (p, w) = Some (Inr r, p', w') \<Longrightarrow> acquired (view p) w r (view p') w'"
    and "po_Acquire pool (p, w) = Some (Inl err, p', w') \<Longrightarrow> refused (view p) w (view p') w'"
    and "pv_idle (view p) \<noteq> {} \<or> has_room (view p) \<Longrightarrow> pc_Constructor (pv_config (view p)) w = Some x \<Longrightarrow>
      \<exists>y. po_Acquire pool (p, w) = Some y"
    and "po_Value pool r (p, w) = pv_value (view p) r"
    and "\<exists>p'. po_store pool r s (p, w) = (p', w) \<and> view p' = (view p)\<lparr> pv_value := (pv_value (view p))(r := s) \<rparr>"
    and "r \<in> pv_busy (view p) \<Longrightarrow> \<exists>p'. po_Release pool r (p, w) = (p', w) \<and>
      view p' = (view p)\<lparr> pv_idle := insert r (pv_idle (view p)), pv_busy := pv_busy (view p) - {r} \<rparr>"
    and "r \<in> pv_busy (view p) \<Longrightarrow> \<exists>p' late. po_Destroy pool r (p, w) =
        (p', destructed (pv_config (view p)) late (pv_value (view p) r) w) \<and>
      view p' = (view p)\<lparr> pv_busy := pv_busy (view p) - {r} \<rparr>"
    and "pv_busy (view p) = {} \<Longrightarrow> \<exists>p' ds. close h (p, w) =
        Some (p', foldl (\<lambda>w (late, r). destructed (pv_config (view p)) late (pv_value (view p) r) w) w ds) \<and>
      snd ` set ds = pv_idle (view p) \<and> view p' = (view p)\<lparr> pv_idle := {} \<rparr>"
  using assms unfolding puddle_conforms_def by - (elim conjE, simp; fail)+

section \<open>The runtime on the pooled dispatcher\<close>

text \<open>
  A send has an outcome, the world at that moment, and the world when the goroutine that disposes of
  the supervisor has ended.
\<close>

type_synonym ('p, 'c) file_world = "'p \<times> 'c adapter_world"

type_synonym ('p, 'c) pooled_start = "(go_error option \<times> ('p, 'c) file_world) option"

type_synonym ('p, 'c) pooled_send =
  "((go_error + gomap) go \<times> ('p, 'c) file_world \<times> ('p, 'c) file_world option) option"

definition pooled_backend ::
  "(nat, 'res, ('p, 'c) file_world) pool_ops \<Rightarrow> ('p \<Rightarrow> ('p, 'c) file_world \<Rightarrow> ('p, 'c) file_world option) \<Rightarrow> 'c outside \<Rightarrow> bool
     \<Rightarrow> 'p PooledDispatcher \<Rightarrow> (('p, 'c) file_world, ('p, 'c) pooled_start, ('p, 'c) pooled_send) Dispatcher" where
  "pooled_backend pool close E late d =
     \<lparr> dp_Start = (\<lambda>w. Some (Pooled_Start w)),
       dp_Send = (\<lambda>mth data w. Pooled_Send pool (beside (adapters E)) late mth data w),
       dp_Shutdown = Pooled_Shutdown close d \<rparr>"

text \<open>\<open>NewRuntime\<close> with the file interface, over the default supervisor factory.\<close>

definition NewRuntime_file ::
  "((nat, 'c adapter_world) pool_config \<Rightarrow> go_error + 'p) \<Rightarrow> (nat, 'res, ('p, 'c) file_world) pool_ops
     \<Rightarrow> ('p \<Rightarrow> ('p, 'c) file_world \<Rightarrow> ('p, 'c) file_world option) \<Rightarrow> 'c outside \<Rightarrow> bool \<Rightarrow> int \<Rightarrow> SupervisorConfig \<Rightarrow> int
     \<Rightarrow> go_error + (('p, 'c) file_world, ('p, 'c) pooled_start, ('p, 'c) pooled_send) EvaluationRuntime \<times> 'p" where
  "NewRuntime_file newPool pool close E late numCPU config maxWorkers =
     (case NewPooledDispatcher newPool (adapters E) numCPU None config maxWorkers of
        Inl err \<Rightarrow> Inl err
      | Inr d \<Rightarrow> Inr (\<lparr> rt_dispatcher = pooled_backend pool close E late d \<rparr>, pd_pool d))"

section \<open>One message\<close>

lemma file_constructor:
  assumes "io_Interface (cfg_IO config) = FileIO"
  shows "pool_constructor (adapters E) defaultSupervisorFactory config w = Some (Inr (New config), w)"
  using assms by (simp add: pool_constructor_def defaultSupervisorFactory_def Supervisor_Start_def New_def io_defs)

lemma file_destructor:
  "pc_Destructor c = pool_destructor (adapters E) \<Longrightarrow> destructed c late (New config) w = w"
  by (simp add: destructed_def pool_destructor_def Shutdown_def terminateWorker_def New_def run_release_def)

lemma file_run_returns: "fe_stdout_closes E \<Longrightarrow> \<exists>x. file_run E factory req res a fw = Some x"
  by (simp add: file_run_def Let_def split: sum.splits option.splits prod.splits)

lemma fileAdapter_returns: "fe_stdout_closes E \<Longrightarrow> \<exists>x. fileAdapter_Send E mth data a fw = Some x"
  using file_run_returns by (fastforce simp: fileAdapter_Send_def Let_def split: sum.splits option.splits)

text \<open>A supervisor over files answers, and its release cancels the worker context it made.\<close>

lemma file_message:
  assumes ok: "contexts_ok w" and io: "io_Interface (cfg_IO config) = FileIO"
    and closes: "fe_stdout_closes (ou_file E (aw_clock w))"
  shows "\<exists>out res rel w2 w3. Supervisor_Send (adapters E) mth data (New config) w = Some (out, New config, w2) \<and>
    so_result out = Some (res, rel) \<and> run_release (adapters E) late rel w2 = Some (None, w3) \<and>
    contexts_ok w3 \<and> live_contexts w3 = live_contexts w"
proof -
  let ?s = "New config :: nat WorkerSupervisor"
  obtain f where aq: "acquireWorker (adapters E) ?s w = Some (Inr (aw_next w), ?s\<lparr> ws_workerRef := Some (aw_next w) \<rparr>,
      put_adapter (aw_next w) (FileAdapter f) (w\<lparr> aw_next := Suc (aw_next w), aw_live := finsert (aw_next w) (aw_live w) \<rparr>))"
    (is "_ = Some (Inr ?a, ?s1, ?w1)")
    using io by (auto simp: acquireWorker_def bootWorker_def createWorker_def adapter_op_defs Let_def New_def
        defaultAdapterFactory_def fileAdapter_Start_def)
  obtain res f' files where sd: "fileAdapter_Send (ou_file E (aw_clock w)) mth data f (aw_files w) = Some (res, f', files)"
    using fileAdapter_returns [OF closes] by (metis prod_cases3)
  let ?w2 = "put_adapter ?a (FileAdapter f') ((tick ?w1)\<lparr> aw_files := files \<rparr>)"
  have send: "ao_Send (adapters E) ?a mth data t ?w1 = Some (res, ?w2)" for t
    using sd by (simp add: adapters_def adapter_Send_def put_adapter_def)
  have rel: "releaseWorker (adapters E) ?s1 ?w2 = Some (Inr (WaitAndCancel None ?a), ?s, ?w2)"
    using io by (simp add: releaseWorker_def terminateWorker_def New_def io_defs adapters_def adapter_Stop_def
        put_adapter_def fileAdapter_Stop_def)
  obtain out where out: "Supervisor_Send (adapters E) mth data ?s w = Some (out, ?s, ?w2)"
    "\<exists>x. so_result out = Some (x, WaitAndCancel None ?a)"
    using aq send rel by (simp add: Supervisor_Send_def)
  have run: "run_release (adapters E) late (WaitAndCancel None ?a) ?w2 = Some (None, ao_cancel (adapters E) ?a ?w2)"
    by (simp add: run_release_def adapters_def adapter_wait_def)
  have "send_and_release (adapters E) late mth data ?s w = Some (out, ?s, ao_cancel (adapters E) ?a ?w2)"
    using out run by (auto simp: send_and_release_def)
  from adapters.transient_send [OF ok _ _ this] io out(2)
  have "contexts_ok (ao_cancel (adapters E) ?a ?w2)" "live_contexts (ao_cancel (adapters E) ?a ?w2) = live_contexts w"
    by (auto simp: New_def io_defs)
  with out run show ?thesis by blast
qed

section \<open>The pool between messages\<close>

text \<open>
  No resource is in use, no more than the maximum exist, and every supervisor is as its constructor
  left it; the worker contexts are those of the start.
\<close>

definition file_config :: "'c outside \<Rightarrow> SupervisorConfig \<Rightarrow> (nat, 'c adapter_world) pool_config \<Rightarrow> bool" where
  "file_config E config c \<longleftrightarrow> io_Interface (cfg_IO config) = FileIO \<and> 1 \<le> sint (pc_MaxSize c) \<and>
     pc_Constructor c = pool_constructor (adapters E) defaultSupervisorFactory config \<and>
     pc_Destructor c = pool_destructor (adapters E)"

definition idle_pool ::
  "(nat, 'c adapter_world) pool_config \<Rightarrow> SupervisorConfig \<Rightarrow> (nat, 'res, 'c adapter_world) pool_view \<Rightarrow> bool" where
  "idle_pool c config v \<longleftrightarrow> pv_config v = c \<and> pv_busy v = {} \<and> finite (pv_idle v) \<and>
     int (card (pv_idle v)) \<le> sint (pc_MaxSize c) \<and> (\<forall>r \<in> pv_idle v. pv_value v r = New config)"

definition file_ready ::
  "(nat, 'c adapter_world) pool_config \<Rightarrow> SupervisorConfig \<Rightarrow> ('p \<Rightarrow> (nat, 'res, 'c adapter_world) pool_view) \<Rightarrow> nat set
     \<Rightarrow> ('p, 'c) file_world \<Rightarrow> bool" where
  "file_ready c config view live pw \<longleftrightarrow> idle_pool c config (view (fst pw)) \<and> contexts_ok (snd pw) \<and> live_contexts (snd pw) = live"

text \<open>What \<open>Acquire\<close> makes of such a pool: a supervisor in use, the rest idle as before.\<close>

lemma idle_acquired:
  assumes c: "file_config E config c" and v: "idle_pool c config v" and a: "acquired v w r v' w'"
  shows "w' = w \<and> pv_busy v' = {r} \<and> pv_value v' r = New config \<and> r \<notin> pv_idle v' \<and>
    idle_pool c config (v'\<lparr> pv_busy := {} \<rparr>) \<and> int (card (insert r (pv_idle v'))) \<le> sint (pc_MaxSize c)"
  using a unfolding acquired_def
proof
  assume "r \<in> pv_idle v \<and> w' = w \<and> v' = v\<lparr> pv_idle := pv_idle v - {r}, pv_busy := insert r (pv_busy v) \<rparr>"
  moreover have "card (pv_idle v - {r}) \<le> card (pv_idle v)" by (rule card_Diff1_le)
  ultimately show ?thesis using v by (auto simp: idle_pool_def insert_absorb)
next
  assume "\<exists>s. constructs v w r s w' \<and> v' = v\<lparr> pv_busy := insert r (pv_busy v), pv_value := (pv_value v)(r := s) \<rparr>"
  then obtain s where s: "constructs v w r s w'"
    and v': "v' = v\<lparr> pv_busy := insert r (pv_busy v), pv_value := (pv_value v)(r := s) \<rparr>" by blast
  have "s = New config" "w' = w"
    using s c v file_constructor [of config E w] by (auto simp: constructs_def file_config_def idle_pool_def)
  with s v v' show ?thesis by (auto simp: idle_pool_def constructs_def has_room_def)
qed

lemma idle_refused:
  assumes c: "file_config E config c" and v: "idle_pool c config v" and a: "refused v w v' w'"
  shows "w' = w \<and> idle_pool c config v'"
proof -
  have k: "pc_Constructor (pv_config v) w = Some (Inr (New config), w)"
    using c v file_constructor [of config E w] by (auto simp: file_config_def idle_pool_def)
  with a consider "v' = v" "w' = w"
    | r where "constructs v w r (New config) w" "w' = w" "v' = v\<lparr> pv_idle := insert r (pv_idle v), pv_value := (pv_value v)(r := New config) \<rparr>"
    by (auto simp: refused_def constructs_def)
  then show ?thesis using v by cases (auto simp: idle_pool_def constructs_def has_room_def)
qed

text \<open>Giving back the supervisor in use, one way or the other, makes the pool ready again.\<close>

lemma disposed_ready:
  assumes pool: "puddle_conforms newPool pool close view" and c: "file_config E config c"
    and busy: "pv_busy (view p) = {r}" "pv_value (view p) r = New config" "r \<notin> pv_idle (view p)"
    and rest: "idle_pool c config ((view p)\<lparr> pv_busy := {} \<rparr>)" "int (card (insert r (pv_idle (view p)))) \<le> sint (pc_MaxSize c)"
    and live: "contexts_ok w" "live_contexts w = live"
  shows "file_ready c config view live (destroyOrRelease pool err r (p, w))"
proof (cases err)
  case None
  obtain p3 where "po_Release pool r (p, w) = (p3, w)"
    and "view p3 = (view p)\<lparr> pv_idle := insert r (pv_idle (view p)), pv_busy := pv_busy (view p) - {r} \<rparr>"
    using puddle_laws(7) [OF pool, of r p w] busy by auto
  with None busy rest live show ?thesis
    by (auto simp: destroyOrRelease_def file_ready_def idle_pool_def)
next
  case (Some e)
  obtain p3 l where d: "po_Destroy pool r (p, w) = (p3, destructed (pv_config (view p)) l (pv_value (view p) r) w)"
    and p3: "view p3 = (view p)\<lparr> pv_busy := pv_busy (view p) - {r} \<rparr>"
    using puddle_laws(8) [OF pool, of r p w] busy by auto
  have "destructed (pv_config (view p)) l (pv_value (view p) r) w = w"
    using file_destructor [of "pv_config (view p)" E] busy rest c by (auto simp: idle_pool_def file_config_def)
  with d p3 Some busy rest live show ?thesis
    by (auto simp: destroyOrRelease_def file_ready_def idle_pool_def)
qed

lemma pooled_file_send:
  assumes pool: "puddle_conforms newPool pool close view" and c: "file_config E config c"
    and closes: "\<forall>t. fe_stdout_closes (ou_file E t)" and ready: "file_ready c config view live (p, w)"
  shows "\<exists>res pw2 pw3. Pooled_Send pool (beside (adapters E)) late mth data (p, w) = Some (Ret res, pw2, Some pw3) \<and>
    file_ready c config view live pw3"
proof -
  note laws = puddle_laws [OF pool]
  have v: "idle_pool c config (view p)" "contexts_ok w" "live_contexts w = live"
    using ready by (simp_all add: file_ready_def)
  have "pv_idle (view p) \<noteq> {} \<or> has_room (view p)"
    using v(1) c by (auto simp: has_room_def idle_pool_def file_config_def)
  moreover have "pc_Constructor (pv_config (view p)) w = Some (Inr (New config), w)"
    using v(1) c file_constructor [of config E w] by (auto simp: idle_pool_def file_config_def)
  ultimately obtain x p1 w1 where aq: "po_Acquire pool (p, w) = Some (x, p1, w1)"
    using laws(4) by (metis surj_pair)
  show ?thesis
  proof (cases x)
    case (Inl err)
    from idle_refused [OF c v(1) laws(3) [OF aq [unfolded Inl]]] v have "file_ready c config view live (p1, w1)" by (auto simp: file_ready_def)
    with aq Inl show ?thesis by (auto simp: Pooled_Send_def)
  next
    case (Inr r)
    note p1 = idle_acquired [OF c v(1) laws(2) [OF aq [unfolded Inr]]]
    obtain out res rel w2 w3 where msg: "Supervisor_Send (adapters E) mth data (New config) w = Some (out, New config, w2)"
      and out: "so_result out = Some (res, rel)" and rr: "run_release (adapters E) late rel w2 = Some (None, w3)"
      and live: "contexts_ok w3" "live_contexts w3 = live_contexts w"
      using file_message [of w config E mth data late] v c closes by (auto simp: file_config_def)
    obtain p2 where st: "po_store pool r (New config) (p1, w2) = (p2, w2)"
      and p2: "view p2 = (view p1)\<lparr> pv_value := (pv_value (view p1))(r := New config) \<rparr>" using laws(6) by blast
    have same: "view p2 = view p1" using p1 p2 by (simp add: fun_upd_idem)
    have send: "sendToSupervisor pool (beside (adapters E)) late mth data r (p1, w1) =
        Some (case so_err out of Some err \<Rightarrow> Ret (Inl err) | None \<Rightarrow> Ret (Inr res), (p2, w2),
              Some (destroyOrRelease pool (so_err out) r (p2, w3)))"
      using msg out rr st p1
      by (simp add: sendToSupervisor_def laws(5) beside_send beside_run_release dispose_def split: option.splits)
    have "file_ready c config view live (destroyOrRelease pool (so_err out) r (p2, w3))"
      using disposed_ready [OF pool c, where p = p2 and r = r] same p1 live v by auto
    with aq Inr send show ?thesis by (cases "so_err out") (simp_all add: Pooled_Send_def)
  qed
qed

section \<open>Properties\<close>

text \<open>
  The HTTP layer over the runtime when each supervisor has been disposed of before the next request
  takes one.
\<close>

definition settles ::
  "('p, 'c) file_world runtime \<Rightarrow> (('p, 'c) file_world, ('p, 'c) pooled_start, ('p, 'c) pooled_send) EvaluationRuntime \<Rightarrow> bool" where
  "settles rt r \<longleftrightarrow> (\<forall>msg w res w2 w3. Runtime_Handle r msg w = Some (res, w2, Some w3) \<longrightarrow> rt msg w = (res, w3))"

lemma file_ready_service:
  assumes "puddle_conforms newPool pool close view" and "file_config E config c"
    and "\<forall>t. fe_stdout_closes (ou_file E t)" and "settles rt \<lparr> rt_dispatcher = pooled_backend pool close E late d \<rparr>"
  shows "runtime_service rt (file_ready c config view live)"
proof
  fix pw msg
  assume ready: "file_ready c config view live pw"
  obtain p w where pw: "pw = (p, w)" by (cases pw)
  from pooled_file_send [OF assms(1-3) ready [unfolded pw], of late "er_Command msg" "er_Data msg"] assms(4) pw
  show "returns (fst (rt msg pw))" and "file_ready c config view live (snd (rt msg pw))"
    by (force simp: settles_def Runtime_Handle_def pooled_backend_def)+
qed

lemma new_file_runtime:
  assumes "puddle_conforms newPool pool close view" and "io_Interface (cfg_IO config) = FileIO"
    and "NewRuntime_file newPool pool close E late numCPU config maxWorkers = Inr (r, p0)" and "contexts_ok w"
  shows "\<exists>c d. file_config E config c \<and> pc_MaxSize c = pool_MaxSize maxWorkers numCPU \<and>
    r = \<lparr> rt_dispatcher = pooled_backend pool close E late d \<rparr> \<and> file_ready c config view (live_contexts w) (p0, w)"
proof -
  obtain d where d: "NewPooledDispatcher newPool (adapters E) numCPU None config maxWorkers = Inr d"
    and r: "r = \<lparr> rt_dispatcher = pooled_backend pool close E late d \<rparr>" "p0 = pd_pool d"
    using assms(3) by (auto simp: NewRuntime_file_def split: sum.splits)
  let ?c = "\<lparr> pc_Constructor = pool_constructor (adapters E) defaultSupervisorFactory config,
      pc_Destructor = pool_destructor (adapters E), pc_MaxSize = pool_MaxSize maxWorkers numCPU \<rparr>"
  have "newPool ?c = Inr p0"
    using d r(2) by (auto simp: NewPooledDispatcher_def createPool_def factory_or_default_def split: sum.splits)
  from puddle_laws(1) [OF assms(1) this] assms(2,4) r(1) show ?thesis
    by (intro exI [of _ ?c] exI [of _ d]) (simp add: file_config_def file_ready_def idle_pool_def)
qed

lemma idle_pool_closes:
  assumes "puddle_conforms newPool pool close view" and "file_config E config c" and "idle_pool c config (view p)"
  shows "\<exists>p'. close h (p, w) = Some (p', w) \<and> pv_idle (view p') = {} \<and> pv_busy (view p') = {}"
proof -
  have v: "pv_busy (view p) = {}" "pc_Destructor (pv_config (view p)) = pool_destructor (adapters E)"
    "\<forall>r \<in> pv_idle (view p). pv_value (view p) r = New config"
    using assms(2,3) by (auto simp: idle_pool_def file_config_def)
  obtain p' ds where cl: "close h (p, w) =
      Some (p', foldl (\<lambda>w (late, r). destructed (pv_config (view p)) late (pv_value (view p) r) w) w ds)"
    and ds: "snd ` set ds = pv_idle (view p)" and p': "view p' = (view p)\<lparr> pv_idle := {} \<rparr>"
    using puddle_laws(9) [OF assms(1) v(1)] by blast
  have "foldl (\<lambda>w (late, r). destructed (pv_config (view p)) late (pv_value (view p) r) w) w ds' = w"
    if "set ds' \<subseteq> set ds" for ds'
    using that
  proof (induction ds' rule: rev_induct)
    case (snoc x xs)
    then have "pv_value (view p) (snd x) = New config" using ds v(3) by auto
    with snoc show ?case by (simp add: case_prod_beta file_destructor [OF v(2)])
  qed simp
  with cl p' v(1) show ?thesis by simp
qed


section \<open>A pool that keeps its resources in a list\<close>

record ('a, 'w) list_pool =
  lp_config :: "('a, 'w) pool_config"
  lp_idle :: "nat list"
  lp_busy :: "nat list"
  lp_value :: "nat \<Rightarrow> 'a WorkerSupervisor"

definition lp_view :: "('a, 'w) list_pool \<Rightarrow> ('a, nat, 'w) pool_view" where
  "lp_view p = \<lparr> pv_config = lp_config p, pv_idle = set (lp_idle p), pv_busy = set (lp_busy p), pv_value = lp_value p \<rparr>"

definition lp_new :: "('a, 'w) pool_config \<Rightarrow> go_error + ('a, 'w) list_pool" where
  "lp_new c = (if sint (pc_MaxSize c) < 1 then Inl (ErrorString ''MaxSize must be >= 1'')
     else Inr \<lparr> lp_config = c, lp_idle = [], lp_busy = [], lp_value = (\<lambda>_. New (config_for FileIO)) \<rparr>)"

definition lp_fresh :: "('a, 'w) list_pool \<Rightarrow> nat" where
  "lp_fresh p = Suc (sum_list (lp_idle p @ lp_busy p))"

definition lp_acquire ::
  "('a, 'w) list_pool \<times> 'w \<Rightarrow> ((go_error + nat) \<times> ('a, 'w) list_pool \<times> 'w) option" where
  "lp_acquire = (\<lambda>(p, w). case lp_idle p of
       r # rs \<Rightarrow> Some (Inr r, p\<lparr> lp_idle := removeAll r rs, lp_busy := r # lp_busy p \<rparr>, w)
     | [] \<Rightarrow>
         (if int (length (remdups (lp_busy p))) < sint (pc_MaxSize (lp_config p))
          then case pc_Constructor (lp_config p) w of
                 None \<Rightarrow> None
               | Some (Inl err, w') \<Rightarrow> Some (Inl err, p, w')
               | Some (Inr s, w') \<Rightarrow>
                   Some (Inr (lp_fresh p),
                     p\<lparr> lp_busy := lp_fresh p # lp_busy p, lp_value := (lp_value p)(lp_fresh p := s) \<rparr>, w')
          else None))"

definition list_pool_ops :: "('a, nat, ('a, 'w) list_pool \<times> 'w) pool_ops" where
  "list_pool_ops =
     \<lparr> po_Acquire = lp_acquire,
       po_Release = (\<lambda>r (p, w). (p\<lparr> lp_idle := r # lp_idle p, lp_busy := removeAll r (lp_busy p) \<rparr>, w)),
       po_Destroy = (\<lambda>r (p, w). (p\<lparr> lp_busy := removeAll r (lp_busy p) \<rparr>, destructed (lp_config p) False (lp_value p r) w)),
       po_Value = (\<lambda>r (p, w). lp_value p r),
       po_store = (\<lambda>r s (p, w). (p\<lparr> lp_value := (lp_value p)(r := s) \<rparr>, w)) \<rparr>"

definition lp_close :: "('a, 'w) list_pool \<Rightarrow> ('a, 'w) list_pool \<times> 'w \<Rightarrow> (('a, 'w) list_pool \<times> 'w) option" where
  "lp_close h = (\<lambda>(p, w). if lp_busy p = []
     then Some (p\<lparr> lp_idle := [] \<rparr>, foldl (\<lambda>w r. destructed (lp_config p) False (lp_value p r) w) w (lp_idle p))
     else None)"

lemma lp_fresh_new: "lp_fresh p \<notin> set (lp_idle p) \<union> set (lp_busy p)"
  using member_le_sum_list [of "lp_fresh p" "lp_idle p @ lp_busy p"] by (auto simp: lp_fresh_def)

lemma lp_has_room: "lp_idle p = [] \<Longrightarrow>
    int (length (remdups (lp_busy p))) < sint (pc_MaxSize (lp_config p)) \<longleftrightarrow> has_room (lp_view p)"
  by (simp add: has_room_def lp_view_def length_remdups_card_conv)

lemma lp_acquired: "lp_acquire (p, w) = Some (Inr r, p', w') \<Longrightarrow> acquired (lp_view p) w r (lp_view p') w'"
  using lp_fresh_new [of p] lp_has_room [of p]
  by (auto simp: lp_acquire_def acquired_def constructs_def lp_view_def split: list.splits if_splits option.splits sum.splits)

lemma lp_refused: "lp_acquire (p, w) = Some (Inl err, p', w') \<Longrightarrow> refused (lp_view p) w (lp_view p') w'"
  by (auto simp: lp_acquire_def refused_def lp_view_def split: list.splits if_splits option.splits sum.splits)

lemma lp_acquires:
  "lp_idle p \<noteq> [] \<or> has_room (lp_view p) \<and> pc_Constructor (lp_config p) w \<noteq> None \<Longrightarrow> lp_acquire (p, w) \<noteq> None"
  using lp_has_room [of p] by (auto simp: lp_acquire_def split: list.splits if_splits option.splits sum.splits)

lemma lp_closes:
  "\<exists>ds. foldl (\<lambda>w r. destructed c False (val r) w) w rs = foldl (\<lambda>w (late, r). destructed c late (val r) w) w ds \<and>
     snd ` set ds = set rs"
  by (intro exI [of _ "map (Pair False) rs"]) (force simp: foldl_map)

lemma list_pool_conforms: "puddle_conforms lp_new list_pool_ops lp_close lp_view"
  unfolding puddle_conforms_def
proof (intro conjI allI impI)
  fix p :: "('a, 'b) list_pool" and w h
  assume "pv_busy (lp_view p) = {}"
  then show "\<exists>p' ds. lp_close h (p, w) = Some (p', foldl (\<lambda>w (late, r).
        destructed (pv_config (lp_view p)) late (pv_value (lp_view p) r) w) w ds) \<and>
      snd ` set ds = pv_idle (lp_view p) \<and> lp_view p' = (lp_view p)\<lparr> pv_idle := {} \<rparr>"
    using lp_closes [of "lp_config p" "lp_value p" w "lp_idle p"]
    by (fastforce simp: lp_view_def lp_close_def)
next
  fix p :: "('a, 'b) list_pool" and w
  show "po_Acquire list_pool_ops (p, w) \<noteq> None"
    if "pv_idle (lp_view p) \<noteq> {} \<or> has_room (lp_view p) \<and> pc_Constructor (pv_config (lp_view p)) w \<noteq> None"
    using lp_acquires [of p w] that by (simp add: lp_view_def list_pool_ops_def)
qed (auto simp: list_pool_ops_def lp_new_def lp_view_def lp_acquired [unfolded lp_view_def]
    lp_refused [unfolded lp_view_def] split: if_splits)

text \<open>The requests of the other services over this pool, with four workers at most.\<close>

type_synonym sample_file_world = "((nat, unit adapter_world) list_pool, unit) file_world"

definition file_extension ::
  "(sample_file_world, ((nat, unit adapter_world) list_pool, unit) pooled_start, ((nat, unit adapter_world) list_pool, unit) pooled_send)
     EvaluationRuntime \<Rightarrow> sample_file_world runtime" where
  "file_extension r msg w = (case Runtime_Handle r msg w of
       Some (res, _, Some w3) \<Rightarrow> (res, w3) | _ \<Rightarrow> (Ret (Inr None), w))"

lemma file_extension_settles: "settles (file_extension r) r"
  by (simp add: settles_def file_extension_def)

definition file_handler :: "sample_file_world runtime \<Rightarrow> (jschema, sample_file_world) RuntimeHandler" where
  "file_handler rt = \<lparr> rh_runtime = rt, rh_schemas = rh_schemas sample_handler, rh_validator = plain_validator \<rparr>"

lemma file_handler_new: "NewRuntimeHandler plain_compile plain_validator rt = Inr (file_handler rt)"
  by (simp add: NewRuntimeHandler_def NewRequestSchema_def NewResponseSchema_def plain_compile_def
      file_handler_def sample_handler_def)


end
