(* ===== verification/Worker_Liveness.thy ===== *)
theory Worker_Liveness
  imports Worker_Contract
begin

text \<open>
  When a call of \<open>Wait\<close> returns: the runs of a worker in which its goroutine is scheduled fairly.
\<close>

section \<open>The progress of the goroutine\<close>

text \<open>The goroutine of a worker goes through its phases in one direction.\<close>

fun goroutine_rank :: "goroutine \<Rightarrow> nat" where
  "goroutine_rank NotStarted = 0"
| "goroutine_rank Parked = 1"
| "goroutine_rank Waiting = 2"
| "goroutine_rank (Sending evt) = 3"
| "goroutine_rank Finished = 4"

instantiation goroutine :: preorder
begin

definition less_eq_goroutine :: "goroutine \<Rightarrow> goroutine \<Rightarrow> bool" where
  "x \<le> y \<longleftrightarrow> goroutine_rank x \<le> goroutine_rank y"

definition less_goroutine :: "goroutine \<Rightarrow> goroutine \<Rightarrow> bool" where
  "x < y \<longleftrightarrow> goroutine_rank x < goroutine_rank y"

instance
  by standard (auto simp: less_eq_goroutine_def less_goroutine_def)

end

lemma rank_Finished: "goroutine_rank g = 4 \<longleftrightarrow> g = Finished" "goroutine_rank g \<le> 4"
  by (cases g; simp)+

lemma goroutine_forward:
  assumes "worker_inv w" and "worker_step w w'"
  shows "w_goroutine w \<le> w_goroutine w'"
  using assms(2,1)
  by (cases rule: worker_step.cases)
    (auto simp: less_eq_goroutine_def worker_op_defs worker_inv_def Let_def split: option.splits if_splits)

text \<open>The next move of the goroutine, where it has one.\<close>

definition goroutine_move :: "ProcessWorker \<Rightarrow> ProcessWorker option" where
  "goroutine_move w = (case w_goroutine w of
       Parked \<Rightarrow> if w_wait_closed w then Some (w\<lparr> w_goroutine := Waiting \<rparr>) else None
     | Waiting \<Rightarrow> map_option (\<lambda>e. w\<lparr> w_goroutine := Sending (getExitEvent e (w_stderr w)) \<rparr>) (reaped_error w)
     | Sending evt \<Rightarrow>
         if w_waiter w = Receiving then Some (w\<lparr> w_goroutine := Finished, w_waiter := Got evt \<rparr>) else None
     | _ \<Rightarrow> None)"

lemma goroutine_move_step: "goroutine_move w = Some w' \<Longrightarrow> worker_step w w' \<and> w_goroutine w < w_goroutine w'"
  by (auto simp: goroutine_move_def less_goroutine_def split: goroutine.splits if_splits
      intro: worker_step.intros)

section \<open>Fair runs\<close>

text \<open>
  A run is an infinite sequence of steps and pauses.  It is fair to the goroutine when a move that
  stays possible is made.
\<close>

definition worker_run :: "(nat \<Rightarrow> ProcessWorker) \<Rightarrow> bool" where
  "worker_run \<sigma> \<longleftrightarrow> worker_start (\<sigma> 0) \<and> (\<forall>n. worker_step (\<sigma> n) (\<sigma> (Suc n)) \<or> \<sigma> (Suc n) = \<sigma> n)"

definition fair_run :: "(nat \<Rightarrow> ProcessWorker) \<Rightarrow> bool" where
  "fair_run \<sigma> \<longleftrightarrow> (\<forall>n. \<exists>m \<ge> n. goroutine_move (\<sigma> m) = None \<or> goroutine_move (\<sigma> m) = Some (\<sigma> (Suc m)))"

lemma run_reachable: "worker_run \<sigma> \<Longrightarrow> reachable worker_start worker_step (\<sigma> n)"
proof (induction n)
  case (Suc n)
  then have r: "reachable worker_start worker_step (\<sigma> n)" by blast
  from Suc.prems have "worker_step (\<sigma> n) (\<sigma> (Suc n)) \<or> \<sigma> (Suc n) = \<sigma> n" by (simp add: worker_run_def)
  then show ?case
  proof
    assume "worker_step (\<sigma> n) (\<sigma> (Suc n))"
    with r show ?thesis by (rule reachable_step)
  qed (use r in simp)
next
  case 0
  then have "worker_start (\<sigma> 0)" by (simp add: worker_run_def)
  then show ?case by (rule reachable_start)
qed

text \<open>A call that waits for a process whose end is known, or that has been answered.\<close>

definition being_answered :: "wait_error \<Rightarrow> string \<Rightarrow> ProcessWorker \<Rightarrow> bool" where
  "being_answered e out w \<longleftrightarrow> worker_inv w \<and> w_goroutine w \<noteq> NotStarted \<and> reaped_error w = Some e \<and>
     w_stderr w = out \<and> w_waiter w \<in> {Receiving, Got (getExitEvent e out)}"

lemmas pipe_op_defs = ReadPipe_def WritePipe_def DuplexPipe_def pipe_check_def Let_def

lemma being_answered_step:
  assumes "being_answered e out w" and "worker_step w w'" and "\<forall>err. w_waiter w' \<noteq> Cancelled err"
  shows "being_answered e out w'"
proof -
  have inv: "worker_inv w'"
    using worker.step_inv [OF _ assms(2)] assms(1) by (simp add: being_answered_def)
  have w: "w_goroutine w \<noteq> NotStarted" "reaped_error w = Some e" "w_stderr w = out"
      "w_waiter w = Receiving \<or> w_waiter w = Got (getExitEvent e out)" "w_stderr_piped w" "w_wait_closed w"
      "\<And>evt. w_goroutine w = Sending evt \<Longrightarrow> evt = getExitEvent e out"
    using assms(1) by (auto simp: being_answered_def worker_inv_def truthful_def)
  have "w_goroutine w' \<noteq> NotStarted \<and> reaped_error w' = Some e \<and> w_stderr w' = out \<and>
      (w_waiter w' = Receiving \<or> w_waiter w' = Got (getExitEvent e out))"
    using assms(2)
  proof (cases rule: worker_step.cases)
    case (call_Start ctx_err start_err)
    then have "w' = w" using w(5) by (simp add: Start_def pipe_check_def)
    with w show ?thesis by simp
  next
    case call_Wait
    with w show ?thesis by (simp add: Wait_enter_def)
  qed (use w assms(3) in \<open>auto simp: pipe_op_defs reaped_error_def split: option.splits if_splits\<close>)
  with inv show ?thesis by (simp add: being_answered_def)
qed

lemma being_answered_moves:
  assumes "being_answered e out w" and "w_goroutine w \<noteq> Finished"
  shows "goroutine_move w \<noteq> None"
  using assms by (cases "w_goroutine w")
    (auto simp: being_answered_def goroutine_move_def worker_inv_def)


lemma answered_throughout:
  assumes "worker_run \<sigma>" and "being_answered e out (\<sigma> n)" and "\<forall>m err. w_waiter (\<sigma> m) \<noteq> Cancelled err"
  shows "being_answered e out (\<sigma> (n + k))"
proof (induction k)
  case (Suc k)
  have "worker_step (\<sigma> (n + k)) (\<sigma> (Suc (n + k))) \<or> \<sigma> (Suc (n + k)) = \<sigma> (n + k)"
    using assms(1) by (simp add: worker_run_def)
  with Suc show ?case using being_answered_step [OF Suc] assms(3) by auto
qed (use assms(2) in simp)

text \<open>A fair goroutine goes on as long as there is a phase before it.\<close>

lemma answered_progress:
  assumes "worker_run \<sigma>" and "fair_run \<sigma>" and "being_answered e out (\<sigma> n)"
    and "\<forall>m err. w_waiter (\<sigma> m) \<noteq> Cancelled err" and "w_goroutine (\<sigma> n) \<noteq> Finished"
  shows "\<exists>m > n. w_goroutine (\<sigma> n) < w_goroutine (\<sigma> m)"
proof -
  obtain m where m: "n \<le> m" "goroutine_move (\<sigma> m) = None \<or> goroutine_move (\<sigma> m) = Some (\<sigma> (Suc m))"
    using assms(2) by (auto simp: fair_run_def)
  have all: "being_answered e out (\<sigma> k)" if "n \<le> k" for k
    using answered_throughout [OF assms(1,3,4), of "k - n"] that by simp
  have up: "w_goroutine (\<sigma> n) \<le> w_goroutine (\<sigma> m)" using m(1)
  proof (induction m rule: dec_induct)
    case (step k)
    have "w_goroutine (\<sigma> k) \<le> w_goroutine (\<sigma> (Suc k))"
      using assms(1) goroutine_forward [of "\<sigma> k"] all [OF step.hyps(1)]
      by (metis being_answered_def order_refl worker_run_def)
    with step.IH show ?case by (rule order_trans)
  qed simp
  show ?thesis
  proof (cases "w_goroutine (\<sigma> m) = Finished")
    case True
    with assms(5) have "w_goroutine (\<sigma> n) < w_goroutine (\<sigma> m)"
      using rank_Finished [of "w_goroutine (\<sigma> n)"] by (simp add: less_goroutine_def order_less_le)
    moreover have "m \<noteq> n" using True assms(5) by auto
    ultimately show ?thesis using m(1) by (intro exI [of _ m]) simp
  next
    case False
    with m(2) being_answered_moves [OF all [OF m(1)]] have "goroutine_move (\<sigma> m) = Some (\<sigma> (Suc m))" by blast
    from order_le_less_trans [OF up conjunct2 [OF goroutine_move_step [OF this]]] m(1) show ?thesis
      by (intro exI [of _ "Suc m"]) simp
  qed
qed

lemma answered_finally:
  assumes "worker_run \<sigma>" and "fair_run \<sigma>" and "being_answered e out (\<sigma> n)"
    and "\<forall>m err. w_waiter (\<sigma> m) \<noteq> Cancelled err"
  shows "\<exists>m \<ge> n. w_goroutine (\<sigma> m) = Finished \<and> being_answered e out (\<sigma> m)"
  using assms(3)
proof (induction "4 - goroutine_rank (w_goroutine (\<sigma> n))" arbitrary: n rule: less_induct)
  case less
  show ?case
  proof (cases "w_goroutine (\<sigma> n) = Finished")
    case False
    from answered_progress [OF assms(1,2) less.prems assms(4) False] obtain m
      where m: "n < m" "w_goroutine (\<sigma> n) < w_goroutine (\<sigma> m)" by blast
    have "being_answered e out (\<sigma> m)"
      using answered_throughout [OF assms(1) less.prems assms(4), of "m - n"] m(1) by simp
    moreover have "4 - goroutine_rank (w_goroutine (\<sigma> m)) < 4 - goroutine_rank (w_goroutine (\<sigma> n))"
      using m(2) rank_Finished(2) [of "w_goroutine (\<sigma> m)"] by (simp add: less_goroutine_def)
    ultimately show ?thesis using less.hyps [of m] m(1) by (meson le_trans less_imp_le)
  qed (use less.prems in blast)
qed


lemma wait_stays_closed:
  assumes "worker_step w w'" and "w_wait_closed w"
  shows "w_wait_closed w'"
  using assms
  by (cases rule: worker_step.cases) (auto simp: Start_def Wait_enter_def pipe_op_defs split: option.splits)

lemma run_keeps_waiting:
  assumes "worker_run \<sigma>" and "w_wait_closed (\<sigma> n)" and "w_goroutine (\<sigma> n) \<noteq> NotStarted" and "n \<le> k"
  shows "w_wait_closed (\<sigma> k) \<and> w_goroutine (\<sigma> k) \<noteq> NotStarted"
  using assms(4)
proof (induction k rule: dec_induct)
  case (step k)
  have inv: "worker_inv (\<sigma> k)" by (rule worker.reachable_inv [OF run_reachable [OF assms(1)]])
  have "worker_step (\<sigma> k) (\<sigma> (Suc k)) \<or> \<sigma> (Suc k) = \<sigma> k" using assms(1) by (simp add: worker_run_def)
  then show ?case
  proof
    assume st: "worker_step (\<sigma> k) (\<sigma> (Suc k))"
    have "goroutine_rank (w_goroutine (\<sigma> k)) \<le> goroutine_rank (w_goroutine (\<sigma> (Suc k)))"
      using goroutine_forward [OF inv st] by (simp add: less_eq_goroutine_def)
    with step.IH wait_stays_closed [OF st] show ?thesis by (cases "w_goroutine (\<sigma> k)") auto
  qed (use step.IH in simp)
qed (use assms in simp)

section \<open>Properties\<close>


text \<open>The run of the sample worker, in which the goroutine moves once the process has ended.\<close>

definition sample_run :: "nat \<Rightarrow> ProcessWorker" where
  "sample_run n =
     (let evt = getExitEvent (WaitExitError (Some (Exited 3))) ''oops''
      in [sample_worker, started_worker, waiting_worker, ended_worker, ended_worker\<lparr> w_goroutine := Waiting \<rparr>,
          ended_worker\<lparr> w_goroutine := Sending evt \<rparr>, ended_worker\<lparr> w_goroutine := Finished, w_waiter := Got evt \<rparr>] ! min n 6)"

lemma sample_worker_run: "worker_run sample_run"
proof -
  have "worker_step (sample_run n) (sample_run (Suc n))" if "n < 6" for n
  proof -
    have "n \<in> {0, 1, 2, 3, 4, 5}" using that by auto
    then consider "n = 0" | "n = 1" | "n = 2" | "n = 3" | "n = 4" | "n = 5" by blast
    then show ?thesis
    proof cases
      case 1
      show ?thesis using call_Start [of sample_worker None None] by (simp add: 1 sample_run_def Let_def started_worker_def)
    next
      case 2
      show ?thesis using call_Wait [of started_worker] by (simp add: 2 sample_run_def Let_def waiting_worker_def)
    next
      case 3
      show ?thesis
        using process_ends [of waiting_worker "''oops''" "WaitExitError (Some (Exited 3))"]
        by (simp add: 3 sample_run_def Let_def ended_worker_def sample_worker_defs)
    next
      case 4
      show ?thesis using wake [of ended_worker] by (simp add: 4 sample_run_def Let_def sample_worker_defs)
    next
      case 5
      show ?thesis using reap [of "ended_worker\<lparr> w_goroutine := Waiting \<rparr>" "WaitExitError (Some (Exited 3))"]
        by (simp add: 5 sample_run_def Let_def sample_worker_defs reaped_error_def)
    next
      case 6
      show ?thesis
        using deliver [of "ended_worker\<lparr> w_goroutine := Sending (getExitEvent (WaitExitError (Some (Exited 3))) ''oops'') \<rparr>"]
        by (simp add: 6 sample_run_def Let_def sample_worker_defs)
    qed
  qed
  moreover have "sample_run (Suc n) = sample_run n" if "6 \<le> n" for n using that by (simp add: sample_run_def min_def)
  moreover have "worker_start (sample_run 0)" by (auto simp: worker_start_def sample_run_def sample_worker_def)
  ultimately show ?thesis unfolding worker_run_def by (metis not_less)
qed

lemma sample_fair_run: "fair_run sample_run"
proof -
  have "goroutine_move (sample_run (max n 6)) = None" for n
    by (simp add: sample_run_def goroutine_move_def Let_def min_def)
  then show ?thesis unfolding fair_run_def by (meson max.cobounded1)
qed


end
