(* ===== verification/Worker_Races.thy ===== *)
theory Worker_Races
  imports Worker_Contract
begin

text \<open>
  Several calls of \<open>Wait\<close> or \<open>WaitFor\<close> on one worker at once.  A call looks at the channel \<^verbatim>\<open>wait\<close> and closes it in two
  steps, with no lock around them, and closing a closed channel panics.
\<close>

section \<open>The steps of several callers\<close>

text \<open>
  \<open>cw_calls\<close> counts the calls so far, \<open>cw_passed\<close> those that found the channel open and are about to close
  it.
\<close>

record contended_worker =
  cw_worker :: ProcessWorker
  cw_calls :: nat
  cw_passed :: nat
  cw_panicked :: bool

text \<open>
  At most \<open>n\<close> calls are made.  Everything but closing the channel is a step of the worker; a panic that
  nothing recovers ends the program.
\<close>

inductive contended_step :: "nat \<Rightarrow> contended_worker \<Rightarrow> contended_worker \<Rightarrow> bool" for n where
  wait_looks: "\<not> cw_panicked s \<Longrightarrow> cw_calls s < n \<Longrightarrow>
    contended_step n s (s\<lparr> cw_calls := Suc (cw_calls s),
      cw_passed := cw_passed s + (if w_wait_closed (cw_worker s) then 0 else 1) \<rparr>)"
| wait_closes: "\<not> cw_panicked s \<Longrightarrow> 0 < cw_passed s \<Longrightarrow> \<not> w_wait_closed (cw_worker s) \<Longrightarrow>
    contended_step n s (s\<lparr> cw_worker := snd (Wait_enter (cw_worker s)), cw_passed := cw_passed s - 1 \<rparr>)"
| wait_panics: "\<not> cw_panicked s \<Longrightarrow> 0 < cw_passed s \<Longrightarrow> w_wait_closed (cw_worker s) \<Longrightarrow>
    contended_step n s (s\<lparr> cw_panicked := True \<rparr>)"
| worker_moves: "\<not> cw_panicked s \<Longrightarrow> worker_step (cw_worker s) w' \<Longrightarrow>
    w_wait_closed w' = w_wait_closed (cw_worker s) \<Longrightarrow> contended_step n s (s\<lparr> cw_worker := w' \<rparr>)"

definition contended_start :: "contended_worker \<Rightarrow> bool" where
  "contended_start s \<longleftrightarrow> worker_start (cw_worker s) \<and> cw_calls s = 0 \<and> cw_passed s = 0 \<and> \<not> cw_panicked s"

text \<open>Each call that passed is one of the calls, and so is the one that closed the channel.\<close>

definition contended_inv :: "nat \<Rightarrow> contended_worker \<Rightarrow> bool" where
  "contended_inv n s \<longleftrightarrow> cw_calls s \<le> n \<and> (cw_panicked s \<longrightarrow> 2 \<le> n) \<and>
     cw_passed s + (if w_wait_closed (cw_worker s) then 1 else 0) \<le> cw_calls s"

interpretation contended: invariant_system contended_start "contended_step n" "contended_inv n" for n
proof unfold_locales
  show "contended_inv n s" if "contended_start s" for s
    using that by (auto simp: contended_start_def contended_inv_def worker_start_def NewProcessWorker_def)
  show "contended_inv n t" if "contended_inv n s" "contended_step n s t" for s t
    using that(2,1) by cases (auto simp: contended_inv_def Wait_enter_def split: if_splits)
qed

text \<open>What becomes of the worker is what becomes of it with one call at a time.\<close>

interpretation contended_worker: simulation contended_start "contended_step n" worker_start worker_step cw_worker "\<lambda>_. True" for n
proof unfold_locales
  show "worker_start (cw_worker s)" if "contended_start s" for s
    using that by (simp add: contended_start_def)
  show "worker_step\<^sup>*\<^sup>* (cw_worker s) (cw_worker t)" if "contended_step n s t" for s t
    using that by cases (auto intro: call_Wait)
qed simp

section \<open>Two calls\<close>

lemma contended_two:
  assumes "2 \<le> n"
  shows "\<exists>s. reachable contended_start (contended_step n) s \<and> cw_panicked s"
proof -
  let ?w = "NewProcessWorker [] \<lparr> sc_Cmd = [], sc_Cwd = [], sc_Args = [], sc_Env = None \<rparr>"
  let ?s = "\<lambda>w c p b. \<lparr> cw_worker = w, cw_calls = c, cw_passed = p, cw_panicked = b \<rparr>"
  let ?R = "reachable contended_start (contended_step n)"
  have open_w: "\<not> w_wait_closed ?w" and closed: "w_wait_closed (snd (Wait_enter ?w))"
    by (simp_all add: NewProcessWorker_def Wait_enter_def)
  have "?R (?s ?w 0 0 False)"
    by (rule reachable_start) (auto simp: contended_start_def worker_start_def)
  from reachable_step [OF this wait_looks] assms open_w have "?R (?s ?w 1 1 False)" by simp
  from reachable_step [OF this wait_looks] assms open_w have "?R (?s ?w 2 2 False)" by (simp add: numeral_2_eq_2)
  from reachable_step [OF this wait_closes] open_w have "?R (?s (snd (Wait_enter ?w)) 2 1 False)" by simp
  from reachable_step [OF this wait_panics] closed have "?R (?s (snd (Wait_enter ?w)) 2 1 True)" by simp
  then show ?thesis by (metis contended_worker.select_convs(4))
qed

section \<open>Property\<close>

text \<open>
  C16: calls of \<open>Wait\<close> at once.  Until a panic the worker goes through states it also reaches with one call at a
  time, of which the first gets through and every later one gets an error; but with two calls
  both can find the channel open, and the second to close it panics.  With one call, which is what
  the comment of \<open>Wait\<close> asks for, nothing panics.
\<close>

theorem concurrent_waits:
  "(reachable contended_start (contended_step n) s \<longrightarrow>
      reachable worker_start worker_step (cw_worker s) \<and>
      (w_wait_closed (cw_worker s) \<longrightarrow> fst (Wait_enter (cw_worker s)) = Some (ErrorString ''wait has already been called''))) \<and>
   ((\<exists>s. reachable contended_start (contended_step n) s \<and> cw_panicked s) \<longleftrightarrow> 2 \<le> n)"
proof -
  have "reachable worker_start worker_step (cw_worker s)" if "reachable contended_start (contended_step n) s"
    using contended_worker.reachable_abs [OF that] .
  moreover have "2 \<le> n" if "reachable contended_start (contended_step n) t" "cw_panicked t" for t
    using contended.reachable_inv [OF that(1)] that(2) by (simp add: contended_inv_def)
  ultimately show ?thesis using contended_two by (auto simp: Wait_enter_def)
qed

theorem concurrent_waits_witness:
  "(\<exists>s. reachable contended_start (contended_step 2) s \<and> cw_panicked s) \<and>
   \<not> (\<exists>s. reachable contended_start (contended_step 1) s \<and> cw_panicked s)"
  using concurrent_waits [of 2] concurrent_waits [of 1] by simp

end
