(* ===== verification/Config_Fields.thy ===== *)
theory Config_Fields
  imports Config_Contract Command
begin

text \<open>
  The fields of the configuration structs by their dotted keys, and what the three calls of \<open>Parse\<close> make
  of the flags: the configuration of the application, of the HTTP server and of the Lambda handler.
\<close>

section \<open>The keys of the fields\<close>

text \<open>
  A field has the key of its tag, a field without a tag the lower case of its name, and the
  fields of an embedded struct the key of the struct in front, unless it is squashed.
\<close>

definition nested :: "string \<Rightarrow> string list \<Rightarrow> string list" where
  "nested tag keys = map (\<lambda>k. tag @ ''.'' @ k) keys"

definition StartConfig_keys :: "string list" where
  "StartConfig_keys = [''cmd'', ''cwd'', ''arg'', ''env'']"

definition HttpTransportConfig_keys :: "string list" where
  "HttpTransportConfig_keys = [''url'']"

definition TcpTransportConfig_keys :: "string list" where
  "TcpTransportConfig_keys = [''address'']"

definition IpcTransportConfig_keys :: "string list" where
  "IpcTransportConfig_keys = [''endpoint'']"

definition WsTransportConfig_keys :: "string list" where
  "WsTransportConfig_keys = [''url'']"

text \<open>The tag of the field \<^verbatim>\<open>Tcp\<close> is not one the decoder reads, so its name counts.\<close>

definition RpcConfig_keys :: "string list" where
  "RpcConfig_keys = ''transport'' # nested ''http'' HttpTransportConfig_keys @ nested ''ipc'' IpcTransportConfig_keys @
     nested ''ws'' WsTransportConfig_keys @ nested (ToLower ''Tcp'') TcpTransportConfig_keys"

definition IOConfig_keys :: "string list" where
  "IOConfig_keys = ''interface'' # nested ''rpc'' RpcConfig_keys"

definition StopConfig_keys :: "string list" where
  "StopConfig_keys = [ToLower ''Timeout'']"

definition SendConfig_keys :: "string list" where
  "SendConfig_keys = [ToLower ''Timeout'']"

definition SupervisorConfig_keys :: "string list" where
  "SupervisorConfig_keys = nested ''io'' IOConfig_keys @ StartConfig_keys @ nested ''stop'' StopConfig_keys @
     nested ''send'' SendConfig_keys"

definition ExecutionConfig_keys :: "string list" where
  "ExecutionConfig_keys = ''max_workers'' # SupervisorConfig_keys"

definition AppConfig_keys :: "string list" where
  "AppConfig_keys = [''log_level'', ''log_format''] @ nested ''runtime'' ExecutionConfig_keys @ nested ''auth'' [''key'']"

definition HttpConfig_keys :: "string list" where
  "HttpConfig_keys = [''host'', ''port'', ''h2c'']"

text \<open>The configuration of \<^verbatim>\<open>serve\<close> squashes that of the server.\<close>

definition StandaloneConfig_keys :: "string list" where
  "StandaloneConfig_keys = HttpConfig_keys"

definition LambdaConfig_keys :: "string list" where
  "LambdaConfig_keys = [''lambda_proxy_source'']"

section \<open>Decoding\<close>

text \<open>
  The value of a field from the value of its key: the zero value for no value, and \<open>None\<close> where the
  types differ and a conversion of the library decides.
\<close>

definition string_field :: "conf_value option \<Rightarrow> string option" where
  "string_field v = (case v of None \<Rightarrow> Some [] | Some (VString s) \<Rightarrow> Some s | _ \<Rightarrow> None)"

definition strings_field :: "conf_value option \<Rightarrow> string list option" where
  "strings_field v = (case v of None \<Rightarrow> Some [] | Some (VStrings xs) \<Rightarrow> Some xs | _ \<Rightarrow> None)"

definition int_field :: "conf_value option \<Rightarrow> int option" where
  "int_field v = (case v of None \<Rightarrow> Some 0 | Some (VInt i) \<Rightarrow> Some i | _ \<Rightarrow> None)"

definition bool_field :: "conf_value option \<Rightarrow> bool option" where
  "bool_field v = (case v of None \<Rightarrow> Some False | Some (VBool b) \<Rightarrow> Some b | _ \<Rightarrow> None)"

definition duration_field :: "conf_value option \<Rightarrow> int option" where
  "duration_field v = (case v of None \<Rightarrow> Some 0 | Some (VDuration d) \<Rightarrow> Some d | _ \<Rightarrow> None)"

definition decode_RpcConfig :: "(string \<Rightarrow> conf_value option) \<Rightarrow> RpcConfig option" where
  "decode_RpcConfig get = do {
     transport \<leftarrow> string_field (get ''transport'');
     http \<leftarrow> string_field (get ''http.url'');
     ipc \<leftarrow> string_field (get ''ipc.endpoint'');
     ws \<leftarrow> string_field (get ''ws.url'');
     tcp \<leftarrow> string_field (get ''tcp.address'');
     Some \<lparr> rc_Transport = transport, rc_HttpUrl = http, rc_IpcEndpoint = ipc, rc_WsUrl = ws, rc_TcpAddress = tcp \<rparr> }"

text \<open>A slice without elements is decoded as nil.\<close>

definition decode_StartConfig :: "(string \<Rightarrow> conf_value option) \<Rightarrow> StartConfig option" where
  "decode_StartConfig get = do {
     cmd \<leftarrow> string_field (get ''cmd'');
     cwd \<leftarrow> string_field (get ''cwd'');
     args \<leftarrow> strings_field (get ''arg'');
     env \<leftarrow> strings_field (get ''env'');
     Some \<lparr> sc_Cmd = cmd, sc_Cwd = cwd, sc_Args = args, sc_Env = (if env = [] then None else Some env) \<rparr> }"

definition decode_SupervisorConfig :: "(string \<Rightarrow> conf_value option) \<Rightarrow> SupervisorConfig option" where
  "decode_SupervisorConfig get = do {
     interface \<leftarrow> string_field (get ''io.interface'');
     rpc \<leftarrow> decode_RpcConfig (\<lambda>k. get (''io.rpc.'' @ k));
     start \<leftarrow> decode_StartConfig get;
     stop \<leftarrow> duration_field (get ''stop.timeout'');
     send \<leftarrow> duration_field (get ''send.timeout'');
     Some \<lparr> cfg_IO = \<lparr> io_Interface = interface, io_Rpc = rpc \<rparr>, cfg_StartParams = start,
            cfg_StopTimeout = stop, cfg_SendTimeout = send \<rparr> }"

definition decode_AppConfig :: "(string \<Rightarrow> conf_value option) \<Rightarrow> AppConfig option" where
  "decode_AppConfig get = do {
     level \<leftarrow> string_field (get ''log_level'');
     format \<leftarrow> string_field (get ''log_format'');
     workers \<leftarrow> int_field (get ''runtime.max_workers'');
     sup \<leftarrow> decode_SupervisorConfig (\<lambda>k. get (''runtime.'' @ k));
     key \<leftarrow> string_field (get ''auth.key'');
     Some \<lparr> ap_LogLevel = level, ap_LogFormat = format,
            ap_Runtime = \<lparr> ec_MaxWorkers = workers, ec_Supervisor = sup \<rparr>, ap_Auth = \<lparr> ac_Key = key \<rparr> \<rparr> }"

definition decode_HttpConfig :: "(string \<Rightarrow> conf_value option) \<Rightarrow> HttpConfig option" where
  "decode_HttpConfig get = do {
     host \<leftarrow> string_field (get ''host'');
     port \<leftarrow> int_field (get ''port'');
     h2c \<leftarrow> bool_field (get ''h2c'');
     Some \<lparr> hc_Host = host, hc_Port = port, hc_H2c = h2c \<rparr> }"

definition decode_LambdaConfig :: "(string \<Rightarrow> conf_value option) \<Rightarrow> string option" where
  "decode_LambdaConfig get = string_field (get ''lambda_proxy_source'')"

text \<open>The decoder of the library agrees with the fields' decoding where that gives a value.\<close>

definition unmarshal_conforms :: "('k, 'c) koanf \<Rightarrow> ((string \<Rightarrow> conf_value option) \<Rightarrow> 'c option) \<Rightarrow> bool" where
  "unmarshal_conforms K decode \<longleftrightarrow> (\<forall>k c. decode (ko_Get K k) = Some c \<longrightarrow> ko_Unmarshal K k = Inr c)"

section \<open>The three calls of Parse\<close>

text \<open>The options of \<^verbatim>\<open>serve\<close> and \<^verbatim>\<open>lambda\<close> have no map of flags.\<close>

definition command_options :: "cli_context \<Rightarrow> ParseOptions" where
  "command_options ctx =
     \<lparr> pa_Cli = Some ctx, pa_CliMap = None, pa_Defaults = None, pa_EnvPrefix = [], pa_FileName = [] \<rparr>"

definition parseHttpConfig ::
  "('k, HttpConfig) koanf \<Rightarrow> (string \<times> string) list \<Rightarrow> cli_context \<Rightarrow> go_error + HttpConfig" where
  "parseHttpConfig K environ ctx = Parse K (Inr fmempty) environ (command_options ctx)"

definition parseLambdaConfig ::
  "('k, string) koanf \<Rightarrow> (string \<times> string) list \<Rightarrow> cli_context \<Rightarrow> go_error + string" where
  "parseLambdaConfig K environ ctx = Parse K (Inr fmempty) environ (command_options ctx)"

text \<open>Every field of the three structs is the target of one flag, and every flag of the program has a field.\<close>

lemma flags_cover_fields:
  "distinct (map (transformFlag (Some (fmap_of_list root_cliMap)) \<circ> flag_name) root_flags)"
  "set (map (transformFlag (Some (fmap_of_list root_cliMap)) \<circ> flag_name) root_flags) = set AppConfig_keys"
  "map (transformFlag None \<circ> flag_name) serve_flags = StandaloneConfig_keys"
  "map (transformFlag None \<circ> flag_name) lambda_flags = LambdaConfig_keys"
  by code_simp+

section \<open>The value of a flag\<close>

text \<open>
  A context of the program: it has the flags of a command, by their names and kinds, and none but
  flags of the program.
\<close>

definition has_flags :: "cli_context \<Rightarrow> cli_flag list \<Rightarrow> bool" where
  "has_flags ctx fs \<longleftrightarrow> set (flag_shape fs) \<subseteq> set (flag_shape (cx_app_flags ctx @ cx_command_flags ctx)) \<and>
     set (flag_shape (cx_app_flags ctx @ cx_command_flags ctx)) \<subseteq> set (flag_shape program_flags)"

lemma program_flag_names: "distinct (map flag_name program_flags)"
  by code_simp

lemma fold_flags_total:
  "n \<in> flag_name ` set fs \<or> fmlookup m n \<noteq> None \<Longrightarrow>
     \<exists>f. fmlookup (fold (\<lambda>f. fmupd (flag_name f) f) fs m) n = Some f"
  by (induction fs arbitrary: m) auto

lemma flag_table_total:
  "n \<in> flag_name ` set (cx_app_flags ctx @ cx_command_flags ctx) \<Longrightarrow> \<exists>f. fmlookup (flag_table ctx) n = Some f"
  using fold_flags_total [of n "cx_app_flags ctx" fmempty] fold_flags_total [of n "cx_command_flags ctx"]
  by (auto simp: flag_table_def)

lemma context_flag:
  assumes "has_flags ctx fs" and "g \<in> set fs"
  shows "\<exists>f. fmlookup (flag_table ctx) (flag_name g) = Some f \<and> fl_Kind f = fl_Kind g"
proof -
  have shapes: "set (flag_shape (cx_app_flags ctx @ cx_command_flags ctx)) \<subseteq> set (flag_shape program_flags)"
    and g: "(fl_Names g, fl_Kind g) \<in> set (flag_shape (cx_app_flags ctx @ cx_command_flags ctx))"
    using assms by (auto simp: has_flags_def flag_shape_def)
  from g have "flag_name g \<in> flag_name ` set (cx_app_flags ctx @ cx_command_flags ctx)"
    by (auto simp: flag_shape_def flag_name_def image_iff)
  then obtain f where f: "fmlookup (flag_table ctx) (flag_name g) = Some f"
    using flag_table_total by blast
  note in_ctx = flag_table_in [OF f]
  obtain p where p: "p \<in> set program_flags" "flag_name p = flag_name f" "fl_Kind p = fl_Kind f"
    using shape_member [OF shapes conjunct1 [OF in_ctx]] by blast
  from g shapes obtain q where q: "q \<in> set program_flags" "fl_Names q = fl_Names g" "fl_Kind q = fl_Kind g"
    by (auto simp: flag_shape_def)
  have "p = q"
    using program_flag_names p(1,2) q(1,2) in_ctx by (auto simp: distinct_map flag_name_def inj_on_def)
  with f p q show ?thesis by auto
qed

text \<open>The key of a flag has the value of the flag.\<close>

lemma parsed_flag:
  assumes "koanf_conforms K" and "has_flags ctx fs" and "g \<in> set fs" and opt: "opt = root_options ctx \<or> opt = command_options ctx"
  shows "\<exists>f. fmlookup (flag_table ctx) (flag_name g) = Some f \<and> fl_Kind f = fl_Kind g \<and>
    (\<forall>v. getFlagValue ctx f = Inr v \<longrightarrow>
       ko_Get K (load_layers K file_conf environ opt) (transformFlag (pa_CliMap opt) (flag_name g)) = Some v)"
proof -
  obtain f where f: "fmlookup (flag_table ctx) (flag_name g) = Some f" "fl_Kind f = fl_Kind g"
    using context_flag [OF assms(2,3)] by blast
  let ?ns = "map flag_name program_flags"
  have names: "fmdom' (flag_table ctx) \<subseteq> set ?ns"
    using shape_member [of "cx_app_flags ctx @ cx_command_flags ctx" program_flags] flag_table_in [of ctx] assms(2)
    by (fastforce simp: fmlookup_dom'_iff has_flags_def)
  have "distinct (map (transformFlag (pa_CliMap opt)) ?ns) \<and> no_clash (map (transformFlag (pa_CliMap opt)) ?ns) \<and> pa_Cli opt = Some ctx"
    using opt
  proof
    assume o: "opt = root_options ctx"
    have "distinct (map (transformFlag (Some (fmap_of_list root_cliMap))) ?ns)"
      "no_clash (map (transformFlag (Some (fmap_of_list root_cliMap))) ?ns)"
      unfolding no_clash_def by code_simp+
    then show ?thesis by (simp only: o root_options_def ParseOptions.simps)
  next
    assume o: "opt = command_options ctx"
    have "distinct (map (transformFlag None) ?ns)" "no_clash (map (transformFlag None) ?ns)"
      unfolding no_clash_def by code_simp+
    then show ?thesis by (simp only: o command_options_def ParseOptions.simps)
  qed
  with flags_decide [OF assms(1) _ f(1) _ names] f show ?thesis by blast
qed

text \<open>The same by name and kind, for the lists of flags of the program.\<close>

lemma parsed_by_kind:
  assumes "koanf_conforms K" and "has_flags ctx fs" and "opt = root_options ctx \<or> opt = command_options ctx"
    and "(n, kind) \<in> set (map (\<lambda>g. (flag_name g, fl_Kind g)) fs)"
  shows "kind = StringFlag \<Longrightarrow> ko_Get K (load_layers K file_conf environ opt) (transformFlag (pa_CliMap opt) n) = Some (VString (cx_String ctx n))"
    and "kind = StringSliceFlag \<Longrightarrow>
      ko_Get K (load_layers K file_conf environ opt) (transformFlag (pa_CliMap opt) n) = Some (VStrings (cx_StringSlice ctx n))"
    and "kind = IntFlag \<Longrightarrow> ko_Get K (load_layers K file_conf environ opt) (transformFlag (pa_CliMap opt) n) = Some (VInt (cx_Int ctx n))"
    and "kind = BoolFlag \<Longrightarrow> ko_Get K (load_layers K file_conf environ opt) (transformFlag (pa_CliMap opt) n) = Some (VBool (cx_Bool ctx n))"
    and "kind = DurationFlag \<Longrightarrow> fmlookup (flag_table ctx) n = Some f \<Longrightarrow>
      ko_Get K (load_layers K file_conf environ opt) (transformFlag (pa_CliMap opt) n) = Some (fl_Value f)"
proof -
  obtain g where g: "g \<in> set fs" "flag_name g = n" "fl_Kind g = kind" using assms(4) by auto
  obtain h where h: "fmlookup (flag_table ctx) n = Some h" "fl_Kind h = kind"
    "\<forall>v. getFlagValue ctx h = Inr v \<longrightarrow>
      ko_Get K (load_layers K file_conf environ opt) (transformFlag (pa_CliMap opt) n) = Some v"
    using parsed_flag [OF assms(1,2) g(1) assms(3), of file_conf environ] g(2,3) by blast
  have n: "flag_name h = n" using flag_table_in [OF h(1)] by simp
  show "kind = StringFlag \<Longrightarrow> ko_Get K (load_layers K file_conf environ opt) (transformFlag (pa_CliMap opt) n) = Some (VString (cx_String ctx n))"
    and "kind = StringSliceFlag \<Longrightarrow>
      ko_Get K (load_layers K file_conf environ opt) (transformFlag (pa_CliMap opt) n) = Some (VStrings (cx_StringSlice ctx n))"
    and "kind = IntFlag \<Longrightarrow> ko_Get K (load_layers K file_conf environ opt) (transformFlag (pa_CliMap opt) n) = Some (VInt (cx_Int ctx n))"
    and "kind = BoolFlag \<Longrightarrow> ko_Get K (load_layers K file_conf environ opt) (transformFlag (pa_CliMap opt) n) = Some (VBool (cx_Bool ctx n))"
    and "kind = DurationFlag \<Longrightarrow> fmlookup (flag_table ctx) n = Some f \<Longrightarrow>
      ko_Get K (load_layers K file_conf environ opt) (transformFlag (pa_CliMap opt) n) = Some (fl_Value f)"
    using h n by (simp_all add: getFlagValue_def Let_def)
qed

section \<open>The keys of the program\<close>

lemma root_keys:
  "transformFlag (Some (fmap_of_list root_cliMap)) ''log-level'' = ''log_level''"
  "transformFlag (Some (fmap_of_list root_cliMap)) ''log-format'' = ''log_format''"
  "transformFlag (Some (fmap_of_list root_cliMap)) ''auth-key'' = ''auth.key''"
  "transformFlag (Some (fmap_of_list root_cliMap)) ''interface'' = ''runtime.io.interface''"
  "transformFlag (Some (fmap_of_list root_cliMap)) ''command'' = ''runtime.cmd''"
  "transformFlag (Some (fmap_of_list root_cliMap)) ''cwd'' = ''runtime.cwd''"
  "transformFlag (Some (fmap_of_list root_cliMap)) ''arg'' = ''runtime.arg''"
  "transformFlag (Some (fmap_of_list root_cliMap)) ''env'' = ''runtime.env''"
  "transformFlag (Some (fmap_of_list root_cliMap)) ''max-workers'' = ''runtime.max_workers''"
  "transformFlag (Some (fmap_of_list root_cliMap)) ''worker-stop-timeout'' = ''runtime.stop.timeout''"
  "transformFlag (Some (fmap_of_list root_cliMap)) ''worker-send-timeout'' = ''runtime.send.timeout''"
  "transformFlag (Some (fmap_of_list root_cliMap)) ''rpc-transport'' = ''runtime.io.rpc.transport''"
  "transformFlag (Some (fmap_of_list root_cliMap)) ''rpc-transport-ipc-endpoint'' = ''runtime.io.rpc.ipc.endpoint''"
  "transformFlag (Some (fmap_of_list root_cliMap)) ''rpc-transport-http-url'' = ''runtime.io.rpc.http.url''"
  "transformFlag (Some (fmap_of_list root_cliMap)) ''rpc-transport-ws-url'' = ''runtime.io.rpc.ws.url''"
  "transformFlag (Some (fmap_of_list root_cliMap)) ''rpc-transport-tcp-address'' = ''runtime.io.rpc.tcp.address''"
  by code_simp+

lemma command_keys:
  "transformFlag None ''host'' = ''host''" "transformFlag None ''port'' = ''port''" "transformFlag None ''h2c'' = ''h2c''"
  "transformFlag None ''lambda-proxy-source'' = ''lambda_proxy_source''"
  by code_simp+

lemma key_value: "get (f n) = Some v \<Longrightarrow> f n = k \<Longrightarrow> get k = Some v"
  by simp

lemma root_values:
  assumes "koanf_conforms K" and "has_flags ctx root_flags" and "fmlookup (flag_table ctx) ''worker-stop-timeout'' = Some stop"
    and "fmlookup (flag_table ctx) ''worker-send-timeout'' = Some send"
    and get: "get = ko_Get K (load_layers K file_conf environ (root_options ctx))"
  shows
    "get ''log_level'' = Some (VString (cx_String ctx ''log-level''))"
    "get ''log_format'' = Some (VString (cx_String ctx ''log-format''))"
    "get ''auth.key'' = Some (VString (cx_String ctx ''auth-key''))"
    "get ''runtime.io.interface'' = Some (VString (cx_String ctx ''interface''))"
    "get ''runtime.cmd'' = Some (VString (cx_String ctx ''command''))"
    "get ''runtime.cwd'' = Some (VString (cx_String ctx ''cwd''))"
    "get ''runtime.io.rpc.transport'' = Some (VString (cx_String ctx ''rpc-transport''))"
    "get ''runtime.io.rpc.ipc.endpoint'' = Some (VString (cx_String ctx ''rpc-transport-ipc-endpoint''))"
    "get ''runtime.io.rpc.http.url'' = Some (VString (cx_String ctx ''rpc-transport-http-url''))"
    "get ''runtime.io.rpc.ws.url'' = Some (VString (cx_String ctx ''rpc-transport-ws-url''))"
    "get ''runtime.io.rpc.tcp.address'' = Some (VString (cx_String ctx ''rpc-transport-tcp-address''))"
    "get ''runtime.arg'' = Some (VStrings (cx_StringSlice ctx ''arg''))"
    "get ''runtime.env'' = Some (VStrings (cx_StringSlice ctx ''env''))"
    "get ''runtime.max_workers'' = Some (VInt (cx_Int ctx ''max-workers''))"
    "get ''runtime.stop.timeout'' = Some (fl_Value stop)" "get ''runtime.send.timeout'' = Some (fl_Value send)"
proof -
  have cli: "pa_CliMap (root_options ctx) = Some (fmap_of_list root_cliMap)" by (simp add: root_options_def)
  note by_kind = parsed_by_kind [where file_conf = file_conf and environ = environ,
    OF assms(1,2) disjI1 [OF refl], unfolded cli, folded get]
  note flags = root_flags_def flag_name_def
  note kv = key_value [where get = get and f = "transformFlag (Some (fmap_of_list root_cliMap))"]
  show
    "get ''log_level'' = Some (VString (cx_String ctx ''log-level''))"
    "get ''log_format'' = Some (VString (cx_String ctx ''log-format''))"
    "get ''auth.key'' = Some (VString (cx_String ctx ''auth-key''))"
    "get ''runtime.io.interface'' = Some (VString (cx_String ctx ''interface''))"
    "get ''runtime.cmd'' = Some (VString (cx_String ctx ''command''))"
    "get ''runtime.cwd'' = Some (VString (cx_String ctx ''cwd''))"
    "get ''runtime.io.rpc.transport'' = Some (VString (cx_String ctx ''rpc-transport''))"
    "get ''runtime.io.rpc.ipc.endpoint'' = Some (VString (cx_String ctx ''rpc-transport-ipc-endpoint''))"
    "get ''runtime.io.rpc.http.url'' = Some (VString (cx_String ctx ''rpc-transport-http-url''))"
    "get ''runtime.io.rpc.ws.url'' = Some (VString (cx_String ctx ''rpc-transport-ws-url''))"
    "get ''runtime.io.rpc.tcp.address'' = Some (VString (cx_String ctx ''rpc-transport-tcp-address''))"
    by (rule kv [OF by_kind(1) [OF _ refl]]; simp add: flags root_keys)+
  show
    "get ''runtime.arg'' = Some (VStrings (cx_StringSlice ctx ''arg''))"
    "get ''runtime.env'' = Some (VStrings (cx_StringSlice ctx ''env''))"
    by (rule kv [OF by_kind(2) [OF _ refl]]; simp add: flags root_keys)+
  show
    "get ''runtime.max_workers'' = Some (VInt (cx_Int ctx ''max-workers''))"
    by (rule kv [OF by_kind(3) [OF _ refl]]; simp add: flags root_keys)+
  show "get ''runtime.stop.timeout'' = Some (fl_Value stop)" "get ''runtime.send.timeout'' = Some (fl_Value send)"
    by (rule kv [OF by_kind(5) [OF _ refl assms(3)]], simp_all add: flags root_keys)
      (rule kv [OF by_kind(5) [OF _ refl assms(4)]], simp_all add: flags root_keys)
qed

lemma command_values:
  assumes "koanf_conforms K" and "has_flags ctx fs"
    and get: "get = ko_Get K (load_layers K file_conf environ (command_options ctx))"
  shows "fs = serve_flags \<Longrightarrow> get ''host'' = Some (VString (cx_String ctx ''host''))"
    and "fs = serve_flags \<Longrightarrow> get ''port'' = Some (VInt (cx_Int ctx ''port''))"
    and "fs = serve_flags \<Longrightarrow> get ''h2c'' = Some (VBool (cx_Bool ctx ''h2c''))"
    and "fs = lambda_flags \<Longrightarrow> get ''lambda_proxy_source'' = Some (VString (cx_String ctx ''lambda-proxy-source''))"
proof -
  have cli: "pa_CliMap (command_options ctx) = None" by (simp add: command_options_def)
  note by_kind = parsed_by_kind [where file_conf = file_conf and environ = environ,
    OF assms(1,2) disjI2 [OF refl], unfolded cli, folded get]
  note flags = serve_flags_def lambda_flags_def flag_name_def
  note kv = key_value [where get = get and f = "transformFlag None"]
  show "fs = serve_flags \<Longrightarrow> get ''host'' = Some (VString (cx_String ctx ''host''))"
    by (rule kv [OF by_kind(1) [OF _ refl]]; simp add: flags command_keys)
  show "fs = serve_flags \<Longrightarrow> get ''port'' = Some (VInt (cx_Int ctx ''port''))"
    by (rule kv [OF by_kind(3) [OF _ refl]]; simp add: flags command_keys)
  show "fs = serve_flags \<Longrightarrow> get ''h2c'' = Some (VBool (cx_Bool ctx ''h2c''))"
    by (rule kv [OF by_kind(4) [OF _ refl]]; simp add: flags command_keys)
  show "fs = lambda_flags \<Longrightarrow> get ''lambda_proxy_source'' = Some (VString (cx_String ctx ''lambda-proxy-source''))"
    by (rule kv [OF by_kind(1) [OF _ refl]]; simp add: flags command_keys)
qed

section \<open>Property\<close>

text \<open>The configuration the flags of the root command ask for; \<open>stop\<close> and \<open>send\<close> are the two timeouts.\<close>

definition flags_config :: "cli_context \<Rightarrow> int \<Rightarrow> int \<Rightarrow> AppConfig" where
  "flags_config ctx stop send =
     \<lparr> ap_LogLevel = cx_String ctx ''log-level'', ap_LogFormat = cx_String ctx ''log-format'',
       ap_Runtime =
         \<lparr> ec_MaxWorkers = cx_Int ctx ''max-workers'',
           ec_Supervisor =
             \<lparr> cfg_IO =
                 \<lparr> io_Interface = cx_String ctx ''interface'',
                   io_Rpc =
                     \<lparr> rc_Transport = cx_String ctx ''rpc-transport'', rc_HttpUrl = cx_String ctx ''rpc-transport-http-url'',
                       rc_IpcEndpoint = cx_String ctx ''rpc-transport-ipc-endpoint'',
                       rc_WsUrl = cx_String ctx ''rpc-transport-ws-url'',
                       rc_TcpAddress = cx_String ctx ''rpc-transport-tcp-address'' \<rparr> \<rparr>,
               cfg_StartParams =
                 \<lparr> sc_Cmd = cx_String ctx ''command'', sc_Cwd = cx_String ctx ''cwd'', sc_Args = cx_StringSlice ctx ''arg'',
                   sc_Env = (if cx_StringSlice ctx ''env'' = [] then None else Some (cx_StringSlice ctx ''env'')) \<rparr>,
               cfg_StopTimeout = stop, cfg_SendTimeout = send \<rparr> \<rparr>,
       ap_Auth = \<lparr> ac_Key = cx_String ctx ''auth-key'' \<rparr> \<rparr>"

lemma decode_root:
  assumes "koanf_conforms K" and "has_flags ctx root_flags" and "fmlookup (flag_table ctx) ''worker-stop-timeout'' = Some f"
    and "fmlookup (flag_table ctx) ''worker-send-timeout'' = Some g"
    and "fl_Value f = VDuration stop" and "fl_Value g = VDuration send"
  shows "decode_AppConfig (ko_Get K (load_layers K file_conf environ (root_options ctx))) = Some (flags_config ctx stop send)"
proof -
  define get where "get = ko_Get K (load_layers K file_conf environ (root_options ctx))"
  note vals = root_values [OF assms(1-4) get_def]
  show ?thesis
    unfolding get_def [symmetric]
    by (simp add: decode_AppConfig_def decode_SupervisorConfig_def decode_RpcConfig_def decode_StartConfig_def vals
        string_field_def strings_field_def int_field_def duration_field_def assms(5,6) flags_config_def)
qed

text \<open>
  C17: the command line decides the configuration.  The three calls of \<open>Parse\<close> give the configuration of the application,
  of the HTTP server and of the Lambda handler with every field equal to its flag, whatever the
  environment says; the two timeouts are the values the flags hold, which the command line does not set.
\<close>

theorem flags_decide_fields:
  assumes "koanf_conforms K" and "unmarshal_conforms K decode_AppConfig" and "has_flags ctx root_flags"
    and "fmlookup (flag_table ctx) ''worker-stop-timeout'' = Some f" and "fl_Value f = VDuration stop"
    and "fmlookup (flag_table ctx) ''worker-send-timeout'' = Some g" and "fl_Value g = VDuration send"
    and "koanf_conforms KH" and "unmarshal_conforms KH decode_HttpConfig" and "has_flags ctxh serve_flags"
    and "koanf_conforms KL" and "unmarshal_conforms KL decode_LambdaConfig" and "has_flags ctxl lambda_flags"
  shows "parseRootConfig K environ ctx = Inr (flags_config ctx stop send) \<and>
    parseHttpConfig KH environ ctxh =
      Inr \<lparr> hc_Host = cx_String ctxh ''host'', hc_Port = cx_Int ctxh ''port'', hc_H2c = cx_Bool ctxh ''h2c'' \<rparr> \<and>
    parseLambdaConfig KL environ ctxl = Inr (cx_String ctxl ''lambda-proxy-source'')"
proof (intro conjI)
  from decode_root [OF assms(1,3,4,6,5,7)] assms(2)
  show "parseRootConfig K environ ctx = Inr (flags_config ctx stop send)"
    by (simp add: parseRootConfig_def Parse_def root_options_def unmarshal_conforms_def)
  note http = command_values [OF assms(8,10) refl] and lambda = command_values(4) [OF assms(11,13) refl refl]
  have "decode_HttpConfig (ko_Get KH (load_layers KH fmempty environ (command_options ctxh))) =
      Some \<lparr> hc_Host = cx_String ctxh ''host'', hc_Port = cx_Int ctxh ''port'', hc_H2c = cx_Bool ctxh ''h2c'' \<rparr>"
    by (simp add: decode_HttpConfig_def http string_field_def int_field_def bool_field_def)
  with assms(9) show "parseHttpConfig KH environ ctxh =
      Inr \<lparr> hc_Host = cx_String ctxh ''host'', hc_Port = cx_Int ctxh ''port'', hc_H2c = cx_Bool ctxh ''h2c'' \<rparr>"
    by (simp add: parseHttpConfig_def Parse_def command_options_def unmarshal_conforms_def)
  have "decode_LambdaConfig (ko_Get KL (load_layers KL fmempty environ (command_options ctxl))) =
      Some (cx_String ctxl ''lambda-proxy-source'')"
    by (simp add: decode_LambdaConfig_def lambda string_field_def)
  with assms(12) show "parseLambdaConfig KL environ ctxl = Inr (cx_String ctxl ''lambda-proxy-source'')"
    by (simp add: parseLambdaConfig_def Parse_def command_options_def unmarshal_conforms_def)
qed

text \<open>The library of nested layers with the fields' decoding, and contexts of the three commands.\<close>

definition decoding_koanf :: "((string \<Rightarrow> conf_value option) \<Rightarrow> 'c option) \<Rightarrow> (string \<Rightarrow> conf_value option, 'c) koanf" where
  "decoding_koanf decode =
     \<lparr> ko_New = ko_New plain_koanf, ko_Load = ko_Load plain_koanf, ko_Get = ko_Get plain_koanf,
       ko_Unmarshal = (\<lambda>k. case decode k of Some c \<Rightarrow> Inr c | None \<Rightarrow> Inl (ErrorString ''cannot decode'')) \<rparr>"

lemma decoding_koanf_conforms:
  "koanf_conforms (decoding_koanf decode)" "unmarshal_conforms (decoding_koanf decode) decode"
  using plain_koanf_conforms by (simp_all add: koanf_conforms_def unmarshal_conforms_def decoding_koanf_def plain_koanf_def)

lemma plain_has_flags:
  "has_flags plain_context root_flags"
  "has_flags (plain_context\<lparr> cx_command_flags := serve_flags \<rparr>) serve_flags"
  "has_flags (plain_context\<lparr> cx_command_flags := lambda_flags \<rparr>) lambda_flags"
  by (auto simp: has_flags_def plain_context_def program_flags_def flag_shape_def)

theorem flags_decide_fields_witness:
  "parseRootConfig (decoding_koanf decode_AppConfig) [(''RUNTIME__SEND__TIMEOUT'', ''10s''), (''LOG_LEVEL'', ''debug'')] plain_context =
     Inr (flags_config plain_context 5000000000 30000000000)"
proof -
  have stop: "fmlookup (flag_table plain_context) ''worker-stop-timeout'' =
      Some \<lparr> fl_Names = [''worker-stop-timeout''], fl_Kind = DurationFlag, fl_Value = VDuration (5 * second) \<rparr>" by code_simp
  have send: "fmlookup (flag_table plain_context) ''worker-send-timeout'' =
      Some \<lparr> fl_Names = [''worker-send-timeout''], fl_Kind = DurationFlag, fl_Value = VDuration (30 * second) \<rparr>" by code_simp
  note conf = decoding_koanf_conforms
  show ?thesis
    using flags_decide_fields [OF conf plain_has_flags(1) stop _ send _ conf plain_has_flags(2) conf plain_has_flags(3)]
    by (simp add: second_def)
qed

end
