(* ===== verification/Connections.thy ===== *)
theory Connections
  imports Frame_Pipe Adapters
begin

text \<open>
  The connections of the RPC adapter: the duplex pipe over a worker's standard streams
  (\<^verbatim>\<open>iostream\<close> of \<^verbatim>\<open>worker.go\<close>) under the framing pipe, and TCP (\<^verbatim>\<open>dialTCP\<close> of \<^verbatim>\<open>adapter_rpc.go\<close>).
\<close>

section \<open>Standard streams\<close>

text \<open>The ends of the two pipes the shim holds, as operations on a world.\<close>

record 'w read_end =
  re_Read :: "nat \<Rightarrow> 'w \<Rightarrow> (go_error + string) \<times> 'w"
  re_Close :: "'w \<Rightarrow> go_error option \<times> 'w"

record 'w write_end =
  we_Write :: "string \<Rightarrow> 'w \<Rightarrow> (nat \<times> go_error option) \<times> 'w"
  we_Close :: "'w \<Rightarrow> go_error option \<times> 'w"

record 'w iostream =
  is_stdout :: "'w read_end"
  is_stdin :: "'w write_end"

definition iostream_Read :: "'w iostream \<Rightarrow> nat \<Rightarrow> 'w \<Rightarrow> (go_error + string) \<times> 'w" where
  "iostream_Read s k w = re_Read (is_stdout s) k w"

definition iostream_Write :: "'w iostream \<Rightarrow> string \<Rightarrow> 'w \<Rightarrow> (nat \<times> go_error option) \<times> 'w" where
  "iostream_Write s p w = we_Write (is_stdin s) p w"

text \<open>Only standard input is closed; the process closes its standard output.\<close>

definition iostream_Close :: "'w iostream \<Rightarrow> 'w \<Rightarrow> go_error option \<times> 'w" where
  "iostream_Close s w = we_Close (is_stdin s) w"

text \<open>\<open>Close\<close> and \<open>Write\<close> of the framing pipe over the stream.\<close>

definition pipe_Close :: "'w iostream \<Rightarrow> 'w \<Rightarrow> go_error option \<times> 'w" where
  "pipe_Close s w = iostream_Close s w"

definition pipe_Write :: "'w iostream \<Rightarrow> string \<Rightarrow> 'w \<Rightarrow> (nat \<times> go_error option) \<times> 'w" where
  "pipe_Write s p w = Write (iostream_Write s) p w"

section \<open>TCP\<close>

text \<open>
  \<open>dial\<close> is the dialer of \<^verbatim>\<open>net\<close>, by network and address; \<open>client\<close> makes an RPC client of a reader
  and a writer.
\<close>

definition newTCPConnection :: "(string \<Rightarrow> string \<Rightarrow> go_error + 'conn) \<Rightarrow> string \<Rightarrow> go_error + 'conn" where
  "newTCPConnection dial endpoint = dial ''tcp'' endpoint"

definition dialTCP ::
  "(string \<Rightarrow> string \<Rightarrow> go_error + 'conn) \<Rightarrow> ('conn \<Rightarrow> 'conn \<Rightarrow> go_error + 'c) \<Rightarrow> string \<Rightarrow> go_error + 'c" where
  "dialTCP dial client address =
     (case newTCPConnection dial address of Inl err \<Rightarrow> Inl err | Inr conn \<Rightarrow> client conn conn)"

section \<open>Pipes of the operating system\<close>

text \<open>
  The two pipes of a process: what it can still read, whether the shim has closed its end, and
  what it has written.
\<close>

record os_pipes =
  op_input :: string
  op_closed :: bool
  op_output :: string

definition os_iostream :: "os_pipes iostream" where
  "os_iostream =
     \<lparr> is_stdout = \<lparr> re_Read = (\<lambda>k w. (Inr (take k (op_output w)), w\<lparr> op_output := drop k (op_output w) \<rparr>)),
                     re_Close = (\<lambda>w. (None, w\<lparr> op_output := [] \<rparr>)) \<rparr>,
       is_stdin = \<lparr> we_Write = (\<lambda>p w. if op_closed w then ((0, Some (ErrorString ''file already closed'')), w)
                                        else ((length p, None), w\<lparr> op_input := op_input w @ p \<rparr>)),
                    we_Close = (\<lambda>w. if op_closed w then (Some (ErrorString ''file already closed''), w)
                                     else (None, w\<lparr> op_closed := True \<rparr>)) \<rparr> \<rparr>"

text \<open>Messages written one after the other, and then the end of input.\<close>

primrec write_all :: "string list \<Rightarrow> os_pipes \<Rightarrow> os_pipes" where
  "write_all [] w = w"
| "write_all (p # ps) w = write_all ps (snd (pipe_Write os_iostream p w))"

lemma write_all_open:
  "\<not> op_closed w \<Longrightarrow> write_all ps w = w\<lparr> op_input := op_input w @ concat (map (\<lambda>p. pipe_header (length p) @ p) ps) \<rparr>"
  by (induction ps arbitrary: w) (simp_all add: pipe_Write_def Write_def iostream_Write_def os_iostream_def)

text \<open>
  A message to a worker whose pipe was closed is not written, not even its header; what the worker
  has not read yet, and what it wrote, are left alone by the close.
\<close>

lemma closed_pipe:
  assumes "\<not> op_closed w" and "pipe_Close os_iostream (write_all ps w) = (e, w')"
  shows "e = None \<and> op_input w' = op_input w @ concat (map (\<lambda>p. pipe_header (length p) @ p) ps) \<and>
    op_output w' = op_output w \<and> pipe_Write os_iostream p w' = ((0, Some (ErrorString ''file already closed'')), w')"
  using assms(2) unfolding write_all_open [OF assms(1)]
  by (auto simp: pipe_Close_def iostream_Close_def os_iostream_def pipe_Write_def Write_def iostream_Write_def assms(1))

end
