(* ===== verification/Spec2Isabelle.thy ===== *)
theory Spec2Isabelle
  imports Handler_Contract Frame_Contract Worker_Contract Adapter_Contract Dispatcher_Contract
    Supervisor_Interleaving Http_Contract Evaluation_Runtime Service Rpc_Service Config_Contract
    Command_Contract Application File_Arguments File_Service Worker_Liveness Worker_Races
    Config_Fields Connections
begin

text \<open>
  A model of shimmy, a shim between HTTP clients (or AWS Lambda) and an evaluation function that
  runs in worker processes or as a WebAssembly module.

  \<^bold>\<open>The program.\<close>  A request comes in through \<^verbatim>\<open>net/http\<close>: its path is normalised and routed
  (\<^verbatim>\<open>internal/server\<close>, \<^verbatim>\<open>handler\<close>) to the legacy handler, the muEd handlers or the health
  handler.  The legacy handler gives it to the runtime handler (\<^verbatim>\<open>runtime/handler.go\<close>), which
  validates it against the request schema, sends it to the runtime, validates the response, and,
  when an evaluation came back incorrect, evaluates the feedback cases of the request until
  one matches.  The runtime is a dispatcher (\<^verbatim>\<open>internal/execution/dispatcher\<close>): one supervisor for
  the RPC interface, a pool of supervisors for the file interface, or a pool of module instances
  for the wasm interface (\<^verbatim>\<open>internal/execution/wasm\<close>).  A supervisor boots, uses and releases a
  worker through an adapter (\<^verbatim>\<open>internal/execution/supervisor\<close>), and a worker is a process with one
  goroutine that waits for it (\<^verbatim>\<open>internal/execution/worker\<close>).  The command line (\<^verbatim>\<open>cmd\<close>) makes
  the configuration (\<^verbatim>\<open>util/conf\<close>, \<^verbatim>\<open>util/cliflags\<close>) and runs the application in a shell
  (\<^verbatim>\<open>internal/shell\<close>).

  \<^bold>\<open>The theories.\<close>
  \<^item> \<open>Shimmy_Prelude\<close>: the outcome of a Go call (\<open>go\<close>: it returns or panics), reachable states, and
    the interfaces \<open>invariant_system\<close> and \<open>simulation\<close> the concurrent components interpret.
  \<^item> \<open>Go_Strings\<close>, \<open>Go_Json\<close>, \<open>Go_Errors\<close>: what the program uses of \<^verbatim>\<open>strings\<close>, \<^verbatim>\<open>strconv\<close>,
    \<^verbatim>\<open>net/textproto\<close>, \<^verbatim>\<open>encoding/json\<close> and \<^verbatim>\<open>errors\<close>, on byte strings, documents and dynamic
    values; \<^verbatim>\<open>util/truthy.go\<close>.
  \<^item> \<open>Schema\<close>: \<^verbatim>\<open>runtime/schema\<close>, the schema documents as terms with the documents they accept.
  \<^item> \<open>Runtime_Models\<close>, \<open>Runtime_Handler\<close>: \<^verbatim>\<open>runtime/models.go\<close>, \<^verbatim>\<open>handler_models.go\<close>,
    \<^verbatim>\<open>handler_validate.go\<close>, \<^verbatim>\<open>handler_response.go\<close> and \<^verbatim>\<open>handler.go\<close>.  \<open>Handle\<close> acts on a world behind
    the runtime; \<open>find_loop\<close> is the loop over the cases.  \<open>Handler_Facts\<close> and
    \<open>Handler_Properties\<close> hold the lemmas, \<open>Handler_Contract\<close> the properties: the matching case, the
    shape of an answer, the rejections, the number of calls, the absence of panics.
  \<^item> \<open>Frame_Pipe\<close>, \<open>Frame_Contract\<close>: \<^verbatim>\<open>adapter_rpc_pipe.go\<close>, the framing of messages over standard
    input and output.  The locale \<open>message_stream\<close> is what a reader of messages promises;
    \<open>writer_step\<close> the steps of concurrent writers under the mutex, which refine a queue.
  \<^item> \<open>Worker\<close>, \<open>Worker_Contract\<close>: \<^verbatim>\<open>worker.go\<close>, the operations and, as \<open>worker_step\<close>, the protocol of
    the goroutine that reports the end of the process.  \<open>Worker_Liveness\<close> takes its fair runs, in which
    a call of \<open>Wait\<close> returns; \<open>Worker_Races\<close> several calls of \<open>Wait\<close> at once, where looking at the channel
    and closing it are two steps.
  \<^item> \<open>Adapters\<close>, \<open>Adapter_Contract\<close>: \<^verbatim>\<open>adapter_rpc.go\<close> and \<^verbatim>\<open>adapter_file.go\<close>; retry delays are 64-bit
    words, so their wrap-around is in the model.  \<open>Connections\<close>: the streams under the framing pipe
    (\<^verbatim>\<open>iostream\<close> of \<^verbatim>\<open>worker.go\<close>) and the TCP connection.
  \<^item> \<open>Go_Slices\<close>, \<open>File_Arguments\<close>: slices over shared arrays with \<^verbatim>\<open>append\<close>, and the sends of several
    file adapters that append to the slices of one configuration; \<open>args_step\<close> interleaves the appends
    and the creation of the worker.  The other theories take a slice as the list of its elements.
  \<^item> \<open>Supervisor\<close>, \<open>Supervisor_Adapters\<close>, \<open>Dispatchers\<close>, \<open>Dispatcher_Contract\<close>: \<^verbatim>\<open>supervisor.go\<close> generic
    over the interface of adapters (locale \<open>adapter_provider\<close>, interpreted on the modelled adapters),
    the two dispatchers and the choice in \<^verbatim>\<open>internal/execution/dispatcher.go\<close>.
  \<^item> \<open>Supervisor_Interleaving\<close>: the calls of one supervisor by several goroutines, as \<open>sup_step\<close> at the
    points where the code gives its locks back, and who owns each worker context.
  \<^item> \<open>Wasm\<close>, \<open>Wasm_Contract\<close>: \<^verbatim>\<open>internal/execution/wasm\<close>.  The module is a parameter: functions on a
    guest state, with 32-bit addresses and 64-bit call arguments.  The lemmas show the calling
    convention, the restoring of the memory and the conservation of the pool.
  \<^item> \<open>MuEd\<close>, \<open>Http\<close>, \<open>Http_Contract\<close>: \<^verbatim>\<open>runtime/mued.go\<close>, \<^verbatim>\<open>handler\<close>, \<^verbatim>\<open>internal/server\<close>, \<^verbatim>\<open>app/lambda\<close>.
  \<^item> \<open>Evaluation_Runtime\<close>: \<^verbatim>\<open>runtime/runtime.go\<close> over a dispatcher, with the wasm backend's life cycle.
  \<^item> \<open>Service\<close>: the HTTP layer, the runtime handler and a runtime together.  The locale
    \<open>runtime_service\<close> is what the upper layers ask of a runtime; the wasm backend interprets it, so
    that every sequence of requests is answered and the pool stays whole.  \<open>Rpc_Service\<close> does the same
    for the dedicated dispatcher, from its start to its shutdown, and \<open>File_Service\<close> for the pooled one,
    over the documented behaviour of the pool library.
  \<^item> \<open>Config\<close>, \<open>Config_Contract\<close>, \<open>Command\<close>, \<open>Command_Contract\<close>: \<^verbatim>\<open>util/conf\<close>, \<^verbatim>\<open>util/cliflags\<close>, \<^verbatim>\<open>config\<close>,
    \<^verbatim>\<open>cmd\<close>, \<^verbatim>\<open>app/app.go\<close>, \<^verbatim>\<open>internal/shell\<close>, \<^verbatim>\<open>util/logging\<close>, \<^verbatim>\<open>main.go\<close>; the layers,
    the table of commands and the actions.  \<open>Config_Fields\<close> has the keys of the configuration structs
    and carries the flags through \<open>Parse\<close> to the fields.
  \<^item> \<open>Application\<close>: the constructors that put hooks on the life cycle of the application (\<^verbatim>\<open>runtime.go\<close>,
    \<^verbatim>\<open>server.go\<close>, \<^verbatim>\<open>app/lambda/handler.go\<close> and the modules), and the order in which a run calls them.

  \<^bold>\<open>How the code is modelled.\<close>  An error is a value (\<open>Inl\<close>), a panic is \<open>Panic\<close>, and a call that may
  not return is \<open>None\<close> of an option.  A method returns its updated receiver.  A mutex that guards a
  whole operation makes it one step.  Where operations interleave there is a step relation and the
  properties speak of its reachable states.  Logging is left out.

  \<^bold>\<open>Recursion and bounds.\<close>  The loops over requests, cases, headers and members are structural or
  have a measure.  The retry loop of the RPC adapter is bounded by the attempt at which the context
  ends, and is shown to end with it.  Integers are unbounded except retry delays, pool sizes and
  the addresses of the guest.

  \<^bold>\<open>Parameters.\<close>  The evaluation function, the operating system's processes and files, the JSON
  schema validator, the RPC client, the pool of the pooled dispatcher, the wasm runtime, the koanf
  and cli libraries and the dependency injection are arguments of the definitions; what a property
  relies on is a named hypothesis (\<open>validator_conforms\<close>, \<open>memory_conforms\<close>, \<open>guest_conforms\<close>,
  \<open>koanf_conforms\<close>, \<open>unmarshal_conforms\<close>, \<open>fx_conforms\<close>, \<open>newPool_conforms\<close>, \<open>puddle_conforms\<close> and others), each with a concrete instance in a witness.

  \<^bold>\<open>Not modelled.\<close>  The generated mocks and the tests; the
  listening and serving of \<^verbatim>\<open>net/http\<close> and the event loop of the Lambda library; failures of writing a
  response to a client; paths with escapes in the multiplexer.
\<close>

end
